(* ===== verification/Prelude.thy ===== *)
theory Prelude
  imports Complex_Main "HOL-Library.Word" "HOL-Library.AList"
begin

text \<open>
  The base of the development: the machine types of the Go sources, the
  representation of Go maps and of sets (\<^verbatim>\<open>map[K]V\<close>, \<^verbatim>\<open>map[K]struct{}\<close>) as
  association lists and duplicate-free lists, and the generic facts on them that
  every component uses.

  \<^item> \<open>byte\<close> is \<^verbatim>\<open>byte\<close>; \<open>bytes\<close> is \<^verbatim>\<open>[]byte\<close> (the nil slice and the empty slice
    are both the empty list: the sources only look at \<^verbatim>\<open>len\<close>); \<open>uint16\<close> and
    \<open>uint64\<close> wrap around as the Go types do.
  \<^item> A Go \<^verbatim>\<open>string\<close> is a byte sequence, and so is \<^typ>\<open>string\<close>: a character stands
    for one byte, and \<^const>\<open>length\<close> is \<^verbatim>\<open>len\<close>.
  \<^item> A Go map is an association list with distinct keys.  The order of the list is
    the order in which \<^verbatim>\<open>range\<close> visits the entries; Go leaves that order open, and
    no theorem of the development fixes it.
\<close>

type_synonym byte = "8 word"
type_synonym bytes = "8 word list"
type_synonym uint16 = "16 word"
type_synonym uint32 = "32 word"
type_synonym uint64 = "64 word"
type_synonym gostring = string

named_theorems wire_simps "evaluation of the wire formats"
named_theorems frame_simps "components of a state an operation leaves alone"

subsection \<open>Bytes and characters\<close>

definition byte_of_char :: "char \<Rightarrow> byte" where
  "byte_of_char c = word_of_nat (of_char c)"

definition char_of_byte :: "byte \<Rightarrow> char" where
  "char_of_byte b = char_of (unat b)"

text \<open>The conversions \<^verbatim>\<open>[]byte(s)\<close> and \<^verbatim>\<open>string(b)\<close>.\<close>

definition bytes_of_string :: "gostring \<Rightarrow> bytes" where
  "bytes_of_string s = map byte_of_char s"

definition string_of_bytes :: "bytes \<Rightarrow> gostring" where
  "string_of_bytes b = map char_of_byte b"

lemma char_of_byte_of_char [simp]: "char_of_byte (byte_of_char c) = c"
proof -
  have "of_char c < (256 :: nat)" by simp
  then have "unat (word_of_nat (of_char c) :: byte) = of_char c"
    by (simp add: unat_of_nat take_bit_eq_mod)
  then show ?thesis by (simp add: char_of_byte_def byte_of_char_def)
qed

lemma byte_of_char_of_byte [simp]: "byte_of_char (char_of_byte b) = b"
proof -
  have "unat b < 256" using unsigned_less [of b, where 'a = nat] by simp
  then have "of_char (char_of (unat b) :: char) = unat b" by simp
  then show ?thesis by (simp add: char_of_byte_def byte_of_char_def)
qed

lemma string_of_bytes_of_string [simp]: "string_of_bytes (bytes_of_string s) = s"
  by (simp add: string_of_bytes_def bytes_of_string_def comp_def)

lemma bytes_of_string_of_bytes [simp]: "bytes_of_string (string_of_bytes b) = b"
  by (simp add: string_of_bytes_def bytes_of_string_def comp_def)

lemma length_bytes_of_string [simp]: "length (bytes_of_string s) = length s"
  by (simp add: bytes_of_string_def)

lemma length_string_of_bytes [simp]: "length (string_of_bytes b) = length b"
  by (simp add: string_of_bytes_def)

lemma bytes_of_string_Nil [simp]: "bytes_of_string [] = []"
  by (simp add: bytes_of_string_def)

lemma string_of_bytes_Nil [simp]: "string_of_bytes [] = []"
  by (simp add: string_of_bytes_def)

lemma bytes_of_string_eq_Nil [simp]: "bytes_of_string s = [] \<longleftrightarrow> s = []"
  by (simp add: bytes_of_string_def)

subsection \<open>Results\<close>

text \<open>\<^verbatim>\<open>(value, error)\<close> results are sums: \<^const>\<open>Inl\<close> carries the error.\<close>

definition bindE :: "'e + 'a \<Rightarrow> ('a \<Rightarrow> 'e + 'b) \<Rightarrow> 'e + 'b" where
  "bindE r f = (case r of Inl e \<Rightarrow> Inl e | Inr x \<Rightarrow> f x)"

lemma bindE_simps [simp]:
  "bindE (Inl e) f = Inl e"
  "bindE (Inr x) f = f x"
  by (simp_all add: bindE_def)

lemma bindE_Inr_iff: "bindE r f = Inr y \<longleftrightarrow> (\<exists>x. r = Inr x \<and> f x = Inr y)"
  by (cases r) auto

subsection \<open>Sets as duplicate-free lists\<close>

lemma length_insert_le: "length (List.insert x xs) \<le> Suc (length xs)"
  by (simp add: List.insert_def)

lemma length_insert_notin: "x \<notin> set xs \<Longrightarrow> length (List.insert x xs) = Suc (length xs)"
  by (simp add: List.insert_def)

lemma removeAll_eq_Nil: "removeAll x xs = [] \<longleftrightarrow> set xs \<subseteq> {x}"
  by (induction xs) auto

subsection \<open>Maps as association lists\<close>

text \<open>\<^verbatim>\<open>m[k]\<close> for a map whose values are sets: absent keys read as the nil map.\<close>

definition assoc_set :: "('k \<times> 'v list) list \<Rightarrow> 'k \<Rightarrow> 'v list" where
  "assoc_set m k = (case map_of m k of Some vs \<Rightarrow> vs | None \<Rightarrow> [])"

lemma assoc_set_Nil [simp]: "assoc_set [] k = []"
  by (simp add: assoc_set_def)

lemma assoc_set_update [simp]:
  "assoc_set (AList.update k vs m) k' = (if k' = k then vs else assoc_set m k')"
  by (simp add: assoc_set_def update_conv')

lemma assoc_set_delete [simp]:
  "assoc_set (AList.delete k m) k' = (if k' = k then [] else assoc_set m k')"
  by (simp add: assoc_set_def delete_conv')

lemma assoc_set_notin: "k \<notin> fst ` set m \<Longrightarrow> assoc_set m k = []"
  by (simp add: assoc_set_def map_of_eq_None_iff [symmetric])

text \<open>\<^verbatim>\<open>delete(m[k], v); if len(m[k]) == 0 { delete(m, k) }\<close>, guarded by the presence of \<open>k\<close>.\<close>

definition set_remove :: "'k \<Rightarrow> 'v \<Rightarrow> ('k \<times> 'v list) list \<Rightarrow> ('k \<times> 'v list) list" where
  "set_remove k v m =
     (case map_of m k of
        None \<Rightarrow> m
      | Some vs \<Rightarrow>
          (let vs' = removeAll v vs
           in if vs' = [] then AList.delete k m else AList.update k vs' m))"

text \<open>\<^verbatim>\<open>if m[k] == nil { m[k] = make(...) }; m[k][v] = struct{}{}\<close>.\<close>

definition set_add :: "'k \<Rightarrow> 'v \<Rightarrow> ('k \<times> 'v list) list \<Rightarrow> ('k \<times> 'v list) list" where
  "set_add k v m = AList.update k (List.insert v (assoc_set m k)) m"

text \<open>The shape every such map keeps: distinct keys, no empty set stored, no duplicates.\<close>

definition set_map_ok :: "('k \<times> 'v list) list \<Rightarrow> bool" where
  "set_map_ok m \<longleftrightarrow> distinct (map fst m) \<and> (\<forall>(k, vs) \<in> set m. vs \<noteq> [] \<and> distinct vs)"

lemma set_map_ok_Nil [simp]: "set_map_ok []"
  by (simp add: set_map_ok_def)

lemma assoc_set_remove:
  "assoc_set (set_remove k v m) k' = (if k' = k then removeAll v (assoc_set m k) else assoc_set m k')"
  by (auto simp: set_remove_def assoc_set_def Let_def update_conv' delete_conv' split: option.splits)

lemma assoc_set_add:
  "assoc_set (set_add k v m) k' = (if k' = k then List.insert v (assoc_set m k) else assoc_set m k')"
  by (simp add: set_add_def)

lemma set_map_ok_assoc:
  assumes "set_map_ok m"
  shows "distinct (assoc_set m k)"
proof (cases "map_of m k")
  case None
  then show ?thesis by (simp add: assoc_set_def)
next
  case (Some vs)
  then have "(k, vs) \<in> set m" by (rule map_of_SomeD)
  with assms Some show ?thesis by (auto simp: set_map_ok_def assoc_set_def)
qed

lemma set_map_ok_key:
  assumes "set_map_ok m"
  shows "k \<in> fst ` set m \<longleftrightarrow> assoc_set m k \<noteq> []"
proof
  assume "k \<in> fst ` set m"
  then obtain vs where "map_of m k = Some vs" by (auto simp: map_of_eq_None_iff dest: weak_map_of_SomeI)
  moreover from this have "(k, vs) \<in> set m" by (rule map_of_SomeD)
  ultimately show "assoc_set m k \<noteq> []" using assms by (auto simp: set_map_ok_def assoc_set_def)
next
  assume "assoc_set m k \<noteq> []"
  then show "k \<in> fst ` set m" using assoc_set_notin [of k m] by blast
qed

lemma length_AList_update: "length (AList.update k v m) = (if k \<in> fst ` set m then length m else Suc (length m))"
  by (induction m) auto

lemma length_AList_update_le: "length (AList.update k v m) \<le> Suc (length m)"
  by (simp add: length_AList_update)

lemma length_delete_in:
  "distinct (map fst m) \<Longrightarrow> k \<in> fst ` set m \<Longrightarrow> Suc (length (AList.delete k m)) = length m"
proof (induction m)
  case (Cons a m)
  then show ?case by (cases a) (force simp: AList.delete_eq filter_id_conv image_iff intro!: arg_cong [where f = length])
qed simp

lemma length_delete_le: "length (AList.delete k m) \<le> length m"
  by (simp add: AList.delete_eq)

lemma set_update_subset: "set (AList.update k v m) \<subseteq> insert (k, v) (set m)"
  by (induction m) auto

lemma set_delete_subset: "set (AList.delete k m) \<subseteq> set m"
  by (auto simp: AList.delete_eq)

lemma set_map_ok_update:
  assumes "set_map_ok m" and "vs \<noteq> []" and "distinct vs"
  shows "set_map_ok (AList.update k vs m)"
  using assms set_update_subset [of k vs m] unfolding set_map_ok_def
  by (auto simp: distinct_update dest!: subsetD)

lemma set_map_ok_delete: "set_map_ok m \<Longrightarrow> set_map_ok (AList.delete k m)"
  using set_delete_subset [of k m] unfolding set_map_ok_def
  by (auto simp: distinct_delete dest!: subsetD)

lemma set_map_ok_add: "set_map_ok m \<Longrightarrow> set_map_ok (set_add k v m)"
  unfolding set_add_def
  by (intro set_map_ok_update) (auto simp: set_map_ok_assoc List.insert_def)

lemma set_map_ok_remove:
  assumes "set_map_ok m"
  shows "set_map_ok (set_remove k v m)"
proof (cases "map_of m k")
  case None
  with assms show ?thesis by (simp add: set_remove_def)
next
  case (Some vs)
  then have "distinct (removeAll v vs)"
    using set_map_ok_assoc [OF assms, of k] by (simp add: assoc_set_def distinct_removeAll)
  with Some show ?thesis
    by (simp add: set_remove_def Let_def set_map_ok_update set_map_ok_delete assms)
qed

end
