(* ===== verification/Go_Text.thy ===== *)
theory Go_Text
  imports Prelude
begin

text \<open>
  The part of Go's text library the sources use: UTF-8 decoding and encoding
  (\<^verbatim>\<open>utf8.DecodeRuneInString\<close>, \<^verbatim>\<open>utf8.AppendRune\<close>), \<^verbatim>\<open>unicode.IsSpace\<close>,
  \<^verbatim>\<open>unicode.IsControl\<close>, \<^verbatim>\<open>strings.TrimSpace\<close>, \<^verbatim>\<open>strings.ToLower\<close> and \<^verbatim>\<open>encoding/hex\<close>.
  A string is read as a list of chunks, a rune with the bytes it was decoded from;
  an invalid byte is a chunk of its own with the rune U+FFFD, as in \<^verbatim>\<open>range s\<close>.

  The case table of the runtime beyond ASCII (\<^verbatim>\<open>unicode.CaseRanges\<close>, data of the Go
  release that builds the program) is the argument \<open>ul\<close> of the functions that fold case;
  \<open>lower_table\<close> states what the Unicode standard says of it.
\<close>

type_synonym rune = int

definition RuneError :: rune where
  "RuneError = 0xFFFD"

definition valid_rune :: "rune \<Rightarrow> bool" where
  "valid_rune r \<longleftrightarrow> 0 \<le> r \<and> r \<le> 0x10FFFF \<and> \<not> (0xD800 \<le> r \<and> r \<le> 0xDFFF)"

subsection \<open>UTF-8\<close>

definition cont_byte :: "int \<Rightarrow> bool" where
  "cont_byte b \<longleftrightarrow> 0x80 \<le> b \<and> b \<le> 0xBF"

text \<open>The range of the second byte of a three-byte and of a four-byte sequence.\<close>

definition second3 :: "int \<Rightarrow> int \<Rightarrow> bool" where
  "second3 b b1 \<longleftrightarrow>
     (if b = 0xE0 then 0xA0 \<le> b1 \<and> b1 \<le> 0xBF
      else if b = 0xED then 0x80 \<le> b1 \<and> b1 \<le> 0x9F
      else cont_byte b1)"

definition second4 :: "int \<Rightarrow> int \<Rightarrow> bool" where
  "second4 b b1 \<longleftrightarrow>
     (if b = 0xF0 then 0x90 \<le> b1 \<and> b1 \<le> 0xBF
      else if b = 0xF4 then 0x80 \<le> b1 \<and> b1 \<le> 0x8F
      else cont_byte b1)"

definition decode2 :: "int \<Rightarrow> int list \<Rightarrow> rune \<times> nat" where
  "decode2 b bs =
     (case bs of
        b1 # _ \<Rightarrow> if cont_byte b1 then ((b - 0xC0) * 64 + (b1 - 0x80), 2) else (RuneError, 1)
      | _ \<Rightarrow> (RuneError, 1))"

definition decode3 :: "int \<Rightarrow> int list \<Rightarrow> rune \<times> nat" where
  "decode3 b bs =
     (case bs of
        b1 # b2 # _ \<Rightarrow>
          if second3 b b1 \<and> cont_byte b2
          then ((b - 0xE0) * 4096 + (b1 - 0x80) * 64 + (b2 - 0x80), 3) else (RuneError, 1)
      | _ \<Rightarrow> (RuneError, 1))"

definition decode4 :: "int \<Rightarrow> int list \<Rightarrow> rune \<times> nat" where
  "decode4 b bs =
     (case bs of
        b1 # b2 # b3 # _ \<Rightarrow>
          if second4 b b1 \<and> cont_byte b2 \<and> cont_byte b3
          then ((b - 0xF0) * 262144 + (b1 - 0x80) * 4096 + (b2 - 0x80) * 64 + (b3 - 0x80), 4)
          else (RuneError, 1)
      | _ \<Rightarrow> (RuneError, 1))"

text \<open>The length the first byte announces; 0 for a byte that starts no sequence.\<close>

definition seq_len :: "int \<Rightarrow> nat" where
  "seq_len b =
     (if b < 0x80 then 1
      else if 0xC2 \<le> b \<and> b \<le> 0xDF then 2
      else if 0xE0 \<le> b \<and> b \<le> 0xEF then 3
      else if 0xF0 \<le> b \<and> b \<le> 0xF4 then 4
      else 0)"

fun decode_bytes :: "int list \<Rightarrow> rune \<times> nat" where
  "decode_bytes [] = (RuneError, 0)"
| "decode_bytes (b # bs) =
     (if seq_len b = 1 then (b, 1)
      else if seq_len b = 2 then decode2 b bs
      else if seq_len b = 3 then decode3 b bs
      else if seq_len b = 4 then decode4 b bs
      else (RuneError, 1))"

definition decode_rune :: "gostring \<Rightarrow> rune \<times> nat" where
  "decode_rune s = decode_bytes (map of_char s)"

lemmas decode_defs = decode2_def decode3_def decode4_def

lemma decode_width_cases:
  "snd (decode2 b bs) = 1 \<or> (snd (decode2 b bs) = 2 \<and> 1 \<le> length bs)"
  "snd (decode3 b bs) = 1 \<or> (snd (decode3 b bs) = 3 \<and> 2 \<le> length bs)"
  "snd (decode4 b bs) = 1 \<or> (snd (decode4 b bs) = 4 \<and> 3 \<le> length bs)"
  by (simp_all add: decode_defs split: list.split)

lemma decode_bytes_width:
  "bs \<noteq> [] \<Longrightarrow> 1 \<le> snd (decode_bytes bs) \<and> snd (decode_bytes bs) \<le> length bs"
  using decode_width_cases [of "hd bs" "tl bs"] by (cases bs) auto

lemma decode_rune_width:
  "s \<noteq> [] \<Longrightarrow> 1 \<le> snd (decode_rune s) \<and> snd (decode_rune s) \<le> length s"
  using decode_bytes_width [of "map of_char s"] by (simp add: decode_rune_def)

lemma decode_parts_prefix:
  "snd (decode2 b (bs @ cs)) \<le> Suc (length bs) \<Longrightarrow> decode2 b bs = decode2 b (bs @ cs)"
  "snd (decode3 b (bs @ cs)) \<le> Suc (length bs) \<Longrightarrow> decode3 b bs = decode3 b (bs @ cs)"
  "snd (decode4 b (bs @ cs)) \<le> Suc (length bs) \<Longrightarrow> decode4 b bs = decode4 b (bs @ cs)"
  subgoal by (cases bs) (auto simp: decode2_def split: list.splits if_splits)
  subgoal by (cases bs; cases "tl bs") (auto simp: decode3_def split: list.splits if_splits)
  subgoal by (cases bs; cases "tl bs"; cases "tl (tl bs)")
      (auto simp: decode4_def split: list.splits if_splits)
  done

lemma decode_bytes_prefix:
  assumes "bs \<noteq> []" and "snd (decode_bytes (bs @ cs)) \<le> length bs"
  shows "decode_bytes bs = decode_bytes (bs @ cs)"
proof (cases bs)
  case (Cons b bs')
  with assms(2) show ?thesis
    by (auto simp: decode_parts_prefix split: if_splits)
qed (use assms in simp)

lemma decode_rune_prefix:
  assumes "s \<noteq> []" and "snd (decode_rune (s @ t)) \<le> length s"
  shows "decode_rune s = decode_rune (s @ t)"
  using decode_bytes_prefix [of "map of_char s" "map of_char t"] assms
  by (simp add: decode_rune_def)

lemma valid_RuneError [simp]: "valid_rune RuneError"
  by (simp add: valid_rune_def RuneError_def)

lemma decode2_valid: "0xC2 \<le> b \<Longrightarrow> b \<le> 0xDF \<Longrightarrow> valid_rune (fst (decode2 b bs))"
  by (simp add: decode2_def split: list.split) (simp add: valid_rune_def cont_byte_def)

lemma decode3_valid: "0xE0 \<le> b \<Longrightarrow> b \<le> 0xEF \<Longrightarrow> valid_rune (fst (decode3 b bs))"
  by (simp add: decode3_def split: list.split)
    (auto simp: valid_rune_def second3_def cont_byte_def split: if_splits)

lemma decode4_valid: "0xF0 \<le> b \<Longrightarrow> b \<le> 0xF4 \<Longrightarrow> valid_rune (fst (decode4 b bs))"
  by (simp add: decode4_def split: list.split)
    (auto simp: valid_rune_def second4_def cont_byte_def split: if_splits)

lemma decode_bytes_valid:
  assumes "\<forall>b \<in> set bs. 0 \<le> b"
  shows "valid_rune (fst (decode_bytes bs))"
proof (cases bs)
  case (Cons b bs')
  with assms have "0 \<le> b" by simp
  then have "b < 0x80 \<Longrightarrow> valid_rune b" by (simp add: valid_rune_def)
  with Cons show ?thesis
    by (auto simp: seq_len_def decode2_valid decode3_valid decode4_valid)
qed simp

lemma decode_rune_valid [simp]: "valid_rune (fst (decode_rune s))"
  unfolding decode_rune_def by (rule decode_bytes_valid) (auto simp: of_char_def)

text \<open>\<^verbatim>\<open>range s\<close>: each rune with its bytes.\<close>

function chunks :: "gostring \<Rightarrow> (rune \<times> gostring) list" where
  "chunks [] = []"
| "chunks (c # cs) =
     (let d = decode_rune (c # cs)
      in (fst d, take (snd d) (c # cs)) # chunks (drop (snd d) (c # cs)))"
  by pat_completeness auto
termination
proof (relation "measure length", goal_cases)
  case (2 c cs d)
  then show ?case using decode_rune_width [of "c # cs"] by auto
qed simp

definition chunk_text :: "(rune \<times> gostring) list \<Rightarrow> gostring" where
  "chunk_text xs = concat (map snd xs)"

lemma chunk_text_simps [simp]:
  "chunk_text [] = []"
  "chunk_text ((r, t) # xs) = t @ chunk_text xs"
  "chunk_text (xs @ ys) = chunk_text xs @ chunk_text ys"
  by (simp_all add: chunk_text_def)

lemma chunk_text_chunks [simp]: "chunk_text (chunks s) = s"
  by (induction s rule: chunks.induct) (simp_all add: Let_def)

lemma chunks_nonempty_part: "(r, t) \<in> set (chunks s) \<Longrightarrow> t \<noteq> []"
proof (induction s rule: chunks.induct)
  case (2 c cs)
  then show ?case using decode_rune_width [of "c # cs"]
    by (auto simp: Let_def)
qed simp

lemma chunks_eq_Nil [simp]: "chunks s = [] \<longleftrightarrow> s = []"
  by (cases s) (simp_all add: Let_def)

lemma chunks_valid: "(r, t) \<in> set (chunks s) \<Longrightarrow> valid_rune r"
proof (induction s rule: chunks.induct)
  case (2 c cs)
  then show ?case using decode_rune_valid [of "c # cs"]
    by (auto simp: Let_def)
qed simp

lemma chunks_suffix: "chunks s = xs @ ys \<Longrightarrow> chunks (chunk_text ys) = ys"
proof (induction xs arbitrary: s)
  case Nil
  then show ?case by (metis append_Nil chunk_text_chunks)
next
  case (Cons x xs)
  then obtain c cs where s: "s = c # cs" by (cases s) auto
  obtain r n where d: "decode_rune s = (r, n)" by fastforce
  with Cons.prems s have "chunks (drop n s) = xs @ ys" by (simp add: Let_def)
  then show ?case by (rule Cons.IH)
qed

lemma chunks_prefix: "chunks s = xs @ ys \<Longrightarrow> chunks (chunk_text xs) = xs"
proof (induction xs arbitrary: s)
  case Nil
  then show ?case by simp
next
  case (Cons x xs)
  then obtain c cs where s: "s = c # cs" by (cases s) auto
  obtain r n where d: "decode_rune s = (r, n)" by fastforce
  have n: "1 \<le> n" "n \<le> length s" using decode_rune_width [of s] s d by auto
  from Cons.prems s d have x: "x = (r, take n s)" and rest: "chunks (drop n s) = xs @ ys"
    by (simp_all add: Let_def)
  from rest have "drop n s = chunk_text xs @ chunk_text ys"
    by (metis chunk_text_chunks chunk_text_simps(3))
  then have split: "s = (take n s @ chunk_text xs) @ chunk_text ys"
    by (metis append_assoc append_take_drop_id)
  let ?p = "take n s @ chunk_text xs"
  have len: "length (take n s) = n" using n by simp
  have "?p \<noteq> []" using n s by auto
  moreover have "snd (decode_rune (?p @ chunk_text ys)) \<le> length ?p"
    using d len split by simp
  ultimately have dp: "decode_rune ?p = (r, n)"
    using decode_rune_prefix [of ?p "chunk_text ys"] d split by simp
  obtain a as where p: "?p = a # as" using \<open>?p \<noteq> []\<close> by (cases ?p) auto
  have "chunks ?p = (r, take n ?p) # chunks (drop n ?p)"
    using dp by (simp add: p Let_def)
  also have "\<dots> = (r, take n s) # chunks (chunk_text xs)" using len n by simp
  finally show ?case using Cons.IH [OF rest] x by simp
qed

text \<open>The bytes of a rune; \<^verbatim>\<open>utf8.AppendRune\<close> writes U+FFFD for an invalid one.\<close>

definition rune_bytes :: "rune \<Rightarrow> int list" where
  "rune_bytes r =
     (if r < 0x80 then [r]
      else if r < 0x800 then [0xC0 + r div 64, 0x80 + r mod 64]
      else if r < 0x10000 then [0xE0 + r div 4096, 0x80 + r div 64 mod 64, 0x80 + r mod 64]
      else [0xF0 + r div 262144, 0x80 + r div 4096 mod 64, 0x80 + r div 64 mod 64, 0x80 + r mod 64])"

definition encode_rune :: "rune \<Rightarrow> gostring" where
  "encode_rune r = map char_of (rune_bytes (if valid_rune r then r else RuneError))"

lemma encode_rune_nonempty [simp]: "encode_rune r \<noteq> []"
  by (simp add: encode_rune_def rune_bytes_def)

lemma of_char_of_bytes:
  "\<forall>b \<in> set bs. 0 \<le> (b :: int) \<and> b < 256 \<Longrightarrow> map of_char (map char_of bs :: string) = bs"
  by (induction bs) auto

lemma base64_3: "(r :: int) div 4096 * 4096 + r div 64 mod 64 * 64 + r mod 64 = r"
proof -
  have "r div 4096 = r div 64 div 64" using zdiv_zmult2_eq [of 64 r 64] by simp
  then have "r div 4096 * 4096 + r div 64 mod 64 * 64 = (r div 64 div 64 * 64 + r div 64 mod 64) * 64"
    by (simp only: distrib_right mult.assoc)
  also have "\<dots> = r div 64 * 64" by (simp only: div_mult_mod_eq)
  finally show ?thesis by (simp only: div_mult_mod_eq)
qed

lemma base64_4:
  "(r :: int) div 262144 * 262144 + r div 4096 mod 64 * 4096 + r div 64 mod 64 * 64 + r mod 64 = r"
proof -
  have "r div 262144 = r div 4096 div 64" using zdiv_zmult2_eq [of 64 r 4096] by simp
  then have "r div 262144 * 262144 + r div 4096 mod 64 * 4096
      = (r div 4096 div 64 * 64 + r div 4096 mod 64) * 4096"
    by (simp only: distrib_right mult.assoc)
  also have "\<dots> = r div 4096 * 4096" by (simp only: div_mult_mod_eq)
  finally show ?thesis by (simp only: base64_3)
qed

lemma rune3_second:
  "a * 4096 + b * 64 + c = (r :: int) \<Longrightarrow> 0 \<le> c \<Longrightarrow> c < 64 \<Longrightarrow> 0x800 \<le> r \<Longrightarrow>
   \<not> (0xD800 \<le> r \<and> r \<le> 0xDFFF) \<Longrightarrow> 0 \<le> b \<Longrightarrow> b < 64 \<Longrightarrow> (a = 0 \<longrightarrow> 32 \<le> b) \<and> (a = 13 \<longrightarrow> b < 32)"
  by auto

lemma rune4_second:
  "a * 262144 + b * 4096 + c * 64 + d = (r :: int) \<Longrightarrow> 0 \<le> d \<Longrightarrow> d < 64 \<Longrightarrow> 0 \<le> c \<Longrightarrow> c < 64 \<Longrightarrow>
   0x10000 \<le> r \<Longrightarrow> r \<le> 0x10FFFF \<Longrightarrow> 0 \<le> b \<Longrightarrow> b < 64 \<Longrightarrow> (a = 0 \<longrightarrow> 16 \<le> b) \<and> (a = 4 \<longrightarrow> b < 16)"
  by auto

lemma decode2_ok:
  "2 \<le> a \<Longrightarrow> a < 32 \<Longrightarrow> 0 \<le> b \<Longrightarrow> b < 64 \<Longrightarrow>
   decode_bytes ((0xC0 + a) # (0x80 + b) # t) = (a * 64 + b, 2)"
  by (simp add: seq_len_def decode2_def cont_byte_def)

lemma decode3_ok:
  "0 \<le> a \<Longrightarrow> a < 16 \<Longrightarrow> 0 \<le> b \<Longrightarrow> b < 64 \<Longrightarrow> 0 \<le> c \<Longrightarrow> c < 64 \<Longrightarrow>
   (a = 0 \<longrightarrow> 32 \<le> b) \<Longrightarrow> (a = 13 \<longrightarrow> b < 32) \<Longrightarrow>
   decode_bytes ((0xE0 + a) # (0x80 + b) # (0x80 + c) # t) = (a * 4096 + b * 64 + c, 3)"
  by (auto simp: seq_len_def decode3_def second3_def cont_byte_def)

lemma decode4_ok:
  "0 \<le> a \<Longrightarrow> a < 5 \<Longrightarrow> 0 \<le> b \<Longrightarrow> b < 64 \<Longrightarrow> 0 \<le> c \<Longrightarrow> c < 64 \<Longrightarrow> 0 \<le> d \<Longrightarrow> d < 64 \<Longrightarrow>
   (a = 0 \<longrightarrow> 16 \<le> b) \<Longrightarrow> (a = 4 \<longrightarrow> b < 16) \<Longrightarrow>
   decode_bytes ((0xF0 + a) # (0x80 + b) # (0x80 + c) # (0x80 + d) # t)
     = (a * 262144 + b * 4096 + c * 64 + d, 4)"
  by (auto simp: seq_len_def decode4_def second4_def cont_byte_def)

lemma rune_bytes_range:
  assumes "0 \<le> r" and "r \<le> 0x10FFFF"
  shows "\<forall>b \<in> set (rune_bytes r). 0 \<le> b \<and> b < 256"
proof -
  have m: "0 \<le> x mod 64 \<and> x mod 64 < 64" for x :: int by simp
  have 4: "0 \<le> r div 262144 \<and> r div 262144 < 5" using assms by auto
  have 3: "0 \<le> r div 4096 \<and> (r < 0x10000 \<longrightarrow> r div 4096 < 16)" using assms by auto
  have 2: "0 \<le> r div 64 \<and> (r < 0x800 \<longrightarrow> r div 64 < 32)" using assms by auto
  from 2 3 4 m [of r] m [of "r div 64"] m [of "r div 4096"] assms(1) show ?thesis
    unfolding rune_bytes_def by (auto split: if_splits)
qed

lemma encode_rune_bytes: "valid_rune r \<Longrightarrow> map of_char (encode_rune r) = rune_bytes r"
  using of_char_of_bytes [OF rune_bytes_range [of r]] by (simp add: encode_rune_def valid_rune_def)

lemma decode_rune_bytes:
  assumes "valid_rune r"
  shows "decode_bytes (rune_bytes r @ t) = (r, length (rune_bytes r))"
proof -
  have r: "0 \<le> r" "r \<le> 0x10FFFF" "\<not> (0xD800 \<le> r \<and> r \<le> 0xDFFF)"
    using assms by (simp_all add: valid_rune_def)
  have m: "0 \<le> x mod 64" "x mod 64 < 64" for x :: int by simp_all
  consider "r < 0x80" | "0x80 \<le> r" "r < 0x800" | "0x800 \<le> r" "r < 0x10000" | "0x10000 \<le> r"
    by linarith
  then show ?thesis
  proof cases
    case 1
    then show ?thesis by (simp add: rune_bytes_def seq_len_def)
  next
    case 2
    have "2 \<le> r div 64" "r div 64 < 32" using 2 by auto
    from decode2_ok [OF this m, of r t] 2 show ?thesis by (simp add: rune_bytes_def del: decode_bytes.simps)
  next
    case 3
    have a: "0 \<le> r div 4096" "r div 4096 < 16" using 3 by auto
    note s = rune3_second [OF base64_3 m 3(1) r(3) m]
    from decode3_ok [OF a m m [of r] conjunct1 [OF s] conjunct2 [OF s], of t] 3 show ?thesis
      unfolding base64_3 by (simp add: rune_bytes_def del: decode_bytes.simps)
  next
    case 4
    have a: "0 \<le> r div 262144" "r div 262144 < 5" using r by auto
    note s = rune4_second [OF base64_4 m m 4 r(2) m]
    from decode4_ok [OF a m m [of "r div 64"] m [of r] conjunct1 [OF s] conjunct2 [OF s], of t] 4 show ?thesis
      unfolding base64_4 by (simp add: rune_bytes_def del: decode_bytes.simps)
  qed
qed

lemma decode_encode_rune:
  assumes "valid_rune r"
  shows "decode_rune (encode_rune r @ s) = (r, length (encode_rune r))"
  using decode_rune_bytes [OF assms, of "map of_char s"] encode_rune_bytes [OF assms]
  by (simp add: decode_rune_def) (metis length_map)

text \<open>Decoding what was encoded gives the runes back.\<close>

lemma chunks_encode:
  "\<forall>r \<in> set rs. valid_rune r \<Longrightarrow>
   chunks (concat (map encode_rune rs)) = map (\<lambda>r. (r, encode_rune r)) rs"
proof (induction rs)
  case (Cons r rs)
  let ?s = "encode_rune r @ concat (map encode_rune rs)"
  obtain a as where a: "?s = a # as" by (cases ?s) auto
  have "decode_rune ?s = (r, length (encode_rune r))"
    using Cons.prems by (intro decode_encode_rune) simp
  then have "chunks ?s = (r, encode_rune r) # chunks (concat (map encode_rune rs))"
    unfolding a by (simp add: Let_def) (metis a append_eq_conv_conj)
  with Cons show ?case by simp
qed simp

end
