(* ===== verification/Go_Strings.thy ===== *)
theory Go_Strings
  imports Go_Text
begin

text \<open>
  The functions of \<^verbatim>\<open>strings\<close>, \<^verbatim>\<open>unicode\<close> and \<^verbatim>\<open>encoding/hex\<close> the sources call, over the
  chunks of \<open>Go_Text\<close>, with the laws the components rest on: trimming and
  lower-casing are idempotent and commute, and \<^verbatim>\<open>hex.Decode\<close> inverts \<^verbatim>\<open>hex.Encode\<close>.
\<close>

subsection \<open>Classes of runes\<close>

text \<open>\<^verbatim>\<open>unicode.IsSpace\<close>: the six ASCII spaces, U+0085, U+00A0 and the \<^verbatim>\<open>White_Space\<close> table.\<close>

definition IsSpace :: "rune \<Rightarrow> bool" where
  "IsSpace r \<longleftrightarrow>
     (9 \<le> r \<and> r \<le> 13) \<or> r = 0x20 \<or> r = 0x85 \<or> r = 0xA0 \<or> r = 0x1680 \<or>
     (0x2000 \<le> r \<and> r \<le> 0x200A) \<or> r = 0x2028 \<or> r = 0x2029 \<or> r = 0x202F \<or> r = 0x205F \<or> r = 0x3000"

text \<open>\<^verbatim>\<open>unicode.IsControl\<close>: the C0 and C1 ranges.\<close>

definition IsControl :: "rune \<Rightarrow> bool" where
  "IsControl r \<longleftrightarrow> (0 \<le> r \<and> r \<le> 0x1F) \<or> (0x7F \<le> r \<and> r \<le> 0x9F)"

text \<open>The runes of a string, as \<^verbatim>\<open>for _, r := range s\<close> visits them.\<close>

definition runes :: "gostring \<Rightarrow> rune list" where
  "runes s = map fst (chunks s)"

definition string_of_runes :: "rune list \<Rightarrow> gostring" where
  "string_of_runes rs = concat (map encode_rune rs)"

lemma runes_valid: "r \<in> set (runes s) \<Longrightarrow> valid_rune r"
  by (auto simp: runes_def dest: chunks_valid)

lemma runes_Nil [simp]: "runes [] = []"
  by (simp add: runes_def)

lemma runes_eq_Nil [simp]: "runes s = [] \<longleftrightarrow> s = []"
  by (simp add: runes_def)

lemma string_of_runes_Nil [simp]: "string_of_runes [] = []"
  by (simp add: string_of_runes_def)

lemma chunks_string_of_runes:
  "\<forall>r \<in> set rs. valid_rune r \<Longrightarrow> chunks (string_of_runes rs) = map (\<lambda>r. (r, encode_rune r)) rs"
  by (simp add: string_of_runes_def chunks_encode)

lemma runes_string_of_runes [simp]:
  "\<forall>r \<in> set rs. valid_rune r \<Longrightarrow> runes (string_of_runes rs) = rs"
  by (simp add: runes_def chunks_string_of_runes comp_def)

lemma chunk_text_encoded:
  "chunk_text (map (\<lambda>r. (r, encode_rune r)) rs) = string_of_runes rs"
  by (simp add: chunk_text_def string_of_runes_def comp_def)

subsection \<open>Trimming\<close>

definition trim_end :: "('a \<Rightarrow> bool) \<Rightarrow> 'a list \<Rightarrow> 'a list" where
  "trim_end P xs = rev (dropWhile P (rev xs))"

definition trim :: "('a \<Rightarrow> bool) \<Rightarrow> 'a list \<Rightarrow> 'a list" where
  "trim P xs = trim_end P (dropWhile P xs)"

lemma trim_end_split: "\<exists>ys. xs = trim_end P xs @ ys"
  by (metis rev_append rev_rev_ident takeWhile_dropWhile_id trim_end_def)

lemma trim_end_idem [simp]: "trim_end P (trim_end P xs) = trim_end P xs"
  by (simp add: trim_end_def dropWhile_idem)

lemma dropWhile_hd: "xs = [] \<or> \<not> P (hd xs) \<Longrightarrow> dropWhile P xs = xs"
  by (cases xs) auto

lemma trim_hd: "trim P xs \<noteq> [] \<Longrightarrow> \<not> P (hd (trim P xs))"
proof -
  obtain ys where ys: "dropWhile P xs = trim P xs @ ys" using trim_end_split unfolding trim_def by blast
  assume "trim P xs \<noteq> []"
  with ys have "dropWhile P xs \<noteq> []" "hd (dropWhile P xs) = hd (trim P xs)" by simp_all
  with hd_dropWhile [of P xs] show ?thesis by simp
qed

lemma trim_last: "trim P xs \<noteq> [] \<Longrightarrow> \<not> P (last (trim P xs))"
  unfolding trim_def trim_end_def by (metis hd_dropWhile last_rev rev_is_Nil_conv)

lemma trim_end_last: "xs = [] \<or> \<not> P (last xs) \<Longrightarrow> trim_end P xs = xs"
  by (cases xs rule: rev_cases) (auto simp: trim_end_def)

lemma trim_eqI: "xs = [] \<or> (\<not> P (hd xs) \<and> \<not> P (last xs)) \<Longrightarrow> trim P xs = xs"
  unfolding trim_def by (subst dropWhile_hd) (auto intro: trim_end_last)

lemma trim_idem [simp]: "trim P (trim P xs) = trim P xs"
  using trim_hd [of P xs] trim_last [of P xs] by (intro trim_eqI) blast

lemma trim_split: "\<exists>us vs. xs = us @ trim P xs @ vs"
  by (metis takeWhile_dropWhile_id trim_def trim_end_split)

lemma trim_map: "trim P (map f xs) = map f (trim (P \<circ> f) xs)"
  by (simp add: trim_def trim_end_def dropWhile_map rev_map)

lemma trim_cong: "(\<And>x. x \<in> set xs \<Longrightarrow> P x = Q x) \<Longrightarrow> trim P xs = trim Q xs"
  unfolding trim_def trim_end_def
  by (simp cong: dropWhile_cong) (metis (no_types, lifting) dropWhile_cong set_dropWhileD set_rev)

lemma set_trim: "set (trim P xs) \<subseteq> set xs"
proof -
  obtain us vs where "xs = us @ trim P xs @ vs" using trim_split by blast
  then have "set xs = set us \<union> set (trim P xs) \<union> set vs" by (metis Un_assoc set_append)
  then show ?thesis by blast
qed

text \<open>
  \<^verbatim>\<open>strings.TrimSpace\<close>.  Trimming from the right decodes backwards; a space is either a
  single byte below \<^verbatim>\<open>0x80\<close> or a complete sequence, so both directions see the same
  chunks.
\<close>

definition TrimSpace :: "gostring \<Rightarrow> gostring" where
  "TrimSpace s = chunk_text (trim (IsSpace \<circ> fst) (chunks s))"

lemma chunks_TrimSpace: "chunks (TrimSpace s) = trim (IsSpace \<circ> fst) (chunks s)"
proof -
  obtain us vs where "chunks s = us @ trim (IsSpace \<circ> fst) (chunks s) @ vs"
    using trim_split by blast
  then show ?thesis unfolding TrimSpace_def by (metis chunks_prefix chunks_suffix)
qed

lemma runes_TrimSpace: "runes (TrimSpace s) = trim IsSpace (runes s)"
  by (simp add: runes_def chunks_TrimSpace trim_map)

lemma TrimSpace_idem [simp]: "TrimSpace (TrimSpace s) = TrimSpace s"
  by (metis TrimSpace_def chunks_TrimSpace trim_idem)

lemma TrimSpace_Nil [simp]: "TrimSpace [] = []"
  by (simp add: TrimSpace_def trim_def trim_end_def)

lemma length_TrimSpace: "length (TrimSpace s) \<le> length s"
proof -
  obtain us vs where "chunks s = us @ trim (IsSpace \<circ> fst) (chunks s) @ vs"
    using trim_split by blast
  then have "s = chunk_text us @ TrimSpace s @ chunk_text vs"
    by (metis TrimSpace_def chunk_text_chunks chunk_text_simps(3))
  then have "length s = length (chunk_text us) + (length (TrimSpace s) + length (chunk_text vs))"
    by (metis length_append)
  then show ?thesis by simp
qed

lemma TrimSpace_string_of_runes:
  assumes "\<forall>r \<in> set rs. valid_rune r"
  shows "TrimSpace (string_of_runes rs) = string_of_runes (trim IsSpace rs)"
  by (simp add: TrimSpace_def chunks_string_of_runes [OF assms] trim_map comp_def chunk_text_encoded)

subsection \<open>Lower case\<close>

text \<open>\<^verbatim>\<open>unicode.ToLower\<close>: ASCII by arithmetic, the rest by the table.\<close>

definition unicode_ToLower :: "(rune \<Rightarrow> rune) \<Rightarrow> rune \<Rightarrow> rune" where
  "unicode_ToLower ul r =
     (if r < 0x80 then (if 0x41 \<le> r \<and> r \<le> 0x5A then r + 0x20 else r) else ul r)"

text \<open>
  \<^verbatim>\<open>strings.ToLower\<close>: \<^verbatim>\<open>strings.Map\<close> of the rune function; an invalid byte comes out
  as the encoding of U+FFFD.
\<close>

definition ToLower :: "(rune \<Rightarrow> rune) \<Rightarrow> gostring \<Rightarrow> gostring" where
  "ToLower ul s = string_of_runes (map (unicode_ToLower ul) (runes s))"

text \<open>
  What Unicode promises of the lower-case column: it maps valid runes to valid runes,
  a lower-case rune to itself, and it neither creates nor removes white space.
\<close>

definition lower_table :: "(rune \<Rightarrow> rune) \<Rightarrow> bool" where
  "lower_table ul \<longleftrightarrow>
     (\<forall>r. 0x80 \<le> r \<and> valid_rune r \<longrightarrow>
        valid_rune (ul r) \<and> unicode_ToLower ul (ul r) = ul r \<and> IsSpace (ul r) = IsSpace r)"

lemma lower_table_id [simp]: "lower_table (\<lambda>r. r)"
  by (simp add: lower_table_def unicode_ToLower_def)

lemma valid_unicode_ToLower:
  "lower_table ul \<Longrightarrow> valid_rune r \<Longrightarrow> valid_rune (unicode_ToLower ul r)"
  by (cases "r < 0x80") (auto simp: lower_table_def unicode_ToLower_def valid_rune_def)

lemma unicode_ToLower_idem:
  "lower_table ul \<Longrightarrow> valid_rune r \<Longrightarrow> unicode_ToLower ul (unicode_ToLower ul r) = unicode_ToLower ul r"
  by (cases "r < 0x80") (auto simp: lower_table_def unicode_ToLower_def)

lemma IsSpace_unicode_ToLower:
  "lower_table ul \<Longrightarrow> valid_rune r \<Longrightarrow> IsSpace (unicode_ToLower ul r) = IsSpace r"
  by (cases "r < 0x80") (auto simp: lower_table_def unicode_ToLower_def IsSpace_def)

lemma valid_lowered:
  "lower_table ul \<Longrightarrow> \<forall>r \<in> set (map (unicode_ToLower ul) (runes s)). valid_rune r"
  by (auto simp: valid_unicode_ToLower runes_valid)

lemma runes_ToLower:
  "lower_table ul \<Longrightarrow> runes (ToLower ul s) = map (unicode_ToLower ul) (runes s)"
  unfolding ToLower_def by (rule runes_string_of_runes [OF valid_lowered])

lemma ToLower_idem [simp]:
  assumes "lower_table ul"
  shows "ToLower ul (ToLower ul s) = ToLower ul s"
proof -
  have "map (unicode_ToLower ul) (runes (ToLower ul s)) = map (unicode_ToLower ul) (runes s)"
    using assms by (auto simp: runes_ToLower unicode_ToLower_idem runes_valid)
  then show ?thesis by (metis ToLower_def)
qed

lemma TrimSpace_ToLower:
  assumes "lower_table ul"
  shows "TrimSpace (ToLower ul s) = ToLower ul (TrimSpace s)"
proof -
  have "trim (IsSpace \<circ> unicode_ToLower ul) (runes s) = trim IsSpace (runes s)"
    using assms by (intro trim_cong) (simp add: IsSpace_unicode_ToLower runes_valid)
  then show ?thesis
    using TrimSpace_string_of_runes [OF valid_lowered [OF assms]]
    by (simp add: ToLower_def trim_map runes_TrimSpace)
qed

lemma ToLower_eq_Nil [simp]: "ToLower ul s = [] \<longleftrightarrow> s = []"
  by (auto simp: ToLower_def string_of_runes_def)

subsection \<open>ASCII text\<close>

definition ascii :: "gostring \<Rightarrow> bool" where
  "ascii s \<longleftrightarrow> (\<forall>c \<in> set s. of_char c < (0x80 :: int))"

lemma chunks_ascii: "ascii s \<Longrightarrow> chunks s = map (\<lambda>c. (of_char c, [c])) s"
proof (induction s)
  case (Cons c cs)
  then have "decode_rune (c # cs) = (of_char c, 1)"
    by (simp add: ascii_def decode_rune_def seq_len_def)
  with Cons show ?case by (simp add: ascii_def Let_def)
qed simp

lemma TrimSpace_ascii:
  assumes "ascii s" and "s = [] \<or> (\<not> IsSpace (of_char (hd s)) \<and> \<not> IsSpace (of_char (last s)))"
  shows "TrimSpace s = s"
proof -
  have "trim (IsSpace \<circ> fst) (chunks s) = chunks s"
    using assms by (intro trim_eqI) (auto simp: chunks_ascii hd_map last_map)
  then show ?thesis by (simp add: TrimSpace_def)
qed

subsection \<open>Hexadecimal\<close>

text \<open>\<^verbatim>\<open>hex.Encode\<close> writes two lower-case digits for a byte.\<close>

definition hex_digit :: "nat \<Rightarrow> char" where
  "hex_digit n = (if n < 10 then char_of (48 + n) else char_of (87 + n))"

fun hex_encode :: "bytes \<Rightarrow> gostring" where
  "hex_encode [] = []"
| "hex_encode (b # bs) = hex_digit (unat b div 16) # hex_digit (unat b mod 16) # hex_encode bs"

text \<open>\<^verbatim>\<open>hex.Decode\<close> takes both cases of the digits; a bad digit is reported before an odd length.\<close>

datatype hex_error = InvalidByteError char | ErrLength

definition from_hex_char :: "char \<Rightarrow> nat option" where
  "from_hex_char c =
     (let n = of_char c :: nat
      in if 48 \<le> n \<and> n \<le> 57 then Some (n - 48)
         else if 97 \<le> n \<and> n \<le> 102 then Some (n - 87)
         else if 65 \<le> n \<and> n \<le> 70 then Some (n - 55)
         else None)"

fun hex_decode :: "gostring \<Rightarrow> hex_error + bytes" where
  "hex_decode [] = Inr []"
| "hex_decode [c] = (case from_hex_char c of None \<Rightarrow> Inl (InvalidByteError c) | Some _ \<Rightarrow> Inl ErrLength)"
| "hex_decode (c # d # s) =
     (case from_hex_char c of
        None \<Rightarrow> Inl (InvalidByteError c)
      | Some a \<Rightarrow>
          (case from_hex_char d of
             None \<Rightarrow> Inl (InvalidByteError d)
           | Some b \<Rightarrow> bindE (hex_decode s) (\<lambda>bs. Inr (word_of_nat (16 * a + b) # bs))))"

lemma of_char_hex_digit:
  "n < 16 \<Longrightarrow> of_char (hex_digit n) = (if n < 10 then 48 + n else 87 + n)"
  by (simp add: hex_digit_def)

lemma from_hex_char_digit [simp]: "n < 16 \<Longrightarrow> from_hex_char (hex_digit n) = Some n"
  by (simp add: from_hex_char_def of_char_hex_digit)

lemma unat_byte_less: "unat (b :: byte) < 256"
  using unsigned_less [of b, where 'a = nat] by simp

lemma byte_nibbles [simp]: "unat (b :: byte) div 16 < 16" "unat (b :: byte) mod 16 < 16"
  using unat_byte_less [of b] by auto

lemma hex_decode_encode [simp]: "hex_decode (hex_encode bs) = Inr bs"
  by (induction bs) simp_all

lemma length_hex_encode [simp]: "length (hex_encode bs) = 2 * length bs"
  by (induction bs) auto

lemma length_hex_decode: "hex_decode s = Inr bs \<Longrightarrow> length s = 2 * length bs"
  by (induction s arbitrary: bs rule: hex_decode.induct) (auto simp: bindE_Inr_iff split: option.splits)

text \<open>The digits \<^verbatim>\<open>hex.Encode\<close> writes.\<close>

definition hex_char :: "char \<Rightarrow> bool" where
  "hex_char c \<longleftrightarrow> (let n = of_char c :: nat in (48 \<le> n \<and> n \<le> 57) \<or> (97 \<le> n \<and> n \<le> 102))"

lemma hex_char_digit [simp]: "n < 16 \<Longrightarrow> hex_char (hex_digit n)"
  by (auto simp: hex_char_def of_char_hex_digit Let_def)

lemma hex_encode_hex_char: "\<forall>c \<in> set (hex_encode bs). hex_char c"
  by (induction bs) simp_all

lemma hex_encode_eq_Nil [simp]: "hex_encode bs = [] \<longleftrightarrow> bs = []"
  by (cases bs) auto

subsection \<open>Decimal numbers\<close>

text \<open>\<^verbatim>\<open>%d\<close> of an unsigned number.\<close>

fun decimal :: "nat \<Rightarrow> string" where
  "decimal n = (if n < 10 then [char_of (48 + n)] else decimal (n div 10) @ [char_of (48 + n mod 10)])"

declare decimal.simps [simp del]

end
