(* ===== verification/Hash_Text.thy ===== *)
theory Hash_Text
  imports Go_Strings
begin

text \<open>
  Destination and identity hashes as text (\<^verbatim>\<open>pkg/rrc/hash.go\<close>; \<^verbatim>\<open>pkg/mf/hash.go\<close> has the same
  code with its own length constant): hex digits in groups of four, read back with
  colons, dashes, spaces and angle brackets ignored.
\<close>

definition IdentityLength :: nat where
  "IdentityLength = 16"

definition hashGroup :: nat where
  "hashGroup = 4"

datatype hash_error = HashTooLong | HashEmpty | HashHex hex_error | HashLength nat

text \<open>The copy loop of \<^verbatim>\<open>decodeHashHex\<close>: at most 128 characters that are no separator.\<close>

fun collect_hex :: "nat \<Rightarrow> gostring \<Rightarrow> hash_error + gostring" where
  "collect_hex n [] = Inr []"
| "collect_hex n (c # s) =
     (if c = CHR '':'' \<or> c = CHR '' '' \<or> c = CHR ''-'' then collect_hex n s
      else if n \<ge> 128 then Inl HashTooLong
      else bindE (collect_hex (Suc n) s) (\<lambda>t. Inr (c # t)))"

definition decodeHashHex :: "gostring \<Rightarrow> hash_error + bytes" where
  "decodeHashHex s0 =
     (let s1 = TrimSpace s0;
          s = (if length s1 \<ge> 2 \<and> hd s1 = CHR ''<'' \<and> last s1 = CHR ''>'' then butlast (tl s1) else s1)
      in bindE (collect_hex 0 s) (\<lambda>buf.
           if buf = [] then Inl HashEmpty
           else (case hex_decode buf of Inl e \<Rightarrow> Inl (HashHex e) | Inr out \<Rightarrow> Inr out)))"

definition ParseHash :: "gostring \<Rightarrow> hash_error + bytes" where
  "ParseHash s =
     bindE (decodeHashHex s) (\<lambda>raw.
       if length raw \<noteq> IdentityLength then Inl (HashLength (length raw)) else Inr raw)"

text \<open>The groups of the text, separated by one space.\<close>

function formatGroupedBytes :: "gostring \<Rightarrow> nat \<Rightarrow> gostring" where
  "formatGroupedBytes hexs grp =
     (if grp = 0 \<or> length hexs \<le> grp then hexs
      else take grp hexs @ CHR '' '' # formatGroupedBytes (drop grp hexs) grp)"
  by pat_completeness auto
termination by (relation "measure (\<lambda>(hexs, _). length hexs)") auto

declare formatGroupedBytes.simps [simp del]

definition FormatHash :: "bytes \<Rightarrow> gostring" where
  "FormatHash hash = (if hash = [] then [] else formatGroupedBytes (hex_encode hash) hashGroup)"

subsection \<open>Reading what was written\<close>

lemma collect_hex_take:
  assumes "\<forall>c \<in> set a. c \<noteq> CHR '':'' \<and> c \<noteq> CHR '' '' \<and> c \<noteq> CHR ''-''" and "n + length a \<le> 128"
  shows "collect_hex n (a @ s) = bindE (collect_hex (n + length a) s) (\<lambda>t. Inr (a @ t))"
  using assms
proof (induction a arbitrary: n)
  case Nil
  then show ?case by (cases "collect_hex n s") auto
next
  case (Cons c a)
  then show ?case by (cases "collect_hex (Suc (n + length a)) s") auto
qed

lemma collect_hex_grouped:
  assumes "\<forall>c \<in> set s. c \<noteq> CHR '':'' \<and> c \<noteq> CHR '' '' \<and> c \<noteq> CHR ''-''" and "n + length s \<le> 128"
  shows "collect_hex n (formatGroupedBytes s g) = Inr s"
  using assms
proof (induction s g arbitrary: n rule: formatGroupedBytes.induct)
  case (1 s g)
  show ?case
  proof (cases "g = 0 \<or> length s \<le> g")
    case True
    with 1(2,3) show ?thesis
      using collect_hex_take [of s n "[]"] by (simp add: formatGroupedBytes.simps)
  next
    case False
    then have sep: "\<forall>c \<in> set (take g s). c \<noteq> CHR '':'' \<and> c \<noteq> CHR '' '' \<and> c \<noteq> CHR ''-''"
      and rest: "\<forall>c \<in> set (drop g s). c \<noteq> CHR '':'' \<and> c \<noteq> CHR '' '' \<and> c \<noteq> CHR ''-''"
      using 1(2) by (meson in_set_takeD in_set_dropD)+
    from False 1(3) have "collect_hex (n + g) (formatGroupedBytes (drop g s) g) = Inr (drop g s)"
      by (intro 1(1) rest) auto
    with False sep 1(3) show ?thesis
      using collect_hex_take [of "take g s" n "CHR '' '' # formatGroupedBytes (drop g s) g"]
      by (subst formatGroupedBytes.simps) simp
  qed
qed

lemma grouped_chars: "set (formatGroupedBytes s g) \<subseteq> insert (CHR '' '') (set s)"
proof (induction s g rule: formatGroupedBytes.induct)
  case (1 s g)
  show ?case
  proof (cases "g = 0 \<or> length s \<le> g")
    case True
    then show ?thesis by (subst formatGroupedBytes.simps) auto
  next
    case False
    then show ?thesis using 1 by (subst formatGroupedBytes.simps) (auto dest: in_set_takeD in_set_dropD)
  qed
qed

lemma grouped_ends:
  assumes "s \<noteq> []" and "\<forall>c \<in> set s. P c"
  shows "formatGroupedBytes s g \<noteq> [] \<and> P (hd (formatGroupedBytes s g)) \<and> P (last (formatGroupedBytes s g))"
  using assms
proof (induction s g rule: formatGroupedBytes.induct)
  case (1 s g)
  show ?case
  proof (cases "g = 0 \<or> length s \<le> g")
    case True
    with 1(2,3) show ?thesis by (subst (1 2 3) formatGroupedBytes.simps) auto
  next
    case False
    have "P (last (formatGroupedBytes (drop g s) g))" "formatGroupedBytes (drop g s) g \<noteq> []"
      using 1(1) [OF False] 1(3) False by (auto dest: in_set_dropD)
    moreover have "take g s \<noteq> []" "P (hd (take g s))" using False 1(3) by (cases s; auto)+
    ultimately show ?thesis by (subst (1 2 3) formatGroupedBytes.simps) (use False in auto)
  qed
qed

lemma hex_char_facts:
  assumes "hex_char c"
  shows "c \<noteq> CHR '':''" "c \<noteq> CHR '' ''" "c \<noteq> CHR ''-''" "c \<noteq> CHR ''<''"
    "\<not> IsSpace (of_char c)" "of_char c < (128 :: int)"
proof -
  have i: "(of_char c :: int) = int (of_char c)" by (rule of_nat_of_char [symmetric])
  show "c \<noteq> CHR '':''" "c \<noteq> CHR '' ''" "c \<noteq> CHR ''-''" "c \<noteq> CHR ''<''"
    using assms by (auto simp: hex_char_def Let_def)
  show "\<not> IsSpace (of_char c)" using assms unfolding IsSpace_def hex_char_def i Let_def by auto
  show "of_char c < (128 :: int)" using assms unfolding hex_char_def i Let_def by auto
qed

lemma TrimSpace_FormatHash: "TrimSpace (FormatHash h) = FormatHash h"
proof (cases "h = []")
  case False
  have "ascii (FormatHash h)"
    using grouped_chars [of "hex_encode h" hashGroup] hex_encode_hex_char [of h] hex_char_facts(6)
    by (fastforce simp: ascii_def FormatHash_def)
  moreover have "hex_char (hd (FormatHash h)) \<and> hex_char (last (FormatHash h))"
    using grouped_ends [OF _ hex_encode_hex_char] False by (simp add: FormatHash_def)
  ultimately show ?thesis using hex_char_facts(5) by (intro TrimSpace_ascii) blast+
qed (simp add: FormatHash_def)

lemma decodeHashHex_FormatHash:
  assumes "h \<noteq> []" and "length h \<le> 64"
  shows "decodeHashHex (FormatHash h) = Inr h"
proof -
  have "hex_char (hd (FormatHash h))"
    using grouped_ends [OF _ hex_encode_hex_char] assms(1) by (simp add: FormatHash_def)
  then have "hd (FormatHash h) \<noteq> CHR ''<''" by (rule hex_char_facts)
  moreover have "collect_hex 0 (FormatHash h) = Inr (hex_encode h)"
    unfolding FormatHash_def using assms hex_char_facts(1-3) hex_encode_hex_char [of h]
    by (simp add: collect_hex_grouped)
  ultimately show ?thesis using assms(1) by (simp add: decodeHashHex_def TrimSpace_FormatHash)
qed

text \<open>\<^verbatim>\<open>ParseHash\<close> accepts exactly sixteen bytes, whatever the text.\<close>

lemma ParseHash_length: "ParseHash s = Inr h \<Longrightarrow> length h = IdentityLength"
  by (auto simp: ParseHash_def bindE_Inr_iff split: if_splits)

lemma ParseHash_FormatHash: "length h = IdentityLength \<Longrightarrow> ParseHash (FormatHash h) = Inr h"
  using decodeHashHex_FormatHash [of h] by (simp add: ParseHash_def IdentityLength_def) force

end
