(* ===== verification/MF.thy ===== *)
theory MF
  imports Hash_Text
begin

text \<open>
  \<^verbatim>\<open>pkg/mf\<close>: the compact message format (sender hash, optional group hash, text), its
  packing and unpacking, and the \<^verbatim>\<open>Messenger\<close> that sends one packet per message.  The
  Reticulum stack below it (\<^verbatim>\<open>identity.Recall\<close>, \<^verbatim>\<open>destination.FromHash\<close>, \<^verbatim>\<open>Encrypt\<close>,
  \<^verbatim>\<open>packet.Pack\<close>, \<^verbatim>\<open>transport.SendPacket\<close>) is the argument \<open>N\<close> of the sending operations.
\<close>

definition SenderHashLength :: nat where
  "SenderHashLength = 16"

definition MaxMessageSize :: nat where
  "MaxMessageSize = 420"

definition groupFlagPresent :: byte where
  "groupFlagPresent = 0x01"

datatype mf_error =
    ErrInvalidHashLength nat
  | ErrInvalidHash hash_error
  | ErrRecall "string option"
  | ErrMessageTooShort
  | ErrMessageTooLong nat
  | MfNet string

record mf_message =
  SenderHash :: bytes
  GroupHash :: bytes
  Text :: gostring

subsection \<open>Messages\<close>

definition mf_Validate :: "mf_message \<Rightarrow> mf_error option" where
  "mf_Validate m =
     (if length (SenderHash m) \<noteq> SenderHashLength then Some (ErrInvalidHashLength (length (SenderHash m)))
      else if length (GroupHash m) > 0 \<and> length (GroupHash m) \<noteq> SenderHashLength
        then Some (ErrInvalidHashLength (length (GroupHash m)))
      else if length (Text m) > MaxMessageSize then Some (ErrMessageTooLong (length (Text m)))
      else None)"

definition newMessageOwned :: "bytes \<Rightarrow> bytes \<Rightarrow> gostring \<Rightarrow> mf_error + mf_message" where
  "newMessageOwned senderHash groupHash text =
     (let m = \<lparr>SenderHash = senderHash, GroupHash = groupHash, Text = text\<rparr>
      in case mf_Validate m of Some e \<Rightarrow> Inl e | None \<Rightarrow> Inr m)"

definition NewMessageWithGroup :: "bytes \<Rightarrow> bytes \<Rightarrow> gostring \<Rightarrow> mf_error + mf_message" where
  "NewMessageWithGroup senderHash groupHash text = newMessageOwned senderHash groupHash text"

definition NewMessage :: "bytes \<Rightarrow> gostring \<Rightarrow> mf_error + mf_message" where
  "NewMessage senderHash text = NewMessageWithGroup senderHash [] text"

definition mf_ParseHash :: "gostring \<Rightarrow> mf_error + bytes" where
  "mf_ParseHash s =
     (case decodeHashHex s of
        Inl e \<Rightarrow> Inl (ErrInvalidHash e)
      | Inr raw \<Rightarrow>
          if length raw \<noteq> SenderHashLength then Inl (ErrInvalidHash (HashLength (length raw))) else Inr raw)"

definition NewMessageFromHex :: "gostring \<Rightarrow> gostring \<Rightarrow> mf_error + mf_message" where
  "NewMessageFromHex senderHashHex text = bindE (mf_ParseHash senderHashHex) (\<lambda>hash. NewMessage hash text)"

definition mf_Len :: "mf_message \<Rightarrow> nat" where
  "mf_Len m =
     (if length (GroupHash m) > 0 then SenderHashLength + 1 + SenderHashLength + length (Text m)
      else SenderHashLength + length (Text m))"

definition mf_FormatSenderHash :: "mf_message \<Rightarrow> gostring" where
  "mf_FormatSenderHash m = hex_encode (SenderHash m)"

text \<open>\<open>None\<close> is the nil pointer.\<close>

definition mf_Equal :: "mf_message \<Rightarrow> mf_message option \<Rightarrow> bool" where
  "mf_Equal m other =
     (case other of
        None \<Rightarrow> False
      | Some o' \<Rightarrow>
          if Text m \<noteq> Text o' then False
          else if SenderHash m \<noteq> SenderHash o' then False
          else GroupHash m = GroupHash o')"

definition mf_Pack :: "mf_message \<Rightarrow> mf_error + bytes" where
  "mf_Pack m =
     (case mf_Validate m of
        Some e \<Rightarrow> Inl e
      | None \<Rightarrow>
          if length (GroupHash m) > 0
          then Inr (SenderHash m @ groupFlagPresent # GroupHash m @ bytes_of_string (Text m))
          else Inr (SenderHash m @ bytes_of_string (Text m)))"

definition mf_Unpack :: "bytes \<Rightarrow> mf_error + mf_message" where
  "mf_Unpack data =
     (if length data < SenderHashLength then Inl ErrMessageTooShort
      else let senderHash = take SenderHashLength data;
               rest = drop SenderHashLength data
           in if length rest > 0 \<and> rest ! 0 = groupFlagPresent
              then (if length rest < 1 + SenderHashLength then Inl ErrMessageTooShort
                    else newMessageOwned senderHash (take SenderHashLength (drop 1 rest))
                           (string_of_bytes (drop (1 + SenderHashLength) rest)))
              else newMessageOwned senderHash [] (string_of_bytes rest))"

definition ValidateSenderHash :: "bytes \<Rightarrow> mf_error option" where
  "ValidateSenderHash hash =
     (if length hash \<noteq> SenderHashLength then Some (ErrInvalidHashLength (length hash)) else None)"

record mf_peer =
  mfp_Hash :: bytes
  mfp_AppData :: gostring

definition mf_Peer_Validate :: "mf_peer \<Rightarrow> mf_error option" where
  "mf_Peer_Validate p =
     (if length (mfp_Hash p) \<noteq> SenderHashLength then Some (ErrInvalidHashLength (length (mfp_Hash p))) else None)"

subsection \<open>The messenger\<close>

text \<open>
  The network below: each call returns a value or the text of an error.  \<open>Recall\<close> also takes
  the time of the call, since identities arrive while \<^verbatim>\<open>sendHash\<close> polls.
\<close>

record mf_packet =
  mk_Data :: bytes
  mk_DestinationHash :: bytes

record ('id, 'dest) mf_net =
  n_GetHash :: bytes
  n_Recall :: "int \<Rightarrow> bytes \<Rightarrow> string + 'id option"
  n_FromHash :: "bytes \<Rightarrow> 'id option \<Rightarrow> string + 'dest"
  n_Encrypt :: "'dest \<Rightarrow> bytes \<Rightarrow> string + bytes"
  n_PacketPack :: "mf_packet \<Rightarrow> string + mf_packet"
  n_SendPacket :: "mf_packet \<Rightarrow> string option"

definition netE :: "string + 'a \<Rightarrow> mf_error + 'a" where
  "netE r = (case r of Inl e \<Rightarrow> Inl (MfNet e) | Inr x \<Rightarrow> Inr x)"

text \<open>The result of a send is the packet handed to the transport.\<close>

definition sendPacked ::
  "('id, 'dest) mf_net \<Rightarrow> bytes \<Rightarrow> 'dest \<Rightarrow> mf_message \<Rightarrow> mf_error + mf_packet" where
  "sendPacked N destHash targetDest msg =
     bindE (mf_Pack msg) (\<lambda>payload.
     bindE (netE (n_Encrypt N targetDest payload)) (\<lambda>encrypted.
     bindE (netE (n_PacketPack N \<lparr>mk_Data = encrypted, mk_DestinationHash = destHash\<rparr>)) (\<lambda>pkt.
     case n_SendPacket N pkt of Some e \<Rightarrow> Inl (MfNet e) | None \<Rightarrow> Inr pkt)))"

definition SendMessage ::
  "('id, 'dest) mf_net \<Rightarrow> int \<Rightarrow> bytes \<Rightarrow> gostring \<Rightarrow> mf_error + mf_packet" where
  "SendMessage N now destHash text =
     (if length destHash \<noteq> SenderHashLength then Inl (ErrInvalidHashLength (length destHash))
      else bindE (netE (n_Recall N now destHash)) (\<lambda>remoteIdentity.
           bindE (netE (n_FromHash N destHash remoteIdentity)) (\<lambda>targetDest.
           bindE (NewMessage (n_GetHash N) text) (\<lambda>msg.
           sendPacked N destHash targetDest msg))))"

definition SendGroupMessage ::
  "('id, 'dest) mf_net \<Rightarrow> int \<Rightarrow> bytes \<Rightarrow> bytes \<Rightarrow> gostring \<Rightarrow> mf_error + mf_packet" where
  "SendGroupMessage N now destHash groupHash text =
     (if length destHash \<noteq> SenderHashLength then Inl (ErrInvalidHashLength (length destHash))
      else if length groupHash \<noteq> SenderHashLength then Inl (ErrInvalidHashLength (length groupHash))
      else bindE (netE (n_Recall N now destHash)) (\<lambda>remoteIdentity.
           bindE (netE (n_FromHash N destHash remoteIdentity)) (\<lambda>targetDest.
           bindE (NewMessageWithGroup (n_GetHash N) groupHash text) (\<lambda>msg.
           sendPacked N destHash targetDest msg))))"

text \<open>
  The polling loop of \<^verbatim>\<open>sendHash\<close>: the clock (nanoseconds) advances by the 100 ms of the
  sleep between two polls.
\<close>

function recall_loop ::
  "('id, 'dest) mf_net \<Rightarrow> int \<Rightarrow> int \<Rightarrow> bytes \<Rightarrow> gostring \<Rightarrow> mf_error + mf_packet" where
  "recall_loop N deadline now destHash text =
     (let r = n_Recall N now destHash
      in if (case r of Inl _ \<Rightarrow> False | Inr remote \<Rightarrow> remote \<noteq> None)
         then SendMessage N now destHash text
         else if now > deadline
         then Inl (ErrRecall (case r of Inl e \<Rightarrow> Some e | Inr _ \<Rightarrow> None))
         else recall_loop N deadline (now + 100000000) destHash text)"
  by pat_completeness auto
termination
  by (relation "measure (\<lambda>(N, deadline, now, _). nat (deadline + 1 - now))") auto

declare recall_loop.simps [simp del]

definition recallTimeout :: int where
  "recallTimeout = 10 * 1000000000"

definition sendHash ::
  "('id, 'dest) mf_net \<Rightarrow> int \<Rightarrow> gostring \<Rightarrow> gostring \<Rightarrow> int \<Rightarrow> mf_error + mf_packet" where
  "sendHash N now destHex text wait =
     bindE (mf_ParseHash destHex) (\<lambda>destHash. recall_loop N (now + wait) now destHash text)"

definition SendHash :: "('id, 'dest) mf_net \<Rightarrow> int \<Rightarrow> gostring \<Rightarrow> gostring \<Rightarrow> mf_error + mf_packet" where
  "SendHash N now destHex text = sendHash N now destHex text recallTimeout"

subsection \<open>Packing and unpacking\<close>

lemmas mf_sizes = SenderHashLength_def MaxMessageSize_def

lemma mf_Validate_None:
  "mf_Validate m = None \<longleftrightarrow>
     length (SenderHash m) = 16 \<and> (GroupHash m = [] \<or> length (GroupHash m) = 16) \<and> length (Text m) \<le> 420"
  by (auto simp: mf_Validate_def mf_sizes)

lemma newMessageOwned_Inr:
  "newMessageOwned s g t = Inr m \<longleftrightarrow>
     m = \<lparr>SenderHash = s, GroupHash = g, Text = t\<rparr> \<and> mf_Validate m = None"
  by (auto simp: newMessageOwned_def Let_def split: option.splits)

lemma mf_Pack_Inr:
  "mf_Pack m = Inr d \<longleftrightarrow> mf_Validate m = None \<and>
     d = SenderHash m @ (if GroupHash m = [] then [] else groupFlagPresent # GroupHash m) @ bytes_of_string (Text m)"
  by (auto simp: mf_Pack_def split: option.splits)

text \<open>The one text an ungrouped message cannot carry: a first byte equal to the group flag.\<close>

definition flag_clash :: "mf_message \<Rightarrow> bool" where
  "flag_clash m \<longleftrightarrow> GroupHash m = [] \<and> Text m \<noteq> [] \<and> byte_of_char (hd (Text m)) = groupFlagPresent"

lemma mf_Unpack_grouped:
  assumes "length s = 16" "length g = 16"
  shows "mf_Unpack (s @ groupFlagPresent # g @ t) = newMessageOwned s g (string_of_bytes t)"
  using assms by (simp add: mf_Unpack_def mf_sizes Let_def)

lemma mf_Unpack_plain:
  assumes "length s = 16" "t = [] \<or> hd t \<noteq> groupFlagPresent"
  shows "mf_Unpack (s @ t) = newMessageOwned s [] (string_of_bytes t)"
  using assms by (cases t) (auto simp: mf_Unpack_def mf_sizes Let_def)

lemma hd_bytes_of_string: "t \<noteq> [] \<Longrightarrow> hd (bytes_of_string t) = byte_of_char (hd t)"
  by (simp add: bytes_of_string_def hd_map)

lemma string_of_bytes_hd:
  "string_of_bytes t = [] \<longleftrightarrow> t = []"
  "t \<noteq> [] \<Longrightarrow> string_of_bytes t ! 0 = char_of_byte (t ! 0)"
  by (simp_all add: string_of_bytes_def)

lemma mf_Unpack_Pack:
  assumes "mf_Pack m = Inr d" and "\<not> flag_clash m"
  shows "mf_Unpack d = Inr m"
proof (cases "GroupHash m = []")
  case True
  with assms have "mf_Unpack d = newMessageOwned (SenderHash m) [] (Text m)"
    using mf_Unpack_plain [of "SenderHash m" "bytes_of_string (Text m)"] hd_bytes_of_string [of "Text m"]
    by (cases "Text m = []") (auto simp: mf_Pack_Inr mf_Validate_None flag_clash_def)
  with True assms(1) show ?thesis by (simp add: newMessageOwned_Inr mf_Pack_Inr)
next
  case False
  with assms have "mf_Unpack d = newMessageOwned (SenderHash m) (GroupHash m) (Text m)"
    by (auto simp: mf_Pack_Inr mf_Validate_None mf_Unpack_grouped)
  with assms(1) show ?thesis by (simp add: newMessageOwned_Inr mf_Pack_Inr)
qed

lemma mf_Unpack_shape:
  assumes "mf_Unpack d = Inr m"
  shows "mf_Validate m = None \<and> d = SenderHash m @ (if GroupHash m = [] then [] else groupFlagPresent # GroupHash m)
    @ bytes_of_string (Text m) \<and> \<not> flag_clash m"
proof -
  let ?rest = "drop 16 d"
  have len: "\<not> length d < 16" using assms by (auto simp: mf_Unpack_def mf_sizes)
  show ?thesis
  proof (cases "?rest \<noteq> [] \<and> ?rest ! 0 = groupFlagPresent")
    case True
    then obtain r where r: "?rest = groupFlagPresent # r" by (cases ?rest) auto
    with assms len have m: "16 \<le> length r"
      "newMessageOwned (take 16 d) (take 16 r) (string_of_bytes (drop 16 r)) = Inr m"
      by (auto simp: mf_Unpack_def mf_sizes Let_def split: if_splits)
    have "d = take 16 d @ groupFlagPresent # take 16 r @ drop 16 r"
      using r by (metis append_take_drop_id)
    moreover have "take 16 r \<noteq> []" using m(1) by auto
    ultimately show ?thesis using m(2) by (auto simp: newMessageOwned_Inr flag_clash_def)
  next
    case False
    with assms len have "newMessageOwned (take 16 d) [] (string_of_bytes ?rest) = Inr m"
      by (auto simp: mf_Unpack_def mf_sizes Let_def split: if_splits)
    with False show ?thesis
      by (auto simp: newMessageOwned_Inr flag_clash_def string_of_bytes_hd hd_conv_nth)
  qed
qed

text \<open>
  C26: a valid message survives packing and unpacking exactly when it is no
  ungrouped message whose text starts with the group flag.
\<close>

theorem mf_roundtrip:
  assumes "mf_Pack m = Inr d"
  shows "mf_Unpack d = Inr m \<longleftrightarrow> \<not> flag_clash m"
  using mf_Unpack_Pack [OF assms] mf_Unpack_shape [of d m] by blast

theorem mf_roundtrip_witness:
  "mf_Unpack (replicate 16 7 @ [104, 105]) = Inr \<lparr>SenderHash = replicate 16 7, GroupHash = [], Text = ''hi''\<rparr>"
proof -
  let ?m = "\<lparr>SenderHash = replicate 16 7, GroupHash = [], Text = ''hi''\<rparr>"
  have "mf_Pack ?m = Inr (replicate 16 7 @ [104, 105])"
    by (simp add: mf_Pack_def mf_Validate_def mf_sizes bytes_of_string_def byte_of_char_def)
  moreover have "\<not> flag_clash ?m" by (simp add: flag_clash_def byte_of_char_def groupFlagPresent_def)
  ultimately show ?thesis using mf_roundtrip [of ?m] by blast
qed

text \<open>C35: whatever \<^verbatim>\<open>Unpack\<close> accepts is valid and packs back to the same bytes.\<close>

theorem mf_unpack_canonical:
  assumes "mf_Unpack d = Inr m"
  shows "mf_Validate m = None \<and> mf_Pack m = Inr d \<and> mf_Len m = length d \<and> length d \<le> 453"
  using mf_Unpack_shape [OF assms]
  by (auto simp: mf_Pack_Inr mf_Len_def mf_sizes mf_Validate_None)

theorem mf_unpack_canonical_witness:
  "mf_Pack \<lparr>SenderHash = replicate 16 7, GroupHash = replicate 16 9, Text = ''x''\<rparr>
     = Inr (replicate 16 7 @ 1 # replicate 16 9 @ [120])"
proof -
  have "mf_Unpack (replicate 16 7 @ 1 # replicate 16 9 @ [120])
      = Inr \<lparr>SenderHash = replicate 16 7, GroupHash = replicate 16 9, Text = ''x''\<rparr>"
    by code_simp
  from mf_unpack_canonical [OF this] show ?thesis by blast
qed

end
