(* ===== verification/Wire_Value.thy ===== *)
theory Wire_Value
  imports Go_Strings
begin

text \<open>
  The values a protocol body carries: Go's \<^verbatim>\<open>any\<close> as the sources build it and as the CBOR
  library returns it, with the type switches of \<^verbatim>\<open>pkg/rrc\<close> that read it.  The CBOR library itself
  is the argument \<open>C\<close> of the operations that encode or decode.
\<close>

text \<open>
  One constructor per dynamic type a type switch of the sources names.  Signed integers are words
  read with \<^const>\<open>sint\<close>; \<open>VFloat\<close> is the bit pattern of a \<^verbatim>\<open>float64\<close>; \<open>VOther\<close> is any other
  type (a tag, a time, a big integer).
\<close>

datatype val =
    VNil
  | VBool bool
  | VUint64 uint64
  | VUint32 uint32
  | VUint16 uint16
  | VUint8 byte
  | VUint uint64
  | VInt64 uint64
  | VInt32 uint32
  | VInt uint64
  | VFloat uint64
  | VString gostring
  | VBytes bytes
  | VArr "val list"
  | VMapU "(uint64 \<times> val) list"
  | VMapA "(val \<times> val) list"
  | VOther nat

fun asUint64 :: "val \<Rightarrow> uint64 option" where
  "asUint64 (VUint64 n) = Some n"
| "asUint64 (VUint32 n) = Some (ucast n)"
| "asUint64 (VUint16 n) = Some (ucast n)"
| "asUint64 (VUint8 n) = Some (ucast n)"
| "asUint64 (VUint n) = Some n"
| "asUint64 (VInt64 n) = (if sint n < 0 then None else Some n)"
| "asUint64 (VInt32 n) = (if sint n < 0 then None else Some (ucast n))"
| "asUint64 (VInt n) = (if sint n < 0 then None else Some n)"
| "asUint64 _ = None"

fun asBytes :: "val \<Rightarrow> bytes option" where
  "asBytes (VBytes b) = Some b"
| "asBytes _ = None"

fun asString :: "val \<Rightarrow> gostring option" where
  "asString (VString s) = Some s"
| "asString _ = None"

text \<open>
  \<^verbatim>\<open>raw[k]\<close> with an absent key reads as the nil interface; \<^verbatim>\<open>v, ok := raw[k]\<close> is \<^const>\<open>map_of\<close>.
\<close>

definition map_get :: "(uint64 \<times> val) list \<Rightarrow> uint64 \<Rightarrow> val" where
  "map_get raw k = (case map_of raw k of Some v \<Rightarrow> v | None \<Rightarrow> VNil)"

text \<open>The entries are written in the order the range visits them; a later one overwrites.\<close>

fun coerce_entries :: "(val \<times> val) list \<Rightarrow> (uint64 \<times> val) list \<Rightarrow> (uint64 \<times> val) list" where
  "coerce_entries [] out = out"
| "coerce_entries ((k, v) # m) out =
     (case asUint64 k of
        None \<Rightarrow> coerce_entries m out
      | Some uk \<Rightarrow> coerce_entries m (AList.update uk v out))"

fun coerceUintMap :: "val \<Rightarrow> (uint64 \<times> val) list option" where
  "coerceUintMap (VMapU m) = Some m"
| "coerceUintMap (VMapA m) = Some (coerce_entries m [])"
| "coerceUintMap _ = None"

subsection \<open>The codec\<close>

text \<open>
  The CBOR library as the sources use it: encode and decode a map with unsigned keys, and the
  length of an encoded value (\<open>None\<close> for a value it cannot encode).
\<close>

record cbor =
  c_enc :: "(uint64 \<times> val) list \<Rightarrow> string + bytes"
  c_dec :: "bytes \<Rightarrow> string + (uint64 \<times> val) list"
  c_size :: "val \<Rightarrow> nat option"

text \<open>
  What a value looks like after a trip over the wire: CBOR has one unsigned and one negative
  integer type, and a nested map comes back as \<^verbatim>\<open>map[any]any\<close>.
\<close>

primrec wire_norm :: "val \<Rightarrow> val" where
  "wire_norm VNil = VNil"
| "wire_norm (VBool b) = VBool b"
| "wire_norm (VUint64 n) = VUint64 n"
| "wire_norm (VUint32 n) = VUint64 (ucast n)"
| "wire_norm (VUint16 n) = VUint64 (ucast n)"
| "wire_norm (VUint8 n) = VUint64 (ucast n)"
| "wire_norm (VUint n) = VUint64 n"
| "wire_norm (VInt64 n) = (if sint n < 0 then VInt64 n else VUint64 n)"
| "wire_norm (VInt32 n) = (if sint n < 0 then VInt64 (scast n) else VUint64 (ucast n))"
| "wire_norm (VInt n) = (if sint n < 0 then VInt64 n else VUint64 n)"
| "wire_norm (VFloat f) = VFloat f"
| "wire_norm (VString s) = VString s"
| "wire_norm (VBytes b) = VBytes b"
| "wire_norm (VArr xs) = VArr (map wire_norm xs)"
| "wire_norm (VMapU m) = VMapA (map (map_prod VUint64 id) (map (map_prod id wire_norm) m))"
| "wire_norm (VMapA m) = VMapA (map (map_prod wire_norm wire_norm) m)"
| "wire_norm (VOther n) = VOther n"

text \<open>
  The documented behaviour of the codec on one map: it encodes it, and decoding the bytes gives
  a map with the same keys and the normalised values.
\<close>

definition cbor_carries :: "cbor \<Rightarrow> nat \<Rightarrow> (uint64 \<times> val) list \<Rightarrow> bool" where
  "cbor_carries C limit m \<longleftrightarrow>
     (case c_enc C m of
        Inl _ \<Rightarrow> False
      | Inr d \<Rightarrow> d \<noteq> [] \<and> length d \<le> limit \<and>
          (case c_dec C d of
             Inl _ \<Rightarrow> False
           | Inr raw \<Rightarrow> map_of raw = map_of (map (map_prod id wire_norm) m)))"

lemma cbor_carriesE:
  assumes "cbor_carries C limit m"
  obtains d raw where "c_enc C m = Inr d" "d \<noteq> []" "length d \<le> limit" "c_dec C d = Inr raw"
    "map_of raw = map_of (map (map_prod id wire_norm) m)"
  using assms unfolding cbor_carries_def by (auto split: sum.splits)

subsection \<open>Reading a normalised value\<close>

lemma asUint64_wire_norm [simp]: "asUint64 (wire_norm v) = asUint64 v"
proof (cases v)
  case (VInt32 n)
  have "signed_take_bit 63 (sint n) = sint n" by (simp add: sint_uint)
  then have "sint (scast n :: uint64) = sint n" by (simp add: signed_scast_eq)
  with VInt32 show ?thesis by simp
qed auto

lemma asBytes_wire_norm [simp]: "asBytes (wire_norm v) = asBytes v"
  by (cases v) auto

lemma asString_wire_norm [simp]: "asString (wire_norm v) = asString v"
  by (cases v) auto

lemma wire_norm_eq_VNil [simp]: "wire_norm v = VNil \<longleftrightarrow> v = VNil"
  by (cases v) auto

lemma asBytes_eq_Some: "asBytes v = Some b \<longleftrightarrow> v = VBytes b"
  by (cases v) auto

lemma asString_eq_Some: "asString v = Some s \<longleftrightarrow> v = VString s"
  by (cases v) auto

lemma map_of_wire_norm:
  "map_of (map (map_prod id wire_norm) m) k = map_option wire_norm (map_of m k)"
  by (induction m) auto

lemma map_get_Some: "map_of raw k = Some v \<Longrightarrow> map_get raw k = v"
  by (simp add: map_get_def)

lemma update_append_new: "k \<notin> fst ` set m \<Longrightarrow> AList.update k v m = m @ [(k, v)]"
  by (induction m) auto

lemma coerce_entries_uint_keys:
  "distinct (map fst (out @ m)) \<Longrightarrow> coerce_entries (map (map_prod VUint64 id) m) out = out @ m"
proof (induction m arbitrary: out)
  case (Cons kv m)
  obtain k v where kv: "kv = (k, v)" by fastforce
  with Cons.prems have "AList.update k v out = out @ [(k, v)]" by (intro update_append_new) auto
  with Cons.IH [of "out @ [(k, v)]"] Cons.prems show ?case by (simp add: kv)
qed simp

text \<open>A map with distinct unsigned keys is read back as itself, its values normalised.\<close>

definition norm_map :: "(uint64 \<times> val) list \<Rightarrow> (uint64 \<times> val) list" where
  "norm_map m = map (map_prod id wire_norm) m"

lemma coerce_norm_map:
  "distinct (map fst m) \<Longrightarrow> coerceUintMap (wire_norm (VMapU m)) = Some (norm_map m)"
  using coerce_entries_uint_keys [of "[]" "norm_map m"] by (simp add: norm_map_def comp_def)

lemma map_of_norm_map [simp]: "map_of (norm_map m) k = map_option wire_norm (map_of m k)"
  by (simp add: norm_map_def map_of_wire_norm)

subsection \<open>A faithful codec\<close>

text \<open>Whatever the codec encodes it decodes to the same map, up to the types its decoder gives to numbers and maps.\<close>

definition codec_ok :: "cbor \<Rightarrow> bool" where
  "codec_ok C \<longleftrightarrow> (\<forall>m d. c_enc C m = Inr d \<longrightarrow> cbor_carries C (length d) m)"

text \<open>A codec for a short table of packets, each of them one byte on the wire.\<close>

definition table_cbor :: "(uint64 \<times> val) list list \<Rightarrow> cbor" where
  "table_cbor ms = \<lparr>c_enc = (\<lambda>m. if m \<in> set ms then Inr [word_of_nat (length (takeWhile (\<lambda>m'. m' \<noteq> m) ms))] else Inl []),
     c_dec = (\<lambda>d. if length d = 1 \<and> unat (hd d) < length ms then Inr (norm_map (ms ! unat (hd d))) else Inl []),
     c_size = (\<lambda>_. Some 1)\<rparr>"

lemma takeWhile_position:
  "x \<in> set xs \<Longrightarrow> length (takeWhile (\<lambda>y. y \<noteq> x) xs) < length xs \<and> xs ! length (takeWhile (\<lambda>y. y \<noteq> x) xs) = x"
  by (induction xs) auto

lemma table_codec:
  assumes "length ms \<le> 256"
  shows "codec_ok (table_cbor ms)"
  unfolding codec_ok_def
proof (intro allI impI)
  fix m d
  assume enc: "c_enc (table_cbor ms) m = Inr d"
  define n where "n = length (takeWhile (\<lambda>m'. m' \<noteq> m) ms)"
  have "m \<in> set ms" and d: "d = [word_of_nat n]" using enc by (auto simp: table_cbor_def n_def split: if_splits)
  then have n: "n < length ms" "ms ! n = m" using takeWhile_position [of m ms] by (auto simp: n_def)
  then have "unat (word_of_nat n :: byte) = n" using assms by (simp add: unat_of_nat take_bit_eq_mod)
  with n enc d show "cbor_carries (table_cbor ms) (length d) m"
    by (simp add: cbor_carries_def) (simp add: table_cbor_def norm_map_def)
qed

end
