(* ===== verification/RRC_Envelope.thy ===== *)
theory RRC_Envelope
  imports Wire_Value Hash_Text
begin

text \<open>
  \<^verbatim>\<open>pkg/rrc/constants.go\<close>, \<^verbatim>\<open>errors.go\<close>, \<^verbatim>\<open>room.go\<close> and \<^verbatim>\<open>envelope.go\<close>: the numbers of the
  protocol, room and nickname normalisation, and the envelope with its encoding.
\<close>

subsection \<open>Constants\<close>

definition ProtocolVersion :: uint64 where [wire_simps]:
  "ProtocolVersion = 1"

definition MessageIDLength :: nat where [wire_simps]:
  "MessageIDLength = 8"

definition KeyVersion :: uint64 where [wire_simps]:
  "KeyVersion = 0"

definition KeyType :: uint64 where [wire_simps]:
  "KeyType = 1"

definition KeyMsgID :: uint64 where [wire_simps]:
  "KeyMsgID = 2"

definition KeyTimestamp :: uint64 where [wire_simps]:
  "KeyTimestamp = 3"

definition KeySender :: uint64 where [wire_simps]:
  "KeySender = 4"

definition KeyRoom :: uint64 where [wire_simps]:
  "KeyRoom = 5"

definition KeyBody :: uint64 where [wire_simps]:
  "KeyBody = 6"

definition KeyNick :: uint64 where [wire_simps]:
  "KeyNick = 7"

definition KeyDestination :: uint64 where [wire_simps]:
  "KeyDestination = 8"

definition TypeHello :: uint64 where [wire_simps]:
  "TypeHello = 1"

definition TypeWelcome :: uint64 where [wire_simps]:
  "TypeWelcome = 2"

definition TypeJoin :: uint64 where [wire_simps]:
  "TypeJoin = 10"

definition TypeJoined :: uint64 where [wire_simps]:
  "TypeJoined = 11"

definition TypePart :: uint64 where [wire_simps]:
  "TypePart = 12"

definition TypeParted :: uint64 where [wire_simps]:
  "TypeParted = 13"

definition TypeMsg :: uint64 where [wire_simps]:
  "TypeMsg = 20"

definition TypeNotice :: uint64 where [wire_simps]:
  "TypeNotice = 21"

definition TypeAction :: uint64 where [wire_simps]:
  "TypeAction = 22"

definition TypePing :: uint64 where [wire_simps]:
  "TypePing = 30"

definition TypePong :: uint64 where [wire_simps]:
  "TypePong = 31"

definition TypeError :: uint64 where [wire_simps]:
  "TypeError = 40"

definition TypeResourceEnvelope :: uint64 where [wire_simps]:
  "TypeResourceEnvelope = 50"

definition HelloKeyClientName :: uint64 where [wire_simps]:
  "HelloKeyClientName = 0"

definition HelloKeyClientVersion :: uint64 where [wire_simps]:
  "HelloKeyClientVersion = 1"

definition HelloKeyCapabilities :: uint64 where [wire_simps]:
  "HelloKeyCapabilities = 2"

definition HelloKeyNickLegacy :: uint64 where [wire_simps]:
  "HelloKeyNickLegacy = 64"

definition WelcomeKeyHubName :: uint64 where [wire_simps]:
  "WelcomeKeyHubName = 0"

definition WelcomeKeyHubVersion :: uint64 where [wire_simps]:
  "WelcomeKeyHubVersion = 1"

definition WelcomeKeyCapabilities :: uint64 where [wire_simps]:
  "WelcomeKeyCapabilities = 2"

definition WelcomeKeyHubLimits :: uint64 where [wire_simps]:
  "WelcomeKeyHubLimits = 3"

definition LimitMaxNickBytes :: uint64 where [wire_simps]:
  "LimitMaxNickBytes = 0"

definition LimitMaxRoomNameBytes :: uint64 where [wire_simps]:
  "LimitMaxRoomNameBytes = 1"

definition LimitMaxMsgBodyBytes :: uint64 where [wire_simps]:
  "LimitMaxMsgBodyBytes = 2"

definition LimitMaxRoomsPerSession :: uint64 where [wire_simps]:
  "LimitMaxRoomsPerSession = 3"

definition LimitRateLimitMsgsPerMinute :: uint64 where [wire_simps]:
  "LimitRateLimitMsgsPerMinute = 4"

definition CapResourceEnvelope :: uint64 where [wire_simps]:
  "CapResourceEnvelope = 0"

definition CapAction :: uint64 where [wire_simps]:
  "CapAction = 1"

definition CapDirectNotice :: uint64 where [wire_simps]:
  "CapDirectNotice = 2"

definition ResourceKeyID :: uint64 where [wire_simps]:
  "ResourceKeyID = 0"

definition ResourceKeyKind :: uint64 where [wire_simps]:
  "ResourceKeyKind = 1"

definition ResourceKeySize :: uint64 where [wire_simps]:
  "ResourceKeySize = 2"

definition ResourceKeySHA256 :: uint64 where [wire_simps]:
  "ResourceKeySHA256 = 3"

definition ResourceKeyEncoding :: uint64 where [wire_simps]:
  "ResourceKeyEncoding = 4"

definition ResourceKindNotice :: gostring where [wire_simps]:
  "ResourceKindNotice = ''notice''"

definition ResourceKindMOTD :: gostring where [wire_simps]:
  "ResourceKindMOTD = ''motd''"

definition ResourceKindBlob :: gostring where [wire_simps]:
  "ResourceKindBlob = ''blob''"

definition DefaultMaxNickBytes :: uint64 where [wire_simps]:
  "DefaultMaxNickBytes = 32"

definition DefaultMaxRoomsPerSession :: uint64 where [wire_simps]:
  "DefaultMaxRoomsPerSession = 32"

definition DefaultMaxRoomNameBytes :: uint64 where [wire_simps]:
  "DefaultMaxRoomNameBytes = 64"

definition DefaultMaxMsgBodyBytes :: uint64 where [wire_simps]:
  "DefaultMaxMsgBodyBytes = 350"

definition DefaultRateLimitMsgsPerMinute :: uint64 where [wire_simps]:
  "DefaultRateLimitMsgsPerMinute = 60"

definition DefaultMaxResourceBytes :: uint64 where [wire_simps]:
  "DefaultMaxResourceBytes = 262144"

definition MaxEnvelopeBytes :: nat where [wire_simps]:
  "MaxEnvelopeBytes = 65536"

subsection \<open>Errors\<close>

text \<open>The sentinel errors of \<^verbatim>\<open>errors.go\<close>; \<open>ErrOther\<close> carries the text of an error of the layers below.\<close>

datatype rrc_error =
    ErrInvalidEnvelope
  | ErrEnvelopeTooLarge
  | ErrWrongVersion
  | ErrMissingField
  | ErrBadFieldLength
  | ErrNotWelcome
  | ErrNotMember
  | ErrSessionClosed
  | ErrLinkInactive
  | ErrRateLimited
  | ErrRoomLimit
  | ErrNickTooLong
  | ErrRoomNameTooLong
  | ErrBodyTooLarge
  | ErrUnexpectedType
  | ErrNilArgument
  | ErrDialTimeout
  | ErrWelcomeTimeout
  | ErrResourceDisabled
  | ErrInvalidHash
  | ErrHub
  | ErrOther string

subsection \<open>Rooms and nicknames\<close>

definition NormalizeRoom :: "(rune \<Rightarrow> rune) \<Rightarrow> gostring \<Rightarrow> gostring" where
  "NormalizeRoom ul name = ToLower ul (TrimSpace name)"

definition nick_control :: "rune \<Rightarrow> bool" where
  "nick_control r \<longleftrightarrow> r = 0 \<or> r = 10 \<or> r = 13 \<or> IsControl r"

definition stripNickControls :: "gostring \<Rightarrow> gostring" where
  "stripNickControls nick = string_of_runes (filter (\<lambda>r. \<not> nick_control r) (runes nick))"

definition SanitizeNick :: "gostring \<Rightarrow> gostring" where
  "SanitizeNick nick0 =
     (let nick = TrimSpace nick0
      in if nick = [] then []
         else if \<exists>r \<in> set (runes nick). nick_control r then stripNickControls nick
         else nick)"

lemma NormalizeRoom_idem:
  assumes "lower_table ul"
  shows "NormalizeRoom ul (NormalizeRoom ul s) = NormalizeRoom ul s"
  using assms by (simp add: NormalizeRoom_def TrimSpace_ToLower)

lemma SanitizeNick_no_control: "r \<in> set (runes (SanitizeNick s)) \<Longrightarrow> \<not> nick_control r"
proof -
  have "runes (stripNickControls t) = filter (\<lambda>r. \<not> nick_control r) (runes t)" for t
    unfolding stripNickControls_def by (rule runes_string_of_runes) (auto dest: runes_valid)
  then show "r \<in> set (runes (SanitizeNick s)) \<Longrightarrow> \<not> nick_control r"
    by (auto simp: SanitizeNick_def Let_def split: if_splits)
qed

subsection \<open>The envelope\<close>

record Envelope =
  e_Version :: uint64
  e_Type :: uint64
  e_MsgID :: bytes
  e_Timestamp :: uint64
  e_Sender :: bytes
  e_Room :: gostring
  e_Body :: val
  e_Nick :: gostring
  e_Destination :: bytes
  e_HasRoom :: bool
  e_HasBody :: bool
  e_HasNick :: bool
  e_HasDestination :: bool

text \<open>The zero value with the five fields every constructor sets.\<close>

definition base_envelope :: "uint64 \<Rightarrow> bytes \<Rightarrow> uint64 \<Rightarrow> bytes \<Rightarrow> Envelope" where
  "base_envelope typ msgID ts sender =
     \<lparr>e_Version = ProtocolVersion, e_Type = typ, e_MsgID = msgID, e_Timestamp = ts, e_Sender = sender,
      e_Room = [], e_Body = VNil, e_Nick = [], e_Destination = [],
      e_HasRoom = False, e_HasBody = False, e_HasNick = False, e_HasDestination = False\<rparr>"

text \<open>The clock in nanoseconds and the eight random bytes are arguments.\<close>

definition NewEnvelope :: "int \<Rightarrow> bytes \<Rightarrow> uint64 \<Rightarrow> bytes \<Rightarrow> rrc_error + Envelope" where
  "NewEnvelope now idb msgType sender =
     (if length sender \<noteq> IdentityLength then Inl ErrBadFieldLength
      else Inr (base_envelope msgType idb (word_of_int (now div 1000000)) sender))"

definition envelopeFrom :: "uint64 \<Rightarrow> bytes \<Rightarrow> bytes \<Rightarrow> uint64 \<Rightarrow> rrc_error + Envelope" where
  "envelopeFrom msgType sender msgID ts =
     (if length sender \<noteq> IdentityLength then Inl ErrBadFieldLength
      else if length msgID \<noteq> MessageIDLength then Inl ErrBadFieldLength
      else Inr (base_envelope msgType msgID ts sender))"

text \<open>The map \<^verbatim>\<open>Marshal\<close> hands to the encoder.\<close>

definition envelope_map :: "Envelope \<Rightarrow> (uint64 \<times> val) list" where
  "envelope_map e =
     [(KeyVersion, VUint64 (e_Version e)), (KeyType, VUint64 (e_Type e)), (KeyMsgID, VBytes (e_MsgID e)),
      (KeyTimestamp, VUint64 (e_Timestamp e)), (KeySender, VBytes (e_Sender e))]
     @ (if e_HasRoom e then [(KeyRoom, VString (e_Room e))] else [])
     @ (if e_HasBody e then [(KeyBody, e_Body e)] else [])
     @ (if e_HasNick e then [(KeyNick, VString (e_Nick e))] else [])
     @ (if e_HasDestination e then [(KeyDestination, VBytes (e_Destination e))] else [])"

definition Marshal :: "cbor \<Rightarrow> Envelope \<Rightarrow> rrc_error + bytes" where
  "Marshal C e =
     (if e_Version e \<noteq> ProtocolVersion then Inl ErrWrongVersion
      else if length (e_MsgID e) \<noteq> MessageIDLength then Inl ErrBadFieldLength
      else if length (e_Sender e) \<noteq> IdentityLength then Inl ErrBadFieldLength
      else if e_HasDestination e \<and> length (e_Destination e) \<noteq> IdentityLength then Inl ErrBadFieldLength
      else (case c_enc C (envelope_map e) of Inl t \<Rightarrow> Inl (ErrOther t) | Inr d \<Rightarrow> Inr d))"

text \<open>The optional fields, in the order \<^verbatim>\<open>UnmarshalEnvelope\<close> reads them.\<close>

definition read_room :: "(uint64 \<times> val) list \<Rightarrow> Envelope \<Rightarrow> rrc_error + Envelope" where
  "read_room raw e =
     (case map_of raw KeyRoom of
        None \<Rightarrow> Inr e
      | Some v \<Rightarrow> (case asString v of
          None \<Rightarrow> Inl ErrInvalidEnvelope
        | Some s \<Rightarrow> Inr (e\<lparr>e_Room := s, e_HasRoom := True\<rparr>)))"

definition read_body :: "(uint64 \<times> val) list \<Rightarrow> Envelope \<Rightarrow> rrc_error + Envelope" where
  "read_body raw e =
     (case map_of raw KeyBody of
        None \<Rightarrow> Inr e
      | Some v \<Rightarrow> Inr (e\<lparr>e_Body := v, e_HasBody := True\<rparr>))"

definition read_nick :: "(uint64 \<times> val) list \<Rightarrow> Envelope \<Rightarrow> rrc_error + Envelope" where
  "read_nick raw e =
     (case map_of raw KeyNick of
        None \<Rightarrow> Inr e
      | Some v \<Rightarrow> (case asString v of
          None \<Rightarrow> Inl ErrInvalidEnvelope
        | Some s \<Rightarrow> Inr (e\<lparr>e_Nick := s, e_HasNick := True\<rparr>)))"

definition read_destination :: "(uint64 \<times> val) list \<Rightarrow> Envelope \<Rightarrow> rrc_error + Envelope" where
  "read_destination raw e =
     (case map_of raw KeyDestination of
        None \<Rightarrow> Inr e
      | Some v \<Rightarrow> (case asBytes v of
          None \<Rightarrow> Inl ErrInvalidEnvelope
        | Some d \<Rightarrow>
            if length d \<noteq> IdentityLength then Inl ErrBadFieldLength
            else Inr (e\<lparr>e_Destination := d, e_HasDestination := True\<rparr>)))"

definition envelope_of_map :: "(uint64 \<times> val) list \<Rightarrow> rrc_error + Envelope" where
  "envelope_of_map raw =
     (case asUint64 (map_get raw KeyVersion) of
        None \<Rightarrow> Inl ErrMissingField
      | Some ver \<Rightarrow>
     if ver \<noteq> ProtocolVersion then Inl ErrWrongVersion
     else (case asUint64 (map_get raw KeyType) of
        None \<Rightarrow> Inl ErrMissingField
      | Some typ \<Rightarrow>
     (case asBytes (map_get raw KeyMsgID) of
        None \<Rightarrow> Inl ErrMissingField
      | Some msgID \<Rightarrow>
     if length msgID \<noteq> MessageIDLength then Inl ErrBadFieldLength
     else (case asUint64 (map_get raw KeyTimestamp) of
        None \<Rightarrow> Inl ErrMissingField
      | Some ts \<Rightarrow>
     (case asBytes (map_get raw KeySender) of
        None \<Rightarrow> Inl ErrMissingField
      | Some sender \<Rightarrow>
     if length sender \<noteq> IdentityLength then Inl ErrBadFieldLength
     else bindE (read_room raw (base_envelope typ msgID ts sender)) (\<lambda>e1.
          bindE (read_body raw e1) (\<lambda>e2.
          bindE (read_nick raw e2) (\<lambda>e3.
          read_destination raw e3))))))))"

definition UnmarshalEnvelope :: "cbor \<Rightarrow> bytes \<Rightarrow> rrc_error + Envelope" where
  "UnmarshalEnvelope C data =
     (if length data = 0 then Inl ErrInvalidEnvelope
      else if length data > MaxEnvelopeBytes then Inl ErrEnvelopeTooLarge
      else (case c_dec C data of Inl _ \<Rightarrow> Inl ErrInvalidEnvelope | Inr raw \<Rightarrow> envelope_of_map raw))"

subsection \<open>What decoding guarantees\<close>

text \<open>
  A well-formed envelope: the version, the fixed lengths, and absent optional fields at their
  zero value.
\<close>

definition env_ok :: "Envelope \<Rightarrow> bool" where
  "env_ok e \<longleftrightarrow> e_Version e = ProtocolVersion \<and> length (e_MsgID e) = MessageIDLength
     \<and> length (e_Sender e) = IdentityLength
     \<and> (if e_HasDestination e then length (e_Destination e) = IdentityLength else e_Destination e = [])
     \<and> (\<not> e_HasRoom e \<longrightarrow> e_Room e = []) \<and> (\<not> e_HasNick e \<longrightarrow> e_Nick e = [])
     \<and> (\<not> e_HasBody e \<longrightarrow> e_Body e = VNil)"

lemma base_envelope_sel [simp]:
  "e_Version (base_envelope t i ts s) = ProtocolVersion" "e_Type (base_envelope t i ts s) = t"
  "e_MsgID (base_envelope t i ts s) = i" "e_Timestamp (base_envelope t i ts s) = ts"
  "e_Sender (base_envelope t i ts s) = s" "e_Room (base_envelope t i ts s) = []"
  "e_Body (base_envelope t i ts s) = VNil" "e_Nick (base_envelope t i ts s) = []"
  "e_Destination (base_envelope t i ts s) = []" "\<not> e_HasRoom (base_envelope t i ts s)"
  "\<not> e_HasBody (base_envelope t i ts s)" "\<not> e_HasNick (base_envelope t i ts s)"
  "\<not> e_HasDestination (base_envelope t i ts s)"
  by (simp_all add: base_envelope_def)

lemma base_envelope_ok:
  "length i = MessageIDLength \<Longrightarrow> length s = IdentityLength \<Longrightarrow> env_ok (base_envelope t i ts s)"
  by (simp add: env_ok_def)

lemma env_ok_update:
  "env_ok e \<Longrightarrow> env_ok (e\<lparr>e_Room := s, e_HasRoom := True\<rparr>)"
  "env_ok e \<Longrightarrow> env_ok (e\<lparr>e_Body := v, e_HasBody := True\<rparr>)"
  "env_ok e \<Longrightarrow> env_ok (e\<lparr>e_Nick := s, e_HasNick := True\<rparr>)"
  "env_ok e \<Longrightarrow> length d = IdentityLength \<Longrightarrow> env_ok (e\<lparr>e_Destination := d, e_HasDestination := True\<rparr>)"
  by (simp_all add: env_ok_def)

lemma read_fields_ok:
  "env_ok e \<Longrightarrow> read_room raw e = Inr e' \<Longrightarrow> env_ok e'"
  "env_ok e \<Longrightarrow> read_body raw e = Inr e' \<Longrightarrow> env_ok e'"
  "env_ok e \<Longrightarrow> read_nick raw e = Inr e' \<Longrightarrow> env_ok e'"
  "env_ok e \<Longrightarrow> read_destination raw e = Inr e' \<Longrightarrow> env_ok e'"
  unfolding read_room_def read_body_def read_nick_def read_destination_def
  by (auto simp: env_ok_update split: option.splits if_splits)

lemma envelope_of_map_ok: "envelope_of_map raw = Inr e \<Longrightarrow> env_ok e"
  unfolding envelope_of_map_def
  by (auto simp: bindE_Inr_iff split: option.splits if_splits) (meson read_fields_ok base_envelope_ok)

lemma UnmarshalEnvelope_ok:
  "UnmarshalEnvelope C d = Inr e \<Longrightarrow> env_ok e \<and> 0 < length d \<and> length d \<le> MaxEnvelopeBytes"
  by (auto simp: UnmarshalEnvelope_def envelope_of_map_ok split: if_splits sum.splits)

lemma NewEnvelope_ok: "NewEnvelope now i t s = Inr e \<Longrightarrow> length i = MessageIDLength \<Longrightarrow> env_ok e"
  by (auto simp: NewEnvelope_def base_envelope_ok split: if_splits)

lemma envelopeFrom_ok: "envelopeFrom t s i ts = Inr e \<Longrightarrow> env_ok e"
  by (auto simp: envelopeFrom_def base_envelope_ok split: if_splits)

subsection \<open>Encoding and decoding\<close>

lemma map_of_envelope_map:
  "map_of (envelope_map e) KeyVersion = Some (VUint64 (e_Version e))"
  "map_of (envelope_map e) KeyType = Some (VUint64 (e_Type e))"
  "map_of (envelope_map e) KeyMsgID = Some (VBytes (e_MsgID e))"
  "map_of (envelope_map e) KeyTimestamp = Some (VUint64 (e_Timestamp e))"
  "map_of (envelope_map e) KeySender = Some (VBytes (e_Sender e))"
  "map_of (envelope_map e) KeyRoom = (if e_HasRoom e then Some (VString (e_Room e)) else None)"
  "map_of (envelope_map e) KeyBody = (if e_HasBody e then Some (e_Body e) else None)"
  "map_of (envelope_map e) KeyNick = (if e_HasNick e then Some (VString (e_Nick e)) else None)"
  "map_of (envelope_map e) KeyDestination =
     (if e_HasDestination e then Some (VBytes (e_Destination e)) else None)"
  by (simp_all add: envelope_map_def wire_simps)

text \<open>The envelope as the receiver sees it: the body has crossed the codec.\<close>

definition received :: "Envelope \<Rightarrow> Envelope" where
  "received e = e\<lparr>e_Body := wire_norm (e_Body e)\<rparr>"

lemma envelope_of_map_envelope_map:
  assumes ok: "env_ok e" and raw: "map_of raw = map_of (map (map_prod id wire_norm) (envelope_map e))"
  shows "envelope_of_map raw = Inr (received e)"
proof -
  have get: "map_of raw k = map_option wire_norm (map_of (envelope_map e) k)" for k
    by (simp add: raw map_of_wire_norm)
  have "envelope_of_map raw =
      bindE (read_room raw (base_envelope (e_Type e) (e_MsgID e) (e_Timestamp e) (e_Sender e))) (\<lambda>e1.
      bindE (read_body raw e1) (\<lambda>e2. bindE (read_nick raw e2) (\<lambda>e3. read_destination raw e3)))"
    using ok by (simp add: envelope_of_map_def map_get_def get map_of_envelope_map env_ok_def)
  also have "\<dots> = Inr (received e)"
    using ok
    by (simp add: read_room_def read_body_def read_nick_def read_destination_def get map_of_envelope_map
        env_ok_def received_def base_envelope_def)
  finally show ?thesis .
qed

lemma Marshal_ok:
  assumes "env_ok e"
  shows "Marshal C e = (case c_enc C (envelope_map e) of Inl t \<Rightarrow> Inl (ErrOther t) | Inr d \<Rightarrow> Inr d)"
  using assms by (auto simp: Marshal_def env_ok_def split: if_splits)

end
