(* ===== verification/RRC_Bodies.thy ===== *)
theory RRC_Bodies
  imports RRC_Envelope
begin

text \<open>
  \<^verbatim>\<open>pkg/rrc/bodies.go\<close>: the bodies of HELLO, WELCOME, JOINED and RESOURCE_ENVELOPE, each with its
  map form and its reader.  A nil map is \<^const>\<open>None\<close>.
\<close>

subsection \<open>HELLO\<close>

record HelloBody =
  hb_ClientName :: gostring
  hb_ClientVersion :: gostring
  hb_Capabilities :: "(uint64 \<times> val) list option"
  hb_HasName :: bool
  hb_HasVersion :: bool
  hb_HasCaps :: bool

definition empty_HelloBody :: HelloBody where
  "empty_HelloBody = \<lparr>hb_ClientName = [], hb_ClientVersion = [], hb_Capabilities = None,
     hb_HasName = False, hb_HasVersion = False, hb_HasCaps = False\<rparr>"

definition nil_if_empty :: "'a list \<Rightarrow> 'a list option" where
  "nil_if_empty m = (if m = [] then None else Some m)"

definition HelloBody_ToMap :: "HelloBody \<Rightarrow> (uint64 \<times> val) list option" where
  "HelloBody_ToMap h = nil_if_empty
     ((if hb_HasName h then [(HelloKeyClientName, VString (hb_ClientName h))] else [])
      @ (if hb_HasVersion h then [(HelloKeyClientVersion, VString (hb_ClientVersion h))] else [])
      @ (if hb_HasCaps h then
           (case hb_Capabilities h of None \<Rightarrow> [] | Some caps \<Rightarrow> [(HelloKeyCapabilities, VMapU caps)])
         else []))"

text \<open>The guarded reads \<^verbatim>\<open>if v, ok := raw[k]; ok { if s, ok := as(v); ok { ... } }\<close>.\<close>

definition opt_read :: "(val \<Rightarrow> 'a option) \<Rightarrow> (uint64 \<times> val) list \<Rightarrow> uint64 \<Rightarrow> 'a option" where
  "opt_read conv raw k = (case map_of raw k of None \<Rightarrow> None | Some v \<Rightarrow> conv v)"

definition ParseHelloBody :: "val \<Rightarrow> rrc_error + HelloBody" where
  "ParseHelloBody body =
     (if body = VNil then Inr empty_HelloBody
      else case coerceUintMap body of
        None \<Rightarrow> Inl ErrInvalidEnvelope
      | Some raw \<Rightarrow>
          let h0 = empty_HelloBody;
              h1 = (case opt_read asString raw HelloKeyClientName of
                      None \<Rightarrow> h0 | Some s \<Rightarrow> h0\<lparr>hb_ClientName := s, hb_HasName := True\<rparr>);
              h2 = (case opt_read asString raw HelloKeyClientVersion of
                      None \<Rightarrow> h1 | Some s \<Rightarrow> h1\<lparr>hb_ClientVersion := s, hb_HasVersion := True\<rparr>);
              h3 = (case opt_read coerceUintMap raw HelloKeyCapabilities of
                      None \<Rightarrow> h2 | Some caps \<Rightarrow> h2\<lparr>hb_Capabilities := Some caps, hb_HasCaps := True\<rparr>)
          in Inr h3)"

definition HelloLegacyNick :: "val \<Rightarrow> gostring" where
  "HelloLegacyNick body =
     (case coerceUintMap body of
        None \<Rightarrow> []
      | Some raw \<Rightarrow> (case opt_read asString raw HelloKeyNickLegacy of None \<Rightarrow> [] | Some s \<Rightarrow> s))"

subsection \<open>Limits and WELCOME\<close>

record HubLimits =
  MaxNickBytes :: uint64
  MaxRoomsPerSession :: uint64
  MaxRoomNameBytes :: uint64
  MaxMsgBodyBytes :: uint64
  RateLimitMsgsPerMinute :: uint64

definition zero_HubLimits :: HubLimits where
  "zero_HubLimits = \<lparr>MaxNickBytes = 0, MaxRoomsPerSession = 0, MaxRoomNameBytes = 0,
     MaxMsgBodyBytes = 0, RateLimitMsgsPerMinute = 0\<rparr>"

definition HubLimits_ToMap :: "HubLimits \<Rightarrow> (uint64 \<times> val) list" where
  "HubLimits_ToMap l =
     [(LimitMaxNickBytes, VUint64 (MaxNickBytes l)),
      (LimitMaxRoomNameBytes, VUint64 (MaxRoomNameBytes l)),
      (LimitMaxMsgBodyBytes, VUint64 (MaxMsgBodyBytes l)),
      (LimitMaxRoomsPerSession, VUint64 (MaxRoomsPerSession l)),
      (LimitRateLimitMsgsPerMinute, VUint64 (RateLimitMsgsPerMinute l))]"

definition limit_read :: "(uint64 \<times> val) list \<Rightarrow> uint64 \<Rightarrow> uint64" where
  "limit_read raw k = (case asUint64 (map_get raw k) of Some n \<Rightarrow> n | None \<Rightarrow> 0)"

definition ParseHubLimits :: "val \<Rightarrow> HubLimits option" where
  "ParseHubLimits v =
     (case coerceUintMap v of
        None \<Rightarrow> None
      | Some raw \<Rightarrow> Some
          \<lparr>MaxNickBytes = limit_read raw LimitMaxNickBytes,
           MaxRoomsPerSession = limit_read raw LimitMaxRoomsPerSession,
           MaxRoomNameBytes = limit_read raw LimitMaxRoomNameBytes,
           MaxMsgBodyBytes = limit_read raw LimitMaxMsgBodyBytes,
           RateLimitMsgsPerMinute = limit_read raw LimitRateLimitMsgsPerMinute\<rparr>)"

record WelcomeBody =
  wb_HubName :: gostring
  wb_HubVersion :: gostring
  wb_Capabilities :: "(uint64 \<times> val) list option"
  wb_Limits :: HubLimits
  wb_HasName :: bool
  wb_HasVersion :: bool
  wb_HasCaps :: bool
  wb_HasLimits :: bool

definition empty_WelcomeBody :: WelcomeBody where
  "empty_WelcomeBody = \<lparr>wb_HubName = [], wb_HubVersion = [], wb_Capabilities = None,
     wb_Limits = zero_HubLimits, wb_HasName = False, wb_HasVersion = False, wb_HasCaps = False,
     wb_HasLimits = False\<rparr>"

definition WelcomeBody_ToMap :: "WelcomeBody \<Rightarrow> (uint64 \<times> val) list option" where
  "WelcomeBody_ToMap w = nil_if_empty
     ((if wb_HasName w then [(WelcomeKeyHubName, VString (wb_HubName w))] else [])
      @ (if wb_HasVersion w then [(WelcomeKeyHubVersion, VString (wb_HubVersion w))] else [])
      @ (if wb_HasCaps w then
           (case wb_Capabilities w of None \<Rightarrow> [] | Some caps \<Rightarrow> [(WelcomeKeyCapabilities, VMapU caps)])
         else [])
      @ (if wb_HasLimits w then [(WelcomeKeyHubLimits, VMapU (HubLimits_ToMap (wb_Limits w)))] else []))"

definition ParseWelcomeBody :: "val \<Rightarrow> rrc_error + WelcomeBody" where
  "ParseWelcomeBody body =
     (if body = VNil then Inr empty_WelcomeBody
      else case coerceUintMap body of
        None \<Rightarrow> Inl ErrInvalidEnvelope
      | Some raw \<Rightarrow>
          let w0 = empty_WelcomeBody;
              w1 = (case opt_read asString raw WelcomeKeyHubName of
                      None \<Rightarrow> w0 | Some s \<Rightarrow> w0\<lparr>wb_HubName := s, wb_HasName := True\<rparr>);
              w2 = (case opt_read asString raw WelcomeKeyHubVersion of
                      None \<Rightarrow> w1 | Some s \<Rightarrow> w1\<lparr>wb_HubVersion := s, wb_HasVersion := True\<rparr>);
              w3 = (case opt_read coerceUintMap raw WelcomeKeyCapabilities of
                      None \<Rightarrow> w2 | Some caps \<Rightarrow> w2\<lparr>wb_Capabilities := Some caps, wb_HasCaps := True\<rparr>);
              w4 = (case opt_read ParseHubLimits raw WelcomeKeyHubLimits of
                      None \<Rightarrow> w3 | Some lims \<Rightarrow> w3\<lparr>wb_Limits := lims, wb_HasLimits := True\<rparr>)
          in Inr w4)"

subsection \<open>JOINED\<close>

fun ParseJoinedMembers :: "val \<Rightarrow> bytes list" where
  "ParseJoinedMembers (VArr arr) =
     concat (map (\<lambda>item. case asBytes item of
       None \<Rightarrow> [] | Some b \<Rightarrow> if length b \<noteq> IdentityLength then [] else [b]) arr)"
| "ParseJoinedMembers _ = []"

subsection \<open>Capabilities\<close>

definition DefaultHubCapabilities :: "bool \<Rightarrow> (uint64 \<times> val) list" where
  "DefaultHubCapabilities resourceEnvelope =
     (let caps = [(CapAction, VBool True), (CapDirectNotice, VBool True)]
      in if resourceEnvelope then AList.update CapResourceEnvelope (VBool True) caps else caps)"

subsection \<open>RESOURCE_ENVELOPE\<close>

record ResourceEnvelopeBody =
  rb_ID :: bytes
  rb_Kind :: gostring
  rb_Size :: uint64
  rb_SHA256 :: bytes
  rb_Encoding :: gostring
  rb_HasID :: bool
  rb_HasKind :: bool
  rb_HasSize :: bool
  rb_HasHash :: bool
  rb_HasEnc :: bool

definition empty_ResourceEnvelopeBody :: ResourceEnvelopeBody where
  "empty_ResourceEnvelopeBody = \<lparr>rb_ID = [], rb_Kind = [], rb_Size = 0, rb_SHA256 = [], rb_Encoding = [],
     rb_HasID = False, rb_HasKind = False, rb_HasSize = False, rb_HasHash = False, rb_HasEnc = False\<rparr>"

definition ResourceEnvelopeBody_ToMap :: "ResourceEnvelopeBody \<Rightarrow> (uint64 \<times> val) list option" where
  "ResourceEnvelopeBody_ToMap r = nil_if_empty
     ((if rb_HasID r then [(ResourceKeyID, VBytes (rb_ID r))] else [])
      @ (if rb_HasKind r then [(ResourceKeyKind, VString (rb_Kind r))] else [])
      @ (if rb_HasSize r then [(ResourceKeySize, VUint64 (rb_Size r))] else [])
      @ (if rb_HasHash r then [(ResourceKeySHA256, VBytes (rb_SHA256 r))] else [])
      @ (if rb_HasEnc r then [(ResourceKeyEncoding, VString (rb_Encoding r))] else []))"

definition ParseResourceEnvelopeBody :: "val \<Rightarrow> rrc_error + ResourceEnvelopeBody" where
  "ParseResourceEnvelopeBody body =
     (if body = VNil then Inr empty_ResourceEnvelopeBody
      else case coerceUintMap body of
        None \<Rightarrow> Inl ErrInvalidEnvelope
      | Some raw \<Rightarrow>
          let r0 = empty_ResourceEnvelopeBody;
              r1 = (case opt_read asBytes raw ResourceKeyID of
                      None \<Rightarrow> r0 | Some b \<Rightarrow> r0\<lparr>rb_ID := b, rb_HasID := True\<rparr>);
              r2 = (case opt_read asString raw ResourceKeyKind of
                      None \<Rightarrow> r1 | Some s \<Rightarrow> r1\<lparr>rb_Kind := s, rb_HasKind := True\<rparr>);
              r3 = (case opt_read asUint64 raw ResourceKeySize of
                      None \<Rightarrow> r2 | Some n \<Rightarrow> r2\<lparr>rb_Size := n, rb_HasSize := True\<rparr>);
              r4 = (case opt_read asBytes raw ResourceKeySHA256 of
                      None \<Rightarrow> r3 | Some b \<Rightarrow> r3\<lparr>rb_SHA256 := b, rb_HasHash := True\<rparr>);
              r5 = (case opt_read asString raw ResourceKeyEncoding of
                      None \<Rightarrow> r4 | Some s \<Rightarrow> r4\<lparr>rb_Encoding := s, rb_HasEnc := True\<rparr>)
          in Inr r5)"

text \<open>A present field of the wrong type.\<close>

definition bad_field :: "(val \<Rightarrow> 'a option) \<Rightarrow> (uint64 \<times> val) list \<Rightarrow> uint64 \<Rightarrow> bool" where
  "bad_field conv raw k = (case map_of raw k of None \<Rightarrow> False | Some v \<Rightarrow> conv v = None)"

text \<open>The result is the parsed body (\<^const>\<open>None\<close> is nil) and the reason, empty when the body is valid.\<close>

definition ValidateResourceEnvelopeBody :: "val \<Rightarrow> ResourceEnvelopeBody option \<times> string" where
  "ValidateResourceEnvelopeBody body =
     (case coerceUintMap body of
        None \<Rightarrow> (None, ''invalid resource envelope body'')
      | Some raw \<Rightarrow>
          if bad_field asBytes raw ResourceKeyID then (None, ''resource envelope missing id'')
          else if bad_field asString raw ResourceKeyKind then (None, ''resource envelope missing kind'')
          else if bad_field asUint64 raw ResourceKeySize then (None, ''resource envelope invalid size'')
          else if (case map_of raw ResourceKeySHA256 of
                     None \<Rightarrow> False | Some v \<Rightarrow> v \<noteq> VNil \<and> asBytes v = None)
          then (None, ''resource envelope invalid sha256'')
          else (case ParseResourceEnvelopeBody body of
                  Inl _ \<Rightarrow> (None, ''invalid resource envelope body'')
                | Inr parsed \<Rightarrow>
                    if \<not> rb_HasID parsed \<or> rb_ID parsed = [] then (Some parsed, ''resource envelope missing id'')
                    else if \<not> rb_HasKind parsed \<or> rb_Kind parsed = [] then (Some parsed, ''resource envelope missing kind'')
                    else if \<not> rb_HasSize parsed then (Some parsed, ''resource envelope invalid size'')
                    else (Some parsed, [])))"

subsection \<open>Sizes\<close>

text \<open>The length of an encoding fits an \<^verbatim>\<open>int\<close>, which is never negative.\<close>

fun BodySizeBytes :: "cbor \<Rightarrow> val \<Rightarrow> uint64" where
  "BodySizeBytes C VNil = 0"
| "BodySizeBytes C (VString s) = word_of_nat (length s)"
| "BodySizeBytes C (VBytes b) = word_of_nat (length b)"
| "BodySizeBytes C v = (case c_size C v of None \<Rightarrow> - 1 | Some n \<Rightarrow> word_of_nat n)"

subsection \<open>Round trips\<close>

lemma opt_read_norm:
  "(\<And>v. conv (wire_norm v) = conv v) \<Longrightarrow> opt_read conv (norm_map m) k = opt_read conv m k"
  by (simp add: opt_read_def split: option.split)

lemmas opt_read_norms =
  opt_read_norm [of asString, OF asString_wire_norm]
  opt_read_norm [of asBytes, OF asBytes_wire_norm]
  opt_read_norm [of asUint64, OF asUint64_wire_norm]

text \<open>
  The fields a flag declares absent are at their zero value, and a capability map has distinct keys:
  what every value the parsers build satisfies.
\<close>

definition caps_ok :: "bool \<Rightarrow> (uint64 \<times> val) list option \<Rightarrow> bool" where
  "caps_ok has caps = (case caps of None \<Rightarrow> \<not> has | Some m \<Rightarrow> has \<and> distinct (map fst m))"

definition hello_ok :: "HelloBody \<Rightarrow> bool" where
  "hello_ok h \<longleftrightarrow> (\<not> hb_HasName h \<longrightarrow> hb_ClientName h = []) \<and> (\<not> hb_HasVersion h \<longrightarrow> hb_ClientVersion h = [])
     \<and> caps_ok (hb_HasCaps h) (hb_Capabilities h)"

definition welcome_ok :: "WelcomeBody \<Rightarrow> bool" where
  "welcome_ok w \<longleftrightarrow> (\<not> wb_HasName w \<longrightarrow> wb_HubName w = []) \<and> (\<not> wb_HasVersion w \<longrightarrow> wb_HubVersion w = [])
     \<and> (\<not> wb_HasLimits w \<longrightarrow> wb_Limits w = zero_HubLimits) \<and> caps_ok (wb_HasCaps w) (wb_Capabilities w)"

definition resource_ok :: "ResourceEnvelopeBody \<Rightarrow> bool" where
  "resource_ok r \<longleftrightarrow> (\<not> rb_HasID r \<longrightarrow> rb_ID r = []) \<and> (\<not> rb_HasKind r \<longrightarrow> rb_Kind r = [])
     \<and> (\<not> rb_HasSize r \<longrightarrow> rb_Size r = 0) \<and> (\<not> rb_HasHash r \<longrightarrow> rb_SHA256 r = [])
     \<and> (\<not> rb_HasEnc r \<longrightarrow> rb_Encoding r = [])"

lemma coerce_norm_ToMap:
  "nil_if_empty l = Some m \<Longrightarrow> distinct (map fst l) \<Longrightarrow> coerceUintMap (wire_norm (VMapU m)) = Some (norm_map m)"
  by (auto simp: nil_if_empty_def coerce_norm_map simp del: wire_norm.simps split: if_splits)

lemma ParseHubLimits_ToMap: "ParseHubLimits (wire_norm (VMapU (HubLimits_ToMap l))) = Some l"
proof -
  have "distinct (map fst (HubLimits_ToMap l))" by (simp add: HubLimits_ToMap_def wire_simps)
  then show ?thesis
    by (simp add: ParseHubLimits_def coerce_norm_map limit_read_def map_get_def del: wire_norm.simps)
      (simp add: HubLimits_ToMap_def wire_simps)
qed

text \<open>The capabilities as they come back.\<close>

definition received_caps :: "(uint64 \<times> val) list option \<Rightarrow> (uint64 \<times> val) list option" where
  "received_caps = map_option norm_map"

lemma opt_read_caps:
  assumes "map_of m k = map_option VMapU caps" and "caps_ok has caps"
  shows "opt_read coerceUintMap (norm_map m) k = received_caps caps"
  using assms
  by (cases caps) (simp_all add: opt_read_def received_caps_def caps_ok_def coerce_norm_map del: wire_norm.simps)

lemma ParseHelloBody_ToMap:
  assumes ok: "hello_ok h" and m: "HelloBody_ToMap h = Some m"
  shows "ParseHelloBody (wire_norm (VMapU m)) = Inr (h\<lparr>hb_Capabilities := received_caps (hb_Capabilities h)\<rparr>)"
proof -
  have caps: "caps_ok (hb_HasCaps h) (hb_Capabilities h)" using ok by (simp add: hello_ok_def)
  have co: "coerceUintMap (wire_norm (VMapU m)) = Some (norm_map m)"
    using m unfolding HelloBody_ToMap_def
    by (rule coerce_norm_ToMap) (cases "hb_Capabilities h"; cases "hb_HasCaps h"; cases "hb_HasVersion h"; simp add: wire_simps)
  have m': "map_of m HelloKeyClientName = (if hb_HasName h then Some (VString (hb_ClientName h)) else None)"
    "map_of m HelloKeyClientVersion = (if hb_HasVersion h then Some (VString (hb_ClientVersion h)) else None)"
    "map_of m HelloKeyCapabilities = map_option VMapU (hb_Capabilities h)"
    using m caps
    by (auto simp: HelloBody_ToMap_def nil_if_empty_def wire_simps caps_ok_def split: option.splits if_splits)
  have r: "opt_read asString m HelloKeyClientName = (if hb_HasName h then Some (hb_ClientName h) else None)"
    "opt_read asString m HelloKeyClientVersion = (if hb_HasVersion h then Some (hb_ClientVersion h) else None)"
    by (simp_all add: opt_read_def m')
  have "ParseHelloBody (wire_norm (VMapU m)) = Inr
      \<lparr>hb_ClientName = hb_ClientName h, hb_ClientVersion = hb_ClientVersion h,
       hb_Capabilities = received_caps (hb_Capabilities h),
       hb_HasName = hb_HasName h, hb_HasVersion = hb_HasVersion h, hb_HasCaps = hb_HasCaps h\<rparr>"
    using ok opt_read_caps [OF m'(3) caps]
    by (cases "hb_Capabilities h")
      (simp_all add: ParseHelloBody_def co opt_read_norms r hello_ok_def caps_ok_def empty_HelloBody_def
        received_caps_def del: wire_norm.simps)
  then show ?thesis by simp
qed

lemma ParseWelcomeBody_ToMap:
  assumes ok: "welcome_ok w" and m: "WelcomeBody_ToMap w = Some m"
  shows "ParseWelcomeBody (wire_norm (VMapU m)) = Inr (w\<lparr>wb_Capabilities := received_caps (wb_Capabilities w)\<rparr>)"
proof -
  have caps: "caps_ok (wb_HasCaps w) (wb_Capabilities w)" using ok by (simp add: welcome_ok_def)
  have co: "coerceUintMap (wire_norm (VMapU m)) = Some (norm_map m)"
    using m unfolding WelcomeBody_ToMap_def
    by (rule coerce_norm_ToMap) (cases "wb_Capabilities w"; cases "wb_HasCaps w"; cases "wb_HasVersion w"; cases "wb_HasLimits w"; simp add: wire_simps)
  have m': "map_of m WelcomeKeyHubName = (if wb_HasName w then Some (VString (wb_HubName w)) else None)"
    "map_of m WelcomeKeyHubVersion = (if wb_HasVersion w then Some (VString (wb_HubVersion w)) else None)"
    "map_of m WelcomeKeyCapabilities = map_option VMapU (wb_Capabilities w)"
    "map_of m WelcomeKeyHubLimits =
       (if wb_HasLimits w then Some (VMapU (HubLimits_ToMap (wb_Limits w))) else None)"
    using m caps
    by (auto simp: WelcomeBody_ToMap_def nil_if_empty_def wire_simps caps_ok_def split: option.splits if_splits)
  have lims: "opt_read ParseHubLimits (norm_map m) WelcomeKeyHubLimits
      = (if wb_HasLimits w then Some (wb_Limits w) else None)"
    by (simp add: opt_read_def m' ParseHubLimits_ToMap del: wire_norm.simps)
  have r: "opt_read asString m WelcomeKeyHubName = (if wb_HasName w then Some (wb_HubName w) else None)"
    "opt_read asString m WelcomeKeyHubVersion = (if wb_HasVersion w then Some (wb_HubVersion w) else None)"
    by (simp_all add: opt_read_def m')
  have "ParseWelcomeBody (wire_norm (VMapU m)) = Inr
      \<lparr>wb_HubName = wb_HubName w, wb_HubVersion = wb_HubVersion w,
       wb_Capabilities = received_caps (wb_Capabilities w), wb_Limits = wb_Limits w,
       wb_HasName = wb_HasName w, wb_HasVersion = wb_HasVersion w, wb_HasCaps = wb_HasCaps w,
       wb_HasLimits = wb_HasLimits w\<rparr>"
    using ok opt_read_caps [OF m'(3) caps]
    by (cases "wb_Capabilities w")
      (simp_all add: ParseWelcomeBody_def co lims opt_read_norms r welcome_ok_def caps_ok_def
        empty_WelcomeBody_def received_caps_def del: wire_norm.simps)
  then show ?thesis by simp
qed

lemma ParseResourceEnvelopeBody_ToMap:
  assumes ok: "resource_ok r" and m: "ResourceEnvelopeBody_ToMap r = Some m"
  shows "ParseResourceEnvelopeBody (wire_norm (VMapU m)) = Inr r"
proof -
  have co: "coerceUintMap (wire_norm (VMapU m)) = Some (norm_map m)"
    using m unfolding ResourceEnvelopeBody_ToMap_def
    by (rule coerce_norm_ToMap) (simp add: wire_simps)
  have m': "map_of m ResourceKeyID = (if rb_HasID r then Some (VBytes (rb_ID r)) else None)"
    "map_of m ResourceKeyKind = (if rb_HasKind r then Some (VString (rb_Kind r)) else None)"
    "map_of m ResourceKeySize = (if rb_HasSize r then Some (VUint64 (rb_Size r)) else None)"
    "map_of m ResourceKeySHA256 = (if rb_HasHash r then Some (VBytes (rb_SHA256 r)) else None)"
    "map_of m ResourceKeyEncoding = (if rb_HasEnc r then Some (VString (rb_Encoding r)) else None)"
    using m by (auto simp: ResourceEnvelopeBody_ToMap_def nil_if_empty_def wire_simps split: if_splits)
  show ?thesis
    using ok
    by (simp add: ParseResourceEnvelopeBody_def co opt_read_norms del: wire_norm.simps)
      (simp add: opt_read_def m' resource_ok_def empty_ResourceEnvelopeBody_def)
qed

end
