(* ===== verification/RRC_Hub.thy ===== *)
theory RRC_Hub
  imports RRC_Bodies
begin

text \<open>
  \<^verbatim>\<open>pkg/rrc/session.go\<close>, \<^verbatim>\<open>hub.go\<close>, \<^verbatim>\<open>hub_ops.go\<close> and \<^verbatim>\<open>policy.go\<close>: the hub, its sessions and every
  handler, in the order of the code.

  \<^item> \<open>hubPeer\<close> holds the fields of \<^verbatim>\<open>hubPeer\<close>, of its \<^verbatim>\<open>session\<close> (nick, closed) and what the hub sees
    of the link below (up or down, the remote identity).  Go's pointers to \<^verbatim>\<open>hubPeer\<close> are
    connection numbers; \<open>h_objs\<close> is the store.  A number is used for one connection only.
  \<^item> \<open>Hub\<close> is \<^verbatim>\<open>Hub\<close>: the peers by identity, the members of each room, the nickname index.
  \<^item> \<open>world\<close> adds what the handlers touch outside the hub: the clock (nanoseconds), the random
    source, the packets handed to the links, the calls of the configured handlers, and the state of
    the policy.
  \<^item> \<open>hub_env\<close> is what the code imports: the CBOR library, the case table, \<^verbatim>\<open>link.SendPacket\<close>.
  \<^item> \<open>hub_policy\<close> is the interface \<^verbatim>\<open>HubPolicy\<close>; a nil policy is \<^const>\<open>None\<close>.

  Each operation runs to its end before the next one starts, as under the hub's lock; the rate
  bucket, a \<^verbatim>\<open>float64\<close> in the code, is an exact rational here.
\<close>

subsection \<open>State\<close>

type_synonym peerID = bytes
type_synonym conn = nat

record hubPeer =
  p_nick :: gostring
  p_closed :: bool
  p_hash :: bytes
  p_active :: bool
  p_rooms :: "gostring list"
  p_tokens :: rat
  p_lastRefill :: int
  p_pending :: "Envelope option"
  p_once :: bool
  l_up :: bool
  l_remote :: "bytes option"

record HubConfig =
  cfg_Name :: gostring
  cfg_Version :: gostring
  cfg_Limits :: HubLimits
  cfg_IncludeMemberList :: bool
  cfg_EnableResourceTransfer :: bool
  cfg_MaxResourceBytes :: uint64
  cfg_Capabilities :: "(uint64 \<times> val) list option"

record Hub =
  h_sender :: bytes
  h_cfg :: HubConfig
  h_peers :: "(peerID \<times> conn) list"
  h_rooms :: "(gostring \<times> peerID list) list"
  h_nickIndex :: "(gostring \<times> peerID list) list"
  h_objs :: "conn \<Rightarrow> hubPeer"
  h_next :: conn
  h_started :: bool

text \<open>The calls of \<^verbatim>\<open>HubHandlers\<close> and of the three counters of \<^verbatim>\<open>HubConfig\<close>.\<close>

datatype hub_event =
    EvHello bytes "HelloBody option" Envelope
  | EvJoin bytes gostring Envelope
  | EvPart bytes gostring Envelope
  | EvMsg bytes Envelope
  | EvResource bytes Envelope
  | EvClose bytes
  | EvInboundBytes nat
  | EvBadPacket rrc_error
  | EvRateLimited

record 's world =
  w_hub :: Hub
  w_now :: int
  w_rand :: "nat \<Rightarrow> bytes"
  w_draws :: nat
  w_out :: "(conn \<times> bytes) list"
  w_log :: "hub_event list"
  w_pol :: 's

record hub_env =
  x_cbor :: cbor
  x_lower :: "rune \<Rightarrow> rune"
  x_send :: "conn \<Rightarrow> bytes \<Rightarrow> rrc_error option"

text \<open>An error of the policy is its text, which the hub sends back.\<close>

record 's hub_policy =
  pol_OnLink :: "conn \<Rightarrow> 's world \<Rightarrow> 's world"
  pol_OnIdentified :: "bytes \<Rightarrow> 's world \<Rightarrow> 's world \<times> string option"
  pol_AfterWelcome :: "bytes \<Rightarrow> 's world \<Rightarrow> 's world"
  pol_AllowJoin :: "bytes \<Rightarrow> gostring \<Rightarrow> val \<Rightarrow> 's world \<Rightarrow> 's world \<times> string option"
  pol_AfterJoin :: "bytes \<Rightarrow> gostring \<Rightarrow> 's world \<Rightarrow> 's world"
  pol_AfterPart :: "bytes \<Rightarrow> gostring \<Rightarrow> 's world \<Rightarrow> 's world"
  pol_AllowContent :: "bytes \<Rightarrow> Envelope \<Rightarrow> 's world \<Rightarrow> 's world \<times> string option"
  pol_Intercept :: "bytes \<Rightarrow> Envelope \<Rightarrow> 's world \<Rightarrow> 's world \<times> bool"
  pol_OnPong :: "bytes \<Rightarrow> 's world \<Rightarrow> 's world"
  pol_OnResourceEnvelope :: "bytes \<Rightarrow> Envelope \<Rightarrow> 's world \<Rightarrow> 's world \<times> string option"

definition applyDefaults :: "HubConfig \<Rightarrow> HubConfig" where
  "applyDefaults c =
     (let l = cfg_Limits c;
          dflt = (\<lambda>v d. if v = (0 :: uint64) then d else v)
      in c\<lparr>cfg_Name := (if cfg_Name c = [] then ''reticulum-go-protocols'' else cfg_Name c),
           cfg_Version := (if cfg_Version c = [] then ''0.1.0'' else cfg_Version c),
           cfg_Limits :=
             \<lparr>MaxNickBytes = dflt (MaxNickBytes l) DefaultMaxNickBytes,
              MaxRoomsPerSession = dflt (MaxRoomsPerSession l) DefaultMaxRoomsPerSession,
              MaxRoomNameBytes = dflt (MaxRoomNameBytes l) DefaultMaxRoomNameBytes,
              MaxMsgBodyBytes = dflt (MaxMsgBodyBytes l) DefaultMaxMsgBodyBytes,
              RateLimitMsgsPerMinute = dflt (RateLimitMsgsPerMinute l) DefaultRateLimitMsgsPerMinute\<rparr>,
           cfg_MaxResourceBytes := dflt (cfg_MaxResourceBytes c) DefaultMaxResourceBytes\<rparr>)"

text \<open>A connection number not handed out yet.\<close>

definition blank_peer :: hubPeer where
  "blank_peer = \<lparr>p_nick = [], p_closed = False, p_hash = [], p_active = False, p_rooms = [], p_tokens = 0,
     p_lastRefill = 0, p_pending = None, p_once = False, l_up = False, l_remote = None\<rparr>"

definition NewHub :: "bytes \<Rightarrow> HubConfig \<Rightarrow> Hub" where
  "NewHub idHash cfg =
     \<lparr>h_sender = idHash, h_cfg = applyDefaults cfg, h_peers = [], h_rooms = [], h_nickIndex = [],
      h_objs = (\<lambda>_. blank_peer), h_next = 0, h_started = False\<rparr>"

definition upd_obj :: "conn \<Rightarrow> (hubPeer \<Rightarrow> hubPeer) \<Rightarrow> Hub \<Rightarrow> Hub" where
  "upd_obj i f h = h\<lparr>h_objs := (h_objs h)(i := f (h_objs h i))\<rparr>"

definition with_hub :: "(Hub \<Rightarrow> Hub) \<Rightarrow> 's world \<Rightarrow> 's world" where
  "with_hub f w = w\<lparr>w_hub := f (w_hub w)\<rparr>"

abbreviation obj :: "'s world \<Rightarrow> conn \<Rightarrow> hubPeer" where
  "obj w i \<equiv> h_objs (w_hub w) i"

abbreviation log_event :: "hub_event \<Rightarrow> 's world \<Rightarrow> 's world" where
  "log_event e w \<equiv> w\<lparr>w_log := w_log w @ [e]\<rparr>"

definition peerKey :: "bytes \<Rightarrow> peerID" where
  "peerKey hash = (if length hash = IdentityLength then hash else replicate IdentityLength 0)"

subsection \<open>Sessions\<close>

definition sendRaw :: "hub_env \<Rightarrow> conn \<Rightarrow> bytes \<Rightarrow> 's world \<Rightarrow> 's world \<times> rrc_error option" where
  "sendRaw X i raw w =
     (if p_closed (obj w i) \<or> \<not> l_up (obj w i) then (w, Some ErrLinkInactive)
      else case x_send X i raw of
        Some e \<Rightarrow> (w, Some e)
      | None \<Rightarrow> (w\<lparr>w_out := w_out w @ [(i, raw)]\<rparr>, None))"

definition sendEnvelope :: "hub_env \<Rightarrow> conn \<Rightarrow> Envelope \<Rightarrow> 's world \<Rightarrow> 's world \<times> rrc_error option" where
  "sendEnvelope X i env w =
     (case Marshal (x_cbor X) env of Inl e \<Rightarrow> (w, Some e) | Inr raw \<Rightarrow> sendRaw X i raw w)"

text \<open>The optional fields \<^verbatim>\<open>marshalType\<close> sets: an empty room, a nil body and an empty nick stay out.\<close>

definition type_envelope :: "Envelope \<Rightarrow> gostring \<Rightarrow> val \<Rightarrow> gostring \<Rightarrow> Envelope" where
  "type_envelope env0 room body nick =
     (let env1 = (if room \<noteq> [] then env0\<lparr>e_Room := room, e_HasRoom := True\<rparr> else env0);
          env2 = (if body \<noteq> VNil then env1\<lparr>e_Body := body, e_HasBody := True\<rparr> else env1)
      in if nick \<noteq> [] then env2\<lparr>e_Nick := nick, e_HasNick := True\<rparr> else env2)"

definition marshalType ::
  "hub_env \<Rightarrow> bytes \<Rightarrow> uint64 \<Rightarrow> gostring \<Rightarrow> val \<Rightarrow> gostring \<Rightarrow> 's world \<Rightarrow> 's world \<times> (rrc_error + bytes)" where
  "marshalType X sender msgType room body nick w =
     (case NewEnvelope (w_now w) (w_rand w (w_draws w)) msgType sender of
        Inl e \<Rightarrow> (w, Inl e)
      | Inr env \<Rightarrow> (w\<lparr>w_draws := Suc (w_draws w)\<rparr>, Marshal (x_cbor X) (type_envelope env room body nick)))"

definition sendType ::
  "hub_env \<Rightarrow> conn \<Rightarrow> uint64 \<Rightarrow> gostring \<Rightarrow> val \<Rightarrow> gostring \<Rightarrow> 's world \<Rightarrow> 's world \<times> rrc_error option" where
  "sendType X i msgType room body nick w =
     (case marshalType X (h_sender (w_hub w)) msgType room body nick w of
        (w1, Inl e) \<Rightarrow> (w1, Some e)
      | (w1, Inr raw) \<Rightarrow> sendRaw X i raw w1)"

text \<open>\<^verbatim>\<open>_ = ...\<close>: the error is dropped.\<close>

definition send_type :: "hub_env \<Rightarrow> conn \<Rightarrow> uint64 \<Rightarrow> gostring \<Rightarrow> val \<Rightarrow> gostring \<Rightarrow> 's world \<Rightarrow> 's world" where
  "send_type X i msgType room body nick w = fst (sendType X i msgType room body nick w)"

definition replyError :: "hub_env \<Rightarrow> conn \<Rightarrow> string \<Rightarrow> 's world \<Rightarrow> 's world" where
  "replyError X i msg w = send_type X i TypeError [] (VString msg) [] w"

primrec send_all :: "hub_env \<Rightarrow> conn list \<Rightarrow> bytes \<Rightarrow> 's world \<Rightarrow> 's world" where
  "send_all X [] raw w = w"
| "send_all X (i # is) raw w = send_all X is raw (fst (sendRaw X i raw w))"

text \<open>One packet for several peers; nothing is sent when it cannot be encoded.\<close>

definition broadcast ::
  "hub_env \<Rightarrow> conn list \<Rightarrow> uint64 \<Rightarrow> gostring \<Rightarrow> val \<Rightarrow> gostring \<Rightarrow> 's world \<Rightarrow> 's world" where
  "broadcast X peers msgType room body nick w =
     (case marshalType X (h_sender (w_hub w)) msgType room body nick w of
        (w1, Inl _) \<Rightarrow> w1
      | (w1, Inr raw) \<Rightarrow> send_all X peers raw w1)"

subsection \<open>Membership and the nickname index\<close>

definition activePeers :: "Hub \<Rightarrow> peerID list \<Rightarrow> conn list" where
  "activePeers h ids = filter (\<lambda>i. p_active (h_objs h i)) (List.map_filter (map_of (h_peers h)) ids)"

definition roomPeersLocked :: "Hub \<Rightarrow> gostring \<Rightarrow> peerID \<Rightarrow> conn list" where
  "roomPeersLocked h room exceptKey = activePeers h (filter (\<lambda>pk. pk \<noteq> exceptKey) (assoc_set (h_rooms h) room))"

definition nickKey :: "(rune \<Rightarrow> rune) \<Rightarrow> gostring \<Rightarrow> gostring" where
  "nickKey ul nick = ToLower ul (TrimSpace nick)"

definition unindexNickLocked :: "(rune \<Rightarrow> rune) \<Rightarrow> peerID \<Rightarrow> gostring \<Rightarrow> Hub \<Rightarrow> Hub" where
  "unindexNickLocked ul pid nick h =
     (let n = nickKey ul nick
      in if n = [] then h else h\<lparr>h_nickIndex := set_remove n pid (h_nickIndex h)\<rparr>)"

definition reindexNick :: "(rune \<Rightarrow> rune) \<Rightarrow> peerID \<Rightarrow> gostring \<Rightarrow> gostring \<Rightarrow> Hub \<Rightarrow> Hub" where
  "reindexNick ul pid oldNick newNick h =
     (let h1 = unindexNickLocked ul pid oldNick h;
          n = nickKey ul newNick
      in if n = [] then h1 else h1\<lparr>h_nickIndex := set_add n pid (h_nickIndex h1)\<rparr>)"

definition join_room :: "conn \<Rightarrow> peerID \<Rightarrow> gostring \<Rightarrow> Hub \<Rightarrow> Hub" where
  "join_room i key room h =
     upd_obj i (\<lambda>p. p\<lparr>p_rooms := List.insert room (p_rooms p)\<rparr>)
       (h\<lparr>h_rooms := set_add room key (h_rooms h)\<rparr>)"

definition leave_room :: "conn \<Rightarrow> peerID \<Rightarrow> gostring \<Rightarrow> Hub \<Rightarrow> Hub" where
  "leave_room i key room h =
     upd_obj i (\<lambda>p. p\<lparr>p_rooms := removeAll room (p_rooms p)\<rparr>)
       (h\<lparr>h_rooms := set_remove room key (h_rooms h)\<rparr>)"

text \<open>Leaving the rooms of a peer that is taken over: only the index of the hub changes.\<close>

definition unlist_rooms :: "peerID \<Rightarrow> gostring list \<Rightarrow> Hub \<Rightarrow> Hub" where
  "unlist_rooms key rooms h = h\<lparr>h_rooms := fold (\<lambda>room. set_remove room key) rooms (h_rooms h)\<rparr>"

subsection \<open>Closing a session\<close>

text \<open>The rooms of a dropped peer, each with the peers to tell.\<close>

primrec drop_notes :: "peerID \<Rightarrow> gostring list \<Rightarrow> Hub \<Rightarrow> (gostring \<times> conn list) list" where
  "drop_notes key [] h = []"
| "drop_notes key (room # rooms) h =
     (room, roomPeersLocked h room key)
       # drop_notes key rooms (h\<lparr>h_rooms := set_remove room key (h_rooms h)\<rparr>)"

primrec send_notes :: "hub_env \<Rightarrow> val \<Rightarrow> gostring \<Rightarrow> (gostring \<times> conn list) list \<Rightarrow> 's world \<Rightarrow> 's world" where
  "send_notes X body nick [] w = w"
| "send_notes X body nick (n # notes) w =
     send_notes X body nick notes (broadcast X (snd n) TypeParted (fst n) body nick w)"

definition presenceBody :: "Hub \<Rightarrow> bytes \<Rightarrow> val" where
  "presenceBody h peer = (if cfg_IncludeMemberList (h_cfg h) then VArr [VBytes peer] else VNil)"

definition drop_core :: "(rune \<Rightarrow> rune) \<Rightarrow> conn \<Rightarrow> Hub \<Rightarrow> Hub" where
  "drop_core ul i h =
     (let p = h_objs h i; key = peerKey (p_hash p);
          h1 = h\<lparr>h_peers := AList.delete key (h_peers h)\<rparr>;
          h2 = unindexNickLocked ul key (p_nick p) h1;
          h3 = unlist_rooms key (p_rooms p) h2
      in upd_obj i (\<lambda>p. p\<lparr>p_rooms := []\<rparr>) h3)"

definition dropPeerIf :: "hub_env \<Rightarrow> conn \<Rightarrow> 's world \<Rightarrow> 's world" where
  "dropPeerIf X i w =
     (let h = w_hub w; p = h_objs h i; key = peerKey (p_hash p)
      in if p_hash p = [] then w
         else if map_of (h_peers h) key \<noteq> Some i then w
         else
           let notes = drop_notes key (p_rooms p) (h\<lparr>h_peers := AList.delete key (h_peers h)\<rparr>);
               w1 = with_hub (drop_core (x_lower X) i) w;
               w2 = send_notes X (presenceBody h (p_hash p)) (p_nick p) notes w1
           in log_event (EvClose (p_hash p)) w2)"

definition close :: "hub_env \<Rightarrow> conn \<Rightarrow> 's world \<Rightarrow> 's world" where
  "close X i w =
     (if p_closed (obj w i) then w
      else dropPeerIf X i (with_hub (upd_obj i (\<lambda>p. p\<lparr>p_closed := True, l_up := False\<rparr>)) w))"

subsection \<open>Rate and nickname\<close>

text \<open>The refill of the bucket over an elapsed time, capped.\<close>

definition refill :: "uint64 \<Rightarrow> rat \<Rightarrow> int \<Rightarrow> rat" where
  "refill limit tokens dt =
     (let tokenCap = of_nat (unat limit);
          elapsed = (if dt < 0 then 0 else of_int dt / 1000000000)
      in min tokenCap (tokens + elapsed * (tokenCap / 60)))"

definition takeToken :: "conn \<Rightarrow> 's world \<Rightarrow> 's world \<times> bool" where
  "takeToken i w =
     (let limit = RateLimitMsgsPerMinute (cfg_Limits (h_cfg (w_hub w))); p = obj w i;
          t = refill limit (p_tokens p) (w_now w - p_lastRefill p)
      in if limit = 0 then (w, True)
         else if t < 1
         then (with_hub (upd_obj i (\<lambda>p. p\<lparr>p_tokens := t, p_lastRefill := w_now w\<rparr>)) w, False)
         else (with_hub (upd_obj i (\<lambda>p. p\<lparr>p_tokens := t - 1, p_lastRefill := w_now w\<rparr>)) w, True))"

definition applyInboundNick :: "hub_env \<Rightarrow> conn \<Rightarrow> gostring \<Rightarrow> 's world \<Rightarrow> 's world \<times> rrc_error option" where
  "applyInboundNick X i nick0 w =
     (let nick = SanitizeNick nick0; p = obj w i
      in if nick = [] then (w, None)
         else if word_of_nat (length nick) > MaxNickBytes (cfg_Limits (h_cfg (w_hub w))) then (w, Some ErrNickTooLong)
         else if nick = p_nick p then (w, None)
         else
           let w1 = with_hub (upd_obj i (\<lambda>p. p\<lparr>p_nick := SanitizeNick nick\<rparr>)) w
           in (if length (p_hash p) = IdentityLength
               then (with_hub (reindexNick (x_lower X) (peerKey (p_hash p)) (p_nick p) nick) w1, None)
               else (w1, None)))"

subsection \<open>Handlers\<close>

definition policy_call :: "'s hub_policy option \<Rightarrow> ('s hub_policy \<Rightarrow> 's world \<Rightarrow> 's world) \<Rightarrow> 's world \<Rightarrow> 's world" where
  "policy_call P f w = (case P of None \<Rightarrow> w | Some pol \<Rightarrow> f pol w)"

definition policy_check ::
  "'s hub_policy option \<Rightarrow> ('s hub_policy \<Rightarrow> 's world \<Rightarrow> 's world \<times> string option) \<Rightarrow> 's world \<Rightarrow> 's world \<times> string option" where
  "policy_check P f w = (case P of None \<Rightarrow> (w, None) | Some pol \<Rightarrow> f pol w)"

definition welcome_body :: "HubConfig \<Rightarrow> WelcomeBody" where
  "welcome_body cfg =
     \<lparr>wb_HubName = cfg_Name cfg, wb_HubVersion = cfg_Version cfg,
      wb_Capabilities = (case cfg_Capabilities cfg of
         None \<Rightarrow> Some (DefaultHubCapabilities (cfg_EnableResourceTransfer cfg)) | Some caps \<Rightarrow> Some caps),
      wb_Limits = cfg_Limits cfg, wb_HasName = True, wb_HasVersion = True, wb_HasCaps = True, wb_HasLimits = True\<rparr>"

definition onHello :: "hub_env \<Rightarrow> 's hub_policy option \<Rightarrow> conn \<Rightarrow> Envelope \<Rightarrow> 's world \<Rightarrow> 's world" where
  "onHello X P i env w =
     (let body = (case ParseHelloBody (e_Body env) of Inl _ \<Rightarrow> None | Inr b \<Rightarrow> Some b);
          w1 = with_hub (upd_obj i (\<lambda>p. p\<lparr>p_active := True\<rparr>)) w;
          wb = (case WelcomeBody_ToMap (welcome_body (h_cfg (w_hub w1))) of None \<Rightarrow> VMapU [] | Some m \<Rightarrow> VMapU m)
      in case sendType X i TypeWelcome [] wb [] w1 of
           (w2, Some _) \<Rightarrow> close X i w2
         | (w2, None) \<Rightarrow>
             let w3 = log_event (EvHello (p_hash (obj w2 i)) body env) w2
             in policy_call P (\<lambda>pol. pol_AfterWelcome pol (p_hash (obj w3 i))) w3)"

text \<open>The member list of a JOINED reply.\<close>

definition memberList :: "Hub \<Rightarrow> gostring \<Rightarrow> val" where
  "memberList h room =
     (let ms = map (\<lambda>j. VBytes (p_hash (h_objs h j))) (List.map_filter (map_of (h_peers h)) (assoc_set (h_rooms h) room))
      in if cfg_IncludeMemberList (h_cfg h) \<and> ms \<noteq> [] then VArr ms else VNil)"

text \<open>JOIN after the checks on the room name and the policy.\<close>

definition join_admitted ::
  "hub_env \<Rightarrow> 's hub_policy option \<Rightarrow> conn \<Rightarrow> gostring \<Rightarrow> Envelope \<Rightarrow> 's world \<Rightarrow> 's world" where
  "join_admitted X P i room env w =
     (let p = obj w i; key = peerKey (p_hash p)
      in if room \<notin> set (p_rooms p)
            \<and> word_of_nat (length (p_rooms p)) \<ge> MaxRoomsPerSession (cfg_Limits (h_cfg (w_hub w)))
         then replyError X i ''room limit exceeded'' w
         else
           let w1 = (if room \<in> set (p_rooms p) then w else with_hub (join_room i key room) w);
               h = w_hub w1;
               others = roomPeersLocked h room key;
               w2 = (if others \<noteq> []
                     then broadcast X others TypeJoined room (presenceBody h (p_hash p)) (p_nick p) w1 else w1);
               w3 = send_type X i TypeJoined room (memberList h room) [] w2;
               w4 = log_event (EvJoin (p_hash p) room env) w3
           in policy_call P (\<lambda>pol. pol_AfterJoin pol (p_hash p) room) w4)"

definition onJoin :: "hub_env \<Rightarrow> 's hub_policy option \<Rightarrow> conn \<Rightarrow> Envelope \<Rightarrow> 's world \<Rightarrow> 's world" where
  "onJoin X P i env w =
     (let room = NormalizeRoom (x_lower X) (e_Room env)
      in if room = [] then replyError X i ''missing room'' w
         else if word_of_nat (length room) > MaxRoomNameBytes (cfg_Limits (h_cfg (w_hub w)))
         then replyError X i ''room name too long'' w
         else case policy_check P (\<lambda>pol. pol_AllowJoin pol (p_hash (obj w i)) room (e_Body env)) w of
           (w1, Some err) \<Rightarrow> replyError X i err w1
         | (w1, None) \<Rightarrow> join_admitted X P i room env w1)"

definition onPart :: "hub_env \<Rightarrow> 's hub_policy option \<Rightarrow> conn \<Rightarrow> Envelope \<Rightarrow> 's world \<Rightarrow> 's world" where
  "onPart X P i env w =
     (let room = NormalizeRoom (x_lower X) (e_Room env); p = obj w i; key = peerKey (p_hash p)
      in if room = [] then w
         else if room \<notin> set (p_rooms p) then w
         else
           let w1 = with_hub (leave_room i key room) w;
               h = w_hub w1;
               others = roomPeersLocked h room key;
               body = presenceBody h (p_hash p);
               w2 = (if others \<noteq> [] then broadcast X others TypeParted room body (p_nick p) w1 else w1);
               w3 = send_type X i TypeParted room body [] w2;
               w4 = log_event (EvPart (p_hash p) room env) w3
           in policy_call P (\<lambda>pol. pol_AfterPart pol (p_hash p) room) w4)"

definition fake_part :: "gostring \<Rightarrow> Envelope" where
  "fake_part room =
     (base_envelope 0 [] 0 [])\<lparr>e_Version := 0, e_Room := room, e_HasRoom := True\<rparr>"

primrec part_rooms ::
  "hub_env \<Rightarrow> 's hub_policy option \<Rightarrow> conn \<Rightarrow> gostring list \<Rightarrow> 's world \<Rightarrow> 's world" where
  "part_rooms X P i [] w = w"
| "part_rooms X P i (room # rooms) w = part_rooms X P i rooms (onPart X P i (fake_part room) w)"

definition reHello :: "hub_env \<Rightarrow> 's hub_policy option \<Rightarrow> conn \<Rightarrow> Envelope \<Rightarrow> 's world \<Rightarrow> 's world" where
  "reHello X P i env w =
     (let w1 = part_rooms X P i (p_rooms (obj w i)) w;
          w2 = with_hub (upd_obj i (\<lambda>p. p\<lparr>p_active := False\<rparr>)) w1
      in onHello X P i env w2)"

definition tryIntercept :: "'s hub_policy option \<Rightarrow> conn \<Rightarrow> Envelope \<Rightarrow> 's world \<Rightarrow> 's world \<times> bool" where
  "tryIntercept P i env w =
     (case P of None \<Rightarrow> (w, False) | Some pol \<Rightarrow> pol_Intercept pol (p_hash (obj w i)) env w)"

text \<open>The relayed envelope: the identity of the peer, never the sender field of the packet.\<close>

definition forward_envelope ::
  "uint64 \<Rightarrow> hubPeer \<Rightarrow> Envelope \<Rightarrow> (Envelope \<Rightarrow> Envelope) \<Rightarrow> rrc_error + Envelope" where
  "forward_envelope typ p env addr =
     bindE (envelopeFrom typ (p_hash p) (e_MsgID env) (e_Timestamp env)) (\<lambda>fwd0.
       let fwd1 = addr fwd0;
           fwd2 = (if e_HasBody env then fwd1\<lparr>e_Body := e_Body env, e_HasBody := True\<rparr> else fwd1)
       in Inr (if p_nick p \<noteq> [] then fwd2\<lparr>e_Nick := p_nick p, e_HasNick := True\<rparr> else fwd2))"

definition onRoomContent :: "hub_env \<Rightarrow> 's hub_policy option \<Rightarrow> conn \<Rightarrow> Envelope \<Rightarrow> 's world \<Rightarrow> 's world" where
  "onRoomContent X P i env w =
     (let room = NormalizeRoom (x_lower X) (e_Room env); h = w_hub w; p = h_objs h i
      in if room = [] then replyError X i ''missing room'' w
         else if e_HasBody env \<and> BodySizeBytes (x_cbor X) (e_Body env) > MaxMsgBodyBytes (cfg_Limits (h_cfg h))
         then replyError X i ''message body too large'' w
         else if room \<notin> set (p_rooms p) \<and> Option.is_none P then replyError X i ''not a member of room'' w
         else
           let members = activePeers h (assoc_set (h_rooms h) room)
           in case forward_envelope (e_Type env) p env (\<lambda>f. f\<lparr>e_Room := room, e_HasRoom := True\<rparr>) of
                Inl _ \<Rightarrow> w
              | Inr fwd \<Rightarrow>
                  (case Marshal (x_cbor X) fwd of
                     Inl _ \<Rightarrow> w
                   | Inr raw \<Rightarrow> log_event (EvMsg (p_hash p) env) (send_all X members raw w)))"

definition dispatchContent :: "hub_env \<Rightarrow> 's hub_policy option \<Rightarrow> conn \<Rightarrow> Envelope \<Rightarrow> 's world \<Rightarrow> 's world" where
  "dispatchContent X P i env w =
     (case policy_check P (\<lambda>pol. pol_AllowContent pol (p_hash (obj w i)) env) w of
        (w1, Some err) \<Rightarrow> replyError X i err w1
      | (w1, None) \<Rightarrow> onRoomContent X P i env w1)"

definition onDirectNotice :: "hub_env \<Rightarrow> conn \<Rightarrow> Envelope \<Rightarrow> 's world \<Rightarrow> 's world" where
  "onDirectNotice X i env w =
     (let h = w_hub w; p = h_objs h i
      in if e_HasRoom env then replyError X i ''direct notice must not include room'' w
         else if \<not> e_HasDestination env \<or> length (e_Destination env) \<noteq> IdentityLength
         then replyError X i ''direct notice requires destination identity'' w
         else if e_HasBody env \<and> BodySizeBytes (x_cbor X) (e_Body env) > MaxMsgBodyBytes (cfg_Limits (h_cfg h))
         then replyError X i ''message body too large'' w
         else case map_of (h_peers h) (peerKey (e_Destination env)) of
           None \<Rightarrow> replyError X i ''destination not connected'' w
         | Some target \<Rightarrow>
             if \<not> p_active (h_objs h target) then replyError X i ''destination not connected'' w
             else
               (case forward_envelope TypeNotice p env
                       (\<lambda>f. f\<lparr>e_Destination := e_Destination env, e_HasDestination := True\<rparr>) of
                  Inl _ \<Rightarrow> w
                | Inr fwd \<Rightarrow> log_event (EvMsg (p_hash p) env) (fst (sendEnvelope X target fwd w))))"

definition onPing :: "hub_env \<Rightarrow> conn \<Rightarrow> Envelope \<Rightarrow> 's world \<Rightarrow> 's world" where
  "onPing X i env w = send_type X i TypePong [] (if e_HasBody env then e_Body env else VNil) [] w"

definition onResourceEnvelope :: "hub_env \<Rightarrow> 's hub_policy option \<Rightarrow> conn \<Rightarrow> Envelope \<Rightarrow> 's world \<Rightarrow> 's world" where
  "onResourceEnvelope X P i env w =
     (let cfg = h_cfg (w_hub w)
      in if \<not> cfg_EnableResourceTransfer cfg then replyError X i ''resource transfer disabled'' w
         else case ValidateResourceEnvelopeBody (e_Body env) of
           (None, reason) \<Rightarrow> replyError X i reason w
         | (Some body, reason) \<Rightarrow>
             if reason \<noteq> [] then replyError X i reason w
             else if rb_Size body > cfg_MaxResourceBytes cfg
             then replyError X i (''resource too large: '' @ decimal (unat (rb_Size body)) @ '' > ''
                    @ decimal (unat (cfg_MaxResourceBytes cfg))) w
             else case policy_check P (\<lambda>pol. pol_OnResourceEnvelope pol (p_hash (obj w i)) env) w of
               (w1, Some err) \<Rightarrow> replyError X i err w1
             | (w1, None) \<Rightarrow> log_event (EvResource (p_hash (obj w1 i)) env) w1)"

text \<open>The nickname step of \<^verbatim>\<open>handlePeer\<close>; \<open>False\<close> ends the handling of the packet.\<close>

definition handle_nick :: "hub_env \<Rightarrow> conn \<Rightarrow> Envelope \<Rightarrow> 's world \<Rightarrow> 's world \<times> bool" where
  "handle_nick X i env w =
     (let active = p_active (obj w i)
      in if e_HasNick env
         then (case applyInboundNick X i (e_Nick env) w of
                 (w1, None) \<Rightarrow> (w1, True)
               | (w1, Some _) \<Rightarrow>
                   let w2 = replyError X i ''nickname too long'' w1
                   in (if active then w2 else close X i w2, False))
         else if e_Type env = TypeHello \<and> HelloLegacyNick (e_Body env) \<noteq> []
         then (case applyInboundNick X i (HelloLegacyNick (e_Body env)) w of
                 (w1, None) \<Rightarrow> (w1, True)
               | (w1, Some _) \<Rightarrow>
                   let w2 = replyError X i ''nickname too long'' w1
                   in if active then (w2, True) else (close X i w2, False))
         else (w, True))"

definition handle_active :: "hub_env \<Rightarrow> 's hub_policy option \<Rightarrow> conn \<Rightarrow> Envelope \<Rightarrow> 's world \<Rightarrow> 's world" where
  "handle_active X P i env w =
     (let t = e_Type env
      in if t = TypeHello then reHello X P i env w
         else if t = TypeJoin then onJoin X P i env w
         else if t = TypePart then onPart X P i env w
         else if t = TypeNotice
         then (case tryIntercept P i env w of
                 (w1, True) \<Rightarrow> w1
               | (w1, False) \<Rightarrow>
                   if e_HasDestination env then onDirectNotice X i env w1 else dispatchContent X P i env w1)
         else if t = TypeMsg
         then (case tryIntercept P i env w of (w1, True) \<Rightarrow> w1 | (w1, False) \<Rightarrow> dispatchContent X P i env w1)
         else if t = TypeAction then dispatchContent X P i env w
         else if t = TypeResourceEnvelope then onResourceEnvelope X P i env w
         else if t = TypePing then onPing X i env w
         else w)"

definition handlePeer :: "hub_env \<Rightarrow> 's hub_policy option \<Rightarrow> conn \<Rightarrow> Envelope \<Rightarrow> 's world \<Rightarrow> 's world" where
  "handlePeer X P i env w =
     (case takeToken i w of
        (w1, False) \<Rightarrow> replyError X i ''Rate limit exceeded. Try again later.'' (log_event EvRateLimited w1)
      | (w1, True) \<Rightarrow>
          let active = p_active (obj w1 i)
          in case handle_nick X i env w1 of
               (w2, False) \<Rightarrow> w2
             | (w2, True) \<Rightarrow>
                 if e_Type env = TypePong then policy_call P (\<lambda>pol. pol_OnPong pol (p_hash (obj w2 i))) w2
                 else if \<not> active
                 then (if e_Type env \<noteq> TypeHello then replyError X i ''send HELLO first'' w2 else onHello X P i env w2)
                 else handle_active X P i env w2)"

subsection \<open>Links\<close>

text \<open>The body of \<^verbatim>\<open>registerOnce\<close>: a second connection of an identity takes its place.\<close>

definition register_core :: "conn \<Rightarrow> bytes \<Rightarrow> Hub \<Rightarrow> Hub \<times> conn option" where
  "register_core i hash h =
     (let h1 = upd_obj i (\<lambda>p. p\<lparr>p_hash := hash, p_once := True\<rparr>) h;
          key = peerKey hash;
          old = (case map_of (h_peers h1) key of Some j \<Rightarrow> if j \<noteq> i then Some j else None | None \<Rightarrow> None);
          h2 = (case old of Some j \<Rightarrow> unlist_rooms key (p_rooms (h_objs h1 j)) h1 | None \<Rightarrow> h1)
      in (h2\<lparr>h_peers := AList.update key i (h_peers h2)\<rparr>, old))"

definition register :: "hub_env \<Rightarrow> 's hub_policy option \<Rightarrow> conn \<Rightarrow> bytes \<Rightarrow> 's world \<Rightarrow> 's world" where
  "register X P i hash w =
     (if length hash \<noteq> IdentityLength then w
      else
        let w2 = (if p_once (obj w i) then w
                  else case register_core i hash (w_hub w) of
                    (h', None) \<Rightarrow> w\<lparr>w_hub := h'\<rparr>
                  | (h', Some old) \<Rightarrow> close X old (w\<lparr>w_hub := h'\<rparr>))
        in case policy_check P (\<lambda>pol. pol_OnIdentified pol hash) w2 of
             (w3, Some err) \<Rightarrow> close X i (send_type X i TypeError [] (VString err) [] w3)
           | (w3, None) \<Rightarrow>
               let p = obj w3 i;
                   w4 = with_hub (upd_obj i (\<lambda>p. p\<lparr>p_pending := None\<rparr>)) w3
               in case p_pending p of
                    Some env \<Rightarrow> if length (p_hash p) = IdentityLength then handlePeer X P i env w4 else w4
                  | None \<Rightarrow> w4)"

definition register_remote :: "hub_env \<Rightarrow> 's hub_policy option \<Rightarrow> conn \<Rightarrow> 's world \<Rightarrow> 's world" where
  "register_remote X P i w =
     (case l_remote (obj w i) of None \<Rightarrow> w | Some hash \<Rightarrow> register X P i hash w)"

text \<open>The message callback \<^verbatim>\<open>acceptLink\<close> installs.\<close>

definition on_message :: "hub_env \<Rightarrow> 's hub_policy option \<Rightarrow> conn \<Rightarrow> Envelope \<Rightarrow> 's world \<Rightarrow> 's world" where
  "on_message X P i env w =
     (let w1 = register_remote X P i w
      in if length (p_hash (obj w1 i)) = IdentityLength then handlePeer X P i env w1
         else
           let w2 = (if e_Type env = TypeHello
                     then with_hub (upd_obj i (\<lambda>p. p\<lparr>p_pending := Some env\<rparr>)) w1 else w1)
           in register_remote X P i w2)"

definition handleInbound :: "hub_env \<Rightarrow> 's hub_policy option \<Rightarrow> conn \<Rightarrow> bytes \<Rightarrow> 's world \<Rightarrow> 's world" where
  "handleInbound X P i data w =
     (let w1 = log_event (EvInboundBytes (length data)) w
      in case UnmarshalEnvelope (x_cbor X) data of
           Inl e \<Rightarrow> replyError X i ''bad message'' (log_event (EvBadPacket e) w1)
         | Inr env \<Rightarrow> on_message X P i env w1)"

text \<open>A new link; its number is the next free one.\<close>

definition new_peer :: "HubConfig \<Rightarrow> int \<Rightarrow> bytes option \<Rightarrow> hubPeer" where
  "new_peer cfg now remote =
     blank_peer\<lparr>p_tokens := of_nat (unat (RateLimitMsgsPerMinute (cfg_Limits cfg))), p_lastRefill := now,
       l_up := True, l_remote := remote\<rparr>"

definition acceptLink :: "hub_env \<Rightarrow> 's hub_policy option \<Rightarrow> bytes option \<Rightarrow> 's world \<Rightarrow> 's world" where
  "acceptLink X P remote w =
     (let i = h_next (w_hub w);
          w1 = with_hub (\<lambda>h. upd_obj i (\<lambda>_. new_peer (h_cfg h) (w_now w) remote) (h\<lparr>h_next := Suc i\<rparr>)) w;
          w2 = register_remote X P i w1
      in policy_call P (\<lambda>pol. pol_OnLink pol i) w2)"

text \<open>The callback of the link when the remote side identifies.\<close>

definition remote_identified :: "hub_env \<Rightarrow> 's hub_policy option \<Rightarrow> conn \<Rightarrow> bytes \<Rightarrow> 's world \<Rightarrow> 's world" where
  "remote_identified X P i hash w =
     register X P i hash (with_hub (upd_obj i (\<lambda>p. p\<lparr>l_remote := Some hash\<rparr>)) w)"

primrec close_all :: "hub_env \<Rightarrow> conn list \<Rightarrow> 's world \<Rightarrow> 's world" where
  "close_all X [] w = w"
| "close_all X (i # is) w = close_all X is (close X i w)"

definition Close :: "hub_env \<Rightarrow> 's world \<Rightarrow> 's world" where
  "Close X w =
     close_all X (map snd (h_peers (w_hub w)))
       (with_hub (\<lambda>h. h\<lparr>h_peers := [], h_rooms := [], h_nickIndex := []\<rparr>) w)"

subsection \<open>Operator interface\<close>

definition peerLocked :: "Hub \<Rightarrow> bytes \<Rightarrow> conn option" where
  "peerLocked h hash =
     (case map_of (h_peers h) (peerKey hash) of
        None \<Rightarrow> None
      | Some i \<Rightarrow> if p_active (h_objs h i) then Some i else None)"

definition ApplyRuntime ::
  "gostring \<Rightarrow> gostring \<Rightarrow> bool \<Rightarrow> bool \<Rightarrow> uint64 \<Rightarrow> HubLimits \<Rightarrow> Hub \<Rightarrow> Hub" where
  "ApplyRuntime name version includeMembers enableRes maxRes limits h =
     (let c = h_cfg h
      in h\<lparr>h_cfg :=
           c\<lparr>cfg_Name := (if name \<noteq> [] then name else cfg_Name c),
             cfg_Version := (if version \<noteq> [] then version else cfg_Version c),
             cfg_IncludeMemberList := includeMembers,
             cfg_EnableResourceTransfer := enableRes,
             cfg_MaxResourceBytes := (if maxRes > 0 then maxRes else cfg_MaxResourceBytes c),
             cfg_Limits := limits\<rparr>\<rparr>)"

definition send_to :: "hub_env \<Rightarrow> uint64 \<Rightarrow> bytes \<Rightarrow> gostring \<Rightarrow> val \<Rightarrow> 's world \<Rightarrow> 's world \<times> rrc_error option" where
  "send_to X typ peer room body w =
     (case peerLocked (w_hub w) peer of
        None \<Rightarrow> (w, Some ErrSessionClosed)
      | Some i \<Rightarrow> sendType X i typ room body [] w)"

definition SendNotice :: "hub_env \<Rightarrow> bytes \<Rightarrow> gostring \<Rightarrow> gostring \<Rightarrow> 's world \<Rightarrow> 's world \<times> rrc_error option" where
  "SendNotice X peer room text w = send_to X TypeNotice peer room (VString text) w"

definition SendError :: "hub_env \<Rightarrow> bytes \<Rightarrow> gostring \<Rightarrow> gostring \<Rightarrow> 's world \<Rightarrow> 's world \<times> rrc_error option" where
  "SendError X peer room text w = send_to X TypeError peer room (VString text) w"

definition SendPing :: "hub_env \<Rightarrow> bytes \<Rightarrow> val \<Rightarrow> 's world \<Rightarrow> 's world \<times> rrc_error option" where
  "SendPing X peer body w = send_to X TypePing peer [] body w"

definition BroadcastNotice :: "hub_env \<Rightarrow> gostring \<Rightarrow> gostring \<Rightarrow> 's world \<Rightarrow> 's world" where
  "BroadcastNotice X room0 text w =
     (let room = NormalizeRoom (x_lower X) room0;
          peers = roomPeersLocked (w_hub w) room (replicate IdentityLength 0)
      in if peers = [] then w else broadcast X peers TypeNotice room (VString text) [] w)"

definition RemoveFromRoom :: "hub_env \<Rightarrow> bytes \<Rightarrow> gostring \<Rightarrow> 's world \<Rightarrow> 's world \<times> rrc_error option" where
  "RemoveFromRoom X peer room0 w =
     (let room = NormalizeRoom (x_lower X) room0; key = peerKey peer
      in case map_of (h_peers (w_hub w)) key of
           None \<Rightarrow> (w, Some ErrSessionClosed)
         | Some i \<Rightarrow>
             if room \<notin> set (p_rooms (obj w i)) then (w, Some ErrNotMember)
             else (with_hub (leave_room i key room) w, None))"

definition Disconnect :: "hub_env \<Rightarrow> bytes \<Rightarrow> 's world \<Rightarrow> 's world" where
  "Disconnect X peer w =
     (case map_of (h_peers (w_hub w)) (peerKey peer) of None \<Rightarrow> w | Some i \<Rightarrow> close X i w)"

definition Nick :: "Hub \<Rightarrow> bytes \<Rightarrow> gostring" where
  "Nick h peer = (case map_of (h_peers h) (peerKey peer) of None \<Rightarrow> [] | Some i \<Rightarrow> p_nick (h_objs h i))"

definition IsMember :: "(rune \<Rightarrow> rune) \<Rightarrow> Hub \<Rightarrow> bytes \<Rightarrow> gostring \<Rightarrow> bool" where
  "IsMember ul h peer room =
     (case map_of (h_peers h) (peerKey peer) of
        None \<Rightarrow> False
      | Some i \<Rightarrow> NormalizeRoom ul room \<in> set (p_rooms (h_objs h i)))"

text \<open>\<^verbatim>\<open>PeerInfo\<close> is the pair of hash and nickname.\<close>

definition peerInfo :: "Hub \<Rightarrow> conn \<Rightarrow> bytes \<times> gostring" where
  "peerInfo h i = (p_hash (h_objs h i), p_nick (h_objs h i))"

definition RoomMembers :: "(rune \<Rightarrow> rune) \<Rightarrow> Hub \<Rightarrow> gostring \<Rightarrow> bytes list" where
  "RoomMembers ul h room =
     map (\<lambda>i. p_hash (h_objs h i))
       (List.map_filter (map_of (h_peers h)) (assoc_set (h_rooms h) (NormalizeRoom ul room)))"

definition RoomMemberInfo :: "(rune \<Rightarrow> rune) \<Rightarrow> Hub \<Rightarrow> gostring \<Rightarrow> (bytes \<times> gostring) list" where
  "RoomMemberInfo ul h room =
     map (peerInfo h) (List.map_filter (map_of (h_peers h)) (assoc_set (h_rooms h) (NormalizeRoom ul room)))"

definition AllPeers :: "Hub \<Rightarrow> (bytes \<times> gostring) list" where
  "AllPeers h = map (peerInfo h \<circ> snd) (h_peers h)"

definition PeerCount :: "Hub \<Rightarrow> nat" where
  "PeerCount h = length (h_peers h)"

definition HasPeer :: "Hub \<Rightarrow> bytes \<Rightarrow> bool" where
  "HasPeer h peerHash = (map_of (h_peers h) (peerKey peerHash) \<noteq> None)"

definition WelcomedCount :: "Hub \<Rightarrow> nat" where
  "WelcomedCount h = length (filter (\<lambda>(_, i). p_active (h_objs h i)) (h_peers h))"

definition OccupiedRooms :: "Hub \<Rightarrow> (gostring \<times> nat) list" where
  "OccupiedRooms h = map (\<lambda>(name, members). (name, length members)) (h_rooms h)"

definition LookupNick :: "(rune \<Rightarrow> rune) \<Rightarrow> Hub \<Rightarrow> gostring \<Rightarrow> bytes list" where
  "LookupNick ul h nick =
     map (\<lambda>i. p_hash (h_objs h i))
       (List.map_filter (map_of (h_peers h)) (assoc_set (h_nickIndex h) (nickKey ul nick)))"

fun bytesHasPrefix :: "bytes \<Rightarrow> bytes \<Rightarrow> bool" where
  "bytesHasPrefix b [] = True"
| "bytesHasPrefix [] (_ # _) = False"
| "bytesHasPrefix (x # b) (y # prefix) = (x = y \<and> bytesHasPrefix b prefix)"

definition LookupHashPrefix :: "Hub \<Rightarrow> bytes \<Rightarrow> bytes list" where
  "LookupHashPrefix h prefix =
     (if prefix = [] then []
      else map (\<lambda>(_, i). p_hash (h_objs h i))
             (filter (\<lambda>(pk, _). length prefix \<le> IdentityLength \<and> bytesHasPrefix pk prefix) (h_peers h)))"

definition ActivePeerHashes :: "Hub \<Rightarrow> bytes list" where
  "ActivePeerHashes h = map (\<lambda>(_, i). p_hash (h_objs h i)) (filter (\<lambda>(_, i). p_active (h_objs h i)) (h_peers h))"

end
