(* ===== verification/RRC_Client.thy ===== *)
theory RRC_Client
  imports RRC_Hub
begin

text \<open>
  \<^verbatim>\<open>pkg/rrc/client.go\<close>: the client of a hub, with its session.  \<open>Client\<close> holds the fields of \<^verbatim>\<open>Client\<close>, of its
  \<^verbatim>\<open>session\<close> (nick, closed) and whether the link below is active; \<open>cworld\<close> adds the clock, the random
  source, the packets handed to the link, the calls of \<^verbatim>\<open>ClientHandlers\<close> and the channel on which
  \<^verbatim>\<open>Dial\<close> waits for the WELCOME (capacity one).

  \<^verbatim>\<open>Dial\<close> runs in two parts: \<open>Dial\<close> until the HELLO is sent, and \<open>dial_select\<close>, the \<^verbatim>\<open>select\<close> after it, one
  case for each of its branches.  Packets may arrive in between.  The polls of \<^verbatim>\<open>waitUntil\<close> and the
  clock at its ticks are parameters, and so are the path table, the identity store and the link.
\<close>

subsection \<open>State\<close>

datatype ClientState = ClientConnected | ClientAwaitingWelcome | ClientActive | ClientDisconnected

record ClientConfig =
  cc_Nick :: gostring
  cc_Name :: gostring
  cc_Version :: gostring
  cc_Capabilities :: "(uint64 \<times> val) list option"
  cc_DialTimeout :: int
  cc_WelcomeTimeout :: int

record Client =
  c_sender :: bytes
  c_cfg :: ClientConfig
  c_state :: ClientState
  c_rooms :: "gostring list"
  c_pending :: "gostring list"
  c_welcome :: "WelcomeBody option"
  c_lastErr :: "gostring option"
  s_nick :: gostring
  s_closed :: bool
  s_up :: bool

datatype client_event =
    CvWelcome WelcomeBody Envelope
  | CvJoined gostring "bytes list" Envelope
  | CvParted gostring Envelope
  | CvMsg Envelope
  | CvNotice Envelope
  | CvAction Envelope
  | CvError Envelope
  | CvPong Envelope
  | CvResource Envelope
  | CvClose

record cworld =
  k_client :: Client
  k_now :: int
  k_rand :: "nat \<Rightarrow> bytes"
  k_draws :: nat
  k_out :: "bytes list"
  k_log :: "client_event list"
  k_ch :: "Envelope option"

text \<open>What the client imports, besides what the hub does: \<^verbatim>\<open>fmt.Sprint\<close> of a body.\<close>

record client_env = hub_env +
  cx_sprint :: "val \<Rightarrow> gostring"

definition with_client :: "(Client \<Rightarrow> Client) \<Rightarrow> cworld \<Rightarrow> cworld" where
  "with_client f k = k\<lparr>k_client := f (k_client k)\<rparr>"

abbreviation clog :: "client_event \<Rightarrow> cworld \<Rightarrow> cworld" where
  "clog e k \<equiv> k\<lparr>k_log := k_log k @ [e]\<rparr>"

subsection \<open>The session\<close>

definition client_sendRaw :: "client_env \<Rightarrow> bytes \<Rightarrow> cworld \<Rightarrow> cworld \<times> rrc_error option" where
  "client_sendRaw X raw k =
     (if s_closed (k_client k) \<or> \<not> s_up (k_client k) then (k, Some ErrLinkInactive)
      else case x_send X 0 raw of
        Some e \<Rightarrow> (k, Some e)
      | None \<Rightarrow> (k\<lparr>k_out := k_out k @ [raw]\<rparr>, None))"

definition client_sendEnvelope :: "client_env \<Rightarrow> Envelope \<Rightarrow> cworld \<Rightarrow> cworld \<times> rrc_error option" where
  "client_sendEnvelope X env k =
     (case Marshal (x_cbor X) env of Inl e \<Rightarrow> (k, Some e) | Inr raw \<Rightarrow> client_sendRaw X raw k)"

definition client_NewEnvelope :: "uint64 \<Rightarrow> cworld \<Rightarrow> cworld \<times> (rrc_error + Envelope)" where
  "client_NewEnvelope msgType k =
     (case NewEnvelope (k_now k) (k_rand k (k_draws k)) msgType (c_sender (k_client k)) of
        Inl e \<Rightarrow> (k, Inl e)
      | Inr env \<Rightarrow> (k\<lparr>k_draws := Suc (k_draws k)\<rparr>, Inr env))"

definition client_sendType ::
  "client_env \<Rightarrow> uint64 \<Rightarrow> gostring \<Rightarrow> val \<Rightarrow> gostring \<Rightarrow> cworld \<Rightarrow> cworld \<times> rrc_error option" where
  "client_sendType X msgType room body nick k =
     (case client_NewEnvelope msgType k of
        (k1, Inl e) \<Rightarrow> (k1, Some e)
      | (k1, Inr env) \<Rightarrow> client_sendEnvelope X (type_envelope env room body nick) k1)"

definition setNick :: "gostring \<Rightarrow> cworld \<Rightarrow> cworld" where
  "setNick nick = with_client (\<lambda>c. c\<lparr>s_nick := SanitizeNick nick\<rparr>)"

subsection \<open>Dispatch\<close>

fun FormatError :: "client_env \<Rightarrow> val \<Rightarrow> gostring" where
  "FormatError X (VString s) = s"
| "FormatError X v = cx_sprint X v"

definition on_joined :: "client_env \<Rightarrow> Envelope \<Rightarrow> cworld \<Rightarrow> cworld" where
  "on_joined X env k =
     (let room = NormalizeRoom (x_lower X) (e_Room env)
      in clog (CvJoined room (ParseJoinedMembers (e_Body env)) env) (with_client (\<lambda>c. c\<lparr>c_rooms := List.insert room (c_rooms c)\<rparr>) k))"

definition on_parted :: "client_env \<Rightarrow> Envelope \<Rightarrow> cworld \<Rightarrow> cworld" where
  "on_parted X env k =
     (let room = NormalizeRoom (x_lower X) (e_Room env);
          drop = (\<lambda>c. if room \<in> set (c_pending c)
                      then c\<lparr>c_pending := removeAll room (c_pending c), c_rooms := removeAll room (c_rooms c)\<rparr> else c)
      in clog (CvParted room env) (with_client drop k))"

definition dispatch :: "client_env \<Rightarrow> Envelope \<Rightarrow> cworld \<Rightarrow> cworld" where
  "dispatch X env k =
     (if e_Type env = TypeWelcome then
        (if c_state (k_client k) = ClientConnected \<or> c_state (k_client k) = ClientAwaitingWelcome
         then (case k_ch k of None \<Rightarrow> k\<lparr>k_ch := Some env\<rparr> | Some _ \<Rightarrow> k) else k)
      else if e_Type env = TypeJoined then on_joined X env k
      else if e_Type env = TypeParted then on_parted X env k
      else if e_Type env = TypeMsg then clog (CvMsg env) k
      else if e_Type env = TypeNotice then clog (CvNotice env) k
      else if e_Type env = TypeAction then clog (CvAction env) k
      else if e_Type env = TypeError then
        clog (CvError env) (with_client (\<lambda>c. c\<lparr>c_lastErr := Some (FormatError X (e_Body env))\<rparr>) k)
      else if e_Type env = TypePong then clog (CvPong env) k
      else if e_Type env = TypeResourceEnvelope then clog (CvResource env) k
      else k)"

text \<open>A packet of the link: a PING is answered by the session itself; a packet that does not decode is dropped.\<close>

definition client_inbound :: "client_env \<Rightarrow> bytes \<Rightarrow> cworld \<Rightarrow> cworld" where
  "client_inbound X data k =
     (case UnmarshalEnvelope (x_cbor X) data of
        Inl _ \<Rightarrow> k
      | Inr env \<Rightarrow>
          dispatch X env
            (if e_Type env = TypePing then fst (client_sendType X TypePong [] (e_Body env) [] k) else k))"

definition onLinkClosed :: "cworld \<Rightarrow> cworld" where
  "onLinkClosed k =
     (if c_state (k_client k) = ClientDisconnected then k
      else clog CvClose (with_client (\<lambda>c. c\<lparr>c_state := ClientDisconnected, c_rooms := [], c_pending := []\<rparr>) k))"

text \<open>The link goes down, whoever closed it.\<close>

definition link_down :: "cworld \<Rightarrow> cworld" where
  "link_down k = onLinkClosed (with_client (\<lambda>c. c\<lparr>s_up := False\<rparr>) k)"

definition client_Close :: "cworld \<Rightarrow> cworld" where
  "client_Close k =
     onLinkClosed (if s_closed (k_client k) then k
       else onLinkClosed (with_client (\<lambda>c. c\<lparr>s_closed := True, s_up := False\<rparr>) k))"

subsection \<open>Requests\<close>

definition requireActive :: "cworld \<Rightarrow> (cworld \<Rightarrow> cworld \<times> rrc_error option) \<Rightarrow> cworld \<times> rrc_error option" where
  "requireActive k f = (if c_state (k_client k) \<noteq> ClientActive then (k, Some ErrNotWelcome) else f k)"

definition JoinKeyed :: "client_env \<Rightarrow> gostring \<Rightarrow> gostring \<Rightarrow> cworld \<Rightarrow> cworld \<times> rrc_error option" where
  "JoinKeyed X room0 key k0 = requireActive k0 (\<lambda>k.
     let room = NormalizeRoom (x_lower X) room0;
         body = (if TrimSpace key \<noteq> [] then VString key else VNil)
     in if room = [] then (k, Some ErrInvalidEnvelope)
        else client_sendType X TypeJoin room body (s_nick (k_client k)) k)"

definition Join :: "client_env \<Rightarrow> gostring \<Rightarrow> cworld \<Rightarrow> cworld \<times> rrc_error option" where
  "Join X room k = JoinKeyed X room [] k"

definition SendSlash :: "client_env \<Rightarrow> gostring \<Rightarrow> cworld \<Rightarrow> cworld \<times> rrc_error option" where
  "SendSlash X cmd0 k0 = requireActive k0 (\<lambda>k.
     let cmd = TrimSpace cmd0
     in if cmd = [] then (k, Some ErrInvalidEnvelope)
        else client_sendType X TypeNotice [] (VString cmd) (s_nick (k_client k)) k)"

definition Part :: "client_env \<Rightarrow> gostring \<Rightarrow> cworld \<Rightarrow> cworld \<times> rrc_error option" where
  "Part X room0 k0 = requireActive k0 (\<lambda>k.
     let room = NormalizeRoom (x_lower X) room0;
         k1 = with_client (\<lambda>c. c\<lparr>c_pending := List.insert room (c_pending c)\<rparr>) k
     in client_sendType X TypePart room VNil (s_nick (k_client k1)) k1)"

definition sendRoomContent :: "client_env \<Rightarrow> uint64 \<Rightarrow> gostring \<Rightarrow> gostring \<Rightarrow> cworld \<Rightarrow> cworld \<times> rrc_error option" where
  "sendRoomContent X msgType room0 body k0 = requireActive k0 (\<lambda>k.
     let room = NormalizeRoom (x_lower X) room0
     in if room \<notin> set (c_rooms (k_client k)) then (k, Some ErrNotMember)
        else client_sendType X msgType room (VString body) (s_nick (k_client k)) k)"

definition SendMsg :: "client_env \<Rightarrow> gostring \<Rightarrow> gostring \<Rightarrow> cworld \<Rightarrow> cworld \<times> rrc_error option" where
  "SendMsg X = sendRoomContent X TypeMsg"

definition client_SendNotice :: "client_env \<Rightarrow> gostring \<Rightarrow> gostring \<Rightarrow> cworld \<Rightarrow> cworld \<times> rrc_error option" where
  "client_SendNotice X = sendRoomContent X TypeNotice"

definition SendAction :: "client_env \<Rightarrow> gostring \<Rightarrow> gostring \<Rightarrow> cworld \<Rightarrow> cworld \<times> rrc_error option" where
  "SendAction X = sendRoomContent X TypeAction"

definition with_nick :: "gostring \<Rightarrow> Envelope \<Rightarrow> Envelope" where
  "with_nick nick env = (if nick \<noteq> [] then env\<lparr>e_Nick := nick, e_HasNick := True\<rparr> else env)"

definition SendDirectNotice :: "client_env \<Rightarrow> bytes \<Rightarrow> gostring \<Rightarrow> cworld \<Rightarrow> cworld \<times> rrc_error option" where
  "SendDirectNotice X destHash body k0 = requireActive k0 (\<lambda>k.
     if length destHash \<noteq> IdentityLength then (k, Some ErrBadFieldLength)
     else case client_NewEnvelope TypeNotice k of
       (k1, Inl e) \<Rightarrow> (k1, Some e)
     | (k1, Inr env) \<Rightarrow>
         client_sendEnvelope X
           (with_nick (s_nick (k_client k1))
             (env\<lparr>e_Destination := destHash, e_HasDestination := True, e_Body := VString body, e_HasBody := True\<rparr>)) k1)"

definition SendResourceEnvelope ::
  "client_env \<Rightarrow> gostring \<Rightarrow> ResourceEnvelopeBody option \<Rightarrow> cworld \<Rightarrow> cworld \<times> rrc_error option" where
  "SendResourceEnvelope X room body k0 = requireActive k0 (\<lambda>k.
     case client_NewEnvelope TypeResourceEnvelope k of
       (k1, Inl e) \<Rightarrow> (k1, Some e)
     | (k1, Inr env) \<Rightarrow>
         (let env1 = (if room \<noteq> [] then env\<lparr>e_Room := NormalizeRoom (x_lower X) room, e_HasRoom := True\<rparr> else env);
              env2 = (case Option.bind body ResourceEnvelopeBody_ToMap of
                        None \<Rightarrow> env1 | Some m \<Rightarrow> env1\<lparr>e_Body := VMapU m, e_HasBody := True\<rparr>)
          in client_sendEnvelope X (with_nick (s_nick (k_client k1)) env2) k1))"

definition Ping :: "client_env \<Rightarrow> val \<Rightarrow> cworld \<Rightarrow> cworld \<times> rrc_error option" where
  "Ping X body k0 = requireActive k0 (\<lambda>k. client_sendType X TypePing [] body [] k)"

definition Rooms :: "cworld \<Rightarrow> gostring list" where
  "Rooms k = c_rooms (k_client k)"

subsection \<open>Dialling\<close>

definition hello_body :: "ClientConfig \<Rightarrow> HelloBody" where
  "hello_body cfg =
     \<lparr>hb_ClientName = cc_Name cfg, hb_ClientVersion = cc_Version cfg, hb_Capabilities = cc_Capabilities cfg,
      hb_HasName = (cc_Name cfg \<noteq> []), hb_HasVersion = (cc_Version cfg \<noteq> []), hb_HasCaps = (\<not> Option.is_none (cc_Capabilities cfg))\<rparr>"

definition sendHello :: "client_env \<Rightarrow> cworld \<Rightarrow> cworld \<times> rrc_error option" where
  "sendHello X k =
     client_sendType X TypeHello []
       (case HelloBody_ToMap (hello_body (c_cfg (k_client k))) of None \<Rightarrow> VNil | Some m \<Rightarrow> VMapU m) (s_nick (k_client k)) k"

text \<open>
  \<^verbatim>\<open>waitUntil\<close>: poll number \<open>k\<close> and the clock at tick \<open>k\<close>; the deadline is set at the first poll.  The loop
  ends with the ticker, so it ends when the clock passes the deadline.
\<close>

partial_function (option) wait_ticks :: "(nat \<Rightarrow> bool) \<Rightarrow> (nat \<Rightarrow> int) \<Rightarrow> int \<Rightarrow> nat \<Rightarrow> bool option" where
  "wait_ticks ok now deadline k =
     (if ok k then Some True
      else if \<not> now k < deadline then Some (ok (Suc k))
      else wait_ticks ok now deadline (Suc k))"

definition waitUntil :: "int \<Rightarrow> (nat \<Rightarrow> bool) \<Rightarrow> (nat \<Rightarrow> int) \<Rightarrow> bool option" where
  "waitUntil timeout ok now = (if ok 0 then Some True else wait_ticks ok now (now 0 + timeout) 1)"

text \<open>The network \<^verbatim>\<open>Dial\<close> works on: each field is what one call of the library answers.\<close>

record dial_net =
  dn_hasPath :: "nat \<Rightarrow> bool"
  dn_pathClock :: "nat \<Rightarrow> int"
  dn_recall :: bool
  dn_fromHash :: "gostring option"
  dn_establish :: "gostring option"
  dn_active :: "nat \<Rightarrow> bool"
  dn_linkClock :: "nat \<Rightarrow> int"
  dn_identify :: "gostring option"

definition dial_cfg :: "ClientConfig \<Rightarrow> ClientConfig" where
  "dial_cfg cfg =
     cfg\<lparr>cc_DialTimeout := (if cc_DialTimeout cfg \<le> 0 then 45 * 1000000000 else cc_DialTimeout cfg),
         cc_WelcomeTimeout := (if cc_WelcomeTimeout cfg \<le> 0 then 30 * 1000000000 else cc_WelcomeTimeout cfg)\<rparr>"

definition new_client :: "bytes \<Rightarrow> ClientConfig \<Rightarrow> Client" where
  "new_client idHash cfg =
     \<lparr>c_sender = idHash, c_cfg = cfg, c_state = ClientConnected, c_rooms = [], c_pending = [], c_welcome = None,
      c_lastErr = None, s_nick = (if cc_Nick cfg \<noteq> [] then SanitizeNick (cc_Nick cfg) else []), s_closed = False,
      s_up = False\<rparr>"

text \<open>Up to the HELLO: the outer option is a wait that never ends.\<close>

definition Dial ::
  "client_env \<Rightarrow> dial_net \<Rightarrow> bytes \<Rightarrow> bytes \<Rightarrow> ClientConfig \<Rightarrow> cworld \<Rightarrow> (rrc_error + cworld) option" where
  "Dial X N idHash hubHash cfg0 k0 =
     (let cfg = dial_cfg cfg0 in
      if length hubHash \<noteq> IdentityLength then Some (Inl ErrBadFieldLength)
      else case waitUntil (cc_DialTimeout cfg) (dn_hasPath N) (dn_pathClock N) of
        None \<Rightarrow> None
      | Some False \<Rightarrow> Some (Inl ErrDialTimeout)
      | Some True \<Rightarrow>
          if \<not> dn_recall N then Some (Inl ErrDialTimeout)
          else (case dn_fromHash N of Some e \<Rightarrow> Some (Inl (ErrOther e)) | None \<Rightarrow>
               (case dn_establish N of Some e \<Rightarrow> Some (Inl (ErrOther e)) | None \<Rightarrow>
               (case waitUntil (cc_DialTimeout cfg) (dn_active N) (dn_linkClock N) of
                  None \<Rightarrow> None
                | Some False \<Rightarrow> Some (Inl ErrDialTimeout)
                | Some True \<Rightarrow>
                   (case dn_identify N of Some e \<Rightarrow> Some (Inl (ErrOther e)) | None \<Rightarrow>
                   (case sendHello X (k0\<lparr>k_client := (new_client idHash cfg)\<lparr>c_state := ClientAwaitingWelcome, s_up := True\<rparr>,
                                        k_ch := None\<rparr>) of
                      (k1, Some e) \<Rightarrow> Some (Inl e)
                    | (k1, None) \<Rightarrow> Some (Inr k1)))))))"

text \<open>The branch of the \<^verbatim>\<open>select\<close> that is taken; the first one receives the WELCOME in the channel.\<close>

datatype dial_case = WelcomeCh Envelope | WelcomeTimer | ClosedCh

fun dial_select :: "dial_case \<Rightarrow> cworld \<Rightarrow> rrc_error + cworld" where
  "dial_select (WelcomeCh env) k =
     (case ParseWelcomeBody (e_Body env) of
        Inl e \<Rightarrow> Inl e
      | Inr body \<Rightarrow>
          Inr (clog (CvWelcome body env)
            (with_client (\<lambda>c. c\<lparr>c_welcome := Some body, c_state := ClientActive\<rparr>) (k\<lparr>k_ch := None\<rparr>))))"
| "dial_select WelcomeTimer k = Inl ErrWelcomeTimeout"
| "dial_select ClosedCh k = Inl ErrSessionClosed"

definition DialHash ::
  "client_env \<Rightarrow> dial_net \<Rightarrow> bytes \<Rightarrow> gostring \<Rightarrow> ClientConfig \<Rightarrow> cworld \<Rightarrow> (rrc_error + cworld) option" where
  "DialHash X N idHash hubHex cfg k =
     (case ParseHash hubHex of Inl _ \<Rightarrow> Some (Inl ErrInvalidHash) | Inr hubHash \<Rightarrow> Dial X N idHash hubHash cfg k)"

subsection \<open>What the operations leave alone\<close>

lemma with_client_sel [simp]:
  "k_client (with_client f k) = f (k_client k)" "k_out (with_client f k) = k_out k"
  "k_ch (with_client f k) = k_ch k" "k_log (with_client f k) = k_log k"
  by (simp_all add: with_client_def)

lemma client_sendRaw_frame [simp]:
  "k_client (fst (client_sendRaw X raw k)) = k_client k" "k_ch (fst (client_sendRaw X raw k)) = k_ch k"
  by (simp_all add: client_sendRaw_def split: option.split)

lemma client_sendEnvelope_frame [simp]:
  "k_client (fst (client_sendEnvelope X e k)) = k_client k" "k_ch (fst (client_sendEnvelope X e k)) = k_ch k"
  by (simp_all add: client_sendEnvelope_def split: sum.split)

lemma client_sendType_frame [simp]:
  "k_client (fst (client_sendType X t r b n k)) = k_client k" "k_ch (fst (client_sendType X t r b n k)) = k_ch k"
  by (simp_all add: client_sendType_def client_NewEnvelope_def split: sum.split)

lemma request_frame [simp]:
  "k_client (fst (JoinKeyed X r key k)) = k_client k"
  "k_client (fst (SendSlash X cmd k)) = k_client k"
  "k_client (fst (sendRoomContent X t r body k)) = k_client k"
  "k_client (fst (SendDirectNotice X d body k)) = k_client k"
  "k_client (fst (SendResourceEnvelope X r rb k)) = k_client k"
  "k_client (fst (Ping X v k)) = k_client k"
  by (simp_all add: JoinKeyed_def SendSlash_def sendRoomContent_def SendDirectNotice_def SendResourceEnvelope_def
      Ping_def requireActive_def Let_def client_NewEnvelope_def split: sum.split)

subsection \<open>Reachable clients\<close>

text \<open>
  The life of a client: \<^verbatim>\<open>Dial\<close> up to its HELLO, then packets while the link is up, the end of the link, the
  receive of \<^verbatim>\<open>Dial\<close> (once), and the calls of the application.
\<close>

inductive client_step :: "client_env \<Rightarrow> cworld \<Rightarrow> cworld \<Rightarrow> bool" for X where
  packet: "s_up (k_client k) \<Longrightarrow> client_step X k (client_inbound X d k)"
| down: "client_step X k (link_down k)"
| welcomed: "k_ch k = Some env \<Longrightarrow> Option.is_none (c_welcome (k_client k)) \<Longrightarrow> dial_select (WelcomeCh env) k = Inr k' \<Longrightarrow>
    client_step X k k'"
| join: "client_step X k (fst (JoinKeyed X r key k))"
| slash: "client_step X k (fst (SendSlash X cmd k))"
| part: "client_step X k (fst (Part X r k))"
| content: "client_step X k (fst (sendRoomContent X t r body k))"
| direct: "client_step X k (fst (SendDirectNotice X d body k))"
| resource: "client_step X k (fst (SendResourceEnvelope X r rb k))"
| ping: "client_step X k (fst (Ping X v k))"
| nick: "client_step X k (setNick n k)"
| close: "client_step X k (client_Close k)"
| clock: "k_now k \<le> t \<Longrightarrow> client_step X k (k\<lparr>k_now := t\<rparr>)"

inductive client_reachable :: "client_env \<Rightarrow> cworld \<Rightarrow> bool" for X where
  start: "Dial X N idHash hubHash cfg k0 = Some (Inr k) \<Longrightarrow> client_reachable X k"
| step: "client_reachable X k \<Longrightarrow> client_step X k k' \<Longrightarrow> client_reachable X k'"

text \<open>
  The rooms of a client are normalised names without repetition, and there are none once the link is
  down; so are the rooms it asked to leave, until it is disconnected.  An active client has its WELCOME.
\<close>

definition client_inv :: "(rune \<Rightarrow> rune) \<Rightarrow> Client \<Rightarrow> bool" where
  "client_inv ul c \<longleftrightarrow> distinct (c_rooms c) \<and> distinct (c_pending c)
     \<and> (\<forall>r \<in> set (c_rooms c) \<union> set (c_pending c). NormalizeRoom ul r = r)
     \<and> (c_state c = ClientDisconnected \<longrightarrow> c_rooms c = [] \<and> c_pending c = [])
     \<and> (\<not> s_up c \<longrightarrow> c_rooms c = []) \<and> (s_closed c \<longrightarrow> \<not> s_up c)
     \<and> (c_state c = ClientActive \<longrightarrow> \<not> Option.is_none (c_welcome c))"

lemma new_client_inv: "client_inv ul ((new_client idHash cfg)\<lparr>c_state := ClientAwaitingWelcome, s_up := True\<rparr>)"
  by (simp add: client_inv_def new_client_def)

lemma Dial_client:
  assumes "Dial X N idHash hubHash cfg k0 = Some (Inr k)"
  shows "k_client k = (new_client idHash (dial_cfg cfg))\<lparr>c_state := ClientAwaitingWelcome, s_up := True\<rparr>"
proof -
  let ?k = "k0\<lparr>k_client := (new_client idHash (dial_cfg cfg))\<lparr>c_state := ClientAwaitingWelcome, s_up := True\<rparr>, k_ch := None\<rparr>"
  have "k = fst (sendHello X ?k)"
    using assms by (auto simp: Dial_def Let_def split: if_splits option.splits bool.splits prod.splits)
  then show ?thesis by (simp add: sendHello_def)
qed

lemma client_inv_rooms:
  assumes "lower_table ul" "client_inv ul c"
  shows "s_up c \<Longrightarrow> c_state c \<noteq> ClientDisconnected \<Longrightarrow> client_inv ul (c\<lparr>c_rooms := List.insert (NormalizeRoom ul r) (c_rooms c)\<rparr>)"
    and "c_state c \<noteq> ClientDisconnected \<Longrightarrow> client_inv ul (c\<lparr>c_pending := List.insert (NormalizeRoom ul r) (c_pending c)\<rparr>)"
    and "client_inv ul (c\<lparr>c_pending := removeAll r (c_pending c), c_rooms := removeAll r (c_rooms c)\<rparr>)"
    and "client_inv ul (c\<lparr>c_lastErr := e\<rparr>)" and "client_inv ul (c\<lparr>s_nick := n\<rparr>)"
  using assms by (auto simp: client_inv_def NormalizeRoom_idem distinct_removeAll)

text \<open>While the link is up the client is not disconnected.\<close>

definition client_up :: "Client \<Rightarrow> bool" where
  "client_up c \<longleftrightarrow> (s_up c \<longrightarrow> c_state c \<noteq> ClientDisconnected)"

lemma dispatch_inv:
  assumes "lower_table (x_lower X)" "client_inv (x_lower X) (k_client k)" "client_up (k_client k)" "s_up (k_client k)"
  shows "client_inv (x_lower X) (k_client (dispatch X env k))" "client_up (k_client (dispatch X env k))"
  using assms client_inv_rooms [OF assms(1,2)]
  by (auto simp: dispatch_def on_joined_def on_parted_def Let_def client_up_def split: option.split)

lemma onLinkClosed_inv:
  assumes "client_inv ul (k_client k)"
  shows "client_inv ul (k_client (onLinkClosed k))" "c_state (k_client (onLinkClosed k)) = ClientDisconnected"
    "s_up (k_client (onLinkClosed k)) = s_up (k_client k)"
  using assms by (auto simp: onLinkClosed_def client_inv_def)

lemma client_down_inv:
  assumes "client_inv ul c"
  shows "client_inv ul (c\<lparr>c_state := ClientDisconnected, c_rooms := [], c_pending := [], s_up := False, s_closed := b\<rparr>)"
  using assms by (simp add: client_inv_def)

lemma step_inv:
  assumes "lower_table (x_lower X)" "client_step X k k'" "client_inv (x_lower X) (k_client k)" "client_up (k_client k)"
  shows "client_inv (x_lower X) (k_client k') \<and> client_up (k_client k')"
  using assms(2)
proof cases
  case (packet d)
  with assms show ?thesis
    using dispatch_inv [OF assms(1)] by (auto simp: client_inbound_def split: sum.split)
next
  case down
  with assms show ?thesis by (auto simp: link_down_def onLinkClosed_def client_inv_def client_up_def)
next
  case (welcomed env)
  with assms show ?thesis by (auto simp: client_inv_def client_up_def split: sum.splits)
next
  case (part r)
  then have "k_client k' = (if c_state (k_client k) \<noteq> ClientActive then k_client k
      else (k_client k)\<lparr>c_pending := List.insert (NormalizeRoom (x_lower X) r) (c_pending (k_client k))\<rparr>)"
    by (simp add: Part_def requireActive_def Let_def)
  with assms client_inv_rooms(2) [OF assms(1,3)] show ?thesis by (auto simp: client_up_def)
next
  case (nick n)
  with assms client_inv_rooms(5) [OF assms(1,3)] show ?thesis by (simp add: setNick_def client_up_def)
next
  case close
  with assms show ?thesis by (auto simp: client_Close_def onLinkClosed_def client_inv_def client_up_def)
qed (use assms in \<open>simp_all\<close>)

lemma reachable_client_inv:
  assumes "lower_table (x_lower X)" "client_reachable X k"
  shows "client_inv (x_lower X) (k_client k) \<and> client_up (k_client k)"
  using assms(2)
proof induction
  case (start N idHash hubHash cfg k0 k)
  then show ?case by (simp add: Dial_client [OF start] new_client_inv client_up_def)
qed (use step_inv [OF assms(1)] in blast)

subsection \<open>Waiting\<close>

lemma wait_ticks_end:
  assumes "j \<le> n" "\<forall>i. j \<le> i \<and> i < n \<longrightarrow> now i < deadline" "deadline \<le> now n"
  shows "wait_ticks ok now deadline j = Some (\<exists>i. j \<le> i \<and> i \<le> Suc n \<and> ok i)"
  using assms(1,2)
proof (induction "n - j" arbitrary: j)
  case 0
  then have [simp]: "j = n" by simp
  have "(\<exists>i. n \<le> i \<and> i \<le> Suc n \<and> ok i) = (ok n \<or> ok (Suc n))"
    by (metis antisym le_SucE le_SucI le_refl)
  with assms(3) show ?case by (subst wait_ticks.simps) simp
next
  case (Suc d)
  then have j: "j < n" "now j < deadline" by auto
  have "wait_ticks ok now deadline (Suc j) = Some (\<exists>i. Suc j \<le> i \<and> i \<le> Suc n \<and> ok i)"
    using Suc by (intro Suc.hyps(1)) auto
  with j show ?case by (subst wait_ticks.simps) (auto simp: Suc_le_eq nat_less_le intro: exI [of _ j])
qed

lemma waitUntil_end:
  assumes "1 \<le> n" "\<forall>i. 1 \<le> i \<and> i < n \<longrightarrow> now i < now 0 + timeout" "now 0 + timeout \<le> now n"
  shows "waitUntil timeout ok now = Some (\<exists>i \<le> Suc n. ok i)"
proof (cases "ok 0")
  case True
  then show ?thesis by (auto simp: waitUntil_def)
next
  case False
  then have "(\<exists>i. 1 \<le> i \<and> i \<le> Suc n \<and> ok i) = (\<exists>i \<le> Suc n. ok i)"
    by (metis One_nat_def Suc_leI not_gr_zero)
  with False show ?thesis using wait_ticks_end [OF assms] by (simp add: waitUntil_def)
qed

end
