(* ===== verification/RRC_Hub_Inv.thy ===== *)
theory RRC_Hub_Inv
  imports RRC_Hub
begin

text \<open>
  The invariant of the hub and that every handler keeps it.  The handlers are taken apart into the
  changes they make to \<open>Hub\<close> (joining, leaving, closing, registering) and into sends, which leave the
  hub alone.  The handlers that call the policy follow in \<open>RRC_Policy\<close>.
\<close>

subsection \<open>Sends leave the hub alone\<close>

lemma sendRaw_frame [simp]:
  "w_hub (fst (sendRaw X i raw w)) = w_hub w"
  "w_pol (fst (sendRaw X i raw w)) = w_pol w"
  "w_now (fst (sendRaw X i raw w)) = w_now w"
  by (simp_all add: sendRaw_def split: option.split)

lemma sendEnvelope_frame [simp]:
  "w_hub (fst (sendEnvelope X i e w)) = w_hub w"
  "w_pol (fst (sendEnvelope X i e w)) = w_pol w"
  by (simp_all add: sendEnvelope_def split: sum.split)

lemma marshalType_frame [simp]:
  "w_hub (fst (marshalType X s t r b n w)) = w_hub w"
  "w_pol (fst (marshalType X s t r b n w)) = w_pol w"
  "w_now (fst (marshalType X s t r b n w)) = w_now w"
  "w_out (fst (marshalType X s t r b n w)) = w_out w"
  by (simp_all add: marshalType_def split: sum.split)

lemma sendType_split:
  "sendType X i t r b n w =
     (let m = marshalType X (h_sender (w_hub w)) t r b n w
      in case snd m of Inl e \<Rightarrow> (fst m, Some e) | Inr raw \<Rightarrow> sendRaw X i raw (fst m))"
  by (simp add: sendType_def Let_def split: prod.split sum.split)

lemma sendType_frame [simp]:
  "w_hub (fst (sendType X i t r b n w)) = w_hub w"
  "w_pol (fst (sendType X i t r b n w)) = w_pol w"
  "w_now (fst (sendType X i t r b n w)) = w_now w"
  by (simp_all add: sendType_split Let_def split: sum.split)

lemma send_type_frame [simp]:
  "w_hub (send_type X i t r b n w) = w_hub w"
  "w_pol (send_type X i t r b n w) = w_pol w"
  "w_now (send_type X i t r b n w) = w_now w"
  by (simp_all add: send_type_def)

lemma replyError_frame [simp]:
  "w_hub (replyError X i msg w) = w_hub w"
  "w_pol (replyError X i msg w) = w_pol w"
  "w_now (replyError X i msg w) = w_now w"
  by (simp_all add: replyError_def)

lemma send_all_frame [simp]:
  "w_hub (send_all X is raw w) = w_hub w"
  "w_pol (send_all X is raw w) = w_pol w"
  "w_now (send_all X is raw w) = w_now w"
  by (induction "is" arbitrary: w) simp_all

lemma broadcast_split:
  "broadcast X is t r b n w =
     (let m = marshalType X (h_sender (w_hub w)) t r b n w
      in case snd m of Inl e \<Rightarrow> fst m | Inr raw \<Rightarrow> send_all X is raw (fst m))"
  by (simp add: broadcast_def Let_def split: prod.split sum.split)

lemma broadcast_frame [simp]:
  "w_hub (broadcast X is t r b n w) = w_hub w"
  "w_pol (broadcast X is t r b n w) = w_pol w"
  "w_now (broadcast X is t r b n w) = w_now w"
  by (simp_all add: broadcast_split Let_def split: sum.split)

lemma send_notes_frame [simp]:
  "w_hub (send_notes X body nick ns w) = w_hub w"
  "w_pol (send_notes X body nick ns w) = w_pol w"
  "w_now (send_notes X body nick ns w) = w_now w"
  by (induction ns arbitrary: w) simp_all

lemma with_hub_sel [simp]:
  "w_hub (with_hub f w) = f (w_hub w)" "w_pol (with_hub f w) = w_pol w" "w_now (with_hub f w) = w_now w"
  "w_out (with_hub f w) = w_out w" "w_log (with_hub f w) = w_log w"
  by (simp_all add: with_hub_def)

lemma upd_obj_sel [simp]:
  "h_sender (upd_obj i f h) = h_sender h" "h_cfg (upd_obj i f h) = h_cfg h" "h_peers (upd_obj i f h) = h_peers h"
  "h_rooms (upd_obj i f h) = h_rooms h" "h_nickIndex (upd_obj i f h) = h_nickIndex h"
  "h_next (upd_obj i f h) = h_next h" "h_objs (upd_obj i f h) = (h_objs h)(i := f (h_objs h i))"
  by (simp_all add: upd_obj_def)

lemma unindexNickLocked_sel [simp]:
  "h_sender (unindexNickLocked ul k n h) = h_sender h" "h_cfg (unindexNickLocked ul k n h) = h_cfg h"
  "h_peers (unindexNickLocked ul k n h) = h_peers h" "h_rooms (unindexNickLocked ul k n h) = h_rooms h"
  "h_next (unindexNickLocked ul k n h) = h_next h" "h_objs (unindexNickLocked ul k n h) = h_objs h"
  by (simp_all add: unindexNickLocked_def Let_def)

lemma reindexNick_sel [simp]:
  "h_sender (reindexNick ul k n m h) = h_sender h" "h_cfg (reindexNick ul k n m h) = h_cfg h"
  "h_peers (reindexNick ul k n m h) = h_peers h" "h_rooms (reindexNick ul k n m h) = h_rooms h"
  "h_next (reindexNick ul k n m h) = h_next h" "h_objs (reindexNick ul k n m h) = h_objs h"
  by (simp_all add: reindexNick_def Let_def)

lemma unlist_rooms_sel [simp]:
  "h_sender (unlist_rooms k rs h) = h_sender h" "h_cfg (unlist_rooms k rs h) = h_cfg h"
  "h_peers (unlist_rooms k rs h) = h_peers h" "h_nickIndex (unlist_rooms k rs h) = h_nickIndex h"
  "h_next (unlist_rooms k rs h) = h_next h" "h_objs (unlist_rooms k rs h) = h_objs h"
  by (simp_all add: unlist_rooms_def)

lemma unlist_rooms_members:
  "assoc_set (h_rooms (unlist_rooms k rs h)) r =
     (if r \<in> set rs then removeAll k (assoc_set (h_rooms h) r) else assoc_set (h_rooms h) r)"
proof -
  have "assoc_set (fold (\<lambda>room. set_remove room k) rs m) r =
      (if r \<in> set rs then removeAll k (assoc_set m r) else assoc_set m r)" for m
  proof (induction rs arbitrary: m)
    case (Cons a rs)
    show ?case by (simp add: Cons assoc_set_remove)
  qed simp
  then show ?thesis by (simp add: unlist_rooms_def)
qed

lemma set_map_ok_unlist: "set_map_ok (h_rooms h) \<Longrightarrow> set_map_ok (h_rooms (unlist_rooms k rs h))"
proof -
  have "set_map_ok m \<Longrightarrow> set_map_ok (fold (\<lambda>room. set_remove room k) rs m)" for m
    by (induction rs arbitrary: m) (simp_all add: set_map_ok_remove)
  then show "set_map_ok (h_rooms h) \<Longrightarrow> ?thesis" by (simp add: unlist_rooms_def)
qed

lemma set_map_ok_nicks:
  "set_map_ok (h_nickIndex h) \<Longrightarrow> set_map_ok (h_nickIndex (unindexNickLocked ul k n h))"
  "set_map_ok (h_nickIndex h) \<Longrightarrow> set_map_ok (h_nickIndex (reindexNick ul k n m h))"
  by (simp_all add: unindexNickLocked_def reindexNick_def Let_def set_map_ok_remove set_map_ok_add)

subsection \<open>The invariant\<close>

text \<open>
  One connection in itself: it is unidentified and in no room, or its hash has sixteen bytes; only an
  identified peer is welcomed; its rooms are distinct names, normalised when the case table is lawful.
\<close>

definition peer_ok :: "(rune \<Rightarrow> rune) \<Rightarrow> hubPeer \<Rightarrow> bool" where
  "peer_ok ul p \<longleftrightarrow>
     (p_hash p = [] \<and> p_rooms p = [] \<or> length (p_hash p) = IdentityLength)
     \<and> (p_active p \<longrightarrow> length (p_hash p) = IdentityLength)
     \<and> p_once p = (p_hash p \<noteq> [])
     \<and> distinct (p_rooms p) \<and> (\<forall>r \<in> set (p_rooms p). r \<noteq> [] \<and> (lower_table ul \<longrightarrow> NormalizeRoom ul r = r))"

text \<open>
  The hub: a registered peer is open and its key is its hash; an open identified connection is the
  registered one; the rooms a registered peer counts itself in list it.
\<close>

definition hub_inv :: "(rune \<Rightarrow> rune) \<Rightarrow> Hub \<Rightarrow> bool" where
  "hub_inv ul h \<longleftrightarrow>
     distinct (map fst (h_peers h)) \<and> set_map_ok (h_rooms h) \<and> set_map_ok (h_nickIndex h)
     \<and> (\<forall>i. peer_ok ul (h_objs h i))
     \<and> (\<forall>i. h_next h \<le> i \<longrightarrow> h_objs h i = blank_peer)
     \<and> (\<forall>k i. map_of (h_peers h) k = Some i \<longrightarrow> p_hash (h_objs h i) = k \<and> \<not> p_closed (h_objs h i) \<and> k \<noteq> [])
     \<and> (\<forall>i. \<not> p_closed (h_objs h i) \<and> p_hash (h_objs h i) \<noteq> [] \<longrightarrow> map_of (h_peers h) (p_hash (h_objs h i)) = Some i)
     \<and> (\<forall>k i r. map_of (h_peers h) k = Some i \<and> r \<in> set (p_rooms (h_objs h i)) \<longrightarrow> k \<in> set (assoc_set (h_rooms h) r))"

text \<open>No room lists an identity that is not a connected peer in that room.\<close>

definition no_ghosts :: "Hub \<Rightarrow> bool" where
  "no_ghosts h \<longleftrightarrow>
     (\<forall>r k. k \<in> set (assoc_set (h_rooms h) r) \<longrightarrow>
        (\<exists>i. map_of (h_peers h) k = Some i \<and> r \<in> set (p_rooms (h_objs h i))))"

lemma hub_invD:
  assumes "hub_inv ul h"
  shows "distinct (map fst (h_peers h))" "set_map_ok (h_rooms h)" "set_map_ok (h_nickIndex h)"
    "peer_ok ul (h_objs h i)" "h_next h \<le> i \<Longrightarrow> h_objs h i = blank_peer"
    "map_of (h_peers h) k = Some i \<Longrightarrow> p_hash (h_objs h i) = k"
    "map_of (h_peers h) k = Some i \<Longrightarrow> \<not> p_closed (h_objs h i)"
    "map_of (h_peers h) k = Some i \<Longrightarrow> k \<noteq> []"
    "\<not> p_closed (h_objs h i) \<Longrightarrow> p_hash (h_objs h i) \<noteq> [] \<Longrightarrow> map_of (h_peers h) (p_hash (h_objs h i)) = Some i"
    "map_of (h_peers h) k = Some i \<Longrightarrow> r \<in> set (p_rooms (h_objs h i)) \<Longrightarrow> k \<in> set (assoc_set (h_rooms h) r)"
  using assms unfolding hub_inv_def by metis+

lemma hub_invI:
  assumes "distinct (map fst (h_peers h))" "set_map_ok (h_rooms h)" "set_map_ok (h_nickIndex h)"
    "\<And>i. peer_ok ul (h_objs h i)" "\<And>i. h_next h \<le> i \<Longrightarrow> h_objs h i = blank_peer"
    "\<And>k i. map_of (h_peers h) k = Some i \<Longrightarrow> p_hash (h_objs h i) = k \<and> \<not> p_closed (h_objs h i) \<and> k \<noteq> []"
    "\<And>i. \<not> p_closed (h_objs h i) \<Longrightarrow> p_hash (h_objs h i) \<noteq> [] \<Longrightarrow> map_of (h_peers h) (p_hash (h_objs h i)) = Some i"
    "\<And>k i r. map_of (h_peers h) k = Some i \<Longrightarrow> r \<in> set (p_rooms (h_objs h i)) \<Longrightarrow> k \<in> set (assoc_set (h_rooms h) r)"
  shows "hub_inv ul h"
  using assms unfolding hub_inv_def by blast

lemma peerKey_id [simp]: "length k = IdentityLength \<Longrightarrow> peerKey k = k"
  by (simp add: peerKey_def)

lemma peer_ok_key: "peer_ok ul p \<Longrightarrow> p_hash p \<noteq> [] \<Longrightarrow> length (p_hash p) = IdentityLength"
  by (auto simp: peer_ok_def)

lemma blank_peer_ok [simp]: "peer_ok ul blank_peer"
  by (simp add: peer_ok_def blank_peer_def)

lemma NewHub_inv: "hub_inv ul (NewHub s cfg)" "no_ghosts (NewHub s cfg)"
  by (auto intro!: hub_invI simp: NewHub_def no_ghosts_def) (simp add: blank_peer_def)

subsection \<open>Changes of the hub\<close>

text \<open>The registered connection of its identity.\<close>

definition live :: "Hub \<Rightarrow> conn \<Rightarrow> bool" where
  "live h i \<longleftrightarrow> map_of (h_peers h) (p_hash (h_objs h i)) = Some i"

text \<open>A change of a connection that keeps its hash, its rooms and whether it is open.\<close>

definition soft :: "(hubPeer \<Rightarrow> hubPeer) \<Rightarrow> hubPeer \<Rightarrow> bool" where
  "soft f p \<longleftrightarrow> p_hash (f p) = p_hash p \<and> p_rooms (f p) = p_rooms p \<and> p_closed (f p) = p_closed p
     \<and> p_once (f p) = p_once p \<and> (p_active (f p) \<longrightarrow> p_active p \<or> length (p_hash p) = IdentityLength)"

lemma hub_inv_soft:
  assumes inv: "hub_inv ul h" and i: "i < h_next h" and soft: "soft f (h_objs h i)"
  shows "hub_inv ul (upd_obj i f h)"
proof (rule hub_invI, goal_cases)
  case (4 j)
  then show ?case using hub_invD(4) [OF inv, of j] soft by (auto simp: peer_ok_def soft_def)
next
  case (5 j)
  then show ?case using hub_invD(5) [OF inv, of j] i by auto
next
  case (6 k j)
  then show ?case using hub_invD(6-8) [OF inv, of k j] soft by (auto simp: soft_def)
next
  case (7 j)
  then show ?case using hub_invD(9) [OF inv, of j] soft by (auto simp: soft_def split: if_splits)
next
  case (8 k j r)
  then show ?case using hub_invD(10) [OF inv, of k j r] soft by (auto simp: soft_def split: if_splits)
qed (use hub_invD(1-3) [OF inv] in simp_all)

lemma no_ghosts_soft: "no_ghosts h \<Longrightarrow> soft f (h_objs h i) \<Longrightarrow> no_ghosts (upd_obj i f h)"
  unfolding no_ghosts_def soft_def by fastforce

lemma hub_inv_nicks:
  "hub_inv ul h \<Longrightarrow> hub_inv ul (reindexNick ul' k n m h)"
  unfolding hub_inv_def by (simp add: set_map_ok_nicks)

lemma no_ghosts_nicks [simp]: "no_ghosts (reindexNick ul' k n m h) = no_ghosts h"
  by (simp add: no_ghosts_def)

lemma hub_inv_cfg: "hub_inv ul h \<Longrightarrow> hub_inv ul (h\<lparr>h_cfg := c\<rparr>)"
  by (simp add: hub_inv_def)

lemma no_ghosts_cfg [simp]: "no_ghosts (h\<lparr>h_cfg := c\<rparr>) = no_ghosts h"
  by (simp add: no_ghosts_def)

subsubsection \<open>Joining and leaving\<close>

lemma join_room_sel [simp]:
  "h_peers (join_room i k r h) = h_peers h" "h_next (join_room i k r h) = h_next h"
  "h_cfg (join_room i k r h) = h_cfg h" "h_nickIndex (join_room i k r h) = h_nickIndex h"
  "h_rooms (join_room i k r h) = set_add r k (h_rooms h)"
  "h_objs (join_room i k r h) = (h_objs h)(i := (h_objs h i)\<lparr>p_rooms := List.insert r (p_rooms (h_objs h i))\<rparr>)"
  by (simp_all add: join_room_def upd_obj_def)

lemma leave_room_sel [simp]:
  "h_peers (leave_room i k r h) = h_peers h" "h_next (leave_room i k r h) = h_next h"
  "h_cfg (leave_room i k r h) = h_cfg h" "h_nickIndex (leave_room i k r h) = h_nickIndex h"
  "h_rooms (leave_room i k r h) = set_remove r k (h_rooms h)"
  "h_objs (leave_room i k r h) = (h_objs h)(i := (h_objs h i)\<lparr>p_rooms := removeAll r (p_rooms (h_objs h i))\<rparr>)"
  by (simp_all add: leave_room_def upd_obj_def)

lemma hub_inv_join:
  assumes inv: "hub_inv ul h" and i: "i < h_next h" and len: "length (p_hash (h_objs h i)) = IdentityLength"
    and k: "k = p_hash (h_objs h i)" and r: "r \<noteq> []" "lower_table ul \<longrightarrow> NormalizeRoom ul r = r"
  shows "hub_inv ul (join_room i k r h)"
proof (rule hub_invI, goal_cases)
  case (4 j)
  then show ?case using hub_invD(4) [OF inv, of j] len r by (auto simp: peer_ok_def)
next
  case (5 j)
  then show ?case using hub_invD(5) [OF inv, of j] i by auto
next
  case (6 k' j)
  then show ?case using hub_invD(6-8) [OF inv, of k' j] by auto
next
  case (7 j)
  then show ?case using hub_invD(9) [OF inv, of j] by (auto split: if_splits)
next
  case (8 k' j r')
  then show ?case using hub_invD(6,10) [OF inv, of k' j] k by (auto simp: assoc_set_add split: if_splits)
qed (use hub_invD(1-3) [OF inv] in \<open>simp_all add: set_map_ok_add\<close>)

lemma no_ghosts_join:
  assumes ng: "no_ghosts h" and live: "live h i" and k: "k = p_hash (h_objs h i)"
  shows "no_ghosts (join_room i k r h)"
  unfolding no_ghosts_def
proof (intro allI impI)
  fix r' k' assume "k' \<in> set (assoc_set (h_rooms (join_room i k r h)) r')"
  then consider "k' = k" "r' = r" | "k' \<in> set (assoc_set (h_rooms h) r')"
    by (auto simp: assoc_set_add split: if_splits)
  then show "\<exists>j. map_of (h_peers (join_room i k r h)) k' = Some j \<and> r' \<in> set (p_rooms (h_objs (join_room i k r h) j))"
  proof cases
    case 1
    then show ?thesis using live k by (auto simp: live_def)
  next
    case 2
    then obtain j where "map_of (h_peers h) k' = Some j" "r' \<in> set (p_rooms (h_objs h j))"
      using ng unfolding no_ghosts_def by blast
    then show ?thesis by (intro exI [of _ j]) auto
  qed
qed

lemma peer_ok_leave: "peer_ok ul p \<Longrightarrow> peer_ok ul (p\<lparr>p_rooms := removeAll r (p_rooms p)\<rparr>)"
  by (auto simp: peer_ok_def distinct_removeAll)

lemma hub_inv_leave:
  assumes inv: "hub_inv ul h" and i: "i < h_next h" and live: "live h i" and k: "k = p_hash (h_objs h i)"
  shows "hub_inv ul (leave_room i k r h)"
proof (rule hub_invI, goal_cases)
  case (4 j)
  then show ?case using hub_invD(4) [OF inv, of j] by (auto intro: peer_ok_leave)
next
  case (5 j)
  then show ?case using hub_invD(5) [OF inv, of j] i by auto
next
  case (6 k' j)
  then show ?case using hub_invD(6-8) [OF inv, of k' j] by auto
next
  case (7 j)
  then show ?case using hub_invD(9) [OF inv, of j] by (auto split: if_splits)
next
  case (8 k' j r')
  then have j: "map_of (h_peers h) k' = Some j" and r': "r' \<in> set (p_rooms (h_objs h j))" "j = i \<Longrightarrow> r' \<noteq> r"
    by (auto split: if_splits)
  have "j = i \<or> k' \<noteq> k" using j live k by (auto simp: live_def)
  with hub_invD(10) [OF inv j r'(1)] r'(2) show ?case by (auto simp: assoc_set_remove)
qed (use hub_invD(1-3) [OF inv] in \<open>simp_all add: set_map_ok_remove\<close>)

lemma no_ghosts_leave:
  assumes inv: "hub_inv ul h" and ng: "no_ghosts h" and live: "live h i" and k: "k = p_hash (h_objs h i)"
  shows "no_ghosts (leave_room i k r h)"
  unfolding no_ghosts_def
proof (intro allI impI)
  fix r' k' assume "k' \<in> set (assoc_set (h_rooms (leave_room i k r h)) r')"
  then have mem: "k' \<in> set (assoc_set (h_rooms h) r')" and ne: "r' = r \<longrightarrow> k' \<noteq> k"
    by (auto simp: assoc_set_remove split: if_splits)
  from mem ng obtain j where j: "map_of (h_peers h) k' = Some j" "r' \<in> set (p_rooms (h_objs h j))"
    unfolding no_ghosts_def by blast
  moreover have "j = i \<Longrightarrow> r' \<noteq> r" using ne j hub_invD(6) [OF inv, of k' j] k by auto
  ultimately show "\<exists>j. map_of (h_peers (leave_room i k r h)) k' = Some j
      \<and> r' \<in> set (p_rooms (h_objs (leave_room i k r h) j))"
    by auto
qed

subsubsection \<open>Closing\<close>

definition close_core :: "(rune \<Rightarrow> rune) \<Rightarrow> conn \<Rightarrow> Hub \<Rightarrow> Hub" where
  "close_core ul i h =
     (let p = h_objs h i; h1 = upd_obj i (\<lambda>p. p\<lparr>p_closed := True, l_up := False\<rparr>) h
      in if p_closed p then h
         else if p_hash p = [] \<or> map_of (h_peers h) (peerKey (p_hash p)) \<noteq> Some i then h1
         else drop_core ul i h1)"

lemma w_hub_close [simp]: "w_hub (close X i w) = close_core (x_lower X) i (w_hub w)"
  by (simp add: close_def dropPeerIf_def close_core_def Let_def)

lemma w_pol_close [simp]: "w_pol (close X i w) = w_pol w" "w_now (close X i w) = w_now w"
  by (simp_all add: close_def dropPeerIf_def Let_def)

lemma drop_core_sel [simp]:
  "h_peers (drop_core ul i h) = AList.delete (peerKey (p_hash (h_objs h i))) (h_peers h)"
  "h_next (drop_core ul i h) = h_next h" "h_cfg (drop_core ul i h) = h_cfg h"
  "h_objs (drop_core ul i h) = (h_objs h)(i := (h_objs h i)\<lparr>p_rooms := []\<rparr>)"
  "assoc_set (h_rooms (drop_core ul i h)) r =
     (if r \<in> set (p_rooms (h_objs h i)) then removeAll (peerKey (p_hash (h_objs h i))) (assoc_set (h_rooms h) r)
      else assoc_set (h_rooms h) r)"
  by (simp_all add: drop_core_def Let_def unlist_rooms_members)

lemma drop_core_maps:
  "set_map_ok (h_rooms h) \<Longrightarrow> set_map_ok (h_rooms (drop_core ul i h))"
  "set_map_ok (h_nickIndex h) \<Longrightarrow> set_map_ok (h_nickIndex (drop_core ul i h))"
  by (simp_all add: drop_core_def Let_def set_map_ok_unlist set_map_ok_nicks)

text \<open>An open connection is unidentified or live, so closing it does one of two things.\<close>

lemma close_core_cases:
  assumes inv: "hub_inv ul h"
  obtains (closed) "p_closed (h_objs h i)" "close_core ul i h = h"
  | (unidentified) "\<not> p_closed (h_objs h i)" "p_hash (h_objs h i) = []"
      "close_core ul i h = upd_obj i (\<lambda>p. p\<lparr>p_closed := True, l_up := False\<rparr>) h"
  | (live) "\<not> p_closed (h_objs h i)" "p_hash (h_objs h i) \<noteq> []" "live h i"
      "close_core ul i h = drop_core ul i (upd_obj i (\<lambda>p. p\<lparr>p_closed := True, l_up := False\<rparr>) h)"
      "peerKey (p_hash (h_objs h i)) = p_hash (h_objs h i)"
proof -
  have "peerKey (p_hash (h_objs h i)) = p_hash (h_objs h i)" if "p_hash (h_objs h i) \<noteq> []"
    using peer_ok_key [OF hub_invD(4) [OF inv] that] by simp
  note key = this
  show ?thesis
  proof (cases "p_closed (h_objs h i)")
    case True
    then show ?thesis by (intro that(1)) (simp_all add: close_core_def)
  next
    case open': False
    show ?thesis
    proof (cases "p_hash (h_objs h i) = []")
      case True
      with open' show ?thesis by (intro that(2)) (simp_all add: close_core_def)
    next
      case False
      then have "live h i" using hub_invD(9) [OF inv open'] by (simp add: live_def)
      with open' False key show ?thesis by (intro that(3)) (simp_all add: close_core_def live_def)
    qed
  qed
qed

lemma hub_inv_close:
  assumes inv: "hub_inv ul h" and i: "i < h_next h"
  shows "hub_inv ul (close_core ul i h)"
proof (cases rule: close_core_cases [OF inv, of i])
  case 1
  then show ?thesis using inv by simp
next
  case 2
  have un: "map_of (h_peers h) k \<noteq> Some i" for k using 2 hub_invD(6,8) [OF inv, of k i] by auto
  show ?thesis unfolding 2
  proof (rule hub_invI, goal_cases)
    case (4 j)
    then show ?case using hub_invD(4) [OF inv, of j] by (auto simp: peer_ok_def)
  next
    case (5 j)
    then show ?case using hub_invD(5) [OF inv, of j] i by auto
  next
    case (6 k j)
    then show ?case using hub_invD(6-8) [OF inv, of k j] un by auto
  next
    case (7 j)
    then show ?case using hub_invD(9) [OF inv, of j] by (auto split: if_splits)
  next
    case (8 k j r)
    then show ?case using hub_invD(10) [OF inv, of k j r] un by (auto split: if_splits)
  qed (use hub_invD(1-3) [OF inv] in simp_all)
next
  case 3
  let ?k = "p_hash (h_objs h i)"
  have un: "map_of (h_peers h) k = Some i \<Longrightarrow> k = ?k" for k using hub_invD(6) [OF inv, of k i] by auto
  have me: "map_of (h_peers h) ?k = Some i" using 3(3) by (simp add: live_def)
  show ?thesis unfolding 3(4)
  proof (rule hub_invI, goal_cases)
    case (4 j)
    then show ?case using hub_invD(4) [OF inv, of j] by (auto simp: peer_ok_def)
  next
    case (5 j)
    then show ?case using hub_invD(5) [OF inv, of j] i by auto
  next
    case (6 k j)
    then show ?case using hub_invD(6-8) [OF inv, of k j] un 3(5) by (auto simp: delete_conv' split: if_splits)
  next
    case (7 j)
    then show ?case using hub_invD(9) [OF inv, of j] 3(5) me by (auto simp: delete_conv' split: if_splits)
  next
    case (8 k j r)
    then show ?case using hub_invD(10) [OF inv, of k j r] 3(5) by (auto simp: delete_conv' split: if_splits)
  qed (use hub_invD(1-3) [OF inv] in \<open>simp_all add: drop_core_maps distinct_delete\<close>)
qed

lemma no_ghosts_close:
  assumes inv: "hub_inv ul h" and ng: "no_ghosts h"
  shows "no_ghosts (close_core ul i h)"
proof (cases rule: close_core_cases [OF inv, of i])
  case 1
  then show ?thesis using ng by simp
next
  case 2
  then show ?thesis using ng by (fastforce simp: no_ghosts_def)
next
  case 3
  let ?h = "close_core ul i h"
  show ?thesis unfolding no_ghosts_def
  proof (intro allI impI)
    fix r k assume "k \<in> set (assoc_set (h_rooms ?h) r)"
    then have mem: "k \<in> set (assoc_set (h_rooms h) r)"
      and ne: "r \<in> set (p_rooms (h_objs h i)) \<longrightarrow> k \<noteq> p_hash (h_objs h i)"
      unfolding 3(4) using 3(5) by (auto split: if_splits)
    from mem ng obtain j where j: "map_of (h_peers h) k = Some j" "r \<in> set (p_rooms (h_objs h j))"
      unfolding no_ghosts_def by blast
    have "k \<noteq> p_hash (h_objs h i)" using j ne 3(3) by (auto simp: live_def)
    moreover from this have "j \<noteq> i" using j hub_invD(6) [OF inv] by auto
    ultimately show "\<exists>j. map_of (h_peers ?h) k = Some j \<and> r \<in> set (p_rooms (h_objs ?h j))"
      unfolding 3(4) using j 3(5) by (auto simp: delete_conv')
  qed
qed

subsubsection \<open>Registering\<close>

definition register_hub :: "(rune \<Rightarrow> rune) \<Rightarrow> conn \<Rightarrow> bytes \<Rightarrow> Hub \<Rightarrow> Hub" where
  "register_hub ul i hash h =
     (case register_core i hash h of (h', None) \<Rightarrow> h' | (h', Some old) \<Rightarrow> close_core ul old h')"

text \<open>The takeover in one step: the old connection is closed and leaves the member lists.\<close>

lemma register_hub_new:
  assumes "map_of (h_peers h) hash = None" and "length hash = IdentityLength"
  shows "register_hub ul i hash h =
    (upd_obj i (\<lambda>p. p\<lparr>p_hash := hash, p_once := True\<rparr>) h)\<lparr>h_peers := AList.update hash i (h_peers h)\<rparr>"
  using assms by (simp add: register_hub_def register_core_def Let_def)

lemma register_hub_takeover:
  assumes inv: "hub_inv ul h" and old: "map_of (h_peers h) hash = Some j" "j \<noteq> i" and len: "length hash = IdentityLength"
  shows "register_hub ul i hash h =
    upd_obj j (\<lambda>p. p\<lparr>p_closed := True, l_up := False\<rparr>)
      ((unlist_rooms hash (p_rooms (h_objs h j)) (upd_obj i (\<lambda>p. p\<lparr>p_hash := hash, p_once := True\<rparr>) h))
         \<lparr>h_peers := AList.update hash i (h_peers h)\<rparr>)"
proof -
  have "\<not> p_closed (h_objs h j)" "p_hash (h_objs h j) = hash" "hash \<noteq> []"
    using hub_invD(6-8) [OF inv old(1)] by auto
  then show ?thesis
    using old len by (simp add: register_hub_def register_core_def Let_def close_core_def update_conv')
qed

lemma hub_inv_register:
  assumes inv: "hub_inv ul h" and i: "i < h_next h" and fresh: "p_hash (h_objs h i) = []"
    and opn: "\<not> p_closed (h_objs h i)" and len: "length hash = IdentityLength"
  shows "hub_inv ul (register_hub ul i hash h)"
proof -
  have rooms: "p_rooms (h_objs h i) = []" using hub_invD(4) [OF inv, of i] fresh
    by (simp add: peer_ok_def IdentityLength_def)
  have ne: "hash \<noteq> []" using len by (auto simp: IdentityLength_def)
  have un: "map_of (h_peers h) k \<noteq> Some i" for k using fresh hub_invD(6,8) [OF inv, of k i] by auto
  show ?thesis
  proof (cases "map_of (h_peers h) hash")
    case None
    show ?thesis unfolding register_hub_new [OF None len]
    proof (rule hub_invI, goal_cases)
      case (4 j)
      then show ?case using hub_invD(4) [OF inv, of j] rooms ne len by (auto simp: peer_ok_def)
    next
      case (5 j)
      then show ?case using hub_invD(5) [OF inv, of j] i by auto
    next
      case (6 k j)
      then show ?case using hub_invD(6-8) [OF inv, of k j] un opn ne by (auto simp: update_conv' split: if_splits)
    next
      case (7 j)
      then show ?case using hub_invD(9) [OF inv, of j] None by (auto simp: update_conv' split: if_splits)
    next
      case (8 k j r)
      then show ?case using hub_invD(10) [OF inv, of k j r] rooms un by (auto simp: update_conv' split: if_splits)
    qed (use hub_invD(1-3) [OF inv] in \<open>simp_all add: distinct_update\<close>)
  next
    case (Some j)
    then have ji: "j \<noteq> i" using un by auto
    have uniq: "map_of (h_peers h) k = Some j \<Longrightarrow> k = hash" for k
      using hub_invD(6) [OF inv, of k j] hub_invD(6) [OF inv Some] by auto
    show ?thesis unfolding register_hub_takeover [OF inv Some ji len]
    proof (rule hub_invI, goal_cases)
      case (4 j')
      then show ?case using hub_invD(4) [OF inv, of j'] rooms ne len ji by (auto simp: peer_ok_def)
    next
      case (5 j')
      then show ?case using hub_invD(5) [OF inv, of j'] hub_invD(5) [OF inv, of j] hub_invD(6) [OF inv Some] ne i
        by (auto simp: blank_peer_def)
    next
      case (6 k j')
      then show ?case using hub_invD(6-8) [OF inv, of k j'] un opn ne ji uniq
        by (auto simp: update_conv' split: if_splits)
    next
      case (7 j')
      then show ?case using hub_invD(9) [OF inv, of j'] Some by (auto simp: update_conv' split: if_splits)
    next
      case (8 k j' r)
      then show ?case using hub_invD(10) [OF inv, of k j' r] rooms un uniq
        by (auto simp: update_conv' unlist_rooms_members split: if_splits)
    qed (use hub_invD(1-3) [OF inv] in \<open>simp_all add: distinct_update set_map_ok_unlist\<close>)
  qed
qed

lemma no_ghosts_register:
  assumes inv: "hub_inv ul h" and ng: "no_ghosts h" and fresh: "p_hash (h_objs h i) = []"
    and len: "length hash = IdentityLength"
  shows "no_ghosts (register_hub ul i hash h)"
proof -
  have un: "map_of (h_peers h) k \<noteq> Some i" for k using fresh hub_invD(6,8) [OF inv, of k i] by auto
  show ?thesis
  proof (cases "map_of (h_peers h) hash")
    case None
    show ?thesis unfolding register_hub_new [OF None len] no_ghosts_def
    proof (intro allI impI, goal_cases)
      case (1 r k)
      then obtain j where j: "map_of (h_peers h) k = Some j" "r \<in> set (p_rooms (h_objs h j))"
        using ng by (auto simp: no_ghosts_def)
      then have "k \<noteq> hash" using None by auto
      with j un show ?case by (auto simp: update_conv')
    qed
  next
    case (Some old)
    then have oi: "old \<noteq> i" using un by auto
    show ?thesis unfolding register_hub_takeover [OF inv Some oi len] no_ghosts_def
    proof (intro allI impI, goal_cases)
      case (1 r k)
      then have mem: "k \<in> set (assoc_set (h_rooms h) r)" "r \<in> set (p_rooms (h_objs h old)) \<longrightarrow> k \<noteq> hash"
        by (auto simp: unlist_rooms_members split: if_splits)
      then obtain j where j: "map_of (h_peers h) k = Some j" "r \<in> set (p_rooms (h_objs h j))"
        using ng unfolding no_ghosts_def by blast
      then have "k \<noteq> hash" using Some mem(2) by auto
      with j un show ?case by (auto simp: update_conv')
    qed
  qed
qed

lemma register_hub_sel [simp]:
  "h_next (register_hub ul i hash h) = h_next h" "h_cfg (register_hub ul i hash h) = h_cfg h"
  by (simp_all add: register_hub_def register_core_def close_core_def Let_def split: option.split)

lemma close_core_next [simp]:
  "h_next (close_core ul i h) = h_next h" "h_cfg (close_core ul i h) = h_cfg h"
  by (simp_all add: close_core_def Let_def)

subsection \<open>Handlers\<close>

text \<open>
  An open link is registered with the remote identity it knows, and then holds no HELLO back; it is
  unregistered as long as it knows none.
\<close>

definition link_ok :: "hubPeer \<Rightarrow> bool" where
  "link_ok p \<longleftrightarrow> (\<not> p_closed p \<longrightarrow>
     (l_remote p = None \<longrightarrow> p_hash p = [])
     \<and> (l_remote p \<noteq> None \<longrightarrow> l_remote p = Some (p_hash p) \<and> p_hash p \<noteq> [] \<and> p_pending p = None))"

text \<open>The whole invariant; \<open>g\<close> says whether the absence of ghosts is part of it.\<close>

definition hub_ok :: "bool \<Rightarrow> (rune \<Rightarrow> rune) \<Rightarrow> Hub \<Rightarrow> bool" where
  "hub_ok g ul h \<longleftrightarrow> hub_inv ul h \<and> (\<forall>i. link_ok (h_objs h i)) \<and> (g \<longrightarrow> no_ghosts h)"

definition ready :: "Hub \<Rightarrow> conn \<Rightarrow> bool" where
  "ready h i \<longleftrightarrow> i < h_next h \<and> length (p_hash (h_objs h i)) = IdentityLength"

text \<open>A connection that can leave its rooms without touching another connection of its identity.\<close>

definition leavable :: "Hub \<Rightarrow> conn \<Rightarrow> bool" where
  "leavable h i \<longleftrightarrow> live h i \<or> p_rooms (h_objs h i) = []"

text \<open>A soft change that keeps what \<open>link_ok\<close> reads too.\<close>

definition softer :: "(hubPeer \<Rightarrow> hubPeer) \<Rightarrow> bool" where
  "softer f \<longleftrightarrow> (\<forall>p. p_hash (f p) = p_hash p \<and> p_rooms (f p) = p_rooms p \<and> p_closed (f p) = p_closed p
     \<and> p_once (f p) = p_once p \<and> p_active (f p) = p_active p \<and> l_remote (f p) = l_remote p
     \<and> (p_pending p = None \<longrightarrow> p_pending (f p) = None))"

lemma softer_soft: "softer f \<Longrightarrow> soft f p"
  by (simp add: softer_def soft_def)

lemma softer_frame:
  assumes "softer f"
  shows "ready (upd_obj i f h) j = ready h j" "live (upd_obj i f h) j = live h j"
    "leavable (upd_obj i f h) j = leavable h j"
    "p_active (h_objs (upd_obj i f h) j) = p_active (h_objs h j)"
    "p_closed (h_objs (upd_obj i f h) j) = p_closed (h_objs h j)"
    "p_hash (h_objs (upd_obj i f h) j) = p_hash (h_objs h j)"
  using assms by (simp_all add: ready_def live_def leavable_def softer_def)

lemma hub_ok_softer:
  assumes "hub_ok g ul h" and "i < h_next h" and "softer f"
  shows "hub_ok g ul (upd_obj i f h)"
proof -
  have "link_ok (f p)" if "link_ok p" for p using that assms(3) by (auto simp: link_ok_def softer_def)
  with assms show ?thesis
    by (auto simp: hub_ok_def hub_inv_soft no_ghosts_soft softer_soft)
qed

lemma hub_ok_active:
  assumes "hub_ok g ul h" and "ready h i"
  shows "hub_ok g ul (upd_obj i (\<lambda>p. p\<lparr>p_active := b\<rparr>) h)"
  using assms by (auto simp: hub_ok_def ready_def soft_def link_ok_def intro!: hub_inv_soft no_ghosts_soft)

lemma hub_ok_nicks: "hub_ok g ul h \<Longrightarrow> hub_ok g ul (reindexNick ul' k n m h)"
  by (simp add: hub_ok_def hub_inv_nicks)

lemma hub_ok_close: "hub_ok g ul h \<Longrightarrow> i < h_next h \<Longrightarrow> hub_ok g ul (close_core ul i h)"
proof -
  have "link_ok (h_objs (close_core ul i h) j)" if "link_ok (h_objs h j)" for j
    using that by (auto simp: close_core_def link_ok_def Let_def)
  then show "hub_ok g ul h \<Longrightarrow> i < h_next h \<Longrightarrow> ?thesis"
    by (auto simp: hub_ok_def hub_inv_close no_ghosts_close)
qed

lemma hub_ok_join:
  assumes "hub_ok g ul h" "ready h i" "g \<Longrightarrow> live h i" "r \<noteq> []" "lower_table ul \<longrightarrow> NormalizeRoom ul r = r"
  shows "hub_ok g ul (join_room i (peerKey (p_hash (h_objs h i))) r h)"
  using assms by (auto simp: hub_ok_def ready_def link_ok_def hub_inv_join no_ghosts_join)

lemma hub_ok_leave:
  assumes "hub_ok g ul h" "ready h i" "live h i"
  shows "hub_ok g ul (leave_room i (peerKey (p_hash (h_objs h i))) r h)"
  using assms by (auto simp: hub_ok_def ready_def link_ok_def hub_inv_leave no_ghosts_leave)

text \<open>The rate bucket and the nickname.\<close>

lemma takeToken_hub: "\<exists>f. softer f \<and> w_hub (fst (takeToken i w)) = upd_obj i f (w_hub w)"
proof -
  have "w_hub w = upd_obj i (\<lambda>p. p) (w_hub w)" by (simp add: upd_obj_def)
  moreover have "softer (\<lambda>p. p)" "\<And>t l. softer (\<lambda>p. p\<lparr>p_tokens := t, p_lastRefill := l\<rparr>)"
    by (simp_all add: softer_def)
  ultimately show ?thesis by (auto simp: takeToken_def Let_def)
qed

lemma applyInboundNick_hub:
  "\<exists>f n. softer f \<and> (w_hub (fst (applyInboundNick X i nick w)) = upd_obj i f (w_hub w) \<or>
     w_hub (fst (applyInboundNick X i nick w)) = reindexNick (x_lower X) (peerKey (p_hash (obj w i))) (p_nick (obj w i)) n (upd_obj i f (w_hub w)))"
proof -
  have "w_hub w = upd_obj i (\<lambda>p. p) (w_hub w)" by (simp add: upd_obj_def)
  moreover have "softer (\<lambda>p. p)" "\<And>t. softer (\<lambda>p. p\<lparr>p_nick := t\<rparr>)"
    by (simp_all add: softer_def)
  ultimately show ?thesis unfolding applyInboundNick_def Let_def by auto
qed

text \<open>What such a step keeps.\<close>

definition kept :: "bool \<Rightarrow> (rune \<Rightarrow> rune) \<Rightarrow> conn \<Rightarrow> Hub \<Rightarrow> Hub \<Rightarrow> bool" where
  "kept g ul i h h' \<longleftrightarrow> hub_ok g ul h' \<and> ready h' i \<and> (live h i \<longrightarrow> live h' i) \<and> (leavable h i \<longrightarrow> leavable h' i)
     \<and> p_active (h_objs h' i) = p_active (h_objs h i)"

lemma kept_refl: "hub_ok g ul h \<Longrightarrow> ready h i \<Longrightarrow> kept g ul i h h"
  by (simp add: kept_def)

lemma kept_softer: "hub_ok g ul h \<Longrightarrow> ready h i \<Longrightarrow> softer f \<Longrightarrow> kept g ul i h (upd_obj i f h)"
  using softer_frame [of f i h i] by (auto simp: kept_def hub_ok_softer ready_def)

lemma kept_nicks: "kept g ul i h h' \<Longrightarrow> kept g ul i h (reindexNick ul' k n m h')"
  by (simp add: kept_def hub_ok_nicks ready_def live_def leavable_def)

lemma takeToken_kept: "hub_ok g ul (w_hub w) \<Longrightarrow> ready (w_hub w) i \<Longrightarrow> kept g ul i (w_hub w) (w_hub (fst (takeToken i w)))"
  using takeToken_hub [of i w] by (auto intro: kept_softer)

lemma applyInboundNick_kept:
  "hub_ok g ul (w_hub w) \<Longrightarrow> ready (w_hub w) i \<Longrightarrow> kept g ul i (w_hub w) (w_hub (fst (applyInboundNick X i nick w)))"
  using applyInboundNick_hub [of X i nick w] by (auto intro!: kept_nicks kept_softer)

lemma handle_nick_kept:
  assumes "hub_ok g (x_lower X) (w_hub w)" and "ready (w_hub w) i"
  shows "if snd (handle_nick X i env w) then kept g (x_lower X) i (w_hub w) (w_hub (fst (handle_nick X i env w)))
    else hub_ok g (x_lower X) (w_hub (fst (handle_nick X i env w)))"
proof -
  have k: "kept g (x_lower X) i (w_hub w) (w_hub (fst (applyInboundNick X i n w)))" for n
    using applyInboundNick_kept [OF assms] .
  have c: "hub_ok g (x_lower X) (close_core (x_lower X) i (w_hub (fst (applyInboundNick X i n w))))" for n
    using k [of n] by (auto simp: kept_def ready_def intro: hub_ok_close)
  have o': "hub_ok g (x_lower X) (w_hub (fst (applyInboundNick X i n w)))" for n
    using k [of n] by (simp add: kept_def)
  consider (env) "e_HasNick env" | (legacy) "\<not> e_HasNick env" "e_Type env = TypeHello" "HelloLegacyNick (e_Body env) \<noteq> []"
    | (none) "\<not> e_HasNick env" "\<not> (e_Type env = TypeHello \<and> HelloLegacyNick (e_Body env) \<noteq> [])" by blast
  then show ?thesis
  proof cases
    case env
    obtain w1 e where a: "applyInboundNick X i (e_Nick env) w = (w1, e)" by fastforce
    then show ?thesis using env k [of "e_Nick env"] c [of "e_Nick env"] o' [of "e_Nick env"]
      by (cases e) (simp_all add: handle_nick_def Let_def)
  next
    case legacy
    obtain w1 e where a: "applyInboundNick X i (HelloLegacyNick (e_Body env)) w = (w1, e)" by fastforce
    then show ?thesis
      using legacy k [of "HelloLegacyNick (e_Body env)"] c [of "HelloLegacyNick (e_Body env)"]
      by (cases e) (simp_all add: handle_nick_def Let_def)
  next
    case none
    then show ?thesis using kept_refl [OF assms] by (auto simp: handle_nick_def Let_def)
  qed
qed

end
