(* ===== verification/RRC_Policy.thy ===== *)
theory RRC_Policy
  imports RRC_Hub_Inv
begin

text \<open>
  The contract between the hub and its \<^verbatim>\<open>HubPolicy\<close>, as a locale, and the proof that under it every
  handler, every event and so every reachable state of the hub keeps the invariant.  The nil policy of
  the library fulfils the contract here; the daemon's policy does in \<open>Gorrcd_Service\<close>.
\<close>

subsection \<open>The contract\<close>

text \<open>
  The decisions (\<^verbatim>\<open>OnIdentified\<close>, \<^verbatim>\<open>AllowJoin\<close>, \<^verbatim>\<open>AllowContent\<close>, \<^verbatim>\<open>OnResourceEnvelope\<close>) and the two
  notifications in the middle of a handler (\<^verbatim>\<open>OnPong\<close>, \<^verbatim>\<open>AfterPart\<close>) do not touch the hub; the others may
  call back into it and keep the invariant; a command that is not handled changes nothing.  With \<open>g\<close> the
  policy moreover rejects an identity only while that peer is not welcomed.
\<close>

locale hub_policy_laws =
  fixes X :: hub_env and P :: "'s hub_policy option" and g :: bool
  assumes OnIdentified_quiet: "P = Some pol \<Longrightarrow> w_hub (fst (pol_OnIdentified pol a w)) = w_hub w"
    and AllowJoin_quiet: "P = Some pol \<Longrightarrow> w_hub (fst (pol_AllowJoin pol a r b w)) = w_hub w"
    and AllowContent_quiet: "P = Some pol \<Longrightarrow> w_hub (fst (pol_AllowContent pol a e w)) = w_hub w"
    and OnResource_quiet: "P = Some pol \<Longrightarrow> w_hub (fst (pol_OnResourceEnvelope pol a e w)) = w_hub w"
    and OnPong_quiet: "P = Some pol \<Longrightarrow> w_hub (pol_OnPong pol a w) = w_hub w"
    and AfterPart_quiet: "P = Some pol \<Longrightarrow> w_hub (pol_AfterPart pol a r w) = w_hub w"
    and Intercept_quiet: "P = Some pol \<Longrightarrow> \<not> snd (pol_Intercept pol a e w) \<Longrightarrow> w_hub (fst (pol_Intercept pol a e w)) = w_hub w"
    and OnLink_ok: "P = Some pol \<Longrightarrow> hub_ok g (x_lower X) (w_hub w) \<Longrightarrow> hub_ok g (x_lower X) (w_hub (pol_OnLink pol i w))"
    and AfterWelcome_ok: "P = Some pol \<Longrightarrow> hub_ok g (x_lower X) (w_hub w) \<Longrightarrow> hub_ok g (x_lower X) (w_hub (pol_AfterWelcome pol a w))"
    and AfterJoin_ok: "P = Some pol \<Longrightarrow> hub_ok g (x_lower X) (w_hub w) \<Longrightarrow> hub_ok g (x_lower X) (w_hub (pol_AfterJoin pol a r w))"
    and Intercept_ok: "P = Some pol \<Longrightarrow> hub_ok g (x_lower X) (w_hub w) \<Longrightarrow> hub_ok g (x_lower X) (w_hub (fst (pol_Intercept pol a e w)))"
    and polite: "P = Some pol \<Longrightarrow> g \<Longrightarrow> snd (pol_OnIdentified pol a w) \<noteq> None \<Longrightarrow>
      map_of (h_peers (w_hub w)) a = Some i \<Longrightarrow> \<not> p_active (obj w i)"
begin

abbreviation ok :: "'s world \<Rightarrow> bool" where
  "ok w \<equiv> hub_ok g (x_lower X) (w_hub w)"

lemma policy_call_ok:
  "ok w \<Longrightarrow> (\<And>pol. P = Some pol \<Longrightarrow> ok w \<Longrightarrow> ok (f pol w)) \<Longrightarrow> ok (policy_call P f w)"
  by (cases P) (simp_all add: policy_call_def)

lemma policy_call_quiet:
  "(\<And>pol. P = Some pol \<Longrightarrow> w_hub (f pol w) = w_hub w) \<Longrightarrow> w_hub (policy_call P f w) = w_hub w"
  by (cases P) (simp_all add: policy_call_def)

lemma policy_check_quiet:
  "(\<And>pol. P = Some pol \<Longrightarrow> w_hub (fst (f pol w)) = w_hub w) \<Longrightarrow> w_hub (fst (policy_check P f w)) = w_hub w"
  by (cases P) (simp_all add: policy_check_def)

lemma onHello_ok:
  assumes "ok w" and "ready (w_hub w) i"
  shows "ok (onHello X P i env w)"
proof -
  let ?w1 = "with_hub (upd_obj i (\<lambda>p. p\<lparr>p_active := True\<rparr>)) w"
  have w1: "ok ?w1" using hub_ok_active [OF assms] by simp
  have i: "i < h_next (w_hub w)" using assms(2) by (simp add: ready_def)
  obtain w2 e where s: "sendType X i TypeWelcome []
      (case WelcomeBody_ToMap (welcome_body (h_cfg (w_hub ?w1))) of None \<Rightarrow> VMapU [] | Some m \<Rightarrow> VMapU m) [] ?w1 = (w2, e)"
    by fastforce
  then have w2: "w_hub w2 = w_hub ?w1" by (metis fst_conv sendType_frame(1))
  show ?thesis
  proof (cases e)
    case None
    with s w1 w2 show ?thesis by (auto simp: onHello_def Let_def intro!: policy_call_ok AfterWelcome_ok)
  next
    case (Some err)
    have "ok (close X i w2)" using hub_ok_close [of g "x_lower X" "w_hub w2" i] w1 w2 i by simp
    with s Some show ?thesis by (simp add: onHello_def Let_def)
  qed
qed

lemma onJoin_ok:
  assumes "ok w" and "ready (w_hub w) i" and "g \<Longrightarrow> live (w_hub w) i"
  shows "ok (onJoin X P i env w)"
proof -
  let ?room = "NormalizeRoom (x_lower X) (e_Room env)"
  obtain w1 e where c: "policy_check P (\<lambda>pol. pol_AllowJoin pol (p_hash (obj w i)) ?room (e_Body env)) w = (w1, e)"
    by fastforce
  then have w1: "w_hub w1 = w_hub w" by (metis AllowJoin_quiet fst_conv policy_check_quiet)
  have j: "ok (with_hub (join_room i (peerKey (p_hash (obj w1 i))) ?room) w1)" if "?room \<noteq> []"
    using hub_ok_join [of g "x_lower X" "w_hub w" i ?room] assms that w1
    by (simp add: NormalizeRoom_idem)
  have "ok (join_admitted X P i ?room env w1)" if "?room \<noteq> []"
    using j [OF that] assms(1) w1 unfolding join_admitted_def Let_def
    by (auto intro!: policy_call_ok AfterJoin_ok)
  with c w1 assms(1) show ?thesis
    by (simp add: onJoin_def Let_def split: option.split)
qed

lemma onPart_hub:
  "w_hub (onPart X P i env w) =
     (let room = NormalizeRoom (x_lower X) (e_Room env)
      in if room \<noteq> [] \<and> room \<in> set (p_rooms (obj w i)) then leave_room i (peerKey (p_hash (obj w i))) room (w_hub w)
         else w_hub w)"
  by (simp add: onPart_def Let_def policy_call_quiet AfterPart_quiet)

lemma onPart_kept:
  assumes "ok w" and "ready (w_hub w) i" and "leavable (w_hub w) i"
  shows "kept g (x_lower X) i (w_hub w) (w_hub (onPart X P i env w))"
proof -
  let ?room = "NormalizeRoom (x_lower X) (e_Room env)"
  show ?thesis
  proof (cases "?room \<noteq> [] \<and> ?room \<in> set (p_rooms (obj w i))")
    case True
    then have live: "live (w_hub w) i" using assms(3) by (auto simp: leavable_def)
    let ?h = "leave_room i (peerKey (p_hash (obj w i))) ?room (w_hub w)"
    have "hub_ok g (x_lower X) ?h" by (rule hub_ok_leave [OF assms(1,2) live])
    moreover have "ready ?h i" "live ?h i" using assms(2) live by (simp_all add: ready_def live_def)
    ultimately have "kept g (x_lower X) i (w_hub w) ?h" by (simp add: kept_def leavable_def)
    with True show ?thesis by (simp add: onPart_hub Let_def)
  next
    case False
    have "w_hub (onPart X P i env w) = w_hub w" unfolding onPart_hub Let_def if_not_P [OF False] ..
    then show ?thesis using kept_refl [OF assms(1,2)] by simp
  qed
qed

lemma part_rooms_kept:
  "ok w \<Longrightarrow> ready (w_hub w) i \<Longrightarrow> leavable (w_hub w) i \<Longrightarrow>
   ok (part_rooms X P i rs w) \<and> ready (w_hub (part_rooms X P i rs w)) i"
proof (induction rs arbitrary: w)
  case (Cons r rs)
  from onPart_kept [OF Cons.prems, of "fake_part r"] Cons.prems(3)
  have "ok (onPart X P i (fake_part r) w)" "ready (w_hub (onPart X P i (fake_part r) w)) i"
    "leavable (w_hub (onPart X P i (fake_part r) w)) i" by (simp_all add: kept_def)
  from Cons.IH [OF this] show ?case by simp
qed simp

lemma reHello_ok:
  assumes "ok w" and "ready (w_hub w) i" and "leavable (w_hub w) i"
  shows "ok (reHello X P i env w)"
proof -
  let ?w = "part_rooms X P i (p_rooms (obj w i)) w"
  have 1: "ok ?w" "ready (w_hub ?w) i" using part_rooms_kept [OF assms] by simp_all
  show ?thesis unfolding reHello_def Let_def
    by (rule onHello_ok) (use hub_ok_active [OF 1] 1 in \<open>simp_all add: ready_def\<close>)
qed

lemma onRoomContent_hub [simp]: "w_hub (onRoomContent X P i env w) = w_hub w"
  by (simp add: onRoomContent_def Let_def split: sum.split)

lemma dispatchContent_hub [simp]: "w_hub (dispatchContent X P i env w) = w_hub w"
proof -
  have "w_hub (fst (policy_check P (\<lambda>pol. pol_AllowContent pol (p_hash (obj w i)) env) w)) = w_hub w"
    by (simp add: policy_check_quiet AllowContent_quiet)
  then show ?thesis by (auto simp: dispatchContent_def split: prod.split option.split)
qed

lemma onDirectNotice_hub [simp]: "w_hub (onDirectNotice X i env w) = w_hub w"
  by (simp add: onDirectNotice_def Let_def split: sum.split option.split)

lemma onResourceEnvelope_hub [simp]: "w_hub (onResourceEnvelope X P i env w) = w_hub w"
proof -
  have "w_hub (fst (policy_check P (\<lambda>pol. pol_OnResourceEnvelope pol (p_hash (obj w i)) env) w)) = w_hub w"
    by (simp add: policy_check_quiet OnResource_quiet)
  then show ?thesis by (auto simp: onResourceEnvelope_def Let_def split: prod.split option.split)
qed

lemma handle_active_ok:
  assumes "ok w" and "ready (w_hub w) i" and "leavable (w_hub w) i" and "g \<Longrightarrow> live (w_hub w) i"
  shows "ok (handle_active X P i env w)"
proof -
  have part: "ok (onPart X P i env w)" using onPart_kept [OF assms(1-3)] by (simp add: kept_def)
  obtain w1 b where t: "tryIntercept P i env w = (w1, b)" by fastforce
  have "ok (fst (tryIntercept P i env w))" by (cases P) (simp_all add: tryIntercept_def Intercept_ok assms(1))
  then have "ok w1" by (simp add: t)
  with t part assms reHello_ok [OF assms(1-3)] onJoin_ok [OF assms(1,2,4)] show ?thesis
    by (cases b) (simp_all add: handle_active_def Let_def onPing_def)
qed

lemma handlePeer_ok:
  assumes "ok w" and "ready (w_hub w) i" and "leavable (w_hub w) i" and "g \<Longrightarrow> live (w_hub w) i \<or> \<not> p_active (obj w i)"
  shows "ok (handlePeer X P i env w)"
proof -
  obtain w1 b where t: "takeToken i w = (w1, b)" by fastforce
  with takeToken_kept [OF assms(1,2)] have k1: "kept g (x_lower X) i (w_hub w) (w_hub w1)" by simp
  then have 1: "ok w1" "ready (w_hub w1) i" "leavable (w_hub w1) i" "g \<Longrightarrow> live (w_hub w1) i \<or> \<not> p_active (obj w1 i)"
    using assms(3,4) by (auto simp: kept_def)
  obtain w2 c where n: "handle_nick X i env w1 = (w2, c)" by fastforce
  note hn = handle_nick_kept [OF 1(1,2), of env, unfolded n fst_conv snd_conv]
  show ?thesis
  proof (cases b; cases c)
    assume bc: "b" "c"
    with hn 1(3,4) have 2: "ok w2" "ready (w_hub w2) i" "leavable (w_hub w2) i"
      "g \<Longrightarrow> p_active (obj w1 i) \<Longrightarrow> live (w_hub w2) i" by (auto simp: kept_def)
    have "ok (policy_call P (\<lambda>pol. pol_OnPong pol (p_hash (obj w2 i))) w2)"
      using policy_call_quiet [of "\<lambda>pol. pol_OnPong pol (p_hash (obj w2 i))" w2] OnPong_quiet 2(1) by simp
    with t n bc 2 onHello_ok [OF 2(1,2)] handle_active_ok [OF 2(1-3)] show ?thesis
      by (auto simp: handlePeer_def)
  qed (use t n hn 1(1) in \<open>simp_all add: handlePeer_def\<close>)
qed

text \<open>Registering: \<open>i\<close> may be an open connection whose remote identity has just become known.\<close>

lemma register_w2_hub:
  "w_hub (if p_once (obj w i) then w
     else case register_core i hash (w_hub w) of
       (h', None) \<Rightarrow> w\<lparr>w_hub := h'\<rparr> | (h', Some old) \<Rightarrow> close X old (w\<lparr>w_hub := h'\<rparr>))
   = (if p_once (obj w i) then w_hub w else register_hub (x_lower X) i hash (w_hub w))"
  by (simp add: register_hub_def split: prod.split option.split)

lemma registered:
  assumes inv: "hub_inv ul h" and links: "\<forall>j. j \<noteq> i \<longrightarrow> link_ok (h_objs h j)" and ng: "g \<longrightarrow> no_ghosts h"
    and i: "i < h_next h" and opn: "\<not> p_closed (h_objs h i)" and len: "length hash = IdentityLength"
    and h': "h' = (if p_once (h_objs h i) then h else register_hub ul i hash h)"
  shows "hub_inv ul h'" "\<forall>j. j \<noteq> i \<longrightarrow> link_ok (h_objs h' j)" "g \<longrightarrow> no_ghosts h'" "ready h' i" "live h' i"
    "\<not> p_closed (h_objs h' i)" "p_once (h_objs h i) \<or> p_hash (h_objs h' i) = hash"
    "l_remote (h_objs h' i) = l_remote (h_objs h i)"
proof (atomize (full), goal_cases)
  case 1
  have pi: "peer_ok ul (h_objs h i)" using hub_invD(4) [OF inv] .
  show ?case
  proof (cases "p_once (h_objs h i)")
    case True
    then have "p_hash (h_objs h i) \<noteq> []" using pi by (simp add: peer_ok_def)
    then have "length (p_hash (h_objs h i)) = IdentityLength" "live h i"
      using peer_ok_key [OF pi] hub_invD(9) [OF inv opn] by (simp_all add: live_def)
    with True assms show ?thesis by (simp add: ready_def)
  next
    case False
    then have fresh: "p_hash (h_objs h i) = []" using pi by (simp add: peer_ok_def)
    have un: "map_of (h_peers h) k \<noteq> Some i" for k using fresh hub_invD(6,8) [OF inv, of k i] by auto
    let ?h = "register_hub ul i hash h"
    have objs: "h_objs ?h i = (h_objs h i)\<lparr>p_hash := hash, p_once := True\<rparr> \<and> map_of (h_peers ?h) hash = Some i
        \<and> (\<forall>j. j \<noteq> i \<longrightarrow> h_objs ?h j = h_objs h j \<or> p_closed (h_objs ?h j))"
    proof (cases "map_of (h_peers h) hash")
      case None
      then show ?thesis by (simp add: register_hub_new [OF None len] update_conv')
    next
      case (Some j)
      then have "j \<noteq> i" using un by auto
      then show ?thesis by (auto simp: register_hub_takeover [OF inv Some \<open>j \<noteq> i\<close> len] update_conv')
    qed
    then have "link_ok (h_objs ?h j)" if "j \<noteq> i" for j using links that by (metis link_ok_def)
    with objs False h' inv ng i opn len fresh show ?thesis
      by (simp add: hub_inv_register no_ghosts_register ready_def live_def)
  qed
qed

lemma register_ok:
  assumes inv: "hub_inv (x_lower X) (w_hub w)" and links: "\<forall>j. j \<noteq> i \<longrightarrow> link_ok (obj w j)"
    and ng: "g \<longrightarrow> no_ghosts (w_hub w)" and i: "i < h_next (w_hub w)" and opn: "\<not> p_closed (obj w i)"
    and len: "length hash = IdentityLength" and remote: "l_remote (obj w i) = Some hash"
    and once: "p_once (obj w i) \<Longrightarrow> p_hash (obj w i) = hash"
  shows "ok (register X P i hash w)"
proof -
  define w2 where "w2 = (if p_once (obj w i) then w
     else case register_core i hash (w_hub w) of
       (h', None) \<Rightarrow> w\<lparr>w_hub := h'\<rparr> | (h', Some old) \<Rightarrow> close X old (w\<lparr>w_hub := h'\<rparr>))"
  have h2: "w_hub w2 = (if p_once (obj w i) then w_hub w else register_hub (x_lower X) i hash (w_hub w))"
    unfolding w2_def by (rule register_w2_hub)
  note r = registered [OF inv links ng i opn len h2]
  obtain w3 e where c: "policy_check P (\<lambda>pol. pol_OnIdentified pol hash) w2 = (w3, e)" by fastforce
  have w3: "w_hub w3 = w_hub w2"
    using policy_check_quiet [of "\<lambda>pol. pol_OnIdentified pol hash" w2] OnIdentified_quiet c by simp
  show ?thesis
  proof (cases e)
    case None
    let ?w4 = "with_hub (upd_obj i (\<lambda>p. p\<lparr>p_pending := None\<rparr>)) w3"
    have "p_hash (obj w2 i) = hash" "hash \<noteq> []" using r(7) once h2 len by (auto simp: IdentityLength_def)
    then have "\<forall>j. link_ok (obj ?w4 j)" using r(2,8) w3 remote by (auto simp: link_ok_def)
    then have 4: "ok ?w4" "ready (w_hub ?w4) i" "live (w_hub ?w4) i"
      using r w3 i by (auto simp: hub_ok_def ready_def live_def soft_def intro!: hub_inv_soft no_ghosts_soft)
    then have "ok (handlePeer X P i env ?w4)" for env
      by (intro handlePeer_ok) (simp_all add: leavable_def)
    with 4(1) c len None show ?thesis
      by (simp add: register_def w2_def [symmetric] Let_def split: option.split)
  next
    case (Some err)
    have cl: "link_ok (h_objs (close_core (x_lower X) i (w_hub w2)) j)" for j
      using r(2,6) by (auto simp: close_core_def link_ok_def Let_def)
    have "i < h_next (w_hub w2)" using r(4) by (simp add: ready_def)
    with r cl have "hub_ok g (x_lower X) (close_core (x_lower X) i (w_hub w2))"
      by (auto simp: hub_ok_def hub_inv_close no_ghosts_close)
    with c len Some w3 show ?thesis by (simp add: register_def w2_def [symmetric] Let_def)
  qed
qed

lemma close_core_obj:
  assumes "hub_inv ul h" and "live h i" and "ready h i"
  shows "p_hash (h_objs (close_core ul i h) i) = p_hash (h_objs h i)"
    "p_rooms (h_objs (close_core ul i h) i) = []"
    "p_active (h_objs (close_core ul i h) i) = p_active (h_objs h i)"
proof -
  have "\<not> p_closed (h_objs h i)" "p_hash (h_objs h i) \<noteq> []"
    using hub_invD(7,8) [OF assms(1)] assms(2) by (auto simp: live_def)
  with assms(2,3) show "p_hash (h_objs (close_core ul i h) i) = p_hash (h_objs h i)"
    "p_rooms (h_objs (close_core ul i h) i) = []"
    "p_active (h_objs (close_core ul i h) i) = p_active (h_objs h i)"
    by (simp_all add: close_core_def Let_def live_def ready_def)
qed

text \<open>A packet of a registered connection: the identity is checked again, then the packet is handled.\<close>

lemma register_again:
  assumes ok: "ok w" and i: "i < h_next (w_hub w)" and live: "live (w_hub w) i" and rdy: "ready (w_hub w) i"
    and once: "p_once (obj w i)" and pend: "p_pending (obj w i) = None" and hash: "hash = p_hash (obj w i)"
  shows "ok (handlePeer X P i env (register X P i hash w))
    \<and> length (p_hash (obj (register X P i hash w) i)) = IdentityLength"
proof -
  have inv: "hub_inv (x_lower X) (w_hub w)" using ok by (simp add: hub_ok_def)
  have len: "length hash = IdentityLength" using rdy hash by (simp add: ready_def)
  obtain w3 e where c: "policy_check P (\<lambda>pol. pol_OnIdentified pol hash) w = (w3, e)" by fastforce
  have w3: "w_hub w3 = w_hub w"
    using policy_check_quiet [of "\<lambda>pol. pol_OnIdentified pol hash" w] OnIdentified_quiet c by simp
  show ?thesis
  proof (cases e)
    case None
    let ?w4 = "with_hub (upd_obj i (\<lambda>p. p\<lparr>p_pending := None\<rparr>)) w3"
    have eq: "register X P i hash w = ?w4" using c None len once pend w3 by (simp add: register_def Let_def)
    have soft: "softer (\<lambda>p. p\<lparr>p_pending := None\<rparr>)" by (simp add: softer_def)
    then have "ok ?w4" "ready (w_hub ?w4) i" "live (w_hub ?w4) i"
      using hub_ok_softer [OF _ i soft] softer_frame [OF soft, of i "w_hub w" i] ok w3 rdy live
      by (simp_all add: softer_frame)
    then have "ok (handlePeer X P i env ?w4)" by (intro handlePeer_ok) (simp_all add: leavable_def)
    with rdy w3 show ?thesis by (simp add: eq ready_def)
  next
    case (Some err)
    let ?w5 = "close X i (send_type X i TypeError [] (VString err) [] w3)"
    have eq: "register X P i hash w = ?w5" using c Some len once by (simp add: register_def Let_def)
    note o' = close_core_obj [OF inv live rdy]
    have "\<not> p_active (obj w i)" if g
    proof (cases P)
      case None
      with c Some show ?thesis by (simp add: policy_check_def)
    next
      case (Some pol)
      with c \<open>e = Some err\<close> have "snd (pol_OnIdentified pol hash w) \<noteq> None" by (simp add: policy_check_def)
      then show ?thesis using polite [OF Some that] live hash by (simp add: live_def)
    qed
    then have "ok (handlePeer X P i env ?w5)"
      using hub_ok_close [OF ok i] o' rdy by (intro handlePeer_ok) (simp_all add: w3 ready_def leavable_def)
    with o'(1) rdy show ?thesis unfolding eq by (simp add: w3 ready_def)
  qed
qed

lemma on_message_ok:
  assumes ok: "ok w" and i: "i < h_next (w_hub w)" and opn: "\<not> p_closed (obj w i)"
  shows "ok (on_message X P i env w)"
proof -
  have inv: "hub_inv (x_lower X) (w_hub w)" using ok by (simp add: hub_ok_def)
  have pi: "peer_ok (x_lower X) (obj w i)" using hub_invD(4) [OF inv] .
  have known: "live (w_hub w) i" "ready (w_hub w) i" "p_once (obj w i)" if "p_hash (obj w i) \<noteq> []"
    using that hub_invD(9) [OF inv opn that] peer_ok_key [OF pi that] i pi
    by (simp_all add: live_def ready_def peer_ok_def)
  show ?thesis
  proof (cases "l_remote (obj w i)")
    case None
    then have w1: "register_remote X P i w = w" by (simp add: register_remote_def)
    show ?thesis
    proof (cases "length (p_hash (obj w i)) = IdentityLength")
      case True
      then have "p_hash (obj w i) \<noteq> []" by (auto simp: IdentityLength_def)
      then have "ok (handlePeer X P i env w)" using known ok by (intro handlePeer_ok) (simp_all add: leavable_def)
      with True w1 show ?thesis by (simp add: on_message_def)
    next
      case False
      let ?w2 = "with_hub (upd_obj i (\<lambda>p. p\<lparr>p_pending := Some env\<rparr>)) w"
      have "ok ?w2"
        using ok i None by (auto simp: hub_ok_def link_ok_def soft_def intro!: hub_inv_soft no_ghosts_soft)
      with False w1 ok None show ?thesis by (simp add: on_message_def register_remote_def)
    qed
  next
    case (Some hash)
    have "link_ok (obj w i)" using ok by (simp add: hub_ok_def)
    with opn Some have p: "p_hash (obj w i) \<noteq> []" "p_pending (obj w i) = None" "hash = p_hash (obj w i)"
      by (auto simp: link_ok_def)
    from register_again [OF ok i known(1,2,3) [OF p(1)] p(2,3)]
    show ?thesis using Some by (simp add: on_message_def register_remote_def)
  qed
qed

lemma handleInbound_ok:
  assumes "ok w" and "i < h_next (w_hub w)" and "\<not> p_closed (obj w i)"
  shows "ok (handleInbound X P i data w)"
  using assms by (auto simp: handleInbound_def Let_def split: sum.split intro!: on_message_ok)

lemma remote_identified_ok:
  assumes ok: "ok w" and i: "i < h_next (w_hub w)" and opn: "\<not> p_closed (obj w i)"
    and remote: "l_remote (obj w i) = None" and len: "length hash = IdentityLength"
  shows "ok (remote_identified X P i hash w)"
proof -
  have "link_ok (obj w i)" using ok by (simp add: hub_ok_def)
  with opn remote have fresh: "p_hash (obj w i) = []" by (simp add: link_ok_def)
  moreover have "peer_ok (x_lower X) (obj w i)" using ok by (simp add: hub_ok_def hub_invD(4))
  ultimately have "\<not> p_once (obj w i)" by (simp add: peer_ok_def)
  then show ?thesis
    unfolding remote_identified_def using ok i opn len
    by (intro register_ok) (auto simp: hub_ok_def soft_def intro!: hub_inv_soft no_ghosts_soft)
qed

lemma new_link_inv:
  assumes "hub_ok g' ul h" and "i = h_next h"
  shows "hub_inv ul (upd_obj i (\<lambda>_. new_peer cfg now remote) (h\<lparr>h_next := Suc i\<rparr>))"
    "g' \<longrightarrow> no_ghosts (upd_obj i (\<lambda>_. new_peer cfg now remote) (h\<lparr>h_next := Suc i\<rparr>))"
proof -
  have inv: "hub_inv ul h" using assms(1) by (simp add: hub_ok_def)
  have blank: "h_objs h i = blank_peer" using hub_invD(5) [OF inv] assms(2) by simp
  have un: "map_of (h_peers h) k \<noteq> Some i" for k
    using hub_invD(6,8) [OF inv, of k i] blank by (auto simp: blank_peer_def)
  show "hub_inv ul (upd_obj i (\<lambda>_. new_peer cfg now remote) (h\<lparr>h_next := Suc i\<rparr>))"
  proof (rule hub_invI, goal_cases)
    case (4 j)
    then show ?case using hub_invD(4) [OF inv, of j] by (simp add: new_peer_def blank_peer_def peer_ok_def)
  next
    case (5 j)
    then show ?case using hub_invD(5) [OF inv, of j] assms(2) by simp
  next
    case (6 k j)
    then show ?case using hub_invD(6-8) [OF inv, of k j] un by auto
  next
    case (7 j)
    then show ?case using hub_invD(9) [OF inv, of j] by (auto simp: new_peer_def blank_peer_def split: if_splits)
  next
    case (8 k j r)
    then show ?case using hub_invD(10) [OF inv, of k j r] un by (auto split: if_splits)
  qed (use hub_invD(1-3) [OF inv] in simp_all)
  show "g' \<longrightarrow> no_ghosts (upd_obj i (\<lambda>_. new_peer cfg now remote) (h\<lparr>h_next := Suc i\<rparr>))"
    using assms(1) un unfolding hub_ok_def no_ghosts_def by simp metis
qed

lemma acceptLink_ok:
  assumes ok: "ok w" and len: "\<And>hash. remote = Some hash \<Longrightarrow> length hash = IdentityLength"
  shows "ok (acceptLink X P remote w)"
proof -
  let ?i = "h_next (w_hub w)"
  let ?w1 = "with_hub (\<lambda>h. upd_obj ?i (\<lambda>_. new_peer (h_cfg h) (w_now w) remote) (h\<lparr>h_next := Suc ?i\<rparr>)) w"
  note new = new_link_inv [OF ok refl, of "h_cfg (w_hub w)" "w_now w" remote]
  have links: "link_ok (obj w j)" for j using ok by (simp add: hub_ok_def)
  have "ok (register_remote X P ?i ?w1)"
  proof (cases remote)
    case None
    have "link_ok (obj ?w1 j)" for j using links None by (simp add: link_ok_def new_peer_def blank_peer_def)
    with new have "ok ?w1" by (simp add: hub_ok_def)
    with None show ?thesis by (simp add: register_remote_def new_peer_def)
  next
    case (Some hash)
    have "ok (register X P ?i hash ?w1)"
      using new links len [OF Some] Some by (intro register_ok) (auto simp: new_peer_def blank_peer_def)
    with Some show ?thesis by (simp add: register_remote_def new_peer_def)
  qed
  then show ?thesis unfolding acceptLink_def Let_def by (intro policy_call_ok OnLink_ok)
qed

end

subsection \<open>Operator calls\<close>

lemma hub_ok_peer:
  assumes "hub_ok g ul h" and "map_of (h_peers h) k = Some i"
  shows "i < h_next h" "live h i" "ready h i" "p_hash (h_objs h i) = k"
proof -
  have inv: "hub_inv ul h" using assms(1) by (simp add: hub_ok_def)
  show k: "p_hash (h_objs h i) = k" using hub_invD(6) [OF inv assms(2)] .
  have ne: "k \<noteq> []" using hub_invD(8) [OF inv assms(2)] .
  show i: "i < h_next h"
  proof (rule ccontr)
    assume "\<not> i < h_next h"
    then have "h_objs h i = blank_peer" using hub_invD(5) [OF inv] by simp
    with k ne show False by (simp add: blank_peer_def)
  qed
  show "live h i" using assms(2) k by (simp add: live_def)
  show "ready h i" using peer_ok_key [OF hub_invD(4) [OF inv, of i]] k ne i by (simp add: ready_def)
qed

lemma Disconnect_ok:
  assumes "hub_ok g (x_lower X) (w_hub w)"
  shows "hub_ok g (x_lower X) (w_hub (Disconnect X peer w))"
  using hub_ok_close [OF assms] hub_ok_peer(1) [OF assms] assms
  by (auto simp: Disconnect_def split: option.split)

lemma RemoveFromRoom_ok:
  assumes "hub_ok g (x_lower X) (w_hub w)"
  shows "hub_ok g (x_lower X) (w_hub (fst (RemoveFromRoom X peer room w)))"
proof (cases "map_of (h_peers (w_hub w)) (peerKey peer)")
  case None
  then show ?thesis using assms by (simp add: RemoveFromRoom_def Let_def)
next
  case (Some i)
  note p = hub_ok_peer [OF assms Some]
  have "peerKey peer = peerKey (p_hash (obj w i))" using p(3,4) by (simp add: ready_def)
  then show ?thesis
    using Some assms hub_ok_leave [OF assms p(3,2)] by (simp add: RemoveFromRoom_def Let_def)
qed

lemma send_to_frame [simp]:
  "w_hub (fst (send_to X t p r b w)) = w_hub w" "w_pol (fst (send_to X t p r b w)) = w_pol w"
  "w_now (fst (send_to X t p r b w)) = w_now w"
  by (simp_all add: send_to_def split: option.split)

lemma notices_frame [simp]:
  "w_hub (fst (SendNotice X p r t w)) = w_hub w" "w_pol (fst (SendNotice X p r t w)) = w_pol w"
  "w_hub (fst (SendError X p r t w)) = w_hub w" "w_pol (fst (SendError X p r t w)) = w_pol w"
  "w_hub (fst (SendPing X p b w)) = w_hub w" "w_pol (fst (SendPing X p b w)) = w_pol w"
  "w_hub (BroadcastNotice X r t w) = w_hub w" "w_pol (BroadcastNotice X r t w) = w_pol w"
  by (simp_all add: SendNotice_def SendError_def SendPing_def BroadcastNotice_def Let_def)

lemma notices_now [simp]:
  "w_now (fst (SendNotice X p r t w)) = w_now w" "w_now (fst (SendError X p r t w)) = w_now w"
  "w_now (fst (SendPing X p b w)) = w_now w" "w_now (BroadcastNotice X r t w) = w_now w"
  by (simp_all add: SendNotice_def SendError_def SendPing_def BroadcastNotice_def Let_def)

lemma ApplyRuntime_ok: "hub_ok g ul h \<Longrightarrow> hub_ok g ul (ApplyRuntime n v m e r l h)"
  by (simp add: ApplyRuntime_def Let_def hub_ok_def hub_inv_cfg)

text \<open>Closing the hub: the maps are emptied first, so the sessions only shut their links.\<close>

definition shut :: "Hub \<Rightarrow> bool" where
  "shut h \<longleftrightarrow> h_peers h = [] \<and> h_rooms h = [] \<and> h_nickIndex h = []"

lemma close_core_shut:
  "shut h \<Longrightarrow> close_core ul i h =
     (if p_closed (h_objs h i) then h else upd_obj i (\<lambda>p. p\<lparr>p_closed := True, l_up := False\<rparr>) h)"
  by (simp add: close_core_def shut_def Let_def)

lemma close_all_shut:
  assumes "shut (w_hub w)"
  shows "shut (w_hub (close_all X is w)) \<and>
    h_next (w_hub (close_all X is w)) = h_next (w_hub w) \<and>
    (\<forall>j. obj (close_all X is w) j =
       (if j \<in> set is \<and> \<not> p_closed (obj w j) then (obj w j)\<lparr>p_closed := True, l_up := False\<rparr> else obj w j))"
  using assms
proof (induction "is" arbitrary: w)
  case (Cons i "is")
  have s: "shut (w_hub (close X i w))" using Cons.prems by (simp add: close_core_shut) (simp add: shut_def)
  show ?case using Cons.IH [OF s] Cons.prems by (auto simp: close_core_shut)
qed simp

lemma Close_ok:
  assumes ok: "hub_ok g (x_lower X) (w_hub w)"
  shows "hub_ok g (x_lower X) (w_hub (Close X w)) \<and> shut (w_hub (Close X w))"
proof -
  let ?w0 = "with_hub (\<lambda>h. h\<lparr>h_peers := [], h_rooms := [], h_nickIndex := []\<rparr>) w"
  let ?is = "map snd (h_peers (w_hub w))"
  have inv: "hub_inv (x_lower X) (w_hub w)" using ok by (simp add: hub_ok_def)
  have sh0: "shut (w_hub ?w0)" by (simp add: shut_def)
  note c = close_all_shut [OF sh0, of X ?is]
  let ?h = "w_hub (close_all X ?is ?w0)"
  have objs: "h_objs ?h j = (if j \<in> set ?is \<and> \<not> p_closed (obj w j) then (obj w j)\<lparr>p_closed := True, l_up := False\<rparr> else obj w j)" for j
    using c by simp
  have peers: "h_peers ?h = []" "h_rooms ?h = []" "h_nickIndex ?h = []" using c by (simp_all add: shut_def)
  have lt: "i \<in> set ?is \<Longrightarrow> i < h_next (w_hub w)" for i
    using hub_ok_peer(1) [OF ok] hub_invD(1) [OF inv] by (auto simp: map_of_eq_Some_iff)
  have "hub_inv (x_lower X) ?h"
  proof (rule hub_invI, goal_cases)
    case (4 j)
    then show ?case using hub_invD(4) [OF inv, of j] by (auto simp: objs peer_ok_def)
  next
    case (5 j)
    then show ?case using hub_invD(5) [OF inv, of j] c lt [of j] by (auto simp: objs)
  next
    case (7 j)
    have "j \<in> set ?is" using 7 hub_invD(9) [OF inv, of j]
      by (auto simp: objs split: if_splits dest!: map_of_SomeD intro: image_eqI [rotated])
    with 7 show ?case by (auto simp: objs split: if_splits)
  qed (simp_all add: peers)
  moreover have "link_ok (h_objs ?h j)" for j using ok by (auto simp: objs hub_ok_def link_ok_def)
  ultimately show ?thesis using c by (simp add: Close_def hub_ok_def no_ghosts_def peers)
qed

subsection \<open>Events\<close>

text \<open>
  What happens to a hub: a link arrives, a packet comes over an open link, the remote side of a link
  identifies, a link dies without notice, time passes, and the calls of the operator interface.
\<close>

inductive hub_step :: "hub_env \<Rightarrow> 's hub_policy option \<Rightarrow> 's world \<Rightarrow> 's world \<Rightarrow> bool"
  for X :: hub_env and P :: "'s hub_policy option" where
  accept: "\<forall>hash. remote = Some hash \<longrightarrow> length hash = IdentityLength \<Longrightarrow> hub_step X P w (acceptLink X P remote w)"
| packet: "i < h_next (w_hub w) \<Longrightarrow> \<not> p_closed (obj w i) \<Longrightarrow> l_up (obj w i) \<Longrightarrow> hub_step X P w (handleInbound X P i data w)"
| identify: "i < h_next (w_hub w) \<Longrightarrow> \<not> p_closed (obj w i) \<Longrightarrow> l_remote (obj w i) = None \<Longrightarrow>
    length hash = IdentityLength \<Longrightarrow> hub_step X P w (remote_identified X P i hash w)"
| link_lost: "i < h_next (w_hub w) \<Longrightarrow> hub_step X P w (with_hub (upd_obj i (\<lambda>p. p\<lparr>l_up := False\<rparr>)) w)"
| tick: "w_now w \<le> t \<Longrightarrow> hub_step X P w (w\<lparr>w_now := t\<rparr>)"
| op_notice: "hub_step X P w (fst (SendNotice X peer room text w))"
| op_error: "hub_step X P w (fst (SendError X peer room text w))"
| op_ping: "hub_step X P w (fst (SendPing X peer body w))"
| op_broadcast: "hub_step X P w (BroadcastNotice X room text w)"
| op_remove: "hub_step X P w (fst (RemoveFromRoom X peer room w))"
| op_disconnect: "hub_step X P w (Disconnect X peer w)"
| op_runtime: "hub_step X P w (with_hub (ApplyRuntime n v m e r l) w)"
| op_close: "hub_step X P w (Close X w)"

inductive hub_reachable :: "hub_env \<Rightarrow> 's hub_policy option \<Rightarrow> 's world \<Rightarrow> bool"
  for X :: hub_env and P :: "'s hub_policy option" where
  start: "w_hub w = NewHub sender cfg \<Longrightarrow> hub_reachable X P w"
| step: "hub_reachable X P w \<Longrightarrow> hub_step X P w w' \<Longrightarrow> hub_reachable X P w'"

lemma link_lost_ok:
  "hub_ok g ul h \<Longrightarrow> i < h_next h \<Longrightarrow> hub_ok g ul (upd_obj i (\<lambda>p. p\<lparr>l_up := False\<rparr>) h)"
  by (rule hub_ok_softer) (simp_all add: softer_def)

context hub_policy_laws
begin

lemma step_ok: "hub_step X P w w' \<Longrightarrow> ok w \<Longrightarrow> ok w'"
proof (induction rule: hub_step.induct)
  case (accept remote w)
  then show ?case by (intro acceptLink_ok) simp_all
next
  case (packet i w data)
  then show ?case by (intro handleInbound_ok)
next
  case (identify i w hash)
  then show ?case by (intro remote_identified_ok)
qed (simp_all add: link_lost_ok RemoveFromRoom_ok Disconnect_ok ApplyRuntime_ok Close_ok)

lemma reachable_ok: "hub_reachable X P w \<Longrightarrow> ok w"
proof (induction rule: hub_reachable.induct)
  case (start w sender cfg)
  have "link_ok (h_objs (NewHub sender cfg) i)" for i by (simp add: NewHub_def link_ok_def blank_peer_def)
  with start show ?case by (simp add: hub_ok_def NewHub_inv)
next
  case (step w w')
  then show ?case by (blast intro: step_ok)
qed

end

text \<open>The hub of the library, without a policy.\<close>

interpretation lib: hub_policy_laws X None True for X
  by unfold_locales simp_all

end
