(* ===== verification/RRC_Membership.thy ===== *)
theory RRC_Membership
  imports RRC_Policy
begin

text \<open>
  Room membership as a relation between identities and rooms, and the hub as an implementation of it:
  the two indices the code keeps (the members of a room, the rooms of a peer) hold one relation, and
  JOIN, PART and the end of a session change it by one insertion or deletion.
\<close>

subsection \<open>The abstract interface\<close>

text \<open>
  Any representation of a membership relation with an entry, an exit and a departure; the laws say what
  each does to the relation.
\<close>

locale membership =
  fixes rel :: "'h \<Rightarrow> ('k \<times> 'r) set"
    and enter :: "'k \<Rightarrow> 'r \<Rightarrow> 'h \<Rightarrow> 'h"
    and leave :: "'k \<Rightarrow> 'r \<Rightarrow> 'h \<Rightarrow> 'h"
    and depart :: "'k \<Rightarrow> 'h \<Rightarrow> 'h"
    and good :: "'k \<Rightarrow> 'h \<Rightarrow> bool"
  assumes rel_enter: "good k h \<Longrightarrow> rel (enter k r h) = insert (k, r) (rel h)"
    and rel_leave: "good k h \<Longrightarrow> rel (leave k r h) = rel h - {(k, r)}"
    and rel_depart: "good k h \<Longrightarrow> rel (depart k h) = rel h - {k} \<times> UNIV"
    and good_enter: "good k h \<Longrightarrow> good k (enter k r h)"
    and good_leave: "good k h \<Longrightarrow> good k (leave k r h)"
begin

lemma leave_enter: "good k h \<Longrightarrow> (k, r) \<notin> rel h \<Longrightarrow> rel (leave k r (enter k r h)) = rel h"
  by (simp add: rel_leave rel_enter good_enter)

lemma enter_leave: "good k h \<Longrightarrow> (k, r) \<in> rel h \<Longrightarrow> rel (enter k r (leave k r h)) = rel h"
  by (auto simp: rel_leave rel_enter good_leave)

lemma others_kept:
  "good k h \<Longrightarrow> k' \<noteq> k \<Longrightarrow> ((k', r') \<in> rel (enter k r h)) = ((k', r') \<in> rel h)"
  "good k h \<Longrightarrow> k' \<noteq> k \<Longrightarrow> ((k', r') \<in> rel (leave k r h)) = ((k', r') \<in> rel h)"
  "good k h \<Longrightarrow> k' \<noteq> k \<Longrightarrow> ((k', r') \<in> rel (depart k h)) = ((k', r') \<in> rel h)"
  by (auto simp: rel_enter rel_leave rel_depart)

lemma departed: "good k h \<Longrightarrow> (k, r) \<notin> rel (depart k h)"
  by (simp add: rel_depart)

end

subsection \<open>The hub as an implementation\<close>

definition memb :: "Hub \<Rightarrow> (peerID \<times> gostring) set" where
  "memb h = {(k, r). k \<in> set (assoc_set (h_rooms h) r)}"

text \<open>The operations of the hub by identity; a connected identity stands for its connection.\<close>

definition enter_by :: "peerID \<Rightarrow> gostring \<Rightarrow> Hub \<Rightarrow> Hub" where
  "enter_by k r h = (case map_of (h_peers h) k of None \<Rightarrow> h | Some i \<Rightarrow> join_room i k r h)"

definition leave_by :: "peerID \<Rightarrow> gostring \<Rightarrow> Hub \<Rightarrow> Hub" where
  "leave_by k r h = (case map_of (h_peers h) k of None \<Rightarrow> h | Some i \<Rightarrow> leave_room i k r h)"

definition depart_by :: "(rune \<Rightarrow> rune) \<Rightarrow> peerID \<Rightarrow> Hub \<Rightarrow> Hub" where
  "depart_by ul k h = (case map_of (h_peers h) k of None \<Rightarrow> h | Some i \<Rightarrow> close_core ul i h)"

text \<open>A connected identity of a hub without ghosts, up to the names of the rooms.\<close>

definition connected :: "peerID \<Rightarrow> Hub \<Rightarrow> bool" where
  "connected k h \<longleftrightarrow>
     (\<exists>i. map_of (h_peers h) k = Some i \<and> p_hash (h_objs h i) = k \<and> \<not> p_closed (h_objs h i)
        \<and> length k = IdentityLength \<and> (\<forall>r. (k, r) \<in> memb h \<longleftrightarrow> r \<in> set (p_rooms (h_objs h i))))"

lemma memb_join [simp]: "memb (join_room i k r h) = insert (k, r) (memb h)"
  by (auto simp: memb_def assoc_set_add split: if_splits)

lemma memb_leave [simp]: "memb (leave_room i k r h) = memb h - {(k, r)}"
  by (auto simp: memb_def assoc_set_remove split: if_splits)

lemma memb_drop:
  "memb (drop_core ul i h) = memb h - {peerKey (p_hash (h_objs h i))} \<times> set (p_rooms (h_objs h i))"
  by (auto simp: memb_def split: if_splits)

lemma memb_frame [simp]:
  "memb (upd_obj i f h) = memb h" "memb (reindexNick ul k n m h) = memb h" "memb (h\<lparr>h_peers := ps\<rparr>) = memb h"
  by (simp_all add: memb_def)

lemma memb_close:
  assumes "map_of (h_peers h) k = Some i" "p_hash (h_objs h i) = k" "\<not> p_closed (h_objs h i)"
    "length k = IdentityLength" "\<forall>r. (k, r) \<in> memb h \<longleftrightarrow> r \<in> set (p_rooms (h_objs h i))"
  shows "memb (close_core ul i h) = memb h - {k} \<times> UNIV"
proof -
  have "k \<noteq> []" using assms(4) by (auto simp: IdentityLength_def)
  then have "close_core ul i h = drop_core ul i (upd_obj i (\<lambda>p. p\<lparr>p_closed := True, l_up := False\<rparr>) h)"
    using assms by (simp add: close_core_def Let_def)
  then show ?thesis using assms by (auto simp: memb_drop)
qed

interpretation rooms: membership memb enter_by leave_by "depart_by ul" connected for ul
proof (unfold_locales, goal_cases)
  case (1 k h r)
  then show ?case by (auto simp: connected_def enter_by_def)
next
  case (2 k h r)
  then show ?case by (auto simp: connected_def leave_by_def)
next
  case (3 k h)
  then show ?case unfolding connected_def depart_by_def by (auto simp: memb_close)
next
  case (4 k h r)
  then show ?case by (auto simp: connected_def enter_by_def)
next
  case (5 k h r)
  then show ?case by (auto simp: connected_def leave_by_def)
qed

lemma no_ghosts_memb:
  "no_ghosts h \<Longrightarrow> (k, r) \<in> memb h \<Longrightarrow> \<exists>i. map_of (h_peers h) k = Some i \<and> r \<in> set (p_rooms (h_objs h i))"
  by (simp add: no_ghosts_def memb_def)

lemma hub_ok_connected:
  assumes "hub_ok True ul h" and "map_of (h_peers h) k = Some i"
  shows "connected k h"
proof -
  have inv: "hub_inv ul h" and ng: "no_ghosts h" using assms(1) by (simp_all add: hub_ok_def)
  note p = hub_ok_peer [OF assms]
  have "(k, r) \<in> memb h \<longleftrightarrow> r \<in> set (p_rooms (h_objs h i))" for r
    using no_ghosts_memb [OF ng, of k r] hub_invD(10) [OF inv assms(2), of r] assms(2) by (auto simp: memb_def)
  with assms(2) p hub_invD(7) [OF inv assms(2)] show ?thesis
    by (auto simp: connected_def ready_def)
qed

subsection \<open>The handlers\<close>

text \<open>JOIN is admitted when the name fits and the peer is a member already or below its limit.\<close>

definition join_admissible :: "hub_env \<Rightarrow> conn \<Rightarrow> Envelope \<Rightarrow> Hub \<Rightarrow> bool" where
  "join_admissible X i env h \<longleftrightarrow>
     (let room = NormalizeRoom (x_lower X) (e_Room env); l = cfg_Limits (h_cfg h); p = h_objs h i
      in room \<noteq> [] \<and> word_of_nat (length room) \<le> MaxRoomNameBytes l
         \<and> (room \<in> set (p_rooms p) \<or> word_of_nat (length (p_rooms p)) < MaxRoomsPerSession l))"

lemma onJoin_hub:
  "w_hub (onJoin X None i env w) =
     (let room = NormalizeRoom (x_lower X) (e_Room env)
      in if join_admissible X i env (w_hub w) \<and> room \<notin> set (p_rooms (obj w i))
         then join_room i (peerKey (p_hash (obj w i))) room (w_hub w) else w_hub w)"
  by (auto simp: onJoin_def join_admitted_def join_admissible_def policy_check_def policy_call_def Let_def not_less
      not_le)

lemma live_connected:
  assumes "hub_ok True ul h" and "live h i"
  shows "connected (p_hash (h_objs h i)) h" "peerKey (p_hash (h_objs h i)) = p_hash (h_objs h i)"
    "map_of (h_peers h) (p_hash (h_objs h i)) = Some i"
proof -
  show m: "map_of (h_peers h) (p_hash (h_objs h i)) = Some i" using assms(2) by (simp add: live_def)
  show "connected (p_hash (h_objs h i)) h" by (rule hub_ok_connected [OF assms(1) m])
  then show "peerKey (p_hash (h_objs h i)) = p_hash (h_objs h i)" by (auto simp: connected_def)
qed

lemma member_iff:
  assumes "hub_ok True ul h" and "live h i"
  shows "(p_hash (h_objs h i), r) \<in> memb h \<longleftrightarrow> r \<in> set (p_rooms (h_objs h i))"
  using live_connected(1,3) [OF assms] by (auto simp: connected_def)

lemma onJoin_memb:
  assumes "hub_ok True (x_lower X) (w_hub w)" and "live (w_hub w) i"
  shows "memb (w_hub (onJoin X None i env w)) =
    (if join_admissible X i env (w_hub w)
     then insert (p_hash (obj w i), NormalizeRoom (x_lower X) (e_Room env)) (memb (w_hub w))
     else memb (w_hub w))"
  using member_iff [OF assms, of "NormalizeRoom (x_lower X) (e_Room env)"] live_connected(2) [OF assms]
  by (auto simp: onJoin_hub Let_def)

lemma onPart_memb:
  assumes "hub_ok True (x_lower X) (w_hub w)" and "live (w_hub w) i"
  shows "memb (w_hub (onPart X None i env w)) =
    memb (w_hub w) - {(p_hash (obj w i), NormalizeRoom (x_lower X) (e_Room env))}"
proof -
  have "[] \<notin> set (p_rooms (obj w i))"
    using assms(1) hub_invD(4) [of "x_lower X" "w_hub w" i] by (auto simp: hub_ok_def peer_ok_def)
  with member_iff [OF assms, of "NormalizeRoom (x_lower X) (e_Room env)"] live_connected(2) [OF assms]
  show ?thesis by (auto simp: lib.onPart_hub Let_def)
qed

lemma close_memb:
  assumes "hub_ok True (x_lower X) (w_hub w)" and "live (w_hub w) i"
  shows "memb (w_hub (close X i w)) = memb (w_hub w) - {p_hash (obj w i)} \<times> UNIV"
  using rooms.rel_depart [OF live_connected(1) [OF assms]] live_connected(3) [OF assms]
  by (simp add: depart_by_def)

text \<open>Taking over an identity clears what its old connection was in.\<close>

lemma register_memb:
  assumes inv: "hub_inv ul h" and ng: "no_ghosts h" and fresh: "p_hash (h_objs h i) = []"
    and len: "length hash = IdentityLength"
  shows "memb (register_hub ul i hash h) = memb h - {hash} \<times> UNIV"
proof -
  have un: "map_of (h_peers h) k \<noteq> Some i" for k using fresh hub_invD(6,8) [OF inv, of k i] by auto
  show ?thesis
  proof (cases "map_of (h_peers h) hash")
    case None
    then have "(hash, r) \<notin> memb h" for r using no_ghosts_memb [OF ng, of hash r] by auto
    then show ?thesis by (auto simp: register_hub_new [OF None len])
  next
    case (Some j)
    then have "j \<noteq> i" using un by auto
    have "(hash, r) \<in> memb h \<Longrightarrow> r \<in> set (p_rooms (h_objs h j))" for r
      using no_ghosts_memb [OF ng, of hash r] Some by auto
    moreover have "memb (unlist_rooms hash rs h') = memb h' - {hash} \<times> set rs" for rs h'
      by (auto simp: memb_def unlist_rooms_members split: if_splits)
    ultimately show ?thesis
      using \<open>j \<noteq> i\<close> by (auto simp: register_hub_takeover [OF inv Some \<open>j \<noteq> i\<close> len])
  qed
qed

end
