(* ===== verification/RRC_Hub_Example.thy ===== *)
theory RRC_Hub_Example
  imports RRC_Policy
begin

text \<open>
  A concrete hub run: a link of a known identity arrives, its HELLO and its JOIN are handled, and the
  state is evaluated.  The instances of the theorems on hubs use it.
\<close>

subsection \<open>A concrete hub\<close>

text \<open>
  A small environment for examples: every map is encoded as one byte, a byte names one of a few
  packets, every send succeeds, no case table beyond ASCII; and a world around a new hub.
\<close>

definition ex_env_of :: "uint64 \<Rightarrow> gostring \<Rightarrow> Envelope" where
  "ex_env_of t room =
     (base_envelope t (replicate 8 5) 7 (replicate 16 9))\<lparr>e_Room := room, e_HasRoom := (room \<noteq> [])\<rparr>"

definition ex_packet :: "byte \<Rightarrow> Envelope" where
  "ex_packet b =
     (if b = 1 then ex_env_of TypeHello []
      else if b = 2 then ex_env_of TypeJoin '' Lobby''
      else if b = 3 then (ex_env_of TypeMsg ''lobby'')\<lparr>e_Body := VString ''hi'', e_HasBody := True\<rparr>
      else ex_env_of TypePart ''lobby'')"

definition ex_cbor :: cbor where
  "ex_cbor = \<lparr>c_enc = (\<lambda>_. Inr [0]),
     c_dec = (\<lambda>d. if length d = 1 then Inr (envelope_map (ex_packet (hd d))) else Inl []),
     c_size = (\<lambda>_. Some 1)\<rparr>"

definition ex_env :: hub_env where
  "ex_env = \<lparr>x_cbor = ex_cbor, x_lower = (\<lambda>r. r), x_send = (\<lambda>_ _. None)\<rparr>"

definition ex_cfg :: HubConfig where
  "ex_cfg = \<lparr>cfg_Name = ''hub'', cfg_Version = ''1'', cfg_Limits = zero_HubLimits, cfg_IncludeMemberList = True,
     cfg_EnableResourceTransfer = False, cfg_MaxResourceBytes = 0, cfg_Capabilities = None\<rparr>"

definition ex_world :: "unit world" where
  "ex_world = \<lparr>w_hub = NewHub (replicate 16 1) ex_cfg, w_now = 0, w_rand = (\<lambda>_. replicate 8 0), w_draws = 0,
     w_out = [], w_log = [], w_pol = ()\<rparr>"

text \<open>One peer, identified as the identity of sixteen twos, welcomed, and in the room \<^verbatim>\<open>lobby\<close>.\<close>

definition ex_id :: bytes where
  "ex_id = replicate 16 2"

definition ex_linked :: "unit world" where
  "ex_linked = acceptLink ex_env None (Some ex_id) ex_world"

definition ex_welcomed :: "unit world" where
  "ex_welcomed = handleInbound ex_env None 0 [1] ex_linked"

definition ex_joined :: "unit world" where
  "ex_joined = handleInbound ex_env None 0 [2] ex_welcomed"

text \<open>What the examples look at.\<close>

definition hub_view :: "Hub \<Rightarrow> conn \<Rightarrow> (gostring \<times> peerID list) list \<times> conn option \<times> bytes \<times> gostring list \<times> bool \<times> bool \<times> bool \<times> nat" where
  "hub_view h i = (let p = h_objs h i in
     (h_rooms h, map_of (h_peers h) (p_hash p), p_hash p, p_rooms p, p_active p, p_closed p, l_up p, h_next h))"

text \<open>A packet of a known peer, without a policy: the packet is handled.\<close>

lemma handleInbound_known:
  assumes "UnmarshalEnvelope (x_cbor X) d = Inr env" and "l_remote (obj w i) = Some (p_hash (obj w i))"
    and "length (p_hash (obj w i)) = IdentityLength" and "p_once (obj w i)" and "p_pending (obj w i) = None"
  shows "handleInbound X None i d w = handlePeer X None i env
    (with_hub (upd_obj i (\<lambda>p. p\<lparr>p_pending := None\<rparr>)) (log_event (EvInboundBytes (length d)) w))"
  using assms
  by (simp add: handleInbound_def on_message_def register_remote_def register_def policy_check_def Let_def)

definition known_view :: "Hub \<Rightarrow> conn \<Rightarrow> bytes option \<times> bytes \<times> bool \<times> Envelope option" where
  "known_view h i = (let p = h_objs h i in (l_remote p, p_hash p, p_once p, p_pending p))"

definition ex_handle :: "byte \<Rightarrow> unit world \<Rightarrow> unit world" where
  "ex_handle b w = handlePeer ex_env None 0 (ex_packet b)
     (with_hub (upd_obj 0 (\<lambda>p. p\<lparr>p_pending := None\<rparr>)) (log_event (EvInboundBytes 1) w))"

lemma ex_packet_ok: "env_ok (ex_packet b)"
  by (simp add: ex_packet_def ex_env_of_def env_ok_def base_envelope_def MessageIDLength_def IdentityLength_def)

lemma ex_packet_norm: "wire_norm (e_Body (ex_packet b)) = e_Body (ex_packet b)"
  by (simp add: ex_packet_def ex_env_of_def)

lemma ex_decode: "UnmarshalEnvelope (x_cbor ex_env) [b] = Inr (ex_packet b)"
proof -
  have "map (map_prod id wire_norm) (envelope_map (ex_packet b)) = envelope_map (ex_packet b)"
    by (simp add: envelope_map_def ex_packet_norm)
  then have "envelope_of_map (envelope_map (ex_packet b)) = Inr (received (ex_packet b))"
    using envelope_of_map_envelope_map [OF ex_packet_ok, of "envelope_map (ex_packet b)" b] by simp
  then show ?thesis
    by (simp add: UnmarshalEnvelope_def ex_env_def ex_cbor_def MaxEnvelopeBytes_def received_def ex_packet_norm)
qed

lemma ex_inbound:
  assumes "known_view (w_hub w) 0 = (Some ex_id, ex_id, True, None)"
  shows "handleInbound ex_env None 0 [b] w = ex_handle b w"
  using assms handleInbound_known [OF ex_decode [of b], of w 0]
  by (simp add: ex_handle_def known_view_def Let_def ex_id_def IdentityLength_def)

lemma ex_linked_view: "hub_view (w_hub ex_linked) 0 = ([], Some 0, ex_id, [], False, False, True, 1)"
  by code_simp

lemma ex_welcomed_eq [code]: "ex_welcomed = ex_handle 1 ex_linked"
proof -
  have "known_view (w_hub ex_linked) 0 = (Some ex_id, ex_id, True, None)" by code_simp
  then show ?thesis unfolding ex_welcomed_def by (rule ex_inbound)
qed

lemma ex_welcomed_view: "hub_view (w_hub ex_welcomed) 0 = ([], Some 0, ex_id, [], True, False, True, 1)"
  by code_simp

lemma ex_joined_eq [code]: "ex_joined = ex_handle 2 ex_welcomed"
proof -
  have "known_view (w_hub ex_welcomed) 0 = (Some ex_id, ex_id, True, None)" by code_simp
  then show ?thesis unfolding ex_joined_def by (rule ex_inbound)
qed

lemma ex_joined_view:
  "hub_view (w_hub ex_joined) 0 = ([(''lobby'', [ex_id])], Some 0, ex_id, [''lobby''], True, False, True, 1)"
  by code_simp

lemmas ex_views = ex_linked_view ex_welcomed_view ex_joined_view

lemma ex_reachable:
  "hub_reachable ex_env None ex_linked" "hub_reachable ex_env None ex_welcomed" "hub_reachable ex_env None ex_joined"
proof -
  have "hub_reachable ex_env None ex_world"
    by (rule hub_reachable.start [of _ "replicate 16 1" ex_cfg]) (simp add: ex_world_def)
  then show 1: "hub_reachable ex_env None ex_linked"
    unfolding ex_linked_def
    by (rule hub_reachable.step) (rule hub_step.accept, simp add: ex_id_def IdentityLength_def)
  show 2: "hub_reachable ex_env None ex_welcomed"
    unfolding ex_welcomed_def by (rule hub_reachable.step [OF 1]) (rule hub_step.packet, use ex_linked_view in \<open>simp_all add: hub_view_def Let_def\<close>)
  show "hub_reachable ex_env None ex_joined"
    unfolding ex_joined_def by (rule hub_reachable.step [OF 2]) (rule hub_step.packet, use ex_welcomed_view in \<open>simp_all add: hub_view_def Let_def\<close>)
qed

end
