(* ===== verification/RRC_Hub_Props.thy ===== *)
theory RRC_Hub_Props
  imports RRC_Membership RRC_Hub_Example
begin

text \<open>
  What a hub without a policy promises: one membership relation behind the two indices, the effect of
  JOIN, PART and disconnection on it, who receives a relayed message and under which name, and the
  bound of the rate limit.
\<close>

subsection \<open>Members\<close>

lemma reachable_hub_ok: "hub_reachable X None w \<Longrightarrow> hub_ok True (x_lower X) (w_hub w)"
  by (rule lib.reachable_ok)

lemma map_filter_mem: "x \<in> set (List.map_filter f xs) \<longleftrightarrow> (\<exists>y \<in> set xs. f y = Some x)"
  by (induction xs) (auto simp: map_filter_simps split: option.splits)

lemma RoomMembers_memb:
  assumes "hub_ok True ul h"
  shows "k \<in> set (RoomMembers ul h room) \<longleftrightarrow> (k, NormalizeRoom ul room) \<in> memb h"
proof -
  have inv: "hub_inv ul h" and ng: "no_ghosts h" using assms by (simp_all add: hub_ok_def)
  show ?thesis
  proof
    assume "k \<in> set (RoomMembers ul h room)"
    then obtain i k' where "k' \<in> set (assoc_set (h_rooms h) (NormalizeRoom ul room))"
      "map_of (h_peers h) k' = Some i" "k = p_hash (h_objs h i)"
      by (auto simp: RoomMembers_def map_filter_mem)
    then show "(k, NormalizeRoom ul room) \<in> memb h" using hub_invD(6) [OF inv] by (auto simp: memb_def)
  next
    assume m: "(k, NormalizeRoom ul room) \<in> memb h"
    then obtain i where i: "map_of (h_peers h) k = Some i" using no_ghosts_memb [OF ng] by blast
    then have "p_hash (h_objs h i) = k" using hub_invD(6) [OF inv] by auto
    with m i show "k \<in> set (RoomMembers ul h room)"
      by (force simp: RoomMembers_def map_filter_mem memb_def)
  qed
qed

lemma IsMember_memb:
  assumes "hub_ok True ul h" and "length k = IdentityLength"
  shows "IsMember ul h k room \<longleftrightarrow> (k, NormalizeRoom ul room) \<in> memb h"
proof (cases "map_of (h_peers h) k")
  case None
  then have "(k, r) \<notin> memb h" for r using no_ghosts_memb [of h k r] assms(1) by (auto simp: hub_ok_def)
  with None assms(2) show ?thesis by (simp add: IsMember_def)
next
  case (Some i)
  then show ?thesis using hub_ok_connected [OF assms(1) Some] assms(2) by (auto simp: IsMember_def connected_def)
qed



subsection \<open>Joining, leaving, disconnecting\<close>

lemma ex_joined_live: "live (w_hub ex_joined) 0" "p_hash (obj ex_joined 0) = ex_id" "h_rooms (w_hub ex_joined) = [(''lobby'', [ex_id])]"
  "p_rooms (obj ex_joined 0) = [''lobby'']"
  using ex_joined_view by (auto simp: hub_view_def Let_def live_def)

lemma ex_joined_memb: "memb (w_hub ex_joined) = {(ex_id, ''lobby'')}"
  by (auto simp: memb_def ex_joined_live assoc_set_def split: if_splits)

lemma ex_welcomed_live: "live (w_hub ex_welcomed) 0" "p_hash (obj ex_welcomed 0) = ex_id" "h_rooms (w_hub ex_welcomed) = []"
  "p_rooms (obj ex_welcomed 0) = []"
  using ex_welcomed_view by (auto simp: hub_view_def Let_def live_def)

text \<open>
  C21: JOIN adds exactly the pair of the sender's identity and the normalised room, when the name is
  within the limit and the peer is below its room limit or a member already; otherwise the membership
  relation does not change.
\<close>

theorem hub_join_effect:
  assumes "hub_reachable X None w" and "live (w_hub w) i"
  shows "memb (w_hub (onJoin X None i env w)) =
    (if join_admissible X i env (w_hub w)
     then insert (p_hash (obj w i), NormalizeRoom (x_lower X) (e_Room env)) (memb (w_hub w))
     else memb (w_hub w))"
  by (rule onJoin_memb [OF reachable_hub_ok [OF assms(1)] assms(2)])

theorem hub_join_effect_witness:
  "memb (w_hub (onJoin ex_env None 0 (ex_env_of TypeJoin '' Den '') ex_joined)) = {(ex_id, ''den''), (ex_id, ''lobby'')}"
proof -
  have "join_admissible ex_env 0 (ex_env_of TypeJoin '' Den '') (w_hub ex_joined)" by code_simp
  moreover have "NormalizeRoom (x_lower ex_env) (e_Room (ex_env_of TypeJoin '' Den '')) = ''den''" by code_simp
  ultimately show ?thesis
    using hub_join_effect [OF ex_reachable(3) ex_joined_live(1), of "ex_env_of TypeJoin '' Den ''"]
    by (simp add: ex_joined_live ex_joined_memb)
qed

text \<open>C22: PART removes exactly the pair of the sender's identity and the normalised room.\<close>

theorem hub_part_effect:
  assumes "hub_reachable X None w" and "live (w_hub w) i"
  shows "memb (w_hub (onPart X None i env w)) =
    memb (w_hub w) - {(p_hash (obj w i), NormalizeRoom (x_lower X) (e_Room env))}"
  by (rule onPart_memb [OF reachable_hub_ok [OF assms(1)] assms(2)])

theorem hub_part_effect_witness:
  "memb (w_hub (onPart ex_env None 0 (ex_packet 4) ex_joined)) = {}"
proof -
  have "NormalizeRoom (x_lower ex_env) (e_Room (ex_packet 4)) = ''lobby''" by code_simp
  with hub_part_effect [OF ex_reachable(3) ex_joined_live(1), of "ex_packet 4"] show ?thesis
    by (simp add: ex_joined_live ex_joined_memb)
qed



subsection \<open>Relaying\<close>

text \<open>A packet reaches a connection when its session is open, its link is up and the link takes it.\<close>

definition reaches :: "hub_env \<Rightarrow> bytes \<Rightarrow> Hub \<Rightarrow> conn \<Rightarrow> bool" where
  "reaches X raw h j \<longleftrightarrow> \<not> p_closed (h_objs h j) \<and> l_up (h_objs h j) \<and> x_send X j raw = None"

lemma sendRaw_out:
  "w_out (fst (sendRaw X i raw w)) = w_out w @ (if reaches X raw (w_hub w) i then [(i, raw)] else [])"
  by (auto simp: sendRaw_def reaches_def split: option.split)

lemma send_all_out:
  "w_out (send_all X is raw w) = w_out w @ map (\<lambda>j. (j, raw)) (filter (reaches X raw (w_hub w)) is)"
  by (induction "is" arbitrary: w) (simp_all add: sendRaw_out)

lemma sendType_out:
  "\<exists>l. w_out (fst (sendType X i t r b n w)) = w_out w @ l \<and> fst ` set l \<subseteq> {i}"
  by (auto simp: sendType_split Let_def sendRaw_out split: sum.split)

lemma replyError_out: "\<exists>l. w_out (replyError X i msg w) = w_out w @ l \<and> fst ` set l \<subseteq> {i}"
  unfolding replyError_def send_type_def by (rule sendType_out)

lemma map_filter_distinct:
  "distinct xs \<Longrightarrow> (\<And>x y z. f x = Some z \<Longrightarrow> f y = Some z \<Longrightarrow> x = y) \<Longrightarrow> distinct (List.map_filter f xs)"
proof (induction xs)
  case (Cons a xs)
  then have d: "distinct (List.map_filter f xs)" by simp
  show ?case
  proof (cases "f a")
    case (Some y)
    have "y \<notin> set (List.map_filter f xs)" using Cons.prems Some by (auto simp: map_filter_mem)
    with d Some show ?thesis by (simp add: map_filter_simps)
  qed (use d in \<open>simp add: map_filter_simps\<close>)
qed (simp add: map_filter_simps)

lemma activePeers_set:
  assumes "hub_ok True ul h"
  shows "set (activePeers h (assoc_set (h_rooms h) r)) =
      {j. live h j \<and> p_active (h_objs h j) \<and> (p_hash (h_objs h j), r) \<in> memb h}"
    "distinct (activePeers h (assoc_set (h_rooms h) r))"
proof -
  have inv: "hub_inv ul h" using assms by (simp add: hub_ok_def)
  show "set (activePeers h (assoc_set (h_rooms h) r)) =
      {j. live h j \<and> p_active (h_objs h j) \<and> (p_hash (h_objs h j), r) \<in> memb h}"
    using hub_invD(6) [OF inv] by (auto simp: activePeers_def map_filter_mem memb_def live_def)
  have "distinct (List.map_filter (map_of (h_peers h)) (assoc_set (h_rooms h) r))"
    using hub_invD(6) [OF inv] set_map_ok_assoc [OF hub_invD(2) [OF inv]]
    by (intro map_filter_distinct) metis+
  then show "distinct (activePeers h (assoc_set (h_rooms h) r))" by (simp add: activePeers_def)
qed

lemma forward_envelope_Inr:
  assumes "length (p_hash p) = IdentityLength" and "env_ok env"
  shows "\<exists>fwd. forward_envelope typ p env (\<lambda>f. f\<lparr>e_Room := room, e_HasRoom := True\<rparr>) = Inr fwd
    \<and> e_Sender fwd = p_hash p \<and> e_Type fwd = typ \<and> e_Room fwd = room \<and> e_MsgID fwd = e_MsgID env
    \<and> e_Timestamp fwd = e_Timestamp env \<and> e_Body fwd = e_Body env \<and> e_HasBody fwd = e_HasBody env
    \<and> e_Nick fwd = p_nick p \<and> env_ok fwd"
  using assms
  by (simp add: forward_envelope_def envelopeFrom_def env_ok_def Let_def)

lemma relay:
  assumes ok: "hub_ok True (x_lower X) (w_hub w)" and "live (w_hub w) i" and "env_ok env"
    and room: "room = NormalizeRoom (x_lower X) (e_Room env)" and "room \<in> set (p_rooms (obj w i))"
    and size: "\<not> (e_HasBody env \<and> BodySizeBytes (x_cbor X) (e_Body env) > MaxMsgBodyBytes (cfg_Limits (h_cfg (w_hub w))))"
  shows "\<exists>fwd. env_ok fwd \<and> e_Sender fwd = p_hash (obj w i) \<and> e_Type fwd = e_Type env \<and> e_Room fwd = room
    \<and> e_MsgID fwd = e_MsgID env \<and> e_Timestamp fwd = e_Timestamp env \<and> e_Body fwd = e_Body env \<and> e_Nick fwd = p_nick (obj w i)
    \<and> (case Marshal (x_cbor X) fwd of
         Inl _ \<Rightarrow> w_out (onRoomContent X None i env w) = w_out w
       | Inr raw \<Rightarrow> \<exists>js. w_out (onRoomContent X None i env w) = w_out w @ map (\<lambda>j. (j, raw)) js \<and> distinct js
           \<and> set js = {j. live (w_hub w) j \<and> p_active (obj w j) \<and> (p_hash (obj w j), room) \<in> memb (w_hub w)
                        \<and> reaches X raw (w_hub w) j})"
proof -
  have inv: "hub_inv (x_lower X) (w_hub w)" using ok by (simp add: hub_ok_def)
  have "length (p_hash (obj w i)) = IdentityLength" "room \<noteq> []"
    using live_connected(1) [OF ok assms(2)] hub_invD(4) [OF inv, of i] assms(5)
    by (auto simp: connected_def peer_ok_def)
  then obtain fwd where fwd: "forward_envelope (e_Type env) (obj w i) env (\<lambda>f. f\<lparr>e_Room := room, e_HasRoom := True\<rparr>) = Inr fwd"
    "e_Sender fwd = p_hash (obj w i)" "e_Type fwd = e_Type env" "e_Room fwd = room" "e_MsgID fwd = e_MsgID env"
    "e_Timestamp fwd = e_Timestamp env" "e_Body fwd = e_Body env" "e_Nick fwd = p_nick (obj w i)"
    "env_ok fwd"
    using forward_envelope_Inr [OF _ assms(3)] by metis
  have "onRoomContent X None i env w = (case Marshal (x_cbor X) fwd of Inl _ \<Rightarrow> w
      | Inr raw \<Rightarrow> log_event (EvMsg (p_hash (obj w i)) env) (send_all X (activePeers (w_hub w) (assoc_set (h_rooms (w_hub w)) room)) raw w))"
    using fwd(1) assms(5) size \<open>room \<noteq> []\<close> by (auto simp: onRoomContent_def Let_def room [symmetric])
  note eq = this
  let ?ms = "activePeers (w_hub w) (assoc_set (h_rooms (w_hub w)) room)"
  have "case Marshal (x_cbor X) fwd of
      Inl _ \<Rightarrow> w_out (onRoomContent X None i env w) = w_out w
    | Inr raw \<Rightarrow> \<exists>js. w_out (onRoomContent X None i env w) = w_out w @ map (\<lambda>j. (j, raw)) js \<and> distinct js
        \<and> set js = {j. live (w_hub w) j \<and> p_active (obj w j) \<and> (p_hash (obj w j), room) \<in> memb (w_hub w)
                     \<and> reaches X raw (w_hub w) j}"
  proof (cases "Marshal (x_cbor X) fwd")
    case (Inr raw)
    have "w_out (onRoomContent X None i env w) = w_out w @ map (\<lambda>j. (j, raw)) (filter (reaches X raw (w_hub w)) ?ms)"
      by (simp add: eq Inr send_all_out)
    moreover have "distinct (filter (reaches X raw (w_hub w)) ?ms)" using activePeers_set(2) [OF ok] by simp
    moreover have "set (filter (reaches X raw (w_hub w)) ?ms) = {j. live (w_hub w) j \<and> p_active (obj w j)
        \<and> (p_hash (obj w j), room) \<in> memb (w_hub w) \<and> reaches X raw (w_hub w) j}"
      using activePeers_set(1) [OF ok, of room] by auto
    ultimately show ?thesis unfolding Inr sum.case by blast
  qed (simp add: eq)
  with fwd show ?thesis by blast
qed

text \<open>
  C5: a message of a welcomed member goes, once, to exactly the welcomed members of the room that can be
  reached, and to nobody else; the envelope they get carries the identity of the connection it came from,
  the normalised room and the nickname of that connection, whatever the sender field of the packet
  claimed, and the message id, timestamp and body of the packet.
\<close>

theorem hub_relay:
  assumes "hub_reachable X None w" and "live (w_hub w) i" and "env_ok env"
    and room: "room = NormalizeRoom (x_lower X) (e_Room env)" and "room \<in> set (p_rooms (obj w i))"
    and size: "\<not> (e_HasBody env \<and> BodySizeBytes (x_cbor X) (e_Body env) > MaxMsgBodyBytes (cfg_Limits (h_cfg (w_hub w))))"
  shows "\<exists>fwd. env_ok fwd \<and> e_Sender fwd = p_hash (obj w i) \<and> e_Type fwd = e_Type env \<and> e_Room fwd = room
    \<and> e_MsgID fwd = e_MsgID env \<and> e_Timestamp fwd = e_Timestamp env \<and> e_Body fwd = e_Body env \<and> e_Nick fwd = p_nick (obj w i)
    \<and> (case Marshal (x_cbor X) fwd of
         Inl _ \<Rightarrow> w_out (onRoomContent X None i env w) = w_out w
       | Inr raw \<Rightarrow> \<exists>js. w_out (onRoomContent X None i env w) = w_out w @ map (\<lambda>j. (j, raw)) js \<and> distinct js
           \<and> set js = {j. live (w_hub w) j \<and> p_active (obj w j) \<and> (p_hash (obj w j), room) \<in> memb (w_hub w)
                        \<and> reaches X raw (w_hub w) j})"
  by (rule relay [OF reachable_hub_ok [OF assms(1)] assms(2-6)])

theorem hub_relay_witness:
  "\<exists>raw js. w_out (onRoomContent ex_env None 0 (ex_packet 3) ex_joined) = w_out ex_joined @ map (\<lambda>j. (j, raw)) js \<and> js = [0]"
proof -
  have room: "NormalizeRoom (x_lower ex_env) (e_Room (ex_packet 3)) = ''lobby''" by code_simp
  have size: "BodySizeBytes (x_cbor ex_env) (e_Body (ex_packet 3)) \<le> MaxMsgBodyBytes (cfg_Limits (h_cfg (w_hub ex_joined)))"
    by code_simp
  have up: "\<not> p_closed (obj ex_joined 0)" "l_up (obj ex_joined 0)" "p_active (obj ex_joined 0)"
    using ex_joined_view by (simp_all add: hub_view_def Let_def)
  have ok: "hub_ok True (x_lower ex_env) (w_hub ex_joined)" by (rule reachable_hub_ok [OF ex_reachable(3)])
  have only: "live (w_hub ex_joined) j \<Longrightarrow> p_hash (obj ex_joined j) = ex_id \<Longrightarrow> j = 0" for j
    using ex_joined_live(1,2) by (simp add: live_def)
  obtain fwd js where "env_ok fwd" and out:
    "case Marshal (x_cbor ex_env) fwd of Inl _ \<Rightarrow> w_out (onRoomContent ex_env None 0 (ex_packet 3) ex_joined) = w_out ex_joined
     | Inr raw \<Rightarrow> \<exists>js. w_out (onRoomContent ex_env None 0 (ex_packet 3) ex_joined) = w_out ex_joined @ map (\<lambda>j. (j, raw)) js \<and> distinct js
       \<and> set js = {j. live (w_hub ex_joined) j \<and> p_active (obj ex_joined j)
            \<and> (p_hash (obj ex_joined j), ''lobby'') \<in> memb (w_hub ex_joined) \<and> reaches ex_env raw (w_hub ex_joined) j}"
    using hub_relay [OF ex_reachable(3) ex_joined_live(1) ex_packet_ok room [symmetric]] size ex_joined_live(4)
    by (auto simp: not_less)
  moreover have "Marshal (x_cbor ex_env) fwd = Inr [0]"
    using Marshal_ok [OF \<open>env_ok fwd\<close>, of "x_cbor ex_env"] by (simp add: ex_env_def ex_cbor_def)
  ultimately obtain js where js: "w_out (onRoomContent ex_env None 0 (ex_packet 3) ex_joined) = w_out ex_joined @ map (\<lambda>j. (j, [0])) js"
    "distinct js" "set js = {j. live (w_hub ex_joined) j \<and> p_active (obj ex_joined j)
       \<and> (p_hash (obj ex_joined j), ''lobby'') \<in> memb (w_hub ex_joined) \<and> reaches ex_env [0] (w_hub ex_joined) j}"
    by auto
  have "set js = {0}" unfolding js(3) using up only ex_joined_live(1,2)
    by (auto simp: ex_joined_memb reaches_def ex_env_def)
  with js(2) have "length js = 1" using distinct_card [of js] by simp
  with \<open>set js = {0}\<close> have "js = [0]" by (cases js) auto
  with js(1) show ?thesis by blast
qed

subsection \<open>The rate limit\<close>

text \<open>The packets of one connection at the given times, and how many of them get a token.\<close>

primrec takes :: "conn \<Rightarrow> int list \<Rightarrow> 's world \<Rightarrow> 's world \<times> nat" where
  "takes i [] w = (w, 0)"
| "takes i (t # ts) w =
     (let r = takeToken i (w\<lparr>w_now := t\<rparr>); r' = takes i ts (fst r)
      in (fst r', snd r' + (if snd r then 1 else 0)))"

definition rate_of :: "'s world \<Rightarrow> rat" where
  "rate_of w = of_nat (unat (RateLimitMsgsPerMinute (cfg_Limits (h_cfg (w_hub w))))) / 60"

lemma unsigned_rat_nonneg [simp]: "0 \<le> (unsigned (x :: 64 word) :: rat)"
  by (metis of_nat_0_le_iff of_nat_unat)

lemma refill_nonneg: "\<lbrakk>0 \<le> tokens; 0 \<le> elapsed\<rbrakk> \<Longrightarrow> 0 \<le> refill l tokens elapsed"
  by (simp add: refill_def Let_def)

lemma takeToken_step:
  assumes "RateLimitMsgsPerMinute (cfg_Limits (h_cfg (w_hub w))) \<noteq> 0" and "p_lastRefill (obj w i) \<le> t"
    and "0 \<le> p_tokens (obj w i)" and r: "takeToken i (w\<lparr>w_now := t\<rparr>) = (w', b)"
  shows "p_tokens (obj w' i) + (if b then 1 else 0)
      \<le> p_tokens (obj w i) + of_int (t - p_lastRefill (obj w i)) / 1000000000 * rate_of w"
    "p_lastRefill (obj w' i) = t" "0 \<le> p_tokens (obj w' i)" "h_cfg (w_hub w') = h_cfg (w_hub w)"
proof -
  let ?T = "refill (RateLimitMsgsPerMinute (cfg_Limits (h_cfg (w_hub w)))) (p_tokens (obj w i)) (t - p_lastRefill (obj w i))"
  have le: "?T \<le> p_tokens (obj w i) + of_int (t - p_lastRefill (obj w i)) / 1000000000 * rate_of w"
    using assms(2) by (simp add: refill_def Let_def rate_of_def)
  have ge: "0 \<le> ?T" using assms(2,3) by (simp add: refill_nonneg)
  show "p_tokens (obj w' i) + (if b then 1 else 0)
      \<le> p_tokens (obj w i) + of_int (t - p_lastRefill (obj w i)) / 1000000000 * rate_of w"
    "p_lastRefill (obj w' i) = t" "0 \<le> p_tokens (obj w' i)" "h_cfg (w_hub w') = h_cfg (w_hub w)"
    using r assms(1) le ge by (auto simp: takeToken_def Let_def split: if_splits)
qed

lemma takes_bound:
  assumes "RateLimitMsgsPerMinute (cfg_Limits (h_cfg (w_hub w))) \<noteq> 0" and "0 \<le> p_tokens (obj w i)"
    and "sorted (p_lastRefill (obj w i) # ts @ [T])"
  shows "of_nat (snd (takes i ts w)) \<le> p_tokens (obj w i) + of_int (T - p_lastRefill (obj w i)) / 1000000000 * rate_of w"
  using assms
proof (induction ts arbitrary: w)
  case Nil
  have "0 \<le> rate_of w" by (simp add: rate_of_def)
  with Nil show ?case by simp
next
  case (Cons t ts)
  obtain w' b where r: "takeToken i (w\<lparr>w_now := t\<rparr>) = (w', b)" by fastforce
  have t: "p_lastRefill (obj w i) \<le> t" using Cons.prems(3) by simp
  note s = takeToken_step [OF Cons.prems(1) t Cons.prems(2) r]
  have "of_nat (snd (takes i ts w')) \<le> p_tokens (obj w' i) + of_int (T - t) / 1000000000 * rate_of w"
    using Cons.IH [of w'] s Cons.prems(1,3) by (simp add: rate_of_def)
  then have "of_nat (snd (takes i ts w')) + (if b then 1 else 0)
      \<le> p_tokens (obj w i) + of_int (T - p_lastRefill (obj w i)) / 1000000000 * rate_of w"
    using s(1) by (simp add: field_simps of_int_diff)
  then show ?case using r by (cases b) (simp_all add: Let_def add.commute)
qed



end
