(* ===== verification/RRC_Conversation.thy ===== *)
theory RRC_Conversation
  imports RRC_Client RRC_Hub_Props
begin

text \<open>
  A client and a hub over one link: what one side encodes is what the other side handles.  The codec is
  the one assumption between them: whatever it encodes it decodes to the same map, up to the types its
  decoder gives to numbers and maps.
\<close>

subsection \<open>The wire\<close>

lemma arrives:
  assumes "codec_ok C" and "env_ok e" and "Marshal C e = Inr raw" and "length raw \<le> MaxEnvelopeBytes"
  shows "UnmarshalEnvelope C raw = Inr (received e)"
proof -
  have "c_enc C (envelope_map e) = Inr raw" using assms(3) Marshal_ok [OF assms(2), of C] by (simp split: sum.splits)
  then have "cbor_carries C (length raw) (envelope_map e)" and enc: "c_enc C (envelope_map e) = Inr raw"
    using assms(1) by (auto simp: codec_ok_def)
  then obtain m where "raw \<noteq> []" "c_dec C raw = Inr m" "map_of m = map_of (map (map_prod id wire_norm) (envelope_map e))"
    by (auto elim!: cbor_carriesE)
  with assms(4) show ?thesis
    by (simp add: UnmarshalEnvelope_def envelope_of_map_envelope_map [OF assms(2)])
qed

lemma type_envelope_sel [simp]:
  "e_Type (type_envelope e r b n) = e_Type e" "e_Sender (type_envelope e r b n) = e_Sender e"
  "e_MsgID (type_envelope e r b n) = e_MsgID e"
  "e_Room e = [] \<Longrightarrow> e_Room (type_envelope e r b n) = r" "e_Body e = VNil \<Longrightarrow> e_Body (type_envelope e r b n) = b"
  "e_Nick e = [] \<Longrightarrow> e_Nick (type_envelope e r b n) = n"
  by (simp_all add: type_envelope_def Let_def)

lemma type_envelope_ok: "env_ok e \<Longrightarrow> env_ok (type_envelope e r b n)"
  by (auto simp: type_envelope_def Let_def env_ok_update)

lemma received_sel [simp]:
  "e_Type (received e) = e_Type e" "e_Sender (received e) = e_Sender e" "e_Room (received e) = e_Room e"
  "e_Body (received e) = wire_norm (e_Body e)" "e_Nick (received e) = e_Nick e" "e_HasBody (received e) = e_HasBody e"
  "e_HasRoom (received e) = e_HasRoom e"
  by (simp_all add: received_def)

lemma received_ok: "env_ok e \<Longrightarrow> env_ok (received e)"
  by (auto simp: env_ok_def received_def)

subsection \<open>The packets of the hub\<close>

text \<open>The packets an operation of the hub hands to a connection.\<close>

definition sent_to :: "conn \<Rightarrow> 's world \<Rightarrow> 's world \<Rightarrow> bytes list" where
  "sent_to i w w' = map snd (filter (\<lambda>p. fst p = i) (drop (length (w_out w)) (w_out w')))"

text \<open>The envelope \<^verbatim>\<open>sendType\<close> builds, with the random bytes of draw \<open>n\<close>.\<close>

definition typed :: "'s world \<Rightarrow> nat \<Rightarrow> uint64 \<Rightarrow> gostring \<Rightarrow> val \<Rightarrow> Envelope" where
  "typed w n t room body =
     type_envelope (base_envelope t (w_rand w n) (word_of_int (w_now w div 1000000)) (h_sender (w_hub w))) room body []"

definition rand_ok :: "(nat \<Rightarrow> bytes) \<Rightarrow> bool" where
  "rand_ok r \<longleftrightarrow> (\<forall>n. length (r n) = MessageIDLength)"

lemma typed_ok:
  "rand_ok (w_rand w) \<Longrightarrow> length (h_sender (w_hub w)) = IdentityLength \<Longrightarrow> env_ok (typed w n t room body)"
  by (simp add: typed_def type_envelope_ok base_envelope_ok rand_ok_def)

lemma typed_sel [simp]:
  "e_Type (typed w n t room body) = t" "e_Room (typed w n t room body) = room" "e_Body (typed w n t room body) = body"
  "e_Sender (typed w n t room body) = h_sender (w_hub w)"
  by (simp_all add: typed_def)

lemma sendType_out_eq:
  assumes "length (h_sender (w_hub w)) = IdentityLength"
  shows "w_out (fst (sendType X i t room body [] w)) = w_out w @
    (case Marshal (x_cbor X) (typed w (w_draws w) t room body) of
       Inl _ \<Rightarrow> [] | Inr raw \<Rightarrow> if reaches X raw (w_hub w) i then [(i, raw)] else [])"
  using assms
  by (simp add: sendType_def marshalType_def NewEnvelope_def typed_def sendRaw_out split: sum.split)

lemma broadcast_out:
  "\<exists>raw js. w_out (broadcast X is t room body nick w) = w_out w @ map (\<lambda>j. (j, raw)) js \<and> set js \<subseteq> set is"
proof (cases "marshalType X (h_sender (w_hub w)) t room body nick w")
  case (Pair w1 r)
  have "w_out w1 = w_out w" using Pair by (auto simp: marshalType_def split: sum.splits)
  then show ?thesis
  proof (cases r)
    case (Inr raw)
    have "w_out (broadcast X is t room body nick w) = w_out w @ map (\<lambda>j. (j, raw)) (filter (reaches X raw (w_hub w1)) is)"
      using \<open>w_out w1 = w_out w\<close> by (simp add: broadcast_def Pair Inr send_all_out)
    then show ?thesis by (metis filter_is_subset)
  qed (auto simp: broadcast_def Pair intro: exI [of _ "[]"])
qed

lemma sendRaw_rand [simp]: "w_rand (fst (sendRaw X i raw w)) = w_rand w"
  by (simp add: sendRaw_def split: option.split)

lemma send_all_rand [simp]: "w_rand (send_all X is raw w) = w_rand w"
  by (induction "is" arbitrary: w) simp_all

lemma broadcast_rand [simp]: "w_rand (broadcast X is t r b n w) = w_rand w"
  by (simp add: broadcast_split Let_def marshalType_def split: sum.split)

lemma typed_frame: "w_rand w' = w_rand w \<Longrightarrow> w_now w' = w_now w \<Longrightarrow> h_sender (w_hub w') = h_sender (w_hub w) \<Longrightarrow> typed w' = typed w"
  by (intro ext) (simp add: typed_def)

lemma sent_to_append:
  assumes "w_out w' = w_out w @ l"
  shows "sent_to i w w' = map snd (filter (\<lambda>p. fst p = i) l)"
  using assms by (simp add: sent_to_def)

lemma others_not_self:
  "(\<And>k. map_of (h_peers h) k = Some i \<Longrightarrow> k = key) \<Longrightarrow> i \<notin> set (roomPeersLocked h r key)"
  by (auto simp: roomPeersLocked_def activePeers_def map_filter_mem)

lemma filter_others: "i \<notin> set js \<Longrightarrow> filter (\<lambda>p. fst p = i) (map (\<lambda>j. (j, raw)) js) = []"
  by (auto simp: filter_empty_conv)

text \<open>The reply to an admitted JOIN.\<close>

lemma onJoin_sent:
  assumes ok: "hub_ok True (x_lower Y) (w_hub w)" and "live (w_hub w) i" and "join_admissible Y i env (w_hub w)"
    and "length (h_sender (w_hub w)) = IdentityLength"
  defines "w' \<equiv> onJoin Y None i env w" and "room \<equiv> NormalizeRoom (x_lower Y) (e_Room env)"
  shows "\<exists>n. sent_to i w w' =
    (case Marshal (x_cbor Y) (typed w n TypeJoined room (memberList (w_hub w') room)) of
       Inl _ \<Rightarrow> [] | Inr raw \<Rightarrow> if reaches Y raw (w_hub w) i then [raw] else [])"
proof -
  let ?p = "obj w i" let ?key = "peerKey (p_hash ?p)"
  define w1 where "w1 = (if room \<in> set (p_rooms ?p) then w else with_hub (join_room i ?key room) w)"
  define others where "others = roomPeersLocked (w_hub w1) room ?key"
  define w2 where "w2 = (if others \<noteq> [] then broadcast Y others TypeJoined room (presenceBody (w_hub w1) (p_hash ?p)) (p_nick ?p) w1 else w1)"
  have adm: "room \<noteq> []" "\<not> MaxRoomNameBytes (cfg_Limits (h_cfg (w_hub w))) < word_of_nat (length room)"
    "\<not> (room \<notin> set (p_rooms ?p) \<and> MaxRoomsPerSession (cfg_Limits (h_cfg (w_hub w))) \<le> word_of_nat (length (p_rooms ?p)))"
    using assms(3) by (auto simp: join_admissible_def Let_def room_def not_less not_le)
  have "w' = join_admitted Y None i room env w"
    using adm(1,2) by (simp add: w'_def onJoin_def policy_check_def Let_def room_def [symmetric])
  also have "\<dots> = log_event (EvJoin (p_hash ?p) room env) (send_type Y i TypeJoined room (memberList (w_hub w1) room) [] w2)"
    unfolding join_admitted_def Let_def policy_call_def option.case if_not_P [OF adm(3)] w2_def others_def w1_def ..
  finally have w': "w' = log_event (EvJoin (p_hash ?p) room env) (send_type Y i TypeJoined room (memberList (w_hub w1) room) [] w2)" .
  have hub: "w_hub w' = w_hub w1" "w_hub w2 = w_hub w1" by (simp_all add: w' w2_def)
  have w1: "w_out w1 = w_out w" "w_rand w1 = w_rand w" "w_now w1 = w_now w" "h_sender (w_hub w1) = h_sender (w_hub w)"
    "h_peers (w_hub w1) = h_peers (w_hub w)" "reaches Y raw (w_hub w1) i = reaches Y raw (w_hub w) i" for raw
    by (simp_all add: w1_def with_hub_def join_room_def upd_obj_def reaches_def)
  have ni: "i \<notin> set others"
    unfolding others_def
    by (rule others_not_self) (use hub_invD(6) [of "x_lower Y" "w_hub w"] ok w1(5) live_connected(2) [OF ok assms(2)] in \<open>auto simp: hub_ok_def\<close>)
  obtain raw js where "w_out w2 = w_out w @ map (\<lambda>j. (j, raw)) js" "i \<notin> set js"
  proof (cases "others = []")
    case True
    then show thesis using that [of "[]" "[]"] w1(1) by (simp add: w2_def)
  next
    case False
    then show thesis
      using broadcast_out [of Y others TypeJoined room "presenceBody (w_hub w1) (p_hash ?p)" "p_nick ?p" w1] w1(1) that ni
      by (auto simp: w2_def)
  qed
  moreover have "typed w2 = typed w" by (rule typed_frame) (simp_all add: w2_def w1)
  ultimately show ?thesis
    using sendType_out_eq [of w2 Y i TypeJoined room "memberList (w_hub w1) room"] assms(4)
    by (intro exI [of _ "w_draws w2"])
      (auto simp: sent_to_append w' hub w1 send_type_def filter_others split: sum.split)
qed

subsection \<open>The packets of the client\<close>

lemma client_sent:
  assumes "client_sendType X t room body nick k = (k', None)" and "rand_ok (k_rand k)"
  obtains e raw where "k_out k' = k_out k @ [raw]" "Marshal (x_cbor X) e = Inr raw" "env_ok e" "e_Type e = t"
    "e_Room e = room" "e_Body e = body" "e_Nick e = nick" "e_Sender e = c_sender (k_client k)"
    "e_HasBody e = (body \<noteq> VNil)" "k_client k' = k_client k"
proof -
  have len: "length (c_sender (k_client k)) = IdentityLength"
    using assms(1) by (auto simp: client_sendType_def client_NewEnvelope_def NewEnvelope_def split: if_splits)
  define e where "e = type_envelope (base_envelope t (k_rand k (k_draws k)) (word_of_int (k_now k div 1000000)) (c_sender (k_client k))) room body nick"
  have send: "client_sendEnvelope X e (k\<lparr>k_draws := Suc (k_draws k)\<rparr>) = (k', None)"
    using assms(1) len by (simp add: client_sendType_def client_NewEnvelope_def NewEnvelope_def e_def)
  then obtain raw where raw: "Marshal (x_cbor X) e = Inr raw" "k_out k' = k_out k @ [raw]" "k_client k' = k_client k"
    by (auto simp: client_sendEnvelope_def client_sendRaw_def split: sum.splits if_splits option.splits)
  have "env_ok e" using len assms(2) by (simp add: e_def type_envelope_ok base_envelope_ok rand_ok_def)
  moreover have "e_HasBody e = (body \<noteq> VNil)" by (simp add: e_def type_envelope_def Let_def)
  ultimately show thesis using raw by (intro that [of raw e]) (simp_all add: e_def)
qed

text \<open>A packet the client gets, through its decoder.\<close>

lemma client_gets:
  assumes "codec_ok (x_cbor X)" and "env_ok e" and "Marshal (x_cbor X) e = Inr raw" and "length raw \<le> MaxEnvelopeBytes"
    and "e_Type e \<noteq> TypePing"
  shows "client_inbound X raw k = dispatch X (received e) k"
  using arrives [OF assms(1-4)] assms(5) by (simp add: client_inbound_def)

subsection \<open>Joining\<close>


text \<open>A client for the hub of the examples, and the packets they exchange.\<close>

definition conv_join :: Envelope where
  "conv_join = type_envelope (base_envelope TypeJoin (replicate 8 3) 0 ex_id) ''den'' VNil []"

definition conv_reply :: Envelope where
  "conv_reply = type_envelope (base_envelope TypeJoined (replicate 8 0) 0 (replicate 16 1)) ''den'' (VArr [VBytes ex_id]) []"

definition conv_cbor :: cbor where
  "conv_cbor = table_cbor [[], envelope_map conv_join, envelope_map conv_reply]"

definition conv_env :: client_env where
  "conv_env = \<lparr>x_cbor = conv_cbor, x_lower = (\<lambda>r. r), x_send = (\<lambda>_ _. None), cx_sprint = (\<lambda>_. [])\<rparr>"

definition conv_hub :: "unit world" where
  "conv_hub = ex_world\<lparr>w_hub := w_hub ex_welcomed\<rparr>"

definition conv_client :: cworld where
  "conv_client =
     \<lparr>k_client = (new_client ex_id \<lparr>cc_Nick = [], cc_Name = [], cc_Version = [], cc_Capabilities = None, cc_DialTimeout = 0,
        cc_WelcomeTimeout = 0\<rparr>)\<lparr>c_state := ClientActive, s_up := True\<rparr>,
      k_now = 0, k_rand = (\<lambda>_. replicate 8 3), k_draws = 0, k_out = [], k_log = [], k_ch = None\<rparr>"

lemma conv_codec: "codec_ok conv_cbor"
  by (simp add: conv_cbor_def table_codec)

lemma conv_facts:
  "last (k_out (fst (JoinKeyed conv_env '' Den'' [] conv_client))) = [1]"
  "Option.is_none (snd (JoinKeyed conv_env '' Den'' [] conv_client))"
  "NormalizeRoom (x_lower conv_env) '' Den'' = ''den''"
  "length (h_sender (w_hub conv_hub)) = IdentityLength"
  "join_admissible (hub_env.truncate conv_env) 0 conv_join (w_hub conv_hub)"
  "memberList (join_room 0 ex_id ''den'' (w_hub conv_hub)) ''den'' = VArr [VBytes ex_id]"
  by code_simp+

lemma conv_decode: "UnmarshalEnvelope conv_cbor [1] = Inr conv_join"
proof -
  have "env_ok conv_join" "Marshal conv_cbor conv_join = Inr [1]" "received conv_join = conv_join" by code_simp+
  then show ?thesis using arrives [OF conv_codec, of conv_join "[1]"] by (simp add: MaxEnvelopeBytes_def)
qed

text \<open>The packet with which the hub of the example answers.\<close>

lemma conv_typed: "typed conv_hub n TypeJoined ''den'' (VArr [VBytes ex_id]) = conv_reply"
proof -
  have "h_sender (w_hub conv_hub) = replicate 16 1" by code_simp
  then show ?thesis by (simp add: typed_def conv_reply_def) (simp add: conv_hub_def ex_world_def)
qed


subsection \<open>The welcome\<close>

lemma welcome_body_ok:
  assumes "\<And>caps. cfg_Capabilities cfg = Some caps \<Longrightarrow> distinct (map fst caps)"
  shows "welcome_ok (welcome_body cfg)" "\<exists>m. WelcomeBody_ToMap (welcome_body cfg) = Some m"
proof -
  show "welcome_ok (welcome_body cfg)"
    using assms by (simp add: welcome_ok_def welcome_body_def caps_ok_def DefaultHubCapabilities_def wire_simps Let_def split: option.split)
  show "\<exists>m. WelcomeBody_ToMap (welcome_body cfg) = Some m"
    by (simp add: WelcomeBody_ToMap_def welcome_body_def nil_if_empty_def)
qed

definition welcome_val :: "HubConfig \<Rightarrow> val" where
  "welcome_val cfg = (case WelcomeBody_ToMap (welcome_body cfg) of None \<Rightarrow> VMapU [] | Some m \<Rightarrow> VMapU m)"

lemma onHello_sent:
  assumes "length (h_sender (w_hub w)) = IdentityLength"
    and "Marshal (x_cbor Y) (typed w (w_draws w) TypeWelcome [] (welcome_val (h_cfg (w_hub w)))) = Inr raw"
    and "reaches Y raw (w_hub w) i"
  shows "sent_to i w (onHello Y None i env w) = [raw]"
proof -
  define w1 where "w1 = with_hub (upd_obj i (\<lambda>p. p\<lparr>p_active := True\<rparr>)) w"
  have w1: "h_cfg (w_hub w1) = h_cfg (w_hub w)" "h_sender (w_hub w1) = h_sender (w_hub w)" "w_out w1 = w_out w"
    "w_draws w1 = w_draws w" "reaches Y raw (w_hub w1) i = reaches Y raw (w_hub w) i"
    by (simp_all add: w1_def with_hub_def upd_obj_def reaches_def)
  have t: "typed w1 = typed w" by (rule typed_frame) (simp_all add: w1_def with_hub_def upd_obj_def)
  let ?s = "sendType Y i TypeWelcome [] (welcome_val (h_cfg (w_hub w))) [] w1"
  have out: "w_out (fst ?s) = w_out w @ [(i, raw)]"
    using sendType_out_eq [of w1 Y i TypeWelcome "[]" "welcome_val (h_cfg (w_hub w))"] assms by (simp add: w1 t)
  moreover have "snd ?s = None"
    using assms unfolding sendType_def marshalType_def NewEnvelope_def
    by (simp add: w1 t [symmetric] typed_def sendRaw_def reaches_def with_hub_def) (simp add: w1_def with_hub_def upd_obj_def)
  ultimately obtain w2 where "?s = (w2, None)" "w_out w2 = w_out w @ [(i, raw)]" by (metis prod.collapse)
  then show ?thesis
    by (simp add: onHello_def Let_def w1_def [symmetric] w1(1) welcome_val_def [symmetric] policy_call_def sent_to_append)
qed


definition table_env :: "Envelope list \<Rightarrow> client_env" where
  "table_env es = conv_env\<lparr>x_cbor := table_cbor (map envelope_map es)\<rparr>"

lemma table_env_sel [simp]:
  "x_cbor (table_env es) = table_cbor (map envelope_map es)" "x_lower (table_env es) = (\<lambda>r. r)"
  "x_send (table_env es) i raw = None" "x_cbor (hub_env.truncate (table_env es)) = table_cbor (map envelope_map es)"
  "x_lower (hub_env.truncate (table_env es)) = (\<lambda>r. r)" "x_send (hub_env.truncate (table_env es)) i raw = None"
  by (simp_all add: table_env_def conv_env_def hub_env.defs)

lemma table_Marshal: "env_ok e \<Longrightarrow> Marshal (table_cbor [envelope_map e]) e = Inr [0]"
  by (simp add: Marshal_ok) (simp add: table_cbor_def)


subsection \<open>A message\<close>


definition conv_msg :: Envelope where
  "conv_msg = type_envelope (base_envelope TypeMsg (replicate 8 3) 0 ex_id) ''lobby'' (VString ''hi'') []"

definition conv_member :: cworld where
  "conv_member = with_client (\<lambda>c. c\<lparr>c_rooms := [''lobby'']\<rparr>) conv_client"

lemma conv_member_sends:
  "SendMsg (table_env [conv_msg]) ''Lobby'' ''hi'' conv_member = (fst (SendMsg (table_env [conv_msg]) ''Lobby'' ''hi'' conv_member), None)"
  "last (k_out (fst (SendMsg (table_env [conv_msg]) ''Lobby'' ''hi'' conv_member))) = [0]"
proof -
  have "Option.is_none (snd (SendMsg (table_env [conv_msg]) ''Lobby'' ''hi'' conv_member))" by code_simp
  then show "SendMsg (table_env [conv_msg]) ''Lobby'' ''hi'' conv_member = (fst (SendMsg (table_env [conv_msg]) ''Lobby'' ''hi'' conv_member), None)"
    by (metis Option.is_none_def prod.collapse)
  show "last (k_out (fst (SendMsg (table_env [conv_msg]) ''Lobby'' ''hi'' conv_member))) = [0]" by code_simp
qed


subsection \<open>The rooms of a client\<close>

text \<open>
  C25: in every reachable state of a client its rooms are normalised names without repetition, it has none
  once its link is down or it is disconnected, and it is active only after a WELCOME.
\<close>

theorem client_rooms_invariant:
  assumes "lower_table (x_lower X)" and "client_reachable X k"
  shows "distinct (Rooms k) \<and> (\<forall>r \<in> set (Rooms k). NormalizeRoom (x_lower X) r = r)
    \<and> (\<not> s_up (k_client k) \<or> c_state (k_client k) = ClientDisconnected \<longrightarrow> Rooms k = [])
    \<and> (c_state (k_client k) = ClientActive \<longrightarrow> (\<exists>wb. c_welcome (k_client k) = Some wb))"
  using reachable_client_inv [OF assms] by (auto simp: client_inv_def Rooms_def Option.is_none_def)

text \<open>A network on which \<^verbatim>\<open>Dial\<close> gets to its HELLO at once.\<close>

definition conv_net :: dial_net where
  "conv_net = \<lparr>dn_hasPath = (\<lambda>_. True), dn_pathClock = int, dn_recall = True, dn_fromHash = None, dn_establish = None,
     dn_active = (\<lambda>_. True), dn_linkClock = int, dn_identify = None\<rparr>"

definition conv_hello :: Envelope where
  "conv_hello = type_envelope (base_envelope TypeHello (replicate 8 3) 0 ex_id) [] VNil []"

lemma conv_dialled:
  "\<exists>k. Dial (table_env [conv_hello]) conv_net ex_id (replicate 16 1) (c_cfg (k_client conv_client)) conv_client = Some (Inr k)"
proof -
  let ?k = "conv_client\<lparr>k_client := (new_client ex_id (dial_cfg (c_cfg (k_client conv_client))))\<lparr>c_state := ClientAwaitingWelcome, s_up := True\<rparr>,
    k_ch := None\<rparr>"
  have "Option.is_none (snd (sendHello (table_env [conv_hello]) ?k))" by code_simp
  then obtain k1 where "sendHello (table_env [conv_hello]) ?k = (k1, None)"
    by (metis Option.is_none_def prod.collapse)
  then show ?thesis by (simp add: Dial_def Let_def conv_net_def waitUntil_def IdentityLength_def)
qed

theorem client_rooms_invariant_witness:
  "\<exists>k. client_reachable (table_env [conv_hello]) k \<and> Rooms (link_down k) = []"
proof -
  obtain k where "client_reachable (table_env [conv_hello]) k" using conv_dialled client_reachable.start by blast
  moreover from this have "client_reachable (table_env [conv_hello]) (link_down k)"
    by (rule client_reachable.step) (rule client_step.down)
  moreover have "lower_table (x_lower (table_env [conv_hello]))" by (simp add: lower_table_def)
  ultimately show ?thesis
    using client_rooms_invariant [of "table_env [conv_hello]" "link_down k"] by (auto simp: link_down_def onLinkClosed_def)
qed

text \<open>
  C34: \<^verbatim>\<open>waitUntil\<close> ends at the first tick at or after the deadline, and answers whether one of its polls, the
  last one included, succeeded.
\<close>

theorem waitUntil_returns:
  assumes "1 \<le> n" and "\<forall>i. 1 \<le> i \<and> i < n \<longrightarrow> now i < now 0 + timeout" and "now 0 + timeout \<le> now n"
  shows "waitUntil timeout ok now = Some (\<exists>i \<le> Suc n. ok i)"
  by (rule waitUntil_end [OF assms])

theorem waitUntil_returns_witness: "waitUntil 3 (\<lambda>i. i = 4) int = Some True"
  using waitUntil_returns [of 3 int 3 "\<lambda>i. i = 4"] by auto

end
