(* ===== verification/Gorrcd_Ident.thy ===== *)
theory Gorrcd_Ident
  imports Hash_Text "HOL-Library.Char_ord" "HOL-Library.List_Lexorder"
begin

text \<open>
  \<^verbatim>\<open>internal/gorrcd/hash.go\<close> and \<^verbatim>\<open>trust.go\<close>: identities of the daemon and its two server-wide lists.
  An \<open>ID\<close> is a list of sixteen bytes; the zero value of the Go array is \<open>zeroID\<close>.
  The texts of the errors quote their input with \<^verbatim>\<open>%q\<close>; the quoting function of the library is an
  argument where a text is built.
\<close>

subsection \<open>Identities\<close>

type_synonym ID = bytes

definition zeroID :: ID where
  "zeroID = replicate IdentityLength 0"

definition idFrom :: "bytes \<Rightarrow> ID option" where
  "idFrom b = (if length b \<noteq> IdentityLength then None else Some b)"

definition ID_Hex :: "ID \<Rightarrow> gostring" where
  "ID_Hex i = hex_encode i"

definition trimHex :: "gostring \<Rightarrow> nat \<Rightarrow> gostring" where
  "trimHex s n = (if n = 0 \<or> n \<ge> length s then s else take n s)"

definition ID_Prefix :: "ID \<Rightarrow> nat \<Rightarrow> gostring" where
  "ID_Prefix i n = (let s = ID_Hex i in if n = 0 \<or> n \<ge> length s then s else take n s)"

definition TrimPrefix :: "gostring \<Rightarrow> gostring \<Rightarrow> gostring" where
  "TrimPrefix s p = (if take (length p) s = p then drop (length p) s else s)"

datatype id_error = IdInvalid gostring | IdShort gostring | IdLength

definition id_error_text :: "(gostring \<Rightarrow> gostring) \<Rightarrow> id_error \<Rightarrow> gostring" where
  "id_error_text quote e =
     (case e of
        IdInvalid t \<Rightarrow> ''invalid identity hash '' @ quote t
      | IdShort t \<Rightarrow> ''identity hash too short: '' @ quote t
      | IdLength \<Rightarrow> ''identity hash must be 16 bytes'')"

text \<open>The \<^verbatim>\<open>strings.Map\<close> of \<^verbatim>\<open>parseIdentityHash\<close> drops blanks and tabs.\<close>

definition drop_blanks :: "gostring \<Rightarrow> gostring" where
  "drop_blanks s = string_of_runes (filter (\<lambda>r. r \<noteq> 32 \<and> r \<noteq> 9) (runes s))"

definition parseIdentityHash :: "(rune \<Rightarrow> rune) \<Rightarrow> gostring \<Rightarrow> id_error + bytes" where
  "parseIdentityHash ul text =
     (let s = drop_blanks (TrimPrefix (TrimSpace (ToLower ul text)) ''0x'')
      in case hex_decode s of
           Inl _ \<Rightarrow> Inl (IdInvalid text)
         | Inr b \<Rightarrow> if length b < 4 then Inl (IdShort text) else Inr b)"

definition parseFullID :: "(rune \<Rightarrow> rune) \<Rightarrow> gostring \<Rightarrow> id_error + ID" where
  "parseFullID ul text =
     bindE (parseIdentityHash ul text) (\<lambda>b. case idFrom b of None \<Rightarrow> Inl IdLength | Some i \<Rightarrow> Inr i)"

definition hasHexPrefix :: "(rune \<Rightarrow> rune) \<Rightarrow> gostring \<Rightarrow> bytes option" where
  "hasHexPrefix ul token =
     (let s = TrimPrefix (TrimSpace (ToLower ul token)) ''0x''
      in if length s < 6 then None
         else if \<not> list_all (\<lambda>c. 48 \<le> c \<and> c \<le> 57 \<or> 97 \<le> c \<and> c \<le> 102) (runes s) then None
         else case hex_decode s of Inl _ \<Rightarrow> None | Inr b \<Rightarrow> Some b)"

subsection \<open>Trust\<close>

record Trust =
  t_trusted :: "ID list"
  t_banned :: "ID list"

definition NewTrust :: Trust where
  "NewTrust = \<lparr>t_trusted = [], t_banned = []\<rparr>"

fun parse_ids :: "(rune \<Rightarrow> rune) \<Rightarrow> gostring list \<Rightarrow> ID list \<Rightarrow> id_error + ID list" where
  "parse_ids ul [] acc = Inr acc"
| "parse_ids ul (s # ss) acc = bindE (parseFullID ul s) (\<lambda>i. parse_ids ul ss (List.insert i acc))"

text \<open>Both lists are parsed before either is replaced.\<close>

definition Trust_Load :: "(rune \<Rightarrow> rune) \<Rightarrow> gostring list \<Rightarrow> gostring list \<Rightarrow> Trust \<Rightarrow> id_error + Trust" where
  "Trust_Load ul trusted banned t =
     bindE (parse_ids ul trusted []) (\<lambda>nt. bindE (parse_ids ul banned []) (\<lambda>nb.
       Inr (t\<lparr>t_trusted := nt, t_banned := nb\<rparr>)))"

definition IsTrusted :: "Trust \<Rightarrow> ID \<Rightarrow> bool" where
  "IsTrusted t i = (i \<in> set (t_trusted t))"

definition Trust_IsBanned :: "Trust \<Rightarrow> ID \<Rightarrow> bool" where
  "Trust_IsBanned t i = (i \<in> set (t_banned t))"

definition Ban :: "ID \<Rightarrow> Trust \<Rightarrow> Trust" where
  "Ban i t = t\<lparr>t_banned := List.insert i (t_banned t)\<rparr>"

definition Unban :: "ID \<Rightarrow> Trust \<Rightarrow> Trust \<times> bool" where
  "Unban i t = (t\<lparr>t_banned := removeAll i (t_banned t)\<rparr>, i \<in> set (t_banned t))"

definition BannedHex :: "Trust \<Rightarrow> gostring list" where
  "BannedHex t = sort (map ID_Hex (t_banned t))"

definition Counts :: "Trust \<Rightarrow> nat \<times> nat" where
  "Counts t = (length (t_trusted t), length (t_banned t))"

subsection \<open>Identities as text\<close>

lemma idFrom_Some [simp]: "idFrom b = Some i \<longleftrightarrow> length b = IdentityLength \<and> i = b"
  by (auto simp: idFrom_def)

lemma parseFullID_length: "parseFullID ul s = Inr i \<Longrightarrow> length i = IdentityLength"
  by (auto simp: parseFullID_def bindE_Inr_iff split: option.splits)

lemma parse_ids_length:
  "parse_ids ul ss acc = Inr l \<Longrightarrow> list_all (\<lambda>i. length i = IdentityLength) acc \<Longrightarrow> distinct acc \<Longrightarrow>
     list_all (\<lambda>i. length i = IdentityLength) l \<and> distinct l"
  by (induction ul ss acc rule: parse_ids.induct)
    (auto simp: bindE_Inr_iff list_all_iff dest: parseFullID_length)

lemma runes_ascii: "ascii s \<Longrightarrow> runes s = map of_char s"
  by (simp add: runes_def chunks_ascii comp_def)

lemma encode_rune_char: "of_char c < (0x80 :: int) \<Longrightarrow> encode_rune (of_char c) = [c]"
  using of_nat_of_char [of c, where 'a = int, symmetric] by (simp add: encode_rune_def rune_bytes_def valid_rune_def)

lemma string_of_runes_ascii: "ascii s \<Longrightarrow> string_of_runes (map of_char s) = s"
  by (induction s) (auto simp: string_of_runes_def ascii_def encode_rune_char)

text \<open>Lower-case hexadecimal digits pass every step of the parser unchanged.\<close>

lemma hex_text_facts:
  assumes "\<forall>c \<in> set s. hex_char c"
  shows "ascii s" "ToLower ul s = s" "TrimSpace s = s" "drop_blanks s = s" "TrimPrefix s ''0x'' = s"
proof -
  have h: "48 \<le> (of_char c :: int) \<and> of_char c \<le> (57 :: int) \<or> 97 \<le> (of_char c :: int) \<and> of_char c \<le> (102 :: int)"
    if "c \<in> set s" for c
  proof -
    have "(of_char c :: int) = int (of_char c)" using of_nat_of_char [of c, where 'a = int] by simp
    moreover have "48 \<le> (of_char c :: nat) \<and> of_char c \<le> (57 :: nat) \<or> 97 \<le> (of_char c :: nat) \<and> of_char c \<le> (102 :: nat)"
      using assms that by (auto simp: hex_char_def Let_def)
    ultimately show ?thesis by linarith
  qed
  show a: "ascii s" using h by (force simp: ascii_def)
  have "map (unicode_ToLower ul) (map of_char s) = map of_char s"
    using h by (force simp: unicode_ToLower_def)
  then show "ToLower ul s = s" using a by (metis ToLower_def runes_ascii string_of_runes_ascii)
  have sp: "\<not> IsSpace (of_char c)" if "c \<in> set s" for c using h [OF that] by (auto simp: IsSpace_def)
  show "TrimSpace s = s"
    by (rule TrimSpace_ascii [OF a]) (cases "s = []"; simp add: sp)
  have "filter (\<lambda>r. r \<noteq> 32 \<and> r \<noteq> (9 :: int)) (map of_char s) = map of_char s" using h by (force simp: filter_id_conv)
  then show "drop_blanks s = s" using a by (simp add: drop_blanks_def runes_ascii string_of_runes_ascii)
  have "take 2 s \<noteq> ''0x''"
  proof
    assume "take 2 s = ''0x''"
    then have "CHR ''x'' \<in> set s" by (metis in_set_takeD list.set_intros(1,2))
    from h [OF this] show False by simp
  qed
  then show "TrimPrefix s ''0x'' = s" by (simp add: TrimPrefix_def numeral_2_eq_2)
qed

lemma parseFullID_Hex: "length i = IdentityLength \<Longrightarrow> parseFullID ul (ID_Hex i) = Inr i"
  using hex_text_facts [OF hex_encode_hex_char [of i]]
  by (simp add: parseFullID_def parseIdentityHash_def ID_Hex_def IdentityLength_def idFrom_def)

lemma parse_ids_Hex:
  "\<forall>i \<in> set is. length i = IdentityLength \<Longrightarrow>
     \<exists>l. parse_ids ul (map ID_Hex is) acc = Inr l \<and> set l = set is \<union> set acc"
proof (induction "is" arbitrary: acc)
  case (Cons a "is")
  from Cons.IH [of "List.insert a acc"] Cons.prems show ?case by (auto simp: parseFullID_Hex)
qed simp

end
