(* ===== verification/Gorrcd_Rooms.thy ===== *)
theory Gorrcd_Rooms
  imports Gorrcd_Ident Wire_Value
begin

text \<open>
  \<^verbatim>\<open>internal/gorrcd/rooms.go\<close> and \<^verbatim>\<open>rooms_mut.go\<close>: the room registry of the daemon, its operations in the
  order of the code and what they guarantee.

  Times are \<^verbatim>\<open>float64(time.Now().Unix())\<close>: the whole seconds of the clock, as a rational.  Each operation
  gets the clock as an argument.  \<^verbatim>\<open>writeLocked\<close> renders the registered rooms into the registry file; the
  file is \<open>rg_saved\<close>, the rooms a later load finds, and the outcome of the write is an argument (the text
  of the error, if any).
\<close>

subsection \<open>State\<close>

record RoomState =
  rs_Founder :: ID
  rs_HasFounder :: bool
  rs_Registered :: bool
  rs_Topic :: gostring
  rs_Moderated :: bool
  rs_InviteOnly :: bool
  rs_TopicOpsOnly :: bool
  rs_NoOutsideMsgs :: bool
  rs_Private :: bool
  rs_Key :: gostring
  rs_Ops :: "ID list"
  rs_Voiced :: "ID list"
  rs_Bans :: "ID list"
  rs_Invited :: "(ID \<times> rat) list"
  rs_LastUsed :: rat

definition newRoomState :: "ID \<Rightarrow> bool \<Rightarrow> RoomState" where
  "newRoomState founder hasFounder =
     \<lparr>rs_Founder = founder, rs_HasFounder = hasFounder, rs_Registered = False, rs_Topic = [], rs_Moderated = False,
      rs_InviteOnly = False, rs_TopicOpsOnly = False, rs_NoOutsideMsgs = False, rs_Private = False, rs_Key = [],
      rs_Ops = (if hasFounder then [founder] else []), rs_Voiced = [], rs_Bans = [], rs_Invited = [], rs_LastUsed = 0\<rparr>"

record RoomRegistry =
  rg_path :: gostring
  rg_inviteTO :: rat
  rg_rooms :: "(gostring \<times> RoomState) list"
  rg_saved :: "(gostring \<times> RoomState) list"

definition NewRoomRegistry :: "gostring \<Rightarrow> rat \<Rightarrow> RoomRegistry" where
  "NewRoomRegistry path inviteTimeoutS = \<lparr>rg_path = path, rg_inviteTO = inviteTimeoutS, rg_rooms = [], rg_saved = []\<rparr>"

definition SetInviteTimeout :: "rat \<Rightarrow> RoomRegistry \<Rightarrow> RoomRegistry" where
  "SetInviteTimeout s r = r\<lparr>rg_inviteTO := s\<rparr>"

definition unix :: "int \<Rightarrow> rat" where
  "unix now = of_int (now div 1000000000)"

text \<open>\<^verbatim>\<open>r.rooms[room]\<close>, and an assignment to fields of the room it points to.\<close>

definition room_of :: "RoomRegistry \<Rightarrow> gostring \<Rightarrow> RoomState option" where
  "room_of r room = map_of (rg_rooms r) room"

definition upd_room :: "gostring \<Rightarrow> (RoomState \<Rightarrow> RoomState) \<Rightarrow> RoomRegistry \<Rightarrow> RoomRegistry" where
  "upd_room room f r = r\<lparr>rg_rooms := AList.map_entry room f (rg_rooms r)\<rparr>"

definition ensureLocked :: "gostring \<Rightarrow> ID \<Rightarrow> bool \<Rightarrow> RoomRegistry \<Rightarrow> RoomRegistry" where
  "ensureLocked room founder hasFounder r =
     (case room_of r room of
        Some st \<Rightarrow>
          if \<not> rs_HasFounder st \<and> hasFounder
          then upd_room room (\<lambda>st. st\<lparr>rs_Founder := founder, rs_HasFounder := True, rs_Ops := List.insert founder (rs_Ops st)\<rparr>) r
          else r
      | None \<Rightarrow> r\<lparr>rg_rooms := AList.update room (newRoomState founder hasFounder) (rg_rooms r)\<rparr>)"

definition Touch :: "int \<Rightarrow> gostring \<Rightarrow> RoomRegistry \<Rightarrow> RoomRegistry" where
  "Touch now room r = upd_room room (\<lambda>st. st\<lparr>rs_LastUsed := unix now\<rparr>) (ensureLocked room zeroID False r)"

subsection \<open>Rights\<close>

definition IsOp :: "RoomRegistry \<Rightarrow> gostring \<Rightarrow> ID \<Rightarrow> bool \<Rightarrow> bool" where
  "IsOp r room peer serverOp \<longleftrightarrow> serverOp \<or>
     (case room_of r room of
        None \<Rightarrow> False
      | Some st \<Rightarrow> rs_HasFounder st \<and> rs_Founder st = peer \<or> peer \<in> set (rs_Ops st))"

definition IsVoiced :: "RoomRegistry \<Rightarrow> gostring \<Rightarrow> ID \<Rightarrow> bool \<Rightarrow> bool" where
  "IsVoiced r room peer serverOp \<longleftrightarrow> IsOp r room peer serverOp \<or>
     (case room_of r room of None \<Rightarrow> False | Some st \<Rightarrow> peer \<in> set (rs_Voiced st))"

definition IsBanned :: "RoomRegistry \<Rightarrow> gostring \<Rightarrow> ID \<Rightarrow> bool" where
  "IsBanned r room peer = (case room_of r room of None \<Rightarrow> False | Some st \<Rightarrow> peer \<in> set (rs_Bans st))"

text \<open>An invite that has run out is removed when it is looked at.\<close>

definition IsInvited :: "int \<Rightarrow> gostring \<Rightarrow> ID \<Rightarrow> RoomRegistry \<Rightarrow> RoomRegistry \<times> bool" where
  "IsInvited now room peer r =
     (case room_of r room of
        None \<Rightarrow> (r, False)
      | Some st \<Rightarrow>
          (case map_of (rs_Invited st) peer of
             None \<Rightarrow> (r, False)
           | Some expiry \<Rightarrow>
               if expiry \<le> unix now
               then (upd_room room (\<lambda>st. st\<lparr>rs_Invited := AList.delete peer (rs_Invited st)\<rparr>) r, False)
               else (r, True)))"

definition ConsumeInvite :: "gostring \<Rightarrow> ID \<Rightarrow> RoomRegistry \<Rightarrow> RoomRegistry" where
  "ConsumeInvite room peer r = upd_room room (\<lambda>st. st\<lparr>rs_Invited := AList.delete peer (rs_Invited st)\<rparr>) r"

definition keyEqual :: "gostring \<Rightarrow> gostring \<Rightarrow> bool" where
  "keyEqual a b = (length a = length b \<and> a = b)"

definition BodyAsString :: "val \<Rightarrow> gostring" where
  "BodyAsString body = (case asString body of None \<Rightarrow> [] | Some s \<Rightarrow> s)"

definition rrcdInviteOnly :: gostring where "rrcdInviteOnly = ''invite-only (+i)''"
definition rrcdBadKey :: gostring where "rrcdBadKey = ''bad key (+k)''"
definition rrcdBannedFromRoom :: gostring where "rrcdBannedFromRoom = ''banned from room''"
definition rrcdNoOutside :: gostring where "rrcdNoOutside = ''no outside messages (+n)''"
definition rrcdModerated :: gostring where "rrcdModerated = ''room is moderated (+m)''"

text \<open>The decision once the room exists.\<close>

definition join_decision :: "int \<Rightarrow> RoomState \<Rightarrow> ID \<Rightarrow> val \<Rightarrow> bool \<Rightarrow> gostring option" where
  "join_decision now st peer body serverOp =
     (let invited = (case map_of (rs_Invited st) peer of None \<Rightarrow> False | Some expiry \<Rightarrow> expiry > unix now);
          isOp = (serverOp \<or> (rs_HasFounder st \<and> rs_Founder st = peer) \<or> peer \<in> set (rs_Ops st))
      in if peer \<in> set (rs_Bans st) then Some rrcdBannedFromRoom
         else if rs_InviteOnly st \<and> \<not> isOp \<and> \<not> invited then Some rrcdInviteOnly
         else if rs_Key st \<noteq> [] \<and> \<not> isOp \<and> \<not> invited \<and> \<not> keyEqual (BodyAsString body) (rs_Key st) then Some rrcdBadKey
         else None)"

definition AllowJoin :: "int \<Rightarrow> gostring \<Rightarrow> ID \<Rightarrow> val \<Rightarrow> bool \<Rightarrow> RoomRegistry \<Rightarrow> RoomRegistry \<times> gostring option" where
  "AllowJoin now room peer body serverOp r =
     (let r1 = ensureLocked room peer True r
      in (r1, case room_of r1 room of None \<Rightarrow> None | Some st \<Rightarrow> join_decision now st peer body serverOp))"

definition AllowContent :: "RoomRegistry \<Rightarrow> gostring \<Rightarrow> ID \<Rightarrow> bool \<Rightarrow> bool \<Rightarrow> gostring option" where
  "AllowContent r room peer isMember serverOp =
     (let st = room_of r room;
          noOut = (case st of None \<Rightarrow> False | Some s \<Rightarrow> rs_NoOutsideMsgs s);
          md = (case st of None \<Rightarrow> False | Some s \<Rightarrow> rs_Moderated s);
          banned = (case st of None \<Rightarrow> False | Some s \<Rightarrow> peer \<in> set (rs_Bans s))
      in if Option.is_none st \<and> \<not> isMember then Some ''no such room''
         else if banned then Some rrcdBannedFromRoom
         else if \<not> isMember \<and> noOut then Some rrcdNoOutside
         else if md \<and> \<not> IsVoiced r room peer serverOp then Some rrcdModerated
         else None)"

subsection \<open>Views\<close>

definition ModeString :: "RoomRegistry \<Rightarrow> gostring \<Rightarrow> gostring" where
  "ModeString r room =
     (case room_of r room of
        None \<Rightarrow> ''(none)''
      | Some st \<Rightarrow>
          (let flags = (if rs_InviteOnly st then ''i'' else []) @ (if rs_Key st \<noteq> [] then ''k'' else [])
             @ (if rs_Moderated st then ''m'' else []) @ (if rs_NoOutsideMsgs st then ''n'' else [])
             @ (if rs_Private st then ''p'' else []) @ (if rs_Registered st then ''r'' else [])
             @ (if rs_TopicOpsOnly st then ''t'' else [])
           in if flags = [] then ''(none)'' else ''+'' @ flags))"

definition InfoLine :: "RoomRegistry \<Rightarrow> gostring \<Rightarrow> gostring" where
  "InfoLine r room =
     (let reg = (case room_of r room of None \<Rightarrow> False | Some st \<Rightarrow> rs_Registered st);
          topic = (case room_of r room of None \<Rightarrow> ''(none)'' | Some st \<Rightarrow> if rs_Topic st \<noteq> [] then rs_Topic st else ''(none)'');
          kind = (if reg then ''registered'' else ''unregistered'')
      in ''room '' @ room @ '': '' @ kind @ ''; mode='' @ ModeString r room @ ''; topic='' @ topic)"

definition PublicRegistered :: "RoomRegistry \<Rightarrow> (gostring \<times> gostring) list" where
  "PublicRegistered r =
     sort_key fst (map (\<lambda>(name, st). (name, rs_Topic st)) (filter (\<lambda>(_, st). rs_Registered st \<and> \<not> rs_Private st) (rg_rooms r)))"

definition registered_rooms :: "RoomRegistry \<Rightarrow> (gostring \<times> RoomState) list" where
  "registered_rooms r = filter (\<lambda>(_, st). rs_Registered st) (rg_rooms r)"

definition Registry_Count :: "RoomRegistry \<Rightarrow> nat" where
  "Registry_Count r = length (registered_rooms r)"

definition ReplaceAll :: "(gostring \<times> RoomState) list \<Rightarrow> RoomRegistry \<Rightarrow> RoomRegistry" where
  "ReplaceAll rooms r = r\<lparr>rg_rooms := rooms\<rparr>"

subsection \<open>Saving\<close>

definition writeLocked :: "gostring option \<Rightarrow> RoomRegistry \<Rightarrow> RoomRegistry \<times> gostring option" where
  "writeLocked io r =
     (if rg_path r = [] then (r, None)
      else case io of
        Some e \<Rightarrow> (r, Some e)
      | None \<Rightarrow> (r\<lparr>rg_saved := registered_rooms r\<rparr>, None))"

definition Persist :: "gostring option \<Rightarrow> RoomRegistry \<Rightarrow> RoomRegistry \<times> gostring option" where
  "Persist io r = writeLocked io r"

definition Registry_Delete :: "gostring option \<Rightarrow> gostring \<Rightarrow> RoomRegistry \<Rightarrow> RoomRegistry \<times> gostring option" where
  "Registry_Delete io room r = writeLocked io (r\<lparr>rg_rooms := AList.delete room (rg_rooms r)\<rparr>)"

definition prunable :: "rat \<Rightarrow> rat \<Rightarrow> gostring list \<Rightarrow> int \<Rightarrow> gostring \<Rightarrow> RoomState \<Rightarrow> bool" where
  "prunable now afterS occupied started name st \<longleftrightarrow>
     rs_Registered st \<and> name \<notin> set occupied
     \<and> now - (if rs_LastUsed st = 0 then unix started else rs_LastUsed st) \<ge> afterS"

definition PruneUnused ::
  "gostring option \<Rightarrow> int \<Rightarrow> rat \<Rightarrow> gostring list \<Rightarrow> int \<Rightarrow> RoomRegistry \<Rightarrow> RoomRegistry \<times> gostring list" where
  "PruneUnused io now afterS occupied started r =
     (let gone = map fst (filter (\<lambda>(name, st). prunable (unix now) afterS occupied started name st) (rg_rooms r));
          r1 = r\<lparr>rg_rooms := filter (\<lambda>(name, _). name \<notin> set gone) (rg_rooms r)\<rparr>
      in (if gone \<noteq> [] then fst (writeLocked io r1) else r1, gone))"

subsection \<open>Changes\<close>

definition Founder :: "RoomRegistry \<Rightarrow> gostring \<Rightarrow> ID option" where
  "Founder r room =
     (case room_of r room of None \<Rightarrow> None | Some st \<Rightarrow> if rs_HasFounder st then Some (rs_Founder st) else None)"

definition Topic :: "RoomRegistry \<Rightarrow> gostring \<Rightarrow> gostring" where
  "Topic r room = (case room_of r room of None \<Rightarrow> [] | Some st \<Rightarrow> rs_Topic st)"

definition SetTopic :: "int \<Rightarrow> gostring \<Rightarrow> gostring \<Rightarrow> RoomRegistry \<Rightarrow> RoomRegistry" where
  "SetTopic now room topic r =
     upd_room room (\<lambda>st. st\<lparr>rs_Topic := topic, rs_LastUsed := unix now\<rparr>) (ensureLocked room zeroID False r)"

definition TopicOpsOnly :: "RoomRegistry \<Rightarrow> gostring \<Rightarrow> bool" where
  "TopicOpsOnly r room = (case room_of r room of None \<Rightarrow> False | Some st \<Rightarrow> rs_TopicOpsOnly st)"

definition Register :: "gostring option \<Rightarrow> int \<Rightarrow> gostring \<Rightarrow> ID \<Rightarrow> RoomRegistry \<Rightarrow> RoomRegistry \<times> gostring option" where
  "Register io now room founder r =
     writeLocked io
       (upd_room room
         (\<lambda>st. st\<lparr>rs_Registered := True, rs_NoOutsideMsgs := True, rs_TopicOpsOnly := True,
                  rs_Ops := List.insert founder (rs_Ops st), rs_LastUsed := unix now\<rparr>)
         (ensureLocked room founder True r))"

definition Unregister :: "gostring option \<Rightarrow> gostring \<Rightarrow> RoomRegistry \<Rightarrow> RoomRegistry \<times> gostring option" where
  "Unregister io room r =
     (case room_of r room of
        None \<Rightarrow> (r, Some (''room '' @ room @ '' is not registered''))
      | Some st \<Rightarrow>
          if \<not> rs_Registered st then (r, Some (''room '' @ room @ '' is not registered''))
          else writeLocked io (upd_room room (\<lambda>st. st\<lparr>rs_Registered := False\<rparr>) r))"

text \<open>The end of every change: the room was used, and a registered room is saved.\<close>

definition touch_and_save :: "gostring option \<Rightarrow> int \<Rightarrow> gostring \<Rightarrow> RoomRegistry \<Rightarrow> RoomRegistry \<times> gostring option" where
  "touch_and_save io now room r =
     (let r1 = upd_room room (\<lambda>st. st\<lparr>rs_LastUsed := unix now\<rparr>) r
      in case room_of r1 room of
           None \<Rightarrow> (r1, None)
         | Some st \<Rightarrow> if rs_Registered st then writeLocked io r1 else (r1, None))"

definition set_flag_room :: "gostring \<Rightarrow> bool \<Rightarrow> gostring \<Rightarrow> (gostring + (RoomState \<Rightarrow> RoomState))" where
  "set_flag_room flag on key =
     (if flag = ''m'' then Inr (\<lambda>st. st\<lparr>rs_Moderated := on\<rparr>)
      else if flag = ''i'' then Inr (\<lambda>st. st\<lparr>rs_InviteOnly := on\<rparr>)
      else if flag = ''t'' then Inr (\<lambda>st. st\<lparr>rs_TopicOpsOnly := on\<rparr>)
      else if flag = ''n'' then Inr (\<lambda>st. st\<lparr>rs_NoOutsideMsgs := on\<rparr>)
      else if flag = ''p'' then Inr (\<lambda>st. st\<lparr>rs_Private := on\<rparr>)
      else if flag = ''k''
      then (if on then (if key = [] then Inl ''key must not be empty'' else Inr (\<lambda>st. st\<lparr>rs_Key := key\<rparr>))
            else Inr (\<lambda>st. st\<lparr>rs_Key := []\<rparr>))
      else Inl ''unknown flag'')"

definition SetFlag ::
  "gostring option \<Rightarrow> int \<Rightarrow> gostring \<Rightarrow> gostring \<Rightarrow> bool \<Rightarrow> gostring \<Rightarrow> RoomRegistry \<Rightarrow> RoomRegistry \<times> gostring option" where
  "SetFlag io now room flag on key r =
     (let r1 = ensureLocked room zeroID False r
      in case set_flag_room flag on key of
           Inl e \<Rightarrow> (r1, Some e)
         | Inr f \<Rightarrow> touch_and_save io now room (upd_room room f r1))"

definition mutateSet ::
  "gostring option \<Rightarrow> int \<Rightarrow> gostring \<Rightarrow> (RoomState \<Rightarrow> RoomState) \<Rightarrow> RoomRegistry \<Rightarrow> RoomRegistry \<times> gostring option" where
  "mutateSet io now room fn r = touch_and_save io now room (upd_room room fn (ensureLocked room zeroID False r))"

definition AddOp :: "gostring option \<Rightarrow> int \<Rightarrow> gostring \<Rightarrow> ID \<Rightarrow> RoomRegistry \<Rightarrow> RoomRegistry \<times> gostring option" where
  "AddOp io now room target = mutateSet io now room (\<lambda>st. st\<lparr>rs_Ops := List.insert target (rs_Ops st)\<rparr>)"

definition DelOp :: "gostring option \<Rightarrow> int \<Rightarrow> gostring \<Rightarrow> ID \<Rightarrow> RoomRegistry \<Rightarrow> RoomRegistry \<times> gostring option" where
  "DelOp io now room target = mutateSet io now room (\<lambda>st. st\<lparr>rs_Ops := removeAll target (rs_Ops st)\<rparr>)"

definition AddVoice :: "gostring option \<Rightarrow> int \<Rightarrow> gostring \<Rightarrow> ID \<Rightarrow> RoomRegistry \<Rightarrow> RoomRegistry \<times> gostring option" where
  "AddVoice io now room target = mutateSet io now room (\<lambda>st. st\<lparr>rs_Voiced := List.insert target (rs_Voiced st)\<rparr>)"

definition DelVoice :: "gostring option \<Rightarrow> int \<Rightarrow> gostring \<Rightarrow> ID \<Rightarrow> RoomRegistry \<Rightarrow> RoomRegistry \<times> gostring option" where
  "DelVoice io now room target = mutateSet io now room (\<lambda>st. st\<lparr>rs_Voiced := removeAll target (rs_Voiced st)\<rparr>)"

definition AddBan :: "gostring option \<Rightarrow> int \<Rightarrow> gostring \<Rightarrow> ID \<Rightarrow> RoomRegistry \<Rightarrow> RoomRegistry \<times> gostring option" where
  "AddBan io now room target = mutateSet io now room (\<lambda>st. st\<lparr>rs_Bans := List.insert target (rs_Bans st)\<rparr>)"

definition DelBan :: "gostring option \<Rightarrow> int \<Rightarrow> gostring \<Rightarrow> ID \<Rightarrow> RoomRegistry \<Rightarrow> RoomRegistry \<times> gostring option" where
  "DelBan io now room target = mutateSet io now room (\<lambda>st. st\<lparr>rs_Bans := removeAll target (rs_Bans st)\<rparr>)"

definition ListBans :: "RoomRegistry \<Rightarrow> gostring \<Rightarrow> gostring list" where
  "ListBans r room = (case room_of r room of None \<Rightarrow> [] | Some st \<Rightarrow> sort (map ID_Hex (rs_Bans st)))"

definition AddInvite :: "gostring option \<Rightarrow> int \<Rightarrow> gostring \<Rightarrow> ID \<Rightarrow> rat \<Rightarrow> RoomRegistry \<Rightarrow> RoomRegistry \<times> gostring option" where
  "AddInvite io now room target ttlS =
     mutateSet io now room
       (\<lambda>st. st\<lparr>rs_Invited := AList.update target (unix now + (if ttlS \<le> 0 then 900 else ttlS)) (rs_Invited st)\<rparr>)"

definition DelInvite :: "gostring option \<Rightarrow> int \<Rightarrow> gostring \<Rightarrow> ID \<Rightarrow> RoomRegistry \<Rightarrow> RoomRegistry \<times> gostring option" where
  "DelInvite io now room target = mutateSet io now room (\<lambda>st. st\<lparr>rs_Invited := AList.delete target (rs_Invited st)\<rparr>)"

definition HasKey :: "RoomRegistry \<Rightarrow> gostring \<Rightarrow> bool" where
  "HasKey r room = (case room_of r room of None \<Rightarrow> False | Some st \<Rightarrow> rs_Key st \<noteq> [])"

definition NeedsStoredInvite :: "RoomRegistry \<Rightarrow> gostring \<Rightarrow> bool" where
  "NeedsStoredInvite r room = (case room_of r room of None \<Rightarrow> False | Some st \<Rightarrow> rs_InviteOnly st \<or> rs_Key st \<noteq> [])"

definition IsPrivate :: "RoomRegistry \<Rightarrow> gostring \<Rightarrow> bool" where
  "IsPrivate r room = (case room_of r room of None \<Rightarrow> False | Some st \<Rightarrow> rs_Private st)"

subsection \<open>Reading a changed registry\<close>

named_theorems room_simps "reading a room after a change of the registry"

lemma room_of_upd [room_simps]:
  "room_of (upd_room room f r) room' = (if room' = room then map_option f (room_of r room) else room_of r room')"
  by (simp add: room_of_def upd_room_def map_of_map_entry split: option.split)

lemma room_of_ensure [room_simps]:
  "room_of (ensureLocked room founder has r) room' =
     (if room' = room
      then Some (case room_of r room of
        None \<Rightarrow> newRoomState founder has
      | Some st \<Rightarrow> if \<not> rs_HasFounder st \<and> has
          then st\<lparr>rs_Founder := founder, rs_HasFounder := True, rs_Ops := List.insert founder (rs_Ops st)\<rparr> else st)
      else room_of r room')"
  by (auto simp: ensureLocked_def room_simps room_of_def update_conv' upd_room_def map_of_map_entry split: option.split)

lemma registry_fields [simp]:
  "rg_path (upd_room room f r) = rg_path r" "rg_path (ensureLocked room founder has r) = rg_path r"
  "rg_saved (upd_room room f r) = rg_saved r" "rg_saved (ensureLocked room founder has r) = rg_saved r"
  "rg_path (fst (writeLocked io r)) = rg_path r" "rg_rooms (fst (writeLocked io r)) = rg_rooms r"
  by (simp_all add: upd_room_def ensureLocked_def writeLocked_def split: option.split)

lemma room_of_write [room_simps]: "room_of (fst (writeLocked io r)) room = room_of r room"
  by (simp add: room_of_def)

lemma room_of_touch_and_save [room_simps]:
  "room_of (fst (touch_and_save io now room r)) room' =
     (if room' = room then map_option (\<lambda>st. st\<lparr>rs_LastUsed := unix now\<rparr>) (room_of r room) else room_of r room')"
  by (simp add: touch_and_save_def Let_def room_simps split: option.split)

text \<open>A change reaches the room it names, creating it when it is new, and no other room.\<close>

definition ensured :: "RoomRegistry \<Rightarrow> gostring \<Rightarrow> RoomState" where
  "ensured r room = (case room_of r room of None \<Rightarrow> newRoomState zeroID False | Some st \<Rightarrow> st)"

lemma room_of_mutate [room_simps]:
  "room_of (fst (mutateSet io now room fn r)) room' =
     (if room' = room then Some ((fn (ensured r room))\<lparr>rs_LastUsed := unix now\<rparr>) else room_of r room')"
  by (simp add: mutateSet_def room_simps ensured_def split: option.split)

subsection \<open>Admission\<close>

text \<open>A room with a founder is decided as it is; the registry does not change.\<close>

lemma AllowJoin_founded:
  assumes "room_of r room = Some st" and "rs_HasFounder st"
  shows "AllowJoin now room peer body sop r = (r, join_decision now st peer body sop)"
proof -
  have "ensureLocked room peer True r = r" using assms by (simp add: ensureLocked_def)
  then show ?thesis using assms by (simp add: AllowJoin_def Let_def)
qed

definition invited_at :: "int \<Rightarrow> RoomState \<Rightarrow> ID \<Rightarrow> bool" where
  "invited_at now st peer = (case map_of (rs_Invited st) peer of None \<Rightarrow> False | Some expiry \<Rightarrow> expiry > unix now)"

definition room_op :: "RoomState \<Rightarrow> ID \<Rightarrow> bool" where
  "room_op st peer \<longleftrightarrow> rs_HasFounder st \<and> rs_Founder st = peer \<or> peer \<in> set (rs_Ops st)"

lemma join_decision_None:
  "join_decision now st peer body sop = None \<longleftrightarrow>
     peer \<notin> set (rs_Bans st)
     \<and> (sop \<or> room_op st peer \<or> invited_at now st peer
        \<or> \<not> rs_InviteOnly st \<and> (rs_Key st = [] \<or> BodyAsString body = rs_Key st))"
  by (auto simp: join_decision_def invited_at_def room_op_def keyEqual_def Let_def)

lemma IsOp_room: "room_of r room = Some st \<Longrightarrow> IsOp r room peer sop \<longleftrightarrow> sop \<or> room_op st peer"
  by (auto simp: IsOp_def room_op_def)

subsection \<open>Saved rooms\<close>

definition in_sync :: "RoomRegistry \<Rightarrow> bool" where
  "in_sync r \<longleftrightarrow> rg_saved r = registered_rooms r"

lemma write_in_sync: "rg_path r \<noteq> [] \<Longrightarrow> in_sync (fst (writeLocked None r))"
  by (simp add: writeLocked_def in_sync_def registered_rooms_def)

lemma filter_map_entry:
  "(\<And>v. map_of xs k = Some v \<Longrightarrow> \<not> P v \<and> \<not> P (f v)) \<Longrightarrow>
     filter (\<lambda>(_, v). P v) (AList.map_entry k f xs) = filter (\<lambda>(_, v). P v) xs"
  by (induction xs) (auto split: if_splits)

lemma upd_unregistered:
  "(\<And>st. room_of r room = Some st \<Longrightarrow> \<not> rs_Registered st \<and> \<not> rs_Registered (f st)) \<Longrightarrow>
     registered_rooms (upd_room room f r) = registered_rooms r"
  by (simp add: registered_rooms_def upd_room_def room_of_def filter_map_entry)

lemma filter_update_new:
  "map_of xs k = None \<Longrightarrow> \<not> P v \<Longrightarrow> filter (\<lambda>(_, v). P v) (AList.update k v xs) = filter (\<lambda>(_, v). P v) xs"
  by (induction xs) (auto split: if_splits)

lemma ensure_unregistered:
  "(\<And>st. room_of r room = Some st \<Longrightarrow> \<not> has \<or> rs_HasFounder st \<or> \<not> rs_Registered st) \<Longrightarrow>
     registered_rooms (ensureLocked room founder has r) = registered_rooms r"
  by (auto simp: ensureLocked_def registered_rooms_def room_of_def filter_update_new newRoomState_def upd_room_def
      split: option.split intro!: filter_map_entry)

text \<open>
  A change through \<^verbatim>\<open>mutateSet\<close> that does not touch the registration keeps the file in step with the
  registered rooms, when the write succeeds.
\<close>

lemma mutate_in_sync:
  assumes "in_sync r" and "rg_path r \<noteq> []" and "\<And>st. rs_Registered (fn st) = rs_Registered st"
  shows "in_sync (fst (mutateSet None now room fn r))"
proof -
  let ?r1 = "ensureLocked room zeroID False r"
  let ?r2 = "upd_room room (\<lambda>st. st\<lparr>rs_LastUsed := unix now\<rparr>) (upd_room room fn ?r1)"
  have e: "registered_rooms ?r1 = registered_rooms r" by (rule ensure_unregistered) simp
  have r2: "room_of ?r2 room = Some ((fn (ensured r room))\<lparr>rs_LastUsed := unix now\<rparr>)"
    by (simp add: room_simps ensured_def split: option.split)
  show ?thesis
  proof (cases "rs_Registered (fn (ensured r room))")
    case True
    then have "fst (mutateSet None now room fn r) = fst (writeLocked None ?r2)"
      using r2 by (simp add: mutateSet_def touch_and_save_def Let_def)
    with assms(2) write_in_sync [of ?r2] show ?thesis by simp
  next
    case False
    then have un: "\<not> rs_Registered (ensured r room)" using assms(3) by blast
    have "registered_rooms (upd_room room fn ?r1) = registered_rooms ?r1"
      by (rule upd_unregistered) (use un assms(3) in \<open>auto simp: room_simps ensured_def split: option.splits\<close>)
    moreover have "registered_rooms ?r2 = registered_rooms (upd_room room fn ?r1)"
      by (rule upd_unregistered) (use un assms(3) in \<open>auto simp: room_simps ensured_def split: option.splits\<close>)
    moreover have "fst (mutateSet None now room fn r) = ?r2"
      using False r2 by (simp add: mutateSet_def touch_and_save_def Let_def)
    ultimately show ?thesis using assms(1) e by (simp add: in_sync_def)
  qed
qed

end
