(* ===== verification/Gorrcd_State.thy ===== *)
theory Gorrcd_State
  imports Gorrcd_Rooms RRC_Policy "HOL-Library.Product_Lexorder"
begin

text \<open>
  The state of the daemon \<^verbatim>\<open>gorrcd\<close> and its services below the commands: \<^verbatim>\<open>internal/gorrcd/config.go\<close> (the
  configuration record), \<^verbatim>\<open>stats.go\<close>, \<^verbatim>\<open>notice.go\<close> and \<^verbatim>\<open>resources.go\<close>.

  The daemon is the policy of the hub: its state \<open>Service\<close> is the policy state of the hub's world.  \<open>svc_env\<close>
  is what the daemon imports besides the hub's own environment: \<^verbatim>\<open>strconv.Quote\<close>, the formatting of
  floating point numbers, SHA-256, the outcome of writing the registry, the files a reload reads, and the
  resource transfers of a link.
\<close>

subsection \<open>Configuration\<close>

record Config =
  ConfigPath :: gostring
  RoomRegistryPath :: gostring
  AnnounceOnStart :: bool
  AnnouncePeriodS :: rat
  HubName :: gostring
  Greeting :: gostring
  TrustedIdentities :: "gostring list"
  BannedIdentities :: "gostring list"
  RoomRegistryPruneAfterS :: rat
  RoomInviteTimeoutS :: rat
  IncludeJoinedMemberList :: bool
  Limits :: HubLimits
  PingIntervalS :: rat
  PingTimeoutS :: rat
  MaxResourceBytes :: uint64
  MaxPendingResourceExpectations :: int
  ResourceExpectationTTLS :: rat
  EnableResourceTransfer :: bool

subsection \<open>Counters\<close>

text \<open>The twenty-one counters of \<^verbatim>\<open>Stats\<close>, by the key under which \<^verbatim>\<open>Inc\<close> knows them.\<close>

record Stats =
  st_started :: int
  st_count :: "gostring \<Rightarrow> uint64"

definition NewStats :: "int \<Rightarrow> Stats" where
  "NewStats now = \<lparr>st_started = now, st_count = (\<lambda>_. 0)\<rparr>"

definition stat_keys :: "gostring list" where
  "stat_keys = [''bytes_in'', ''bytes_out'', ''pkts_in'', ''pkts_bad'', ''rate_limited'', ''errors_sent'', ''joins'',
     ''parts'', ''msgs_forwarded'', ''notices_forwarded'', ''actions_forwarded'', ''pings_in'', ''pongs_in'', ''pings_out'',
     ''pongs_out'', ''announces'', ''resources_sent'', ''resources_received'', ''resources_rejected'',
     ''resource_bytes_sent'', ''resource_bytes_received'']"

definition Inc :: "gostring \<Rightarrow> uint64 \<Rightarrow> Stats \<Rightarrow> Stats" where
  "Inc key n s =
     (if key \<in> set stat_keys
      then s\<lparr>st_count := (st_count s)(key := st_count s key + (if n = 0 then 1 else n))\<rparr> else s)"

subsection \<open>The daemon\<close>

record expectation =
  x_id :: bytes
  x_kind :: gostring
  x_size :: uint64
  x_sha256 :: bytes
  x_encoding :: gostring
  x_room :: gostring
  x_expires :: int

record Service =
  sv_cfg :: Config
  sv_sender :: bytes
  sv_rooms :: RoomRegistry
  sv_trust :: Trust
  sv_bannedSaved :: "gostring list option"
  sv_stats :: Stats
  sv_res :: "(ID \<times> (bytes \<times> expectation) list) list"
  sv_resLinks :: "conn list"
  sv_awaiting :: "(ID \<times> int) list"
  sv_lastTrafficBump :: int
  sv_refresh :: bool

type_synonym sworld = "Service world"

record svc_env =
  sx_hub :: hub_env
  sx_version :: gostring
  sx_quote :: "gostring \<Rightarrow> gostring"
  sx_f1 :: "rat \<Rightarrow> gostring"
  sx_fv :: "rat \<Rightarrow> gostring"
  sx_sha256 :: "bytes \<Rightarrow> bytes"
  sx_write :: "RoomRegistry \<Rightarrow> gostring option"
  sx_config :: "gostring \<Rightarrow> (gostring + Config) option"
  sx_registry :: "gostring \<Rightarrow> gostring + (gostring \<times> RoomState) list"
  sx_sendResource :: "conn \<Rightarrow> bytes \<Rightarrow> bool"

definition with_svc :: "(Service \<Rightarrow> Service) \<Rightarrow> sworld \<Rightarrow> sworld" where
  "with_svc f w = w\<lparr>w_pol := f (w_pol w)\<rparr>"

abbreviation svc :: "sworld \<Rightarrow> Service" where
  "svc w \<equiv> w_pol w"

definition inc :: "gostring \<Rightarrow> uint64 \<Rightarrow> sworld \<Rightarrow> sworld" where
  "inc key n = with_svc (\<lambda>s. s\<lparr>sv_stats := Inc key n (sv_stats s)\<rparr>)"

text \<open>A change of the registry, with the outcome of the write it may do.\<close>

definition with_rooms ::
  "svc_env \<Rightarrow> (gostring option \<Rightarrow> RoomRegistry \<Rightarrow> RoomRegistry \<times> gostring option) \<Rightarrow> sworld \<Rightarrow> sworld \<times> gostring option" where
  "with_rooms E f w =
     (let r = f (sx_write E (sv_rooms (svc w))) (sv_rooms (svc w))
      in (with_svc (\<lambda>s. s\<lparr>sv_rooms := fst r\<rparr>) w, snd r))"

definition bumpStatus :: "sworld \<Rightarrow> sworld" where
  "bumpStatus = with_svc (\<lambda>s. s\<lparr>sv_refresh := True\<rparr>)"

definition bumpStatusForTraffic :: "sworld \<Rightarrow> sworld" where
  "bumpStatusForTraffic w =
     (if w_now w - sv_lastTrafficBump (svc w) < 1000000000 then w
      else bumpStatus (with_svc (\<lambda>s. s\<lparr>sv_lastTrafficBump := w_now w\<rparr>) w))"

text \<open>The handlers and counters the daemon gives to the hub, as reactions to the events the hub reports.\<close>

fun svc_event :: "hub_event \<Rightarrow> sworld \<Rightarrow> sworld" where
  "svc_event (EvInboundBytes n) w =
     (let w1 = inc ''pkts_in'' 1 w in if n > 0 then inc ''bytes_in'' (word_of_nat n) w1 else w1)"
| "svc_event (EvBadPacket e) w = inc ''pkts_bad'' 1 w"
| "svc_event EvRateLimited w = bumpStatus (inc ''rate_limited'' 1 w)"
| "svc_event (EvHello peer body env) w = bumpStatus w"
| "svc_event (EvClose peer) w = bumpStatus w"
| "svc_event (EvMsg peer env) w =
     (if e_Type env = TypeMsg then bumpStatusForTraffic (inc ''msgs_forwarded'' 1 w)
      else if e_Type env = TypeNotice then inc ''notices_forwarded'' 1 w
      else if e_Type env = TypeAction then inc ''actions_forwarded'' 1 w
      else w)"
| "svc_event (EvJoin peer room env) w = w"
| "svc_event (EvPart peer room env) w = w"
| "svc_event (EvResource peer env) w = w"

subsection \<open>Notices\<close>

definition maxNoticeChunk :: nat where
  "maxNoticeChunk = 512"

text \<open>\<^verbatim>\<open>utf8.ValidString\<close>: no byte decodes to an error of width one.\<close>

definition ValidString :: "gostring \<Rightarrow> bool" where
  "ValidString s = list_all (\<lambda>(r, t). \<not> (r = RuneError \<and> length t = 1)) (chunks s)"

primrec valid_prefix :: "nat \<Rightarrow> gostring \<Rightarrow> nat" where
  "valid_prefix 0 line = 0"
| "valid_prefix (Suc n) line = (if ValidString (take (Suc n) line) then Suc n else valid_prefix n line)"

lemma valid_prefix_le: "valid_prefix n line \<le> n"
  by (induction n) auto

function notice_chunks :: "gostring \<Rightarrow> gostring list" where
  "notice_chunks line =
     (let n = valid_prefix (min maxNoticeChunk (length line)) line
      in if line = [] \<or> n = 0 then [] else take n line # notice_chunks (drop n line))"
  by pat_completeness auto
termination by (relation "measure length") auto

declare notice_chunks.simps [simp del]

fun split_on :: "char \<Rightarrow> gostring \<Rightarrow> gostring list" where
  "split_on c [] = [[]]"
| "split_on c (x # xs) =
     (if x = c then [] # split_on c xs
      else case split_on c xs of [] \<Rightarrow> [[x]] | l # ls \<Rightarrow> (x # l) # ls)"

primrec send_notices :: "svc_env \<Rightarrow> bytes \<Rightarrow> gostring \<Rightarrow> gostring list \<Rightarrow> sworld \<Rightarrow> sworld" where
  "send_notices E peer room [] w = w"
| "send_notices E peer room (t # ts) w = send_notices E peer room ts (fst (SendNotice (sx_hub E) peer room t w))"

definition notice :: "svc_env \<Rightarrow> bytes \<Rightarrow> gostring \<Rightarrow> gostring \<Rightarrow> sworld \<Rightarrow> sworld" where
  "notice E peer room text w =
     (if text = [] then w
      else send_notices E peer room (concat (map notice_chunks (split_on (CHR 0x0A) text))) w)"

definition errorTo :: "svc_env \<Rightarrow> bytes \<Rightarrow> gostring \<Rightarrow> gostring \<Rightarrow> sworld \<Rightarrow> sworld" where
  "errorTo E peer room text w = fst (SendError (sx_hub E) peer room text (inc ''errors_sent'' 1 w))"

subsection \<open>Resources\<close>

definition PeerLink :: "Hub \<Rightarrow> bytes \<Rightarrow> conn option" where
  "PeerLink h peer = map_of (h_peers h) (peerKey peer)"

definition Resources_OnLink :: "conn \<Rightarrow> sworld \<Rightarrow> sworld" where
  "Resources_OnLink i w =
     (if \<not> EnableResourceTransfer (sv_cfg (svc w)) then w
      else with_svc (\<lambda>s. s\<lparr>sv_resLinks := List.insert i (sv_resLinks s)\<rparr>) w)"

definition expireLocked :: "int \<Rightarrow> ID \<Rightarrow> Service \<Rightarrow> Service" where
  "expireLocked now pid s =
     (case map_of (sv_res s) pid of
        None \<Rightarrow> s
      | Some m \<Rightarrow>
          (let m' = filter (\<lambda>(_, e). \<not> now > x_expires e) m
           in s\<lparr>sv_res := (if m' = [] then AList.delete pid (sv_res s) else AList.update pid m' (sv_res s))\<rparr>))"

text \<open>The two defaults of \<^verbatim>\<open>Add\<close>.\<close>

definition max_expectations :: "Config \<Rightarrow> nat" where
  "max_expectations cfg = (if MaxPendingResourceExpectations cfg \<le> 0 then 8 else nat (MaxPendingResourceExpectations cfg))"

definition expectation_ttl :: "Config \<Rightarrow> int" where
  "expectation_ttl cfg = \<lfloor>(if ResourceExpectationTTLS cfg \<le> 0 then 30 else ResourceExpectationTTLS cfg) * 1000000000\<rfloor>"

definition expect_of :: "Service \<Rightarrow> ID \<Rightarrow> (bytes \<times> expectation) list" where
  "expect_of s pid = (case map_of (sv_res s) pid of None \<Rightarrow> [] | Some m \<Rightarrow> m)"

definition Resources_Add :: "bytes \<Rightarrow> Envelope \<Rightarrow> sworld \<Rightarrow> sworld \<times> gostring option" where
  "Resources_Add peer env w =
     (case ValidateResourceEnvelopeBody (e_Body env) of
        (None, reason) \<Rightarrow> (w, Some reason)
      | (Some body, reason) \<Rightarrow>
          if reason \<noteq> [] then (w, Some reason)
          else case idFrom peer of
            None \<Rightarrow> (w, Some ''invalid peer'')
          | Some pid \<Rightarrow>
              let room = (if e_HasRoom env then e_Room env else []);
                  w1 = with_svc (expireLocked (w_now w) pid) w;
                  m = expect_of (svc w1) pid;
                  e = \<lparr>x_id = rb_ID body, x_kind = rb_Kind body, x_size = rb_Size body, x_sha256 = rb_SHA256 body,
                       x_encoding = rb_Encoding body, x_room = room,
                       x_expires = w_now w + expectation_ttl (sv_cfg (svc w))\<rparr>
              in if length m \<ge> max_expectations (sv_cfg (svc w1))
                 then (with_svc (\<lambda>s. s\<lparr>sv_res := AList.update pid m (sv_res s)\<rparr>) w1,
                       Some ''too many pending resource expectations'')
                 else (with_svc (\<lambda>s. s\<lparr>sv_res := AList.update pid (AList.update (rb_ID body) e m) (sv_res s)\<rparr>) w1, None))"

definition matchSizeLocked :: "Service \<Rightarrow> ID \<Rightarrow> uint64 \<Rightarrow> expectation option" where
  "matchSizeLocked s pid n = find (\<lambda>e. x_size e = n) (map snd (expect_of s pid))"

definition subtleNeq :: "bytes \<Rightarrow> bytes \<Rightarrow> bool" where
  "subtleNeq a b = (length a \<noteq> length b \<or> a \<noteq> b)"

definition matchLocked :: "Service \<Rightarrow> ID \<Rightarrow> uint64 \<Rightarrow> bytes \<Rightarrow> expectation option" where
  "matchLocked s pid n digest =
     find (\<lambda>e. x_size e = n \<and> \<not> (x_sha256 e \<noteq> [] \<and> subtleNeq (x_sha256 e) digest)) (map snd (expect_of s pid))"

text \<open>The peer of a link: the first connected peer whose link it is.\<close>

definition peerOf :: "Hub \<Rightarrow> conn \<Rightarrow> bytes" where
  "peerOf h i =
     (case find (\<lambda>p. PeerLink h (fst p) = Some i) (AllPeers h) of None \<Rightarrow> [] | Some p \<Rightarrow> fst p)"

text \<open>An advertised resource: its size is an \<^verbatim>\<open>int\<close> of the library.\<close>

definition advertised :: "conn \<Rightarrow> int \<Rightarrow> sworld \<Rightarrow> sworld \<times> bool" where
  "advertised i dataSize w =
     (let reject = (inc ''resources_rejected'' 1 w, False)
      in if \<not> EnableResourceTransfer (sv_cfg (svc w)) then reject
         else if dataSize < 0 then reject
         else if word_of_int dataSize > MaxResourceBytes (sv_cfg (svc w)) then reject
         else case idFrom (peerOf (w_hub w) i) of
           None \<Rightarrow> reject
         | Some pid \<Rightarrow>
             let w1 = with_svc (expireLocked (w_now w) pid) w
             in if Option.is_none (matchSizeLocked (svc w1) pid (word_of_int dataSize))
                then (inc ''resources_rejected'' 1 w1, False) else (w1, True))"

definition concluded :: "svc_env \<Rightarrow> conn \<Rightarrow> bytes \<Rightarrow> sworld \<Rightarrow> sworld" where
  "concluded E i payload w =
     (case idFrom (peerOf (w_hub w) i) of
        None \<Rightarrow> w
      | Some pid \<Rightarrow>
          (case matchLocked (svc w) pid (word_of_nat (length payload)) (sx_sha256 E payload) of
             None \<Rightarrow> w
           | Some e \<Rightarrow>
               let w1 = with_svc (\<lambda>s. s\<lparr>sv_res := AList.update pid (AList.delete (x_id e) (expect_of s pid)) (sv_res s)\<rparr>) w
               in if x_sha256 e \<noteq> [] \<and> subtleNeq (x_sha256 e) (sx_sha256 E payload) then w1
                  else
                    let w2 = inc ''resource_bytes_received'' (word_of_nat (length payload)) (inc ''resources_received'' 1 w1)
                    in if x_kind e = ResourceKindNotice \<and> x_room e \<noteq> []
                       then inc ''notices_forwarded'' 1 (BroadcastNotice (sx_hub E) (x_room e) (string_of_bytes payload) w2)
                       else w2))"

definition resource_body :: "svc_env \<Rightarrow> bytes \<Rightarrow> gostring \<Rightarrow> bytes \<Rightarrow> gostring \<Rightarrow> ResourceEnvelopeBody" where
  "resource_body E rid kind payload encoding =
     \<lparr>rb_ID = rid, rb_Kind = kind, rb_Size = word_of_nat (length payload), rb_SHA256 = sx_sha256 E payload, rb_Encoding = encoding,
      rb_HasID = True, rb_HasKind = True, rb_HasSize = True, rb_HasHash = True, rb_HasEnc = (encoding \<noteq> [])\<rparr>"

text \<open>The metadata packet and then the resource itself; the random bytes are one draw for the id and one for the envelope.\<close>

definition Resources_Send :: "svc_env \<Rightarrow> bytes \<Rightarrow> gostring \<Rightarrow> bytes \<Rightarrow> gostring \<Rightarrow> gostring \<Rightarrow> sworld \<Rightarrow> sworld \<times> bool" where
  "Resources_Send E peer kind payload room encoding w =
     (if \<not> EnableResourceTransfer (sv_cfg (svc w)) then (w, False)
      else if word_of_nat (length payload) > MaxResourceBytes (sv_cfg (svc w)) then (w, False)
      else case PeerLink (w_hub w) peer of
        None \<Rightarrow> (w, False)
      | Some i \<Rightarrow>
          let rid = w_rand w (w_draws w); w1 = w\<lparr>w_draws := Suc (w_draws w)\<rparr>
          in (case NewEnvelope (w_now w1) (w_rand w1 (w_draws w1)) TypeResourceEnvelope (sv_sender (svc w1)) of
                Inl _ \<Rightarrow> (w1, False)
              | Inr env0 \<Rightarrow>
                  let w2 = w1\<lparr>w_draws := Suc (w_draws w1)\<rparr>;
                      body = (case ResourceEnvelopeBody_ToMap (resource_body E rid kind payload encoding) of
                                None \<Rightarrow> VMapU [] | Some m \<Rightarrow> VMapU m);
                      env1 = (if room \<noteq> [] then env0\<lparr>e_Room := room, e_HasRoom := True\<rparr> else env0)
                  in (case Marshal (x_cbor (sx_hub E)) (env1\<lparr>e_Body := body, e_HasBody := True\<rparr>) of
                        Inl _ \<Rightarrow> (w2, False)
                      | Inr raw \<Rightarrow>
                          (case x_send (sx_hub E) i raw of
                             Some _ \<Rightarrow> (w2, False)
                           | None \<Rightarrow>
                               let w3 = w2\<lparr>w_out := w_out w2 @ [(i, raw)]\<rparr>
                               in if \<not> sx_sendResource E i payload then (w3, False)
                                  else (inc ''resource_bytes_sent'' (word_of_nat (length payload)) (inc ''resources_sent'' 1 w3), True)))))"

definition noticeChunksOrResource :: "svc_env \<Rightarrow> bytes \<Rightarrow> gostring \<Rightarrow> gostring \<Rightarrow> gostring \<Rightarrow> sworld \<Rightarrow> sworld" where
  "noticeChunksOrResource E peer room text kind w =
     (if EnableResourceTransfer (sv_cfg (svc w)) \<and> length text > maxNoticeChunk
      then (case Resources_Send E peer kind (bytes_of_string text) room ''utf-8'' w of
              (w1, True) \<Rightarrow> w1
            | (w1, False) \<Rightarrow> notice E peer room text w1)
      else notice E peer room text w)"

definition Resources_Cleanup :: "sworld \<Rightarrow> sworld" where
  "Resources_Cleanup w = with_svc (\<lambda>s. fold (expireLocked (w_now w)) (map fst (sv_res s)) s) w"

definition Resources_Clear :: "sworld \<Rightarrow> sworld" where
  "Resources_Clear = with_svc (\<lambda>s. s\<lparr>sv_res := []\<rparr>)"

end
