(* ===== verification/Gorrcd_Commands.thy ===== *)
theory Gorrcd_Commands
  imports Gorrcd_State
begin

text \<open>
  \<^verbatim>\<open>internal/gorrcd/commands.go\<close>: the slash commands, and \<^verbatim>\<open>Reload\<close> of \<^verbatim>\<open>service.go\<close>, which one of them calls.
  Every command takes the peer that sent it, the room of the packet (possibly empty) and its words.
\<close>

subsection \<open>Words\<close>

text \<open>\<^verbatim>\<open>strings.Fields\<close> over the runes of the text.\<close>

fun fields_of :: "(rune \<times> gostring) list \<Rightarrow> gostring \<Rightarrow> gostring list" where
  "fields_of [] cur = (if cur = [] then [] else [cur])"
| "fields_of ((r, t) # xs) cur =
     (if IsSpace r then (if cur = [] then fields_of xs [] else cur # fields_of xs []) else fields_of xs (cur @ t))"

definition Fields :: "gostring \<Rightarrow> gostring list" where
  "Fields s = fields_of (chunks s) []"

definition splitCmd :: "gostring \<Rightarrow> gostring list" where
  "splitCmd text0 =
     (let text = TrimSpace text0;
          text1 = (if take 1 text = ''/'' then drop 1 text else text)
      in filter (\<lambda>f. f \<noteq> []) (Fields text1))"

fun Join_strings :: "gostring list \<Rightarrow> gostring \<Rightarrow> gostring" where
  "Join_strings [] sep = []"
| "Join_strings [x] sep = x"
| "Join_strings (x # xs) sep = x @ sep @ Join_strings xs sep"

definition decimal_int :: "int \<Rightarrow> gostring" where
  "decimal_int n = (if n < 0 then ''-'' @ decimal (nat (- n)) else decimal (nat n))"

text \<open>\<^verbatim>\<open>int(f)\<close> of a float cuts off towards zero.\<close>

definition trunc :: "rat \<Rightarrow> int" where
  "trunc f = (if f < 0 then \<lceil>f\<rceil> else \<lfloor>f\<rfloor>)"

subsection \<open>Rights\<close>

definition rrcdNotAuthorized :: gostring where "rrcdNotAuthorized = ''not authorized''"
definition rrcdNotAuthorizedTopic :: gostring where "rrcdNotAuthorizedTopic = ''not authorized (+t)''"
definition rrcdUnrecognized :: gostring where "rrcdUnrecognized = ''unrecognized command''"
definition rrcdBanned :: gostring where "rrcdBanned = ''banned''"

abbreviation trusted :: "sworld \<Rightarrow> ID \<Rightarrow> bool" where
  "trusted w pid \<equiv> IsTrusted (sv_trust (svc w)) pid"

definition requireServerOp :: "svc_env \<Rightarrow> bytes \<Rightarrow> ID \<Rightarrow> sworld \<Rightarrow> (sworld \<Rightarrow> sworld) \<Rightarrow> sworld" where
  "requireServerOp E peer pid w k =
     (if trusted w pid then k w else errorTo E peer [] rrcdNotAuthorized w)"

definition requireRoomOp :: "svc_env \<Rightarrow> bytes \<Rightarrow> ID \<Rightarrow> gostring \<Rightarrow> sworld \<Rightarrow> (sworld \<Rightarrow> sworld) \<Rightarrow> sworld" where
  "requireRoomOp E peer pid room w k =
     (if IsOp (sv_rooms (svc w)) room pid (trusted w pid) then k w else errorTo E peer room rrcdNotAuthorized w)"

definition normRoom :: "svc_env \<Rightarrow> sworld \<Rightarrow> gostring \<Rightarrow> gostring + gostring" where
  "normRoom E w name =
     (let r = NormalizeRoom (x_lower (sx_hub E)) name; mx = MaxRoomNameBytes (Limits (sv_cfg (svc w)))
      in if r = [] then Inl ''room name must not be empty''
         else if word_of_nat (length r) > mx
         then Inl (''room name too long: '' @ decimal (length r) @ '' bytes > '' @ decimal (unat mx) @ '' bytes'')
         else Inr r)"

text \<open>A target: one connected peer that matches, or else a full identity; the zero identity means none.\<close>

definition resolve_matches :: "svc_env \<Rightarrow> sworld \<Rightarrow> gostring \<Rightarrow> gostring \<Rightarrow> (bytes \<times> gostring) list" where
  "resolve_matches E w token room =
     (let ul = x_lower (sx_hub E); h = w_hub w;
          hashes = (case hasHexPrefix ul token of Some prefix \<Rightarrow> LookupHashPrefix h prefix | None \<Rightarrow> LookupNick ul h token)
      in map (\<lambda>b. (b, Nick h b)) (filter (\<lambda>b. room = [] \<or> IsMember ul h b room) hashes))"

definition resolve :: "svc_env \<Rightarrow> sworld \<Rightarrow> gostring \<Rightarrow> gostring \<Rightarrow> ID \<times> (bytes \<times> gostring) list" where
  "resolve E w token0 room =
     (let token = TrimSpace token0;
          matches = resolve_matches E w token room;
          fallback = (case parseFullID (x_lower (sx_hub E)) token of Inl _ \<Rightarrow> (zeroID, matches) | Inr i \<Rightarrow> (i, matches))
      in if length matches = 1
         then (case idFrom (fst (hd matches)) of Some i \<Rightarrow> (i, matches) | None \<Rightarrow> fallback)
         else if length matches > 1 then (zeroID, matches)
         else fallback)"

definition formatAmbiguous :: "gostring \<Rightarrow> (bytes \<times> gostring) list \<Rightarrow> gostring" where
  "formatAmbiguous token matches =
     (if matches = [] then ''target '' @ [CHR 0x27] @ token @ [CHR 0x27] @ '' not found''
      else ''ambiguous: '' @ [CHR 0x27] @ token @ [CHR 0x27] @ '' matches '' @ decimal (length matches) @ '' identities:''
        @ concat (map (\<lambda>(hash, nick). [CHR 0x0A] @ ''  - '' @ trimHex (hex_encode hash) 16 @ '' ''
            @ (if nick \<noteq> [] then ''nick='' @ [CHR 0x27] @ nick @ [CHR 0x27] else ''(no nick)'')) matches)
        @ [CHR 0x0A] @ ''Use full or longer identity hash to disambiguate.'')"

subsection \<open>Server commands\<close>

definition Reload :: "svc_env \<Rightarrow> bytes \<Rightarrow> sworld \<Rightarrow> sworld" where
  "Reload E peer w =
     (let path = ConfigPath (sv_cfg (svc w)); ul = x_lower (sx_hub E)
      in case (if path = [] then None else sx_config E path) of
           None \<Rightarrow> notice E peer [] ''reload failed: config_path not set or missing'' w
         | Some (Inl e) \<Rightarrow> notice E peer [] (''reload failed: config parse error: '' @ e) w
         | Some (Inr cfg0) \<Rightarrow>
             (let cfg = cfg0\<lparr>ConfigPath := path\<rparr>
              in case Trust_Load ul (TrustedIdentities cfg) (BannedIdentities cfg) (sv_trust (svc w)) of
                   Inl e \<Rightarrow> notice E peer [] (''reload failed: identity list parse error: '' @ id_error_text (sx_quote E) e) w
                 | Inr t \<Rightarrow>
                     let w1 = with_svc (\<lambda>s. s\<lparr>sv_trust := t\<rparr>) w
                     in case sx_registry E (RoomRegistryPath cfg) of
                          Inl e \<Rightarrow> notice E peer [] (''reload failed: '' @ e) w1
                        | Inr reg \<Rightarrow>
                            let old = Counts t; oldRooms = Registry_Count (sv_rooms (svc w1));
                                w2 = with_svc (\<lambda>s. s\<lparr>sv_cfg := cfg,
                                       sv_rooms := SetInviteTimeout (RoomInviteTimeoutS cfg) (ReplaceAll reg (sv_rooms s))\<rparr>) w1;
                                w3 = with_hub (ApplyRuntime (HubName cfg) (sx_version E) (IncludeJoinedMemberList cfg)
                                       (EnableResourceTransfer cfg) (MaxResourceBytes cfg) (Limits cfg)) w2
                            in bumpStatus (notice E peer []
                                 (''reloaded: trusted='' @ decimal (fst old) @ ''->'' @ decimal (fst (Counts t))
                                  @ '' banned='' @ decimal (snd old) @ ''->'' @ decimal (snd (Counts t))
                                  @ '' registered_rooms='' @ decimal oldRooms @ ''->'' @ decimal (Registry_Count (sv_rooms (svc w3)))
                                  @ [CHR 0x0A] @ ''policy: max_nick_bytes='' @ decimal (unat (MaxNickBytes (Limits cfg)))) w3)))"

definition cmdReload :: "svc_env \<Rightarrow> bytes \<Rightarrow> ID \<Rightarrow> sworld \<Rightarrow> sworld" where
  "cmdReload E peer pid w = requireServerOp E peer pid w (Reload E peer)"

definition go_bool :: "bool \<Rightarrow> gostring" where
  "go_bool b = (if b then ''true'' else ''false'')"

definition Stats_Format :: "svc_env \<Rightarrow> sworld \<Rightarrow> gostring" where
  "Stats_Format E w =
     (let s = svc w; h = w_hub w; cfg = sv_cfg s; l = Limits cfg; nl = [CHR 0x0A];
          c = (\<lambda>k. decimal (unat (st_count (sv_stats s) k)));
          uptime = of_int (w_now w - st_started (sv_stats s)) / 1000000000;
          occupied = sort_key (\<lambda>(name, n). (- int n, name)) (OccupiedRooms h);
          tops = map (\<lambda>(name, n). name @ '':'' @ decimal n) (take 5 occupied);
          memberships = sum_list (map snd occupied)
      in ''gorrcd '' @ sx_version E @ '' stats'' @ nl
         @ ''uptime_s='' @ sx_f1 E uptime @ nl
         @ ''clients_total='' @ decimal (PeerCount h) @ '' clients_identified='' @ decimal (PeerCount h)
         @ '' clients_welcomed='' @ decimal (WelcomedCount h) @ nl
         @ ''rooms='' @ decimal (length occupied) @ '' memberships='' @ decimal memberships @ nl
         @ (if tops \<noteq> [] then ''top_rooms='' @ Join_strings tops '', '' @ nl else [])
         @ ''trust: trusted='' @ decimal (fst (Counts (sv_trust s))) @ '' banned='' @ decimal (snd (Counts (sv_trust s))) @ nl
         @ ''limits: rate_limit_msgs_per_minute='' @ decimal (unat (RateLimitMsgsPerMinute l))
         @ '' max_rooms_per_session='' @ decimal (unat (MaxRoomsPerSession l))
         @ '' max_room_name_bytes='' @ decimal (unat (MaxRoomNameBytes l))
         @ '' max_nick_bytes='' @ decimal (unat (MaxNickBytes l)) @ nl
         @ ''features: ping_interval_s='' @ sx_fv E (PingIntervalS cfg) @ '' ping_timeout_s='' @ sx_fv E (PingTimeoutS cfg)
         @ '' announce_on_start='' @ go_bool (AnnounceOnStart cfg) @ '' announce_period_s='' @ sx_fv E (AnnouncePeriodS cfg) @ nl
         @ ''io: pkts_in='' @ c ''pkts_in'' @ '' pkts_bad='' @ c ''pkts_bad'' @ '' bytes_in='' @ c ''bytes_in''
         @ '' bytes_out='' @ c ''bytes_out'' @ nl
         @ ''events: joins='' @ c ''joins'' @ '' parts='' @ c ''parts'' @ '' msgs_fwd='' @ c ''msgs_forwarded''
         @ '' notices_fwd='' @ c ''notices_forwarded'' @ '' actions_fwd='' @ c ''actions_forwarded''
         @ '' errors_sent='' @ c ''errors_sent'' @ '' rate_limited='' @ c ''rate_limited'' @ nl
         @ ''pings: in='' @ c ''pings_in'' @ '' out='' @ c ''pings_out'' @ '' pongs: in='' @ c ''pongs_in'' @ '' out='' @ c ''pongs_out'' @ nl
         @ ''resources: sent='' @ c ''resources_sent'' @ '' received='' @ c ''resources_received'' @ '' rejected='' @ c ''resources_rejected''
         @ '' bytes_sent='' @ c ''resource_bytes_sent'' @ '' bytes_received='' @ c ''resource_bytes_received'' @ nl)"

definition cmdStats :: "svc_env \<Rightarrow> bytes \<Rightarrow> ID \<Rightarrow> sworld \<Rightarrow> sworld" where
  "cmdStats E peer pid w = requireServerOp E peer pid w (\<lambda>w. notice E peer [] (Stats_Format E w) w)"

definition cmdList :: "svc_env \<Rightarrow> bytes \<Rightarrow> sworld \<Rightarrow> sworld" where
  "cmdList E peer w =
     (let rooms = PublicRegistered (sv_rooms (svc w))
      in if rooms = [] then notice E peer [] ''No public rooms registered'' w
         else notice E peer []
           (''Registered public rooms:''
            @ concat (map (\<lambda>(name, topic). [CHR 0x0A] @ ''  '' @ name @ (if topic \<noteq> [] then '' - '' @ topic else [])) rooms)) w)"

definition cmdWho :: "svc_env \<Rightarrow> bytes \<Rightarrow> ID \<Rightarrow> gostring \<Rightarrow> gostring list \<Rightarrow> sworld \<Rightarrow> sworld" where
  "cmdWho E peer pid room parts w =
     (let target = (if length parts \<ge> 2 then parts ! 1 else room)
      in if target = [] then notice E peer [] ''usage: /who [room]'' w
         else case normRoom E w target of
           Inl e \<Rightarrow> notice E peer [] (''bad room: '' @ e) w
         | Inr r \<Rightarrow>
             if IsPrivate (sv_rooms (svc w)) r \<and> \<not> trusted w pid then notice E peer [] (''room '' @ r @ '' is private'') w
             else
               let members = RoomMemberInfo (x_lower (sx_hub E)) (w_hub w) r;
                   items = map (\<lambda>(hash, nick). if nick \<noteq> [] then nick @ '' ('' @ trimHex (hex_encode hash) 12 @ '')'' else hex_encode hash) members
               in notice E peer [] (''members in '' @ r @ '': '' @ (if items \<noteq> [] then Join_strings items '', '' else ''(none)'')) w)"

definition kline_add :: "svc_env \<Rightarrow> bytes \<Rightarrow> gostring \<Rightarrow> sworld \<Rightarrow> sworld" where
  "kline_add E peer token w =
     (let res = resolve E w token []; target = fst res; matches = snd res;
          ban = (\<lambda>i. with_svc (\<lambda>s. let t = Ban i (sv_trust s) in s\<lparr>sv_trust := t, sv_bannedSaved := Some (BannedHex t)\<rparr>))
      in if target \<noteq> zeroID
         then notice E peer [] (''kline added for '' @ token) (Disconnect (sx_hub E) target (ban target w))
         else if length matches > 1 then notice E peer [] (formatAmbiguous token matches) w
         else case parseFullID (x_lower (sx_hub E)) token of
           Inl e \<Rightarrow> notice E peer [] (''bad identity hash: '' @ id_error_text (sx_quote E) e) w
         | Inr i \<Rightarrow> notice E peer [] (''kline added for '' @ ID_Hex i) (ban i w))"

definition kline_del :: "svc_env \<Rightarrow> bytes \<Rightarrow> gostring \<Rightarrow> sworld \<Rightarrow> sworld" where
  "kline_del E peer token w =
     (case parseFullID (x_lower (sx_hub E)) token of
        Inl e \<Rightarrow> notice E peer [] (''bad identity hash: '' @ id_error_text (sx_quote E) e) w
      | Inr i \<Rightarrow>
          (case Unban i (sv_trust (svc w)) of
             (t, True) \<Rightarrow> notice E peer [] (''kline removed for '' @ ID_Hex i)
                (with_svc (\<lambda>s. s\<lparr>sv_trust := t, sv_bannedSaved := Some (BannedHex t)\<rparr>) w)
           | (t, False) \<Rightarrow> notice E peer [] (''not klined: '' @ ID_Hex i) (with_svc (\<lambda>s. s\<lparr>sv_trust := t\<rparr>) w)))"

definition cmdKline :: "svc_env \<Rightarrow> bytes \<Rightarrow> ID \<Rightarrow> gostring list \<Rightarrow> sworld \<Rightarrow> sworld" where
  "cmdKline E peer pid parts w0 = requireServerOp E peer pid w0 (\<lambda>w.
     if length parts < 2 then notice E peer [] ''usage: /kline add|del|list [nick|hashprefix|hash]'' w
     else
       let op = ToLower (x_lower (sx_hub E)) (parts ! 1)
       in if op = ''list''
          then let items = BannedHex (sv_trust (svc w))
               in notice E peer [] (''klines: '' @ (if items \<noteq> [] then Join_strings items '', '' else ''(none)'')) w
          else if op \<noteq> ''add'' \<and> op \<noteq> ''del'' then notice E peer [] ''usage: /kline add|del|list [nick|hashprefix|hash]'' w
          else if length parts < 3 then notice E peer [] (''usage: /kline '' @ op @ '' <nick|hashprefix|hash>'') w
          else if op = ''add'' then kline_add E peer (parts ! 2) w
          else kline_del E peer (parts ! 2) w)"

subsection \<open>Room commands\<close>

definition cmdKick :: "svc_env \<Rightarrow> bytes \<Rightarrow> ID \<Rightarrow> gostring \<Rightarrow> gostring list \<Rightarrow> sworld \<Rightarrow> sworld" where
  "cmdKick E peer pid room parts w0 =
     (if length parts < 3 then notice E peer [] ''usage: /kick <room> <nick|hashprefix>'' w0
      else case normRoom E w0 (parts ! 1) of
        Inl e \<Rightarrow> notice E peer room (''bad room: '' @ e) w0
      | Inr r \<Rightarrow> requireRoomOp E peer pid r w0 (\<lambda>w.
          let res = resolve E w (parts ! 2) r; target = fst res; matches = snd res
          in if length matches \<noteq> 1 \<and> target = zeroID then notice E peer room (formatAmbiguous (parts ! 2) matches) w
             else if \<not> IsMember (x_lower (sx_hub E)) (w_hub w) target r then notice E peer room ''target not in room'' w
             else notice E peer room (''kicked '' @ parts ! 2 @ '' from '' @ r)
                    (errorTo E target r (''kicked from '' @ r) (fst (RemoveFromRoom (sx_hub E) target r w)))))"

definition present_in :: "svc_env \<Rightarrow> bytes \<Rightarrow> gostring \<Rightarrow> gostring \<Rightarrow> sworld \<Rightarrow> bool" where
  "present_in E peer room r w \<longleftrightarrow>
     room \<noteq> [] \<and> NormalizeRoom (x_lower (sx_hub E)) room = r \<and> IsMember (x_lower (sx_hub E)) (w_hub w) peer r"

definition cmdRegister :: "svc_env \<Rightarrow> bytes \<Rightarrow> ID \<Rightarrow> gostring \<Rightarrow> gostring list \<Rightarrow> sworld \<Rightarrow> sworld" where
  "cmdRegister E peer pid room parts w =
     (if length parts < 2 then notice E peer [] ''usage: /register <room>'' w
      else case normRoom E w (parts ! 1) of
        Inl e \<Rightarrow> notice E peer [] (''bad room: '' @ e) w
      | Inr r \<Rightarrow>
          if \<not> present_in E peer room r w then notice E peer room ''must be present in the room to register it'' w
          else if Founder (sv_rooms (svc w)) r \<noteq> Some pid then errorTo E peer r ''only the room founder can register'' w
          else if RoomRegistryPath (sv_cfg (svc w)) = [] then notice E peer room ''cannot register room: no room_registry_path'' w
          else case with_rooms E (\<lambda>io. Register io (w_now w) r pid) w of
            (w1, Some e) \<Rightarrow> notice E peer room e w1
          | (w1, None) \<Rightarrow> notice E peer room (''registered room '' @ r) w1)"

definition cmdUnregister :: "svc_env \<Rightarrow> bytes \<Rightarrow> ID \<Rightarrow> gostring \<Rightarrow> gostring list \<Rightarrow> sworld \<Rightarrow> sworld" where
  "cmdUnregister E peer pid room parts w =
     (if length parts < 2 then notice E peer [] ''usage: /unregister <room>'' w
      else case normRoom E w (parts ! 1) of
        Inl e \<Rightarrow> notice E peer [] (''bad room: '' @ e) w
      | Inr r \<Rightarrow>
          if \<not> present_in E peer room r w then notice E peer room ''must be present in the room to unregister it'' w
          else if Founder (sv_rooms (svc w)) r \<noteq> Some pid then errorTo E peer r ''only the room founder can unregister'' w
          else case with_rooms E (\<lambda>io. Unregister io r) w of
            (w1, Some e) \<Rightarrow> notice E peer room e w1
          | (w1, None) \<Rightarrow> notice E peer room (''unregistered room '' @ r) w1)"

definition cmdTopic :: "svc_env \<Rightarrow> bytes \<Rightarrow> ID \<Rightarrow> gostring \<Rightarrow> gostring list \<Rightarrow> sworld \<Rightarrow> sworld" where
  "cmdTopic E peer pid room parts w =
     (if length parts < 2 then notice E peer [] ''usage: /topic <room> [topic]'' w
      else case normRoom E w (parts ! 1) of
        Inl e \<Rightarrow> notice E peer [] (''bad room: '' @ e) w
      | Inr r \<Rightarrow>
          if length parts = 2
          then let t = Topic (sv_rooms (svc w)) r
               in notice E peer room (''topic for '' @ r @ '': '' @ (if t = [] then ''(none)'' else t)) w
          else if \<not> IsOp (sv_rooms (svc w)) r pid (trusted w pid) \<and> TopicOpsOnly (sv_rooms (svc w)) r
          then errorTo E peer r rrcdNotAuthorizedTopic w
          else
            let topic = TrimSpace (Join_strings (drop 2 parts) '' '');
                w1 = with_svc (\<lambda>s. s\<lparr>sv_rooms := SetTopic (w_now w) r topic (sv_rooms s)\<rparr>) w;
                w2 = fst (with_rooms E Persist w1)
            in BroadcastNotice (sx_hub E) r (''topic for '' @ r @ '' is now: '' @ (if topic = [] then ''(cleared)'' else topic)) w2)"

definition cmdPriv :: "svc_env \<Rightarrow> bytes \<Rightarrow> ID \<Rightarrow> gostring \<Rightarrow> gostring \<Rightarrow> gostring list \<Rightarrow> sworld \<Rightarrow> sworld" where
  "cmdPriv E peer pid room cmd parts w0 =
     (if length parts < 3 then notice E peer [] (''usage: /'' @ cmd @ '' <room> <nick|hashprefix|hash>'') w0
      else case normRoom E w0 (parts ! 1) of
        Inl e \<Rightarrow> notice E peer [] (''bad room: '' @ e) w0
      | Inr r \<Rightarrow> requireRoomOp E peer pid r w0 (\<lambda>w.
          let res = resolve E w (parts ! 2) r; target = fst res; matches = snd res; now = w_now w
          in if target = zeroID then notice E peer room (formatAmbiguous (parts ! 2) matches) w
             else if cmd = ''op''
             then notice E peer room (''op granted in '' @ r) (fst (with_rooms E (\<lambda>io. AddOp io now r target) w))
             else if cmd = ''deop''
             then (if Founder (sv_rooms (svc w)) r = Some target then notice E peer room ''cannot deop founder'' w
                   else notice E peer room (''op removed in '' @ r) (fst (with_rooms E (\<lambda>io. DelOp io now r target) w)))
             else if cmd = ''voice''
             then notice E peer room (''voice granted in '' @ r) (fst (with_rooms E (\<lambda>io. AddVoice io now r target) w))
             else if cmd = ''devoice''
             then notice E peer room (''voice removed in '' @ r) (fst (with_rooms E (\<lambda>io. DelVoice io now r target) w))
             else w))"

definition supported_modes :: gostring where
  "supported_modes = ''supported modes: +m -m +i -i +k -k +t -t +n -n +p -p +r -r +o -o +v -v''"

text \<open>The modes that take a target, and the flags of the room.\<close>

definition mode_target :: "svc_env \<Rightarrow> bytes \<Rightarrow> gostring \<Rightarrow> gostring \<Rightarrow> gostring \<Rightarrow> gostring list \<Rightarrow> sworld \<Rightarrow> sworld" where
  "mode_target E peer room r flag parts w =
     (if length parts < 4 then notice E peer room ''usage: /mode <room> (+o|-o|+v|-v) <nick|hashprefix|hash>'' w
      else
        let res = resolve E w (parts ! 3) r; target = fst res; matches = snd res; now = w_now w;
            announce = BroadcastNotice (sx_hub E) r (''mode for '' @ r @ '' is now: '' @ flag @ '' '' @ ID_Prefix target 12)
        in if target = zeroID then notice E peer room (formatAmbiguous (parts ! 3) matches) w
           else if flag = ''+o'' then announce (fst (with_rooms E (\<lambda>io. AddOp io now r target) w))
           else if flag = ''-o''
           then (if Founder (sv_rooms (svc w)) r = Some target then notice E peer room ''cannot deop founder'' w
                 else announce (fst (with_rooms E (\<lambda>io. DelOp io now r target) w)))
           else if flag = ''+v'' then announce (fst (with_rooms E (\<lambda>io. AddVoice io now r target) w))
           else announce (fst (with_rooms E (\<lambda>io. DelVoice io now r target) w)))"

definition mode_flag :: "svc_env \<Rightarrow> bytes \<Rightarrow> gostring \<Rightarrow> gostring \<Rightarrow> gostring \<Rightarrow> gostring list \<Rightarrow> sworld \<Rightarrow> sworld" where
  "mode_flag E peer room r flag parts w =
     (let on = (take 1 flag = ''+''); ch = dropWhile (\<lambda>c. c = CHR ''+'' \<or> c = CHR ''-'') flag
      in if length ch \<noteq> 1 then notice E peer room supported_modes w
         else if ch = ''k'' \<and> on \<and> length parts < 4 then notice E peer room ''usage: /mode <room> +k <key>'' w
         else
           let key = (if ch = ''k'' \<and> on then TrimSpace (Join_strings (drop 3 parts) '' '') else [])
           in case with_rooms E (\<lambda>io. SetFlag io (w_now w) r ch on key) w of
                (w1, Some e) \<Rightarrow> notice E peer room (if e = ''unknown flag'' then supported_modes else e) w1
              | (w1, None) \<Rightarrow>
                  BroadcastNotice (sx_hub E) r (''mode for '' @ r @ '' is now: '' @ ModeString (sv_rooms (svc w1)) r) w1)"

definition cmdMode :: "svc_env \<Rightarrow> bytes \<Rightarrow> ID \<Rightarrow> gostring \<Rightarrow> gostring list \<Rightarrow> sworld \<Rightarrow> sworld" where
  "cmdMode E peer pid room parts w0 =
     (if length parts < 3
      then notice E peer [] (''usage: /mode <room> (+m|-m|+i|-i|+t|-t|+n|-n|+p|-p|+k|-k|+r|-r) [key] | ''
             @ ''/mode <room> (+o|-o|+v|-v) <nick|hashprefix|hash>'') w0
      else case normRoom E w0 (parts ! 1) of
        Inl e \<Rightarrow> notice E peer [] (''bad room: '' @ e) w0
      | Inr r \<Rightarrow> requireRoomOp E peer pid r w0 (\<lambda>w.
          let flag = ToLower (x_lower (sx_hub E)) (parts ! 2)
          in if flag = ''+r'' \<or> flag = ''-r'' then notice E peer room ''use /register or /unregister to change +r'' w
             else if flag = ''+o'' \<or> flag = ''-o'' \<or> flag = ''+v'' \<or> flag = ''-v'' then mode_target E peer room r flag parts w
             else mode_flag E peer room r flag parts w))"

definition cmdBan :: "svc_env \<Rightarrow> bytes \<Rightarrow> ID \<Rightarrow> gostring \<Rightarrow> gostring list \<Rightarrow> sworld \<Rightarrow> sworld" where
  "cmdBan E peer pid room parts w0 =
     (if length parts < 3 then notice E peer [] ''usage: /ban <room> add|del|list [nick|hashprefix|hash]'' w0
      else case normRoom E w0 (parts ! 1) of
        Inl e \<Rightarrow> notice E peer [] (''bad room: '' @ e) w0
      | Inr r \<Rightarrow>
          let op = ToLower (x_lower (sx_hub E)) (parts ! 2)
          in if op = ''list''
             then let items = ListBans (sv_rooms (svc w0)) r
                  in notice E peer room (if items = [] then ''no bans in '' @ r else ''bans in '' @ r @ '': '' @ Join_strings items '', '') w0
             else if op \<noteq> ''add'' \<and> op \<noteq> ''del''
             then notice E peer room ''usage: /ban <room> add|del|list [nick|hashprefix|hash]'' w0
             else if length parts < 4 then notice E peer room (''usage: /ban '' @ r @ '' '' @ op @ '' <nick|hashprefix|hash>'') w0
             else requireRoomOp E peer pid r w0 (\<lambda>w.
               let res = resolve E w (parts ! 3) r; target = fst res; matches = snd res; now = w_now w
               in if target = zeroID then notice E peer room (formatAmbiguous (parts ! 3) matches) w
                  else if op = ''add''
                  then
                    let w1 = fst (with_rooms E (\<lambda>io. AddBan io now r target) w);
                        w2 = (if IsMember (x_lower (sx_hub E)) (w_hub w1) target r
                              then errorTo E target r (''banned from '' @ r) (fst (RemoveFromRoom (sx_hub E) target r w1)) else w1)
                    in notice E peer room (''ban added in '' @ r) w2
                  else notice E peer room (''ban removed in '' @ r) (fst (with_rooms E (\<lambda>io. DelBan io now r target) w))))"

definition ListInvites :: "int \<Rightarrow> RoomRegistry \<Rightarrow> gostring \<Rightarrow> gostring list" where
  "ListInvites now r room =
     (case room_of r room of
        None \<Rightarrow> []
      | Some st \<Rightarrow>
          sort (map (\<lambda>(i, expiry). ID_Hex i @ '' expires_in='' @ decimal_int (trunc (expiry - unix now)) @ ''s'')
            (filter (\<lambda>(_, expiry). expiry > unix now) (rs_Invited st))))"

definition invite_add :: "svc_env \<Rightarrow> bytes \<Rightarrow> gostring \<Rightarrow> gostring \<Rightarrow> gostring \<Rightarrow> sworld \<Rightarrow> sworld" where
  "invite_add E peer room r token w =
     (let res = resolve E w token []; target = fst res; ttl = RoomInviteTimeoutS (sv_cfg (svc w))
      in if target = zeroID then errorTo E peer r (''invite failed: '' @ formatAmbiguous token (snd res)) w
         else
           let w1 = notice E target r (''You have been invited to join '' @ r @ (if HasKey (sv_rooms (svc w)) r
                      then ''. This invite allows joining without the key (+k).'' else ''.'')) w
           in if NeedsStoredInvite (sv_rooms (svc w1)) r
              then notice E peer room (''invite added in '' @ r @ '' (expires in '' @ decimal_int (trunc ttl) @ ''s)'')
                     (fst (with_rooms E (\<lambda>io. AddInvite io (w_now w1) r target ttl) w1))
              else notice E peer room (''invite sent to '' @ token @ '' for '' @ r) w1)"

definition cmdInvite :: "svc_env \<Rightarrow> bytes \<Rightarrow> ID \<Rightarrow> gostring \<Rightarrow> gostring list \<Rightarrow> sworld \<Rightarrow> sworld" where
  "cmdInvite E peer pid room parts w0 =
     (if length parts < 3 then notice E peer [] ''usage: /invite <room> add|del|list [nick|hashprefix|hash]'' w0
      else case normRoom E w0 (parts ! 1) of
        Inl e \<Rightarrow> notice E peer [] (''bad room: '' @ e) w0
      | Inr r \<Rightarrow> requireRoomOp E peer pid r w0 (\<lambda>w.
          let op = ToLower (x_lower (sx_hub E)) (parts ! 2)
          in if op = ''list''
             then let items = ListInvites (w_now w) (sv_rooms (svc w)) r
                  in notice E peer room (''invites in '' @ r @ '': '' @ (if items \<noteq> [] then Join_strings items '', '' else ''(none)'')) w
             else if op \<noteq> ''add'' \<and> op \<noteq> ''del''
             then notice E peer room ''usage: /invite <room> add|del|list [nick|hashprefix|hash]'' w
             else if length parts < 4 then notice E peer room (''usage: /invite '' @ r @ '' '' @ op @ '' <nick|hashprefix|hash>'') w
             else if op = ''add'' then invite_add E peer room r (parts ! 3) w
             else
               let res = resolve E w (parts ! 3) []
               in if fst res = zeroID then notice E peer room (formatAmbiguous (parts ! 3) (snd res)) w
                  else notice E peer room (''invite removed in '' @ r) (fst (with_rooms E (\<lambda>io. DelInvite io (w_now w) r (fst res)) w))))"

subsection \<open>Dispatch\<close>

definition handleCommand :: "svc_env \<Rightarrow> bytes \<Rightarrow> gostring \<Rightarrow> gostring \<Rightarrow> sworld \<Rightarrow> sworld" where
  "handleCommand E peer room text w =
     (case splitCmd text of
        [] \<Rightarrow> w
      | first # rest \<Rightarrow>
          (let parts = first # rest; cmd = ToLower (x_lower (sx_hub E)) first
           in case idFrom peer of
                None \<Rightarrow> w
              | Some pid \<Rightarrow>
                  if cmd = ''reload'' then cmdReload E peer pid w
                  else if cmd = ''stats'' then cmdStats E peer pid w
                  else if cmd = ''list'' then cmdList E peer w
                  else if cmd = ''who'' \<or> cmd = ''names'' then cmdWho E peer pid room parts w
                  else if cmd = ''kick'' then cmdKick E peer pid room parts w
                  else if cmd = ''kline'' then cmdKline E peer pid parts w
                  else if cmd = ''register'' then cmdRegister E peer pid room parts w
                  else if cmd = ''unregister'' then cmdUnregister E peer pid room parts w
                  else if cmd = ''topic'' then cmdTopic E peer pid room parts w
                  else if cmd \<in> {''op'', ''deop'', ''voice'', ''devoice''} then cmdPriv E peer pid room cmd parts w
                  else if cmd = ''mode'' then cmdMode E peer pid room parts w
                  else if cmd = ''ban'' then cmdBan E peer pid room parts w
                  else if cmd = ''invite'' then cmdInvite E peer pid room parts w
                  else errorTo E peer room rrcdUnrecognized w))"

end
