(* ===== verification/Gorrcd_Service.thy ===== *)
theory Gorrcd_Service
  imports Gorrcd_Commands
begin

text \<open>
  \<^verbatim>\<open>internal/gorrcd/service.go\<close>: the callbacks with which the daemon is the \<^verbatim>\<open>HubPolicy\<close> of its hub, the bodies
  of its periodic workers, and the proof that they fulfil the contract \<open>hub_policy_laws\<close> of the hub.  With
  it every reachable state of the daemon's hub keeps the invariant of the hub.
\<close>

subsection \<open>Callbacks of the hub\<close>

definition blank_byte :: "char \<Rightarrow> bool" where
  "blank_byte c \<longleftrightarrow> c = CHR '' '' \<or> c = CHR 0x09 \<or> c = CHR 0x0A \<or> c = CHR 0x0D"

definition stringsTrim :: "gostring \<Rightarrow> gostring" where
  "stringsTrim s = rev (dropWhile blank_byte (rev (dropWhile blank_byte s)))"

definition svc_OnLink :: "conn \<Rightarrow> sworld \<Rightarrow> sworld" where
  "svc_OnLink i w = Resources_OnLink i w"

definition svc_OnIdentified :: "bytes \<Rightarrow> sworld \<Rightarrow> sworld \<times> gostring option" where
  "svc_OnIdentified peer w =
     (w, case idFrom peer of
           None \<Rightarrow> None
         | Some pid \<Rightarrow> if Trust_IsBanned (sv_trust (svc w)) pid then Some rrcdBanned else None)"

definition svc_AfterWelcome :: "svc_env \<Rightarrow> bytes \<Rightarrow> sworld \<Rightarrow> sworld" where
  "svc_AfterWelcome E peer w =
     (let g = Greeting (sv_cfg (svc w))
      in bumpStatus (if g \<noteq> [] then noticeChunksOrResource E peer [] g ResourceKindMOTD w else w))"

definition svc_AllowJoin :: "bytes \<Rightarrow> gostring \<Rightarrow> val \<Rightarrow> sworld \<Rightarrow> sworld \<times> gostring option" where
  "svc_AllowJoin peer room body w =
     (case idFrom peer of
        None \<Rightarrow> (w, Some ''invalid peer'')
      | Some pid \<Rightarrow>
          (let r = AllowJoin (w_now w) room pid body (trusted w pid) (sv_rooms (svc w))
           in (with_svc (\<lambda>s. s\<lparr>sv_rooms := fst r\<rparr>) w, snd r)))"

definition svc_AfterJoin :: "svc_env \<Rightarrow> bytes \<Rightarrow> gostring \<Rightarrow> sworld \<Rightarrow> sworld" where
  "svc_AfterJoin E peer room w =
     (let pid = (case idFrom peer of None \<Rightarrow> zeroID | Some i \<Rightarrow> i);
          w1 = inc ''joins'' 1 w;
          w2 = with_svc (\<lambda>s. s\<lparr>sv_rooms := Touch (w_now w1) room (ConsumeInvite room pid (ensureLocked room pid True (sv_rooms s)))\<rparr>) w1;
          w3 = fst (with_rooms E Persist w2)
      in bumpStatus (notice E peer room (InfoLine (sv_rooms (svc w3)) room) w3))"

definition svc_AfterPart :: "svc_env \<Rightarrow> bytes \<Rightarrow> gostring \<Rightarrow> sworld \<Rightarrow> sworld" where
  "svc_AfterPart E peer room w =
     (let w1 = inc ''parts'' 1 w;
          w2 = with_svc (\<lambda>s. s\<lparr>sv_rooms := Touch (w_now w1) room (sv_rooms s)\<rparr>) w1
      in bumpStatus (fst (with_rooms E Persist w2)))"

definition svc_AllowContent :: "svc_env \<Rightarrow> bytes \<Rightarrow> Envelope \<Rightarrow> sworld \<Rightarrow> sworld \<times> gostring option" where
  "svc_AllowContent E peer env w =
     (let room = NormalizeRoom (x_lower (sx_hub E)) (e_Room env)
      in (w, case idFrom peer of
               None \<Rightarrow> Some ''invalid peer''
             | Some pid \<Rightarrow>
                 AllowContent (sv_rooms (svc w)) room pid (IsMember (x_lower (sx_hub E)) (w_hub w) peer room) (trusted w pid)))"

definition svc_Intercept :: "svc_env \<Rightarrow> bytes \<Rightarrow> Envelope \<Rightarrow> sworld \<Rightarrow> sworld \<times> bool" where
  "svc_Intercept E peer env w =
     (case asString (e_Body env) of
        None \<Rightarrow> (w, False)
      | Some text0 \<Rightarrow>
          (let text = stringsTrim text0
           in if text = [] \<or> hd text \<noteq> CHR ''/'' then (w, False)
              else (handleCommand E peer (e_Room env) text w, True)))"

definition svc_OnPong :: "bytes \<Rightarrow> sworld \<Rightarrow> sworld" where
  "svc_OnPong peer w =
     (case idFrom peer of
        None \<Rightarrow> w
      | Some pid \<Rightarrow> with_svc (\<lambda>s. s\<lparr>sv_awaiting := AList.delete pid (sv_awaiting s)\<rparr>) (inc ''pongs_in'' 1 w))"

definition svc_OnResourceEnvelope :: "bytes \<Rightarrow> Envelope \<Rightarrow> sworld \<Rightarrow> sworld \<times> gostring option" where
  "svc_OnResourceEnvelope peer env w = Resources_Add peer env w"

definition svc_policy :: "svc_env \<Rightarrow> Service hub_policy" where
  "svc_policy E =
     \<lparr>pol_OnLink = svc_OnLink, pol_OnIdentified = svc_OnIdentified, pol_AfterWelcome = svc_AfterWelcome E,
      pol_AllowJoin = svc_AllowJoin, pol_AfterJoin = svc_AfterJoin E, pol_AfterPart = svc_AfterPart E,
      pol_AllowContent = svc_AllowContent E, pol_Intercept = svc_Intercept E, pol_OnPong = svc_OnPong,
      pol_OnResourceEnvelope = svc_OnResourceEnvelope\<rparr>"

subsection \<open>Workers\<close>

text \<open>
  \<^verbatim>\<open>float64(n)\<close> as the bits of the number, for the whole numbers below \<open>2 ^ 53\<close>, which it represents exactly
  (a Unix time is one).
\<close>

fun ilog2 :: "nat \<Rightarrow> nat" where
  "ilog2 n = (if n < 2 then 0 else Suc (ilog2 (n div 2)))"

declare ilog2.simps [simp del]

definition float64_bits :: "int \<Rightarrow> uint64" where
  "float64_bits n =
     (if n = 0 then 0
      else let m = nat \<bar>n\<bar>; e = ilog2 m
           in word_of_nat ((if n < 0 then 2 ^ 63 else 0) + (1023 + e) * 2 ^ 52 + (m * 2 ^ (52 - e) - 2 ^ 52)))"

text \<open>One round over the active peers: who has not answered in time, and who is asked now.\<close>

fun ping_scan :: "rat \<Rightarrow> int \<Rightarrow> bytes list \<Rightarrow> (ID \<times> int) list \<Rightarrow> (ID \<times> int) list \<times> bytes list \<times> bytes list" where
  "ping_scan timeout now [] aw = (aw, [], [])"
| "ping_scan timeout now (h # hs) aw =
     (case idFrom h of
        None \<Rightarrow> ping_scan timeout now hs aw
      | Some pid \<Rightarrow>
          (case map_of aw pid of
             Some t \<Rightarrow>
               if timeout > 0 \<and> of_int (now - t) / 1000000000 > timeout
               then (let (aw', drops, pings) = ping_scan timeout now hs aw in (aw', h # drops, pings))
               else ping_scan timeout now hs aw
           | None \<Rightarrow>
               (let (aw', drops, pings) = ping_scan timeout now hs (AList.update pid now aw) in (aw', drops, h # pings))))"

primrec disconnect_all :: "svc_env \<Rightarrow> bytes list \<Rightarrow> sworld \<Rightarrow> sworld" where
  "disconnect_all E [] w = w"
| "disconnect_all E (h # hs) w = disconnect_all E hs (Disconnect (sx_hub E) h w)"

primrec ping_all :: "svc_env \<Rightarrow> int \<Rightarrow> bytes list \<Rightarrow> sworld \<Rightarrow> sworld" where
  "ping_all E now [] w = w"
| "ping_all E now (h # hs) w =
     (case SendPing (sx_hub E) h (VFloat (float64_bits (now div 1000000000))) w of
        (w1, None) \<Rightarrow> ping_all E now hs (inc ''pings_out'' 1 w1)
      | (w1, Some _) \<Rightarrow> ping_all E now hs w1)"

definition pingOnce :: "svc_env \<Rightarrow> sworld \<Rightarrow> sworld" where
  "pingOnce E w =
     (if PingIntervalS (sv_cfg (svc w)) \<le> 0 then w
      else
        let (aw, drops, pings) =
              ping_scan (PingTimeoutS (sv_cfg (svc w))) (w_now w) (ActivePeerHashes (w_hub w)) (sv_awaiting (svc w));
            w1 = with_svc (\<lambda>s. s\<lparr>sv_awaiting := aw\<rparr>) w
        in ping_all E (w_now w) pings (disconnect_all E drops w1))"

definition pruneOnce :: "svc_env \<Rightarrow> sworld \<Rightarrow> sworld" where
  "pruneOnce E w =
     (let s = svc w;
          occupied = map fst (filter (\<lambda>(_, n). n > 0) (OccupiedRooms (w_hub w)));
          res = PruneUnused (sx_write E (sv_rooms s)) (w_now w) (RoomRegistryPruneAfterS (sv_cfg s)) occupied
                  (st_started (sv_stats s)) (sv_rooms s);
          w1 = with_svc (\<lambda>s. s\<lparr>sv_rooms := fst res\<rparr>) w
      in if snd res \<noteq> [] then bumpStatus w1 else w1)"

definition svc_Stop :: "svc_env \<Rightarrow> sworld \<Rightarrow> sworld" where
  "svc_Stop E w = Resources_Clear (Close (sx_hub E) w)"

subsection \<open>Frames\<close>

lemma idFrom_id [simp]: "length b = IdentityLength \<Longrightarrow> idFrom b = Some b"
  by (simp add: idFrom_def)

lemma svc_frame [simp]:
  "w_hub (with_svc f w) = w_hub w" "w_now (with_svc f w) = w_now w" "w_pol (with_svc f w) = f (w_pol w)"
  "w_hub (inc key n w) = w_hub w" "w_now (inc key n w) = w_now w"
  "w_hub (bumpStatus w) = w_hub w" "w_now (bumpStatus w) = w_now w"
  "w_hub (fst (with_rooms E fn w)) = w_hub w" "w_now (fst (with_rooms E fn w)) = w_now w"
  by (simp_all add: with_svc_def inc_def bumpStatus_def with_rooms_def Let_def)

lemma svc_fields [simp]:
  "sv_rooms (w_pol (inc key n w)) = sv_rooms (w_pol w)" "sv_trust (w_pol (inc key n w)) = sv_trust (w_pol w)"
  "sv_cfg (w_pol (inc key n w)) = sv_cfg (w_pol w)" "sv_res (w_pol (inc key n w)) = sv_res (w_pol w)"
  "sv_awaiting (w_pol (inc key n w)) = sv_awaiting (w_pol w)"
  "sv_rooms (w_pol (bumpStatus w)) = sv_rooms (w_pol w)" "sv_trust (w_pol (bumpStatus w)) = sv_trust (w_pol w)"
  "sv_cfg (w_pol (bumpStatus w)) = sv_cfg (w_pol w)" "sv_res (w_pol (bumpStatus w)) = sv_res (w_pol w)"
  by (simp_all add: inc_def bumpStatus_def)

lemma with_rooms_fields [simp]:
  "sv_rooms (w_pol (fst (with_rooms E fn w))) = fst (fn (sx_write E (sv_rooms (w_pol w))) (sv_rooms (w_pol w)))"
  "sv_trust (w_pol (fst (with_rooms E fn w))) = sv_trust (w_pol w)"
  "sv_cfg (w_pol (fst (with_rooms E fn w))) = sv_cfg (w_pol w)"
  by (simp_all add: with_rooms_def Let_def)

lemma send_notices_frame [simp]:
  "w_hub (send_notices E peer room ts w) = w_hub w" "w_pol (send_notices E peer room ts w) = w_pol w"
  "w_now (send_notices E peer room ts w) = w_now w"
  by (induction ts arbitrary: w) simp_all

lemma notice_frame [simp]:
  "w_hub (notice E peer room text w) = w_hub w" "w_pol (notice E peer room text w) = w_pol w"
  "w_now (notice E peer room text w) = w_now w"
  by (simp_all add: notice_def)

lemma errorTo_frame [simp]:
  "w_hub (errorTo E peer room text w) = w_hub w" "w_now (errorTo E peer room text w) = w_now w"
  "sv_rooms (w_pol (errorTo E peer room text w)) = sv_rooms (w_pol w)"
  "sv_trust (w_pol (errorTo E peer room text w)) = sv_trust (w_pol w)"
  "sv_cfg (w_pol (errorTo E peer room text w)) = sv_cfg (w_pol w)"
  by (simp_all add: errorTo_def)

lemma hub_ops_pol [simp]:
  "w_pol (Disconnect X peer w) = w_pol w" "w_now (Disconnect X peer w) = w_now w"
  "w_pol (fst (RemoveFromRoom X peer room w)) = w_pol w"
  by (simp_all add: Disconnect_def RemoveFromRoom_def Let_def split: option.split)

lemma Resources_Send_hub [simp]:
  "w_hub (fst (Resources_Send E peer kind payload room encoding w)) = w_hub w"
  by (simp add: Resources_Send_def Let_def split: option.split sum.split)

lemma noticeChunksOrResource_hub [simp]:
  "w_hub (noticeChunksOrResource E peer room text kind w) = w_hub w"
proof -
  obtain w1 b where r: "Resources_Send E peer kind (bytes_of_string text) room ''utf-8'' w = (w1, b)" by fastforce
  have "w_hub w1 = w_hub w" using Resources_Send_hub [of E peer kind "bytes_of_string text" room "''utf-8''" w] r by simp
  with r show ?thesis by (cases b) (simp_all add: noticeChunksOrResource_def)
qed

lemma Resources_Add_hub [simp]: "w_hub (fst (Resources_Add peer env w)) = w_hub w"
  by (simp add: Resources_Add_def Let_def split: prod.split option.split)

subsection \<open>Every command keeps the invariant of the hub\<close>

abbreviation svc_ok :: "svc_env \<Rightarrow> sworld \<Rightarrow> bool" where
  "svc_ok E w \<equiv> hub_ok False (x_lower (sx_hub E)) (w_hub w)"

lemma server_commands_ok:
  assumes "svc_ok E w"
  shows "svc_ok E (cmdReload E peer pid w)" "svc_ok E (cmdStats E peer pid w)" "svc_ok E (cmdList E peer w)"
    "svc_ok E (cmdWho E peer pid room parts w)" "svc_ok E (cmdKline E peer pid parts w)"
proof -
  show "svc_ok E (cmdReload E peer pid w)"
    using assms by (simp add: cmdReload_def requireServerOp_def Reload_def Let_def ApplyRuntime_ok split: option.split sum.split)
  show "svc_ok E (cmdStats E peer pid w)" using assms by (simp add: cmdStats_def requireServerOp_def)
  show "svc_ok E (cmdList E peer w)" using assms by (simp add: cmdList_def Let_def)
  show "svc_ok E (cmdWho E peer pid room parts w)" using assms by (simp add: cmdWho_def Let_def split: sum.split)
  have add: "svc_ok E (kline_add E peer token w)" for token
    using assms by (simp add: kline_add_def Let_def Disconnect_ok split: sum.split)
  have del: "svc_ok E (kline_del E peer token w)" for token
    using assms by (simp add: kline_del_def split: sum.split prod.split bool.split)
  show "svc_ok E (cmdKline E peer pid parts w)"
    using assms add del by (simp add: cmdKline_def requireServerOp_def Let_def)
qed

lemma room_commands_ok:
  assumes "svc_ok E w"
  shows "svc_ok E (cmdKick E peer pid room parts w)" "svc_ok E (cmdRegister E peer pid room parts w)"
    "svc_ok E (cmdUnregister E peer pid room parts w)" "svc_ok E (cmdTopic E peer pid room parts w)"
    "svc_ok E (cmdPriv E peer pid room cmd parts w)" "svc_ok E (cmdBan E peer pid room parts w)"
    "svc_ok E (cmdInvite E peer pid room parts w)"
  using assms
  by (simp_all add: cmdKick_def cmdRegister_def cmdUnregister_def cmdTopic_def cmdPriv_def cmdBan_def cmdInvite_def
      invite_add_def requireRoomOp_def Let_def RemoveFromRoom_ok with_rooms_def split: sum.split option.split)

lemma cmdMode_ok: "svc_ok E w \<Longrightarrow> svc_ok E (cmdMode E peer pid room parts w)"
  by (simp add: cmdMode_def mode_target_def mode_flag_def requireRoomOp_def Let_def with_rooms_def split: sum.split option.split)

lemma handleCommand_ok: "svc_ok E w \<Longrightarrow> svc_ok E (handleCommand E peer room text w)"
  by (simp add: handleCommand_def Let_def server_commands_ok room_commands_ok cmdMode_ok split: list.split option.split)

text \<open>The daemon fulfils the contract of the hub.\<close>

interpretation gd: hub_policy_laws "sx_hub E" "Some (svc_policy E)" False for E
proof unfold_locales
  fix pol a r b i e and w :: sworld
  assume P: "Some (svc_policy E) = Some pol"
  show "w_hub (fst (pol_OnIdentified pol a w)) = w_hub w" using P by (auto simp: svc_policy_def svc_OnIdentified_def)
  show "w_hub (fst (pol_AllowJoin pol a r b w)) = w_hub w"
    using P by (auto simp: svc_policy_def svc_AllowJoin_def Let_def split: option.split)
  show "w_hub (fst (pol_AllowContent pol a e w)) = w_hub w" using P by (auto simp: svc_policy_def svc_AllowContent_def Let_def)
  show "w_hub (fst (pol_OnResourceEnvelope pol a e w)) = w_hub w" using P by (auto simp: svc_policy_def svc_OnResourceEnvelope_def)
  show "w_hub (pol_OnPong pol a w) = w_hub w" using P by (auto simp: svc_policy_def svc_OnPong_def split: option.split)
  show "w_hub (pol_AfterPart pol a r w) = w_hub w" using P by (auto simp: svc_policy_def svc_AfterPart_def Let_def)
  show "w_hub (fst (pol_Intercept pol a e w)) = w_hub w" if "\<not> snd (pol_Intercept pol a e w)"
    using P that by (auto simp: svc_policy_def svc_Intercept_def Let_def split: option.split)
  assume ok: "svc_ok E w"
  show "svc_ok E (pol_OnLink pol i w)" using P ok by (auto simp: svc_policy_def svc_OnLink_def Resources_OnLink_def)
  show "svc_ok E (pol_AfterWelcome pol a w)" using P ok by (auto simp: svc_policy_def svc_AfterWelcome_def Let_def)
  show "svc_ok E (pol_AfterJoin pol a r w)" using P ok by (auto simp: svc_policy_def svc_AfterJoin_def Let_def)
  show "svc_ok E (fst (pol_Intercept pol a e w))"
    using P ok by (auto simp: svc_policy_def svc_Intercept_def Let_def handleCommand_ok split: option.split)
qed simp

subsection \<open>The running daemon\<close>

text \<open>
  What happens to the daemon: a step of its hub, a report of the hub to the daemon's counters, a round of one
  of the workers, an announced or finished resource, and the end.
\<close>

inductive daemon_step :: "svc_env \<Rightarrow> sworld \<Rightarrow> sworld \<Rightarrow> bool" for E :: svc_env where
  hub: "hub_step (sx_hub E) (Some (svc_policy E)) w w' \<Longrightarrow> daemon_step E w w'"
| report: "ev \<in> set (w_log w) \<Longrightarrow> daemon_step E w (svc_event ev w)"
| ping: "daemon_step E w (pingOnce E w)"
| prune: "daemon_step E w (pruneOnce E w)"
| cleanup: "daemon_step E w (Resources_Cleanup w)"
| announced: "daemon_step E w (fst (advertised i n w))"
| finished: "daemon_step E w (concluded E i payload w)"
| stop: "daemon_step E w (svc_Stop E w)"

inductive daemon_reachable :: "svc_env \<Rightarrow> sworld \<Rightarrow> bool" for E :: svc_env where
  start: "w_hub w = NewHub sender cfg \<Longrightarrow> daemon_reachable E w"
| step: "daemon_reachable E w \<Longrightarrow> daemon_step E w w' \<Longrightarrow> daemon_reachable E w'"

lemma svc_event_hub [simp]: "w_hub (svc_event ev w) = w_hub w"
  by (cases ev) (simp_all add: bumpStatusForTraffic_def Let_def)

lemma resources_hub [simp]:
  "w_hub (Resources_Cleanup w) = w_hub w" "w_hub (Resources_Clear w) = w_hub w"
  "w_hub (fst (advertised i n w)) = w_hub w" "w_hub (concluded E i payload w) = w_hub w"
  by (simp_all add: Resources_Cleanup_def Resources_Clear_def advertised_def concluded_def Let_def split: option.split)

lemma ping_all_hub [simp]: "w_hub (ping_all E now hs w) = w_hub w"
proof (induction hs arbitrary: w)
  case (Cons h hs)
  obtain w1 e where s: "SendPing (sx_hub E) h (VFloat (float64_bits (now div 1000000000))) w = (w1, e)" by fastforce
  then have "w_hub w1 = w_hub w" by (metis fst_conv notices_frame(5))
  with s Cons.IH show ?case by (simp split: option.split)
qed simp

lemma disconnect_all_ok: "svc_ok E w \<Longrightarrow> svc_ok E (disconnect_all E hs w)"
  by (induction hs arbitrary: w) (simp_all add: Disconnect_ok)

lemma pruneOnce_hub [simp]: "w_hub (pruneOnce E w) = w_hub w"
  by (simp add: pruneOnce_def Let_def)

lemma daemon_step_ok: "daemon_step E w w' \<Longrightarrow> svc_ok E w \<Longrightarrow> svc_ok E w'"
proof (induction rule: daemon_step.induct)
  case (hub w w')
  then show ?case by (rule gd.step_ok)
next
  case (ping w)
  then show ?case by (simp add: pingOnce_def Let_def disconnect_all_ok split: prod.split)
next
  case (stop w)
  then show ?case using Close_ok [OF stop] by (simp add: svc_Stop_def)
qed simp_all

lemma daemon_ok: "daemon_reachable E w \<Longrightarrow> svc_ok E w"
proof (induction rule: daemon_reachable.induct)
  case (start w sender cfg)
  then have "hub_reachable (sx_hub E) (Some (svc_policy E)) w" by (rule hub_reachable.start)
  then show ?case by (rule gd.reachable_ok)
next
  case (step w w')
  then show ?case by (blast intro: daemon_step_ok)
qed

lemma Disconnect_unlisted:
  assumes "hub_ok g (x_lower X) (w_hub w)" and "length k = IdentityLength"
  shows "map_of (h_peers (w_hub (Disconnect X k w))) k = None"
proof (cases "map_of (h_peers (w_hub w)) k")
  case (Some i)
  note p = hub_ok_peer [OF assms(1) Some]
  have "hub_inv (x_lower X) (w_hub w)" using assms(1) by (simp add: hub_ok_def)
  from hub_invD(7,8) [OF this Some] have "\<not> p_closed (obj w i)" "k \<noteq> []" by blast+
  with Some p assms(2) show ?thesis by (simp add: Disconnect_def close_core_def Let_def delete_conv')
qed (use assms(2) in \<open>simp add: Disconnect_def\<close>)

end
