(* ===== verification/Gorrcd_Rights.thy ===== *)
theory Gorrcd_Rights
  imports Gorrcd_Service
begin

text \<open>
  Who may change what: the effect of a slash command on a room the sender does not operate.  A server
  operator (a trusted identity) operates every room.
\<close>

subsection \<open>Changes of the registry reach one room\<close>

lemma changes_local [room_simps]:
  "r \<noteq> room \<Longrightarrow> room_of (fst (Register io now room pid g)) r = room_of g r"
  "r \<noteq> room \<Longrightarrow> room_of (fst (Unregister io room g)) r = room_of g r"
  "r \<noteq> room \<Longrightarrow> room_of (fst (SetFlag io now room flag on key g)) r = room_of g r"
  "r \<noteq> room \<Longrightarrow> room_of (SetTopic now room topic g) r = room_of g r"
  "room_of (fst (Persist io g)) r = room_of g r"
  by (simp_all add: Register_def Unregister_def SetFlag_def SetTopic_def Persist_def Let_def room_simps
      split: option.split sum.split)

lemma sets_local [room_simps]:
  assumes "r \<noteq> room"
  shows "room_of (fst (AddOp io now room i g)) r = room_of g r" "room_of (fst (DelOp io now room i g)) r = room_of g r"
    "room_of (fst (AddVoice io now room i g)) r = room_of g r" "room_of (fst (DelVoice io now room i g)) r = room_of g r"
    "room_of (fst (AddBan io now room i g)) r = room_of g r" "room_of (fst (DelBan io now room i g)) r = room_of g r"
    "room_of (fst (AddInvite io now room i ttl g)) r = room_of g r" "room_of (fst (DelInvite io now room i g)) r = room_of g r"
  using assms
  by (simp_all add: AddOp_def DelOp_def AddVoice_def DelVoice_def AddBan_def DelBan_def AddInvite_def DelInvite_def
      room_simps)

subsection \<open>Spared rooms\<close>

text \<open>Neither the trust lists nor the configuration changed, nor anything about room \<open>r\<close> or who is in it.\<close>

definition spared :: "gostring \<Rightarrow> sworld \<Rightarrow> sworld \<Rightarrow> bool" where
  "spared r w w' \<longleftrightarrow>
     sv_trust (svc w') = sv_trust (svc w) \<and> sv_cfg (svc w') = sv_cfg (svc w)
     \<and> room_of (sv_rooms (svc w')) r = room_of (sv_rooms (svc w)) r
     \<and> (\<forall>i. r \<in> set (p_rooms (obj w' i)) \<longleftrightarrow> r \<in> set (p_rooms (obj w i)))"

lemma spared_refl [simp]: "spared r w w"
  by (simp add: spared_def)

lemma spared_talk [simp]:
  "spared r w (notice E peer room text w') = spared r w w'"
  "spared r w (errorTo E peer room text w') = spared r w w'"
  "spared r w (BroadcastNotice X room text w') = spared r w w'"
  by (simp_all add: spared_def)

lemma spared_rooms:
  assumes "spared r w w'" and "\<And>io g. room_of (fst (fn io g)) r = room_of g r"
  shows "spared r w (fst (with_rooms E fn w'))"
  using assms by (simp add: spared_def)

lemma spared_rooms_case:
  assumes "spared r w w'" and "\<And>io g. room_of (fst (fn io g)) r = room_of g r"
    and "\<And>w1. spared r w w1 \<Longrightarrow> spared r w (f w1)" and "\<And>w1 e. spared r w w1 \<Longrightarrow> spared r w (k w1 e)"
  shows "spared r w (case with_rooms E fn w' of (w1, None) \<Rightarrow> f w1 | (w1, Some e) \<Rightarrow> k w1 e)"
proof -
  obtain w1 e where r: "with_rooms E fn w' = (w1, e)" by fastforce
  then have "spared r w w1" using spared_rooms [of r w w' fn E] assms(1,2) by simp
  with r assms(3,4) show ?thesis by (simp split: option.split)
qed

lemma spared_remove:
  assumes "spared r w w'" and "r \<noteq> room" and "NormalizeRoom (x_lower X) room = room"
  shows "spared r w (fst (RemoveFromRoom X peer room w'))"
proof -
  have "r \<in> set (p_rooms (obj (fst (RemoveFromRoom X peer room w')) i)) \<longleftrightarrow> r \<in> set (p_rooms (obj w' i))" for i
    using assms(2,3) by (simp add: RemoveFromRoom_def Let_def split: option.split)
  with assms(1) show ?thesis by (simp add: spared_def)
qed

lemma requireRoomOp_spared:
  assumes "\<not> IsOp (sv_rooms (svc w)) r pid (trusted w pid)" and "r' \<noteq> r \<Longrightarrow> spared r w (k w)"
  shows "spared r w (requireRoomOp E peer pid r' w k)"
  using assms by (auto simp: requireRoomOp_def)

lemma requireServerOp_spared:
  assumes "\<not> IsOp (sv_rooms (svc w)) r pid (trusted w pid)"
  shows "spared r w (requireServerOp E peer pid w k)"
  using assms by (auto simp: requireServerOp_def IsOp_def)

lemma normRoom_normal:
  "lower_table (x_lower (sx_hub E)) \<Longrightarrow> normRoom E w name = Inr r \<Longrightarrow> NormalizeRoom (x_lower (sx_hub E)) r = r"
  by (auto simp: normRoom_def Let_def NormalizeRoom_idem split: if_splits)

lemma Founder_op: "Founder g r = Some pid \<Longrightarrow> IsOp g r pid sop"
  by (auto simp: Founder_def IsOp_def split: option.splits if_splits)

subsection \<open>Commands\<close>

lemma server_commands_spare:
  assumes "\<not> IsOp (sv_rooms (svc w)) r pid (trusted w pid)"
  shows "spared r w (cmdReload E peer pid w)" "spared r w (cmdStats E peer pid w)" "spared r w (cmdList E peer w)"
    "spared r w (cmdWho E peer pid room parts w)" "spared r w (cmdKline E peer pid parts w)"
  by (simp_all add: cmdReload_def cmdStats_def cmdList_def cmdWho_def cmdKline_def requireServerOp_spared [OF assms] Let_def
      split: sum.split)

lemma cmdKick_spares:
  assumes "\<not> IsOp (sv_rooms (svc w)) r pid (trusted w pid)" and "lower_table (x_lower (sx_hub E))"
  shows "spared r w (cmdKick E peer pid room parts w)"
  using normRoom_normal [OF assms(2), of w "parts ! 1"]
  by (auto simp: cmdKick_def Let_def split: sum.split intro!: requireRoomOp_spared [OF assms(1)] spared_remove)

lemma cmdRegister_spares:
  assumes "\<not> IsOp (sv_rooms (svc w)) r pid (trusted w pid)"
  shows "spared r w (cmdRegister E peer pid room parts w)" "spared r w (cmdUnregister E peer pid room parts w)"
proof -
  have ne: "Founder (sv_rooms (svc w)) r' = Some pid \<Longrightarrow> r \<noteq> r'" for r'
    using assms Founder_op by blast
  show "spared r w (cmdRegister E peer pid room parts w)"
    by (auto simp: cmdRegister_def room_simps dest!: ne split: sum.split intro!: spared_rooms_case)
  show "spared r w (cmdUnregister E peer pid room parts w)"
    by (auto simp: cmdUnregister_def room_simps dest!: ne split: sum.split intro!: spared_rooms_case)
qed

lemma cmdPriv_spares:
  assumes "\<not> IsOp (sv_rooms (svc w)) r pid (trusted w pid)"
  shows "spared r w (cmdPriv E peer pid room cmd parts w)"
  by (auto simp: cmdPriv_def Let_def room_simps split: sum.split intro!: requireRoomOp_spared [OF assms] spared_rooms)

lemma cmdMode_spares:
  assumes "\<not> IsOp (sv_rooms (svc w)) r pid (trusted w pid)"
  shows "spared r w (cmdMode E peer pid room parts w)"
  by (auto simp: cmdMode_def mode_target_def mode_flag_def Let_def room_simps split: sum.split
      intro!: requireRoomOp_spared [OF assms] spared_rooms spared_rooms_case)

lemma cmdBan_spares:
  assumes "\<not> IsOp (sv_rooms (svc w)) r pid (trusted w pid)" and "lower_table (x_lower (sx_hub E))"
  shows "spared r w (cmdBan E peer pid room parts w)"
  using normRoom_normal [OF assms(2), of w "parts ! 1"]
  by (auto simp: cmdBan_def Let_def room_simps split: sum.split
      intro!: requireRoomOp_spared [OF assms(1)] spared_rooms spared_remove)

lemma cmdInvite_spares:
  assumes "\<not> IsOp (sv_rooms (svc w)) r pid (trusted w pid)"
  shows "spared r w (cmdInvite E peer pid room parts w)"
  by (auto simp: cmdInvite_def invite_add_def Let_def room_simps split: sum.split
      intro!: requireRoomOp_spared [OF assms] spared_rooms)

text \<open>Anybody may set the topic of a room that is not \<^verbatim>\<open>+t\<close>.\<close>

lemma room_of_SetTopic:
  "room_of (SetTopic now room topic g) room = Some ((ensured g room)\<lparr>rs_Topic := topic, rs_LastUsed := unix now\<rparr>)"
  by (simp add: SetTopic_def room_simps ensured_def split: option.split)

lemma cmdTopic_spares:
  assumes "\<not> IsOp (sv_rooms (svc w)) r pid (trusted w pid)"
  shows "sv_trust (svc (cmdTopic E peer pid room parts w)) = sv_trust (svc w)
    \<and> sv_cfg (svc (cmdTopic E peer pid room parts w)) = sv_cfg (svc w)
    \<and> (\<forall>i. r \<in> set (p_rooms (obj (cmdTopic E peer pid room parts w) i)) \<longleftrightarrow> r \<in> set (p_rooms (obj w i)))
    \<and> (room_of (sv_rooms (svc (cmdTopic E peer pid room parts w))) r = room_of (sv_rooms (svc w)) r
       \<or> \<not> TopicOpsOnly (sv_rooms (svc w)) r \<and>
         (\<exists>topic. room_of (sv_rooms (svc (cmdTopic E peer pid room parts w))) r
            = Some ((ensured (sv_rooms (svc w)) r)\<lparr>rs_Topic := topic, rs_LastUsed := unix (w_now w)\<rparr>)))"
proof (cases "length parts \<ge> 3")
  case False
  then show ?thesis by (simp add: cmdTopic_def Let_def split: sum.split)
next
  case True
  show ?thesis
  proof (cases "normRoom E w (parts ! 1)")
    case (Inl e)
    with True show ?thesis by (simp add: cmdTopic_def)
  next
    case (Inr r')
    with True assms show ?thesis
      by (cases "r' = r") (auto simp: cmdTopic_def Let_def room_simps room_of_SetTopic)
  qed
qed

text \<open>Every other command spares the room.\<close>

lemma handleCommand_spares:
  assumes "idFrom peer = Some pid" and "\<not> IsOp (sv_rooms (svc w)) r pid (trusted w pid)"
    and "lower_table (x_lower (sx_hub E))"
  shows "(\<exists>parts. handleCommand E peer room text w = cmdTopic E peer pid room parts w)
    \<or> spared r w (handleCommand E peer room text w)"
proof (cases "splitCmd text")
  case Nil
  then show ?thesis by (simp add: handleCommand_def)
next
  case (Cons c ps)
  let ?c = "ToLower (x_lower (sx_hub E)) c"
  note eq = handleCommand_def [of E peer room "text" w, unfolded Cons list.case Let_def assms(1) option.case]
  show ?thesis
  proof (cases "?c = ''topic''")
    case True
    then have "handleCommand E peer room text w = cmdTopic E peer pid room (c # ps) w" unfolding eq by simp
    then show ?thesis by blast
  next
    case False
    then have "spared r w (handleCommand E peer room text w)" unfolding eq
      by (simp add: server_commands_spare [OF assms(2)] cmdKick_spares [OF assms(2,3)] cmdRegister_spares [OF assms(2)]
          cmdPriv_spares [OF assms(2)] cmdMode_spares [OF assms(2)] cmdBan_spares [OF assms(2,3)] cmdInvite_spares [OF assms(2)])
    then show ?thesis ..
  qed
qed

end
