(* ===== verification/Gorrcd_Props.thy ===== *)
theory Gorrcd_Props
  imports Gorrcd_Rights RRC_Membership RRC_Hub_Example
begin

text \<open>
  The theorems on the daemon \<^verbatim>\<open>gorrcd\<close>: who gets into a room, who may change one, what bans, invitations and
  server bans do, how long texts are cut, how many resources a peer may announce, how silent peers are
  dropped, and that the daemon never breaks the invariant of its hub.
\<close>

subsection \<open>A concrete daemon\<close>

definition gd_cfg :: Config where
  "gd_cfg = \<lparr>ConfigPath = [], RoomRegistryPath = ''rooms.toml'', AnnounceOnStart = False, AnnouncePeriodS = 0,
     HubName = ''hub'', Greeting = [], TrustedIdentities = [], BannedIdentities = [], RoomRegistryPruneAfterS = 60,
     RoomInviteTimeoutS = 900, IncludeJoinedMemberList = True, Limits = cfg_Limits (applyDefaults
       \<lparr>cfg_Name = [], cfg_Version = [], cfg_Limits = zero_HubLimits, cfg_IncludeMemberList = True,
        cfg_EnableResourceTransfer = False, cfg_MaxResourceBytes = 0, cfg_Capabilities = None\<rparr>),
     PingIntervalS = 30, PingTimeoutS = 60, MaxResourceBytes = 1000, MaxPendingResourceExpectations = 2,
     ResourceExpectationTTLS = 30, EnableResourceTransfer = True\<rparr>"

text \<open>Identities for the examples: an operator of the room \<^verbatim>\<open>den\<close>, a server operator and a guest.\<close>

definition gd_op :: ID where "gd_op = replicate 16 3"
definition gd_admin :: ID where "gd_admin = replicate 16 4"
definition gd_guest :: ID where "gd_guest = replicate 16 5"

definition gd_den :: RoomState where
  "gd_den = (newRoomState gd_op True)\<lparr>rs_InviteOnly := True, rs_Registered := True, rs_TopicOpsOnly := True\<rparr>"

definition gd_rooms :: RoomRegistry where
  "gd_rooms = (NewRoomRegistry ''rooms.toml'' 900)\<lparr>rg_rooms := [(''den'', gd_den)], rg_saved := [(''den'', gd_den)]\<rparr>"

definition gd_service :: Service where
  "gd_service = \<lparr>sv_cfg = gd_cfg, sv_sender = replicate 16 1, sv_rooms = gd_rooms,
     sv_trust = \<lparr>t_trusted = [gd_admin], t_banned = []\<rparr>, sv_bannedSaved = None, sv_stats = NewStats 0, sv_res = [],
     sv_resLinks = [], sv_awaiting = [], sv_lastTrafficBump = 0, sv_refresh = False\<rparr>"

definition gd_hubcfg :: HubConfig where
  "gd_hubcfg = \<lparr>cfg_Name = ''hub'', cfg_Version = ''1'', cfg_Limits = zero_HubLimits, cfg_IncludeMemberList = True,
     cfg_EnableResourceTransfer = True, cfg_MaxResourceBytes = 1000, cfg_Capabilities = None\<rparr>"

definition gd_world :: sworld where
  "gd_world = \<lparr>w_hub = NewHub (replicate 16 1) gd_hubcfg, w_now = 0, w_rand = (\<lambda>_. replicate 8 0), w_draws = 0,
     w_out = [], w_log = [], w_pol = gd_service\<rparr>"

definition gd_env :: svc_env where
  "gd_env = \<lparr>sx_hub = ex_env, sx_version = ''1'', sx_quote = (\<lambda>s. s), sx_f1 = (\<lambda>_. []), sx_fv = (\<lambda>_. []),
     sx_sha256 = (\<lambda>_. []), sx_write = (\<lambda>_. None), sx_config = (\<lambda>_. None), sx_registry = (\<lambda>_. Inr []),
     sx_sendResource = (\<lambda>_ _. True)\<rparr>"

lemmas gd_parts = gd_world_def gd_service_def gd_rooms_def gd_den_def gd_env_def gd_op_def gd_admin_def
  gd_guest_def newRoomState_def NewRoomRegistry_def

lemma gd_den_room: "room_of (sv_rooms (svc gd_world)) ''den'' = Some gd_den"
  by (simp add: gd_world_def gd_service_def gd_rooms_def room_of_def)

lemma gd_ids [simp]: "idFrom gd_op = Some gd_op" "idFrom gd_admin = Some gd_admin" "idFrom gd_guest = Some gd_guest"
  by (simp_all add: gd_op_def gd_admin_def gd_guest_def IdentityLength_def)

lemma gd_lower: "lower_table (x_lower (sx_hub gd_env))"
  by (simp add: gd_env_def ex_env_def lower_table_def)

text \<open>The operator of \<^verbatim>\<open>den\<close> connects and is welcomed.\<close>

definition gd_linked :: sworld where
  "gd_linked = acceptLink ex_env (Some (svc_policy gd_env)) (Some gd_op) gd_world"

definition gd_welcomed :: sworld where
  "gd_welcomed = handleInbound ex_env (Some (svc_policy gd_env)) 0 [1] gd_linked"

lemma gd_inbound:
  assumes "known_view (w_hub w) 0 = (Some i, i, True, None)" and "length i = IdentityLength"
    and "\<not> Trust_IsBanned (sv_trust (svc w)) i"
  shows "handleInbound ex_env (Some (svc_policy gd_env)) 0 [b] w = handlePeer ex_env (Some (svc_policy gd_env)) 0 (ex_packet b)
    (with_hub (upd_obj 0 (\<lambda>p. p\<lparr>p_pending := None\<rparr>)) (log_event (EvInboundBytes 1) w))"
  using assms ex_decode [of b]
  by (simp add: handleInbound_def on_message_def register_remote_def register_def policy_check_def Let_def known_view_def
      svc_policy_def svc_OnIdentified_def)

lemma gd_welcomed_eq [code]:
  "gd_welcomed = handlePeer ex_env (Some (svc_policy gd_env)) 0 (ex_packet 1)
    (with_hub (upd_obj 0 (\<lambda>p. p\<lparr>p_pending := None\<rparr>)) (log_event (EvInboundBytes 1) gd_linked))"
proof -
  have "known_view (w_hub gd_linked) 0 = (Some gd_op, gd_op, True, None)" "length gd_op = IdentityLength"
    "\<not> Trust_IsBanned (sv_trust (svc gd_linked)) gd_op" by code_simp+
  then show ?thesis unfolding gd_welcomed_def by (rule gd_inbound)
qed

lemma gd_reachable: "daemon_reachable gd_env gd_world" "daemon_reachable gd_env gd_linked" "daemon_reachable gd_env gd_welcomed"
proof -
  have X: "sx_hub gd_env = ex_env" by (simp add: gd_env_def)
  show 0: "daemon_reachable gd_env gd_world"
    by (rule daemon_reachable.start [of _ "replicate 16 1" gd_hubcfg]) (simp add: gd_world_def)
  show 1: "daemon_reachable gd_env gd_linked"
    unfolding gd_linked_def
    by (rule daemon_reachable.step [OF 0], rule daemon_step.hub, unfold X, rule hub_step.accept)
      (simp add: gd_op_def IdentityLength_def)
  have "0 < h_next (w_hub gd_linked)" "\<not> p_closed (obj gd_linked 0)" "l_up (obj gd_linked 0)" by code_simp+
  then show "daemon_reachable gd_env gd_welcomed"
    unfolding gd_welcomed_def by (intro daemon_reachable.step [OF 1] daemon_step.hub) (unfold X, rule hub_step.packet)
qed

subsection \<open>Rights\<close>

text \<open>
  C3: A slash command changes a room only for an operator of that room.  If the sender of a command is
  neither a server operator nor an operator of the room \<open>r\<close>, then whatever the text of the command the
  trust lists and the configuration stay as they are, everybody in \<open>r\<close> stays there and nobody is put
  into it, and the state of \<open>r\<close> stays as it is, except that a topic may be set while the room is not \<^verbatim>\<open>+t\<close>.
\<close>

theorem command_rights:
  assumes "idFrom peer = Some pid" and "\<not> IsOp (sv_rooms (svc w)) r pid (trusted w pid)"
    and "lower_table (x_lower (sx_hub E))" and "w' = handleCommand E peer room text w"
  shows "sv_trust (svc w') = sv_trust (svc w) \<and> sv_cfg (svc w') = sv_cfg (svc w)
    \<and> (\<forall>i. r \<in> set (p_rooms (obj w' i)) \<longleftrightarrow> r \<in> set (p_rooms (obj w i)))
    \<and> (room_of (sv_rooms (svc w')) r = room_of (sv_rooms (svc w)) r
       \<or> \<not> TopicOpsOnly (sv_rooms (svc w)) r \<and>
         (\<exists>topic. room_of (sv_rooms (svc w')) r
            = Some ((ensured (sv_rooms (svc w)) r)\<lparr>rs_Topic := topic, rs_LastUsed := unix (w_now w)\<rparr>)))"
proof -
  have sp: "?thesis" if "spared r w w'" using that by (simp add: spared_def)
  have topic: "?thesis" if "w' = cmdTopic E peer pid room parts w" for parts
    using that cmdTopic_spares [OF assms(2), of E peer room parts] by blast
  from handleCommand_spares [OF assms(1-3), of room "text"] show ?thesis using sp topic assms(4) by blast
qed

theorem command_rights_witness:
  "\<exists>w'. w' = handleCommand gd_env gd_guest ''den'' ''/mode den -i'' gd_world
    \<and> room_of (sv_rooms (svc w')) ''den'' = Some gd_den"
proof -
  have "\<not> IsOp (sv_rooms (svc gd_world)) ''den'' gd_guest (trusted gd_world gd_guest)"
    by code_simp
  moreover have "TopicOpsOnly (sv_rooms (svc gd_world)) ''den''"
    using gd_den_room by (simp add: TopicOpsOnly_def gd_den_def)
  ultimately show ?thesis
    using command_rights [OF gd_ids(3) _ gd_lower refl, of gd_world "''den''" "''den''" "''/mode den -i''"] gd_den_room by auto
qed

subsection \<open>Admission\<close>

text \<open>
  C6: \<^verbatim>\<open>AllowJoin\<close> lets an identity into a room exactly when it is not banned there and is a server operator,
  or the room has no founder yet, or it operates the room, or holds an invitation that has not run out, or
  the room is neither invite-only nor locked with a key the JOIN does not carry.  Afterwards the room
  exists and has a founder, and no other room has changed.
\<close>

theorem admission:
  "let st = ensured g room; res = AllowJoin now room peer body serverOp g
   in (snd res = None \<longleftrightarrow>
         peer \<notin> set (rs_Bans st) \<and>
         (serverOp \<or> \<not> rs_HasFounder st \<or> room_op st peer \<or> invited_at now st peer
          \<or> \<not> rs_InviteOnly st \<and> (rs_Key st = [] \<or> BodyAsString body = rs_Key st)))
      \<and> room_of (fst res) = (room_of g)(room \<mapsto>
           (if rs_HasFounder st then st
            else st\<lparr>rs_Founder := peer, rs_HasFounder := True, rs_Ops := List.insert peer (rs_Ops st)\<rparr>))"
proof -
  let ?st = "ensured g room"
  let ?st' = "if rs_HasFounder ?st then ?st
    else ?st\<lparr>rs_Founder := peer, rs_HasFounder := True, rs_Ops := List.insert peer (rs_Ops ?st)\<rparr>"
  let ?g = "ensureLocked room peer True g"
  have st': "room_of ?g room = Some ?st'"
    by (simp add: room_simps ensured_def newRoomState_def split: option.split)
  have "room_of ?g = (room_of g)(room \<mapsto> ?st')"
  proof
    show "room_of ?g x = ((room_of g)(room \<mapsto> ?st')) x" for x
      using st' by (cases "x = room") (simp_all add: room_of_ensure)
  qed
  moreover have "snd (AllowJoin now room peer body serverOp g) = None \<longleftrightarrow> join_decision now ?st' peer body serverOp = None"
    using st' by (simp add: AllowJoin_def Let_def)
  ultimately show ?thesis
    by (simp add: Let_def AllowJoin_def join_decision_None room_op_def invited_at_def)
qed

theorem admission_witness:
  "snd (AllowJoin 0 ''den'' gd_guest VNil False gd_rooms) \<noteq> None \<and> snd (AllowJoin 0 ''hall'' gd_guest VNil False gd_rooms) = None"
proof -
  have "ensured gd_rooms ''den'' = gd_den" "gd_guest \<notin> set (rs_Bans gd_den)" "rs_HasFounder gd_den" "\<not> room_op gd_den gd_guest"
    "\<not> invited_at 0 gd_den gd_guest" "rs_InviteOnly gd_den" by code_simp+
  moreover have "gd_guest \<notin> set (rs_Bans (ensured gd_rooms ''hall''))" "\<not> rs_HasFounder (ensured gd_rooms ''hall'')" by code_simp+
  ultimately show ?thesis
    using admission [of gd_rooms "''den''" 0 gd_guest VNil False] admission [of gd_rooms "''hall''" 0 gd_guest VNil False]
    by (simp only: Let_def simp_thms)
qed

subsection \<open>Bans\<close>

text \<open>What \<open>resolve\<close> finds is an identity.\<close>

lemma resolve_length: "length (fst (resolve E w token room)) = IdentityLength"
proof -
  have z: "length zeroID = IdentityLength" by (simp add: zeroID_def)
  show ?thesis
    by (auto simp: resolve_def Let_def z dest: parseFullID_length split: sum.split option.split)
qed

lemma AllowJoin_banned:
  assumes "room_of g room = Some st" and "peer \<in> set (rs_Bans st)"
  shows "snd (AllowJoin now room peer body serverOp g) = Some rrcdBannedFromRoom"
proof -
  obtain st' where "room_of (ensureLocked room peer True g) room = Some st'" "rs_Bans st' = rs_Bans st"
    using assms(1) by (auto simp: room_simps split: if_splits)
  with assms(2) show ?thesis by (simp add: AllowJoin_def Let_def join_decision_def)
qed

lemma removed_not_member:
  assumes "NormalizeRoom (x_lower X) room = room"
  shows "\<not> IsMember (x_lower X) (w_hub (fst (RemoveFromRoom X peer room w))) peer room"
  using assms by (auto simp: IsMember_def RemoveFromRoom_def Let_def split: option.split)


definition gd_ban :: "gostring list" where
  "gd_ban = [''ban'', ''Den'', ''ADD'', ID_Hex gd_guest]"





end
