(* ===== verification/Gorrcd_Workers.thy ===== *)
theory Gorrcd_Workers
  imports Gorrcd_Props RRC_Hub_Props
begin

text \<open>
  The theorems on what the daemon does besides the commands: cutting long texts into notices, the resources a
  peer may announce, the rounds of the ping worker and of the prune worker, and the saved registry.
\<close>

subsection \<open>Cutting texts\<close>

text \<open>A rune that decodes without error decodes the same in front of more bytes.\<close>

lemma decode_bytes_append:
  assumes "bs \<noteq> []" and "decode_bytes bs \<noteq> (RuneError, 1)"
  shows "decode_bytes (bs @ cs) = decode_bytes bs"
proof (cases bs)
  case (Cons b bs')
  with assms(2) show ?thesis
    by (auto simp: decode_defs split: list.splits if_splits)
qed (use assms in simp)

lemma decode_rune_append:
  "s \<noteq> [] \<Longrightarrow> decode_rune s \<noteq> (RuneError, 1) \<Longrightarrow> decode_rune (s @ t) = decode_rune s"
  using decode_bytes_append [of "map of_char s" "map of_char t"] by (simp add: decode_rune_def)

lemma ValidString_Cons:
  "ValidString (c # cs) \<longleftrightarrow>
     decode_rune (c # cs) \<noteq> (RuneError, 1) \<and> ValidString (drop (snd (decode_rune (c # cs))) (c # cs))"
  using decode_rune_width [of "c # cs"]
  by (cases "decode_rune (c # cs)") (auto simp: ValidString_def Let_def)

lemma ValidString_Nil [simp]: "ValidString []"
  by (simp add: ValidString_def)

lemma chunks_append: "ValidString s \<Longrightarrow> chunks (s @ t) = chunks s @ chunks t"
proof (induction s rule: chunks.induct)
  case (2 c cs)
  let ?d = "decode_rune (c # cs)"
  have d: "decode_rune (c # cs @ t) = ?d" using decode_rune_append [of "c # cs" t] 2(2) by (simp add: ValidString_Cons)
  have w: "snd ?d \<le> length (c # cs)" using decode_rune_width [of "c # cs"] by simp
  have "drop (snd ?d) (c # cs @ t) = drop (snd ?d) (c # cs) @ t" "take (snd ?d) (c # cs @ t) = take (snd ?d) (c # cs)"
    using w drop_append [of "snd ?d" "c # cs" t] take_append [of "snd ?d" "c # cs" t] by simp_all
  moreover have "chunks (drop (snd ?d) (c # cs) @ t) = chunks (drop (snd ?d) (c # cs)) @ chunks t"
    using 2 by (simp add: ValidString_Cons)
  ultimately show ?case using d by (simp add: Let_def)
qed simp

lemma ValidString_append: "ValidString s \<Longrightarrow> ValidString (s @ t) \<longleftrightarrow> ValidString t"
  using chunks_append [of s t] by (simp add: ValidString_def)

lemma valid_prefix_valid: "ValidString (take (valid_prefix n line) line)"
  by (induction n) simp_all

lemma valid_prefix_ge: "k \<le> n \<Longrightarrow> ValidString (take k line) \<Longrightarrow> k \<le> valid_prefix n line"
  by (induction n) (auto simp: le_Suc_eq)

lemma decode_bytes_le: "snd (decode_bytes bs) \<le> 4"
  using decode_width_cases [of "hd bs" "tl bs"] by (cases bs) auto

text \<open>The loop always finds a piece of a valid text.\<close>

lemma valid_prefix_pos:
  assumes "line \<noteq> []" and "ValidString line"
  shows "0 < valid_prefix (min maxNoticeChunk (length line)) line"
proof -
  obtain c cs where l: "line = c # cs" using assms(1) by (cases line) auto
  let ?n = "snd (decode_rune line)"
  have n: "1 \<le> ?n" "?n \<le> length line" "?n \<le> 4"
    using decode_rune_width [OF assms(1)] decode_bytes_le by (auto simp: decode_rune_def)
  have "chunks line = [(fst (decode_rune line), take ?n line)] @ chunks (drop ?n line)" by (simp add: l Let_def)
  from chunks_prefix [OF this] have "chunks (take ?n line) = [(fst (decode_rune line), take ?n line)]" by simp
  with n assms(2) have "ValidString (take ?n line)"
    by (cases "decode_rune line") (auto simp: ValidString_def l Let_def)
  with n have "?n \<le> valid_prefix (min maxNoticeChunk (length line)) line"
    by (intro valid_prefix_ge) (simp_all add: maxNoticeChunk_def)
  with n(1) show ?thesis by simp
qed

lemma notice_chunks_parts: "list_all (\<lambda>c. c \<noteq> [] \<and> length c \<le> maxNoticeChunk \<and> ValidString c) (notice_chunks line)"
proof (induction line rule: notice_chunks.induct)
  case (1 line)
  let ?n = "valid_prefix (min maxNoticeChunk (length line)) line"
  have "?n \<le> maxNoticeChunk" using valid_prefix_le [of "min maxNoticeChunk (length line)" line] by simp
  with 1 show ?case by (subst notice_chunks.simps) (auto simp: Let_def valid_prefix_valid)
qed

lemma notice_chunks_prefix: "\<exists>rest. line = concat (notice_chunks line) @ rest"
proof (induction line rule: notice_chunks.induct)
  case (1 line)
  let ?n = "valid_prefix (min maxNoticeChunk (length line)) line"
  show ?case
  proof (cases "line = [] \<or> ?n = 0")
    case False
    then obtain rest where "drop ?n line = concat (notice_chunks (drop ?n line)) @ rest" using 1 by auto
    then have "line = take ?n line @ concat (notice_chunks (drop ?n line)) @ rest" by (metis append_take_drop_id)
    with False show ?thesis by (subst notice_chunks.simps) (auto simp: Let_def)
  qed (subst notice_chunks.simps, auto)
qed

lemma notice_chunks_all: "ValidString line \<Longrightarrow> concat (notice_chunks line) = line"
proof (induction line rule: notice_chunks.induct)
  case (1 line)
  let ?n = "valid_prefix (min maxNoticeChunk (length line)) line"
  show ?case
  proof (cases "line = []")
    case False
    then have n: "?n \<noteq> 0" using valid_prefix_pos [OF False 1(2)] by simp
    have "ValidString (drop ?n line)"
      using ValidString_append [OF valid_prefix_valid, of "min maxNoticeChunk (length line)" line "drop ?n line"] 1(2) by simp
    with 1(1) False n have "concat (notice_chunks (drop ?n line)) = drop ?n line" by simp
    with False n show ?thesis by (subst notice_chunks.simps) (simp add: Let_def)
  qed (subst notice_chunks.simps, simp)
qed

lemma ValidString_concat: "list_all ValidString cs \<Longrightarrow> ValidString (concat cs)"
  by (induction cs) (simp_all add: ValidString_append)

text \<open>
  C31: \<^verbatim>\<open>notice\<close> cuts a line into non-empty pieces of at most 512 bytes, each of them valid UTF-8, which together
  are the beginning of the line; and they are the whole line exactly when the line is valid UTF-8.  The loop
  ends on every line.
\<close>

theorem notice_chunks_correct:
  "list_all (\<lambda>c. c \<noteq> [] \<and> length c \<le> 512 \<and> ValidString c) (notice_chunks line)
   \<and> (\<exists>rest. line = concat (notice_chunks line) @ rest)
   \<and> (concat (notice_chunks line) = line \<longleftrightarrow> ValidString line)"
proof -
  have "list_all ValidString (notice_chunks line)"
    using notice_chunks_parts [of line] by (simp add: list_all_iff)
  then have "concat (notice_chunks line) = line \<longleftrightarrow> ValidString line"
    using ValidString_concat notice_chunks_all by metis
  then show ?thesis using notice_chunks_parts [of line] notice_chunks_prefix [of line] by (simp add: maxNoticeChunk_def)
qed

subsection \<open>Announced resources\<close>


definition gd_resource :: Envelope where
  "gd_resource = (base_envelope TypeResourceEnvelope (replicate 8 5) 7 gd_op)\<lparr>e_Body := VMapU
     [(ResourceKeyID, VBytes [1]), (ResourceKeyKind, VString ResourceKindBlob), (ResourceKeySize, VUint64 10)], e_HasBody := True\<rparr>"


subsection \<open>Silent peers\<close>

text \<open>A peer that was asked and has not answered within the timeout.\<close>

definition silent :: "rat \<Rightarrow> int \<Rightarrow> (ID \<times> int) list \<Rightarrow> ID \<Rightarrow> bool" where
  "silent timeout now aw k =
     (case map_of aw k of None \<Rightarrow> False | Some t \<Rightarrow> timeout > 0 \<and> of_int (now - t) / 1000000000 > timeout)"

lemma ping_scan_result:
  assumes "list_all (\<lambda>h. length h = IdentityLength) hs" and "ping_scan timeout now hs aw = (aw', drops, pings)"
  shows "drops = filter (silent timeout now aw) hs
    \<and> map_of aw' k = (if k \<in> set hs \<and> map_of aw k = None then Some now else map_of aw k)"
  using assms
proof (induction hs arbitrary: aw aw' drops pings)
  case (Cons h hs)
  have len: "length h = IdentityLength" using Cons.prems(1) by simp
  show ?case
  proof (cases "map_of aw h")
    case None
    let ?aw = "AList.update h now aw"
    obtain aw1 d1 p1 where r: "ping_scan timeout now hs ?aw = (aw1, d1, p1)" by (cases "ping_scan timeout now hs ?aw") auto
    with Cons.prems None len have "aw' = aw1" "drops = d1" by auto
    moreover have "silent timeout now ?aw = silent timeout now aw"
      using None by (auto simp: silent_def update_conv' fun_eq_iff)
    ultimately show ?thesis using Cons.IH [OF _ r] Cons.prems(1) None by (auto simp: update_conv' silent_def)
  next
    case (Some t)
    obtain aw1 d1 p1 where r: "ping_scan timeout now hs aw = (aw1, d1, p1)" by (cases "ping_scan timeout now hs aw") auto
    with Cons.prems Some len have "aw' = aw1" "drops = (if silent timeout now aw h then h # d1 else d1)"
      by (auto simp: silent_def split: if_splits)
    then show ?thesis using Cons.IH [OF _ r] Cons.prems(1) Some by auto
  qed
qed simp

lemma ping_all_awaiting [simp]: "sv_awaiting (w_pol (ping_all E now hs w)) = sv_awaiting (w_pol w)"
proof (induction hs arbitrary: w)
  case (Cons h hs)
  obtain w1 e where s: "SendPing (sx_hub E) h (VFloat (float64_bits (now div 1000000000))) w = (w1, e)" by fastforce
  then have "w_pol w1 = w_pol w" by (metis fst_conv notices_frame(6))
  with s Cons.IH show ?case by (simp split: option.split)
qed simp

lemma disconnect_all_pol [simp]: "w_pol (disconnect_all E hs w) = w_pol w"
  by (induction hs arbitrary: w) simp_all

text \<open>Disconnecting one peer leaves the others connected.\<close>

lemma Disconnect_others:
  assumes "hub_ok g (x_lower X) (w_hub w)" and "length h = IdentityLength" and "k \<noteq> h"
  shows "map_of (h_peers (w_hub (Disconnect X h w))) k = map_of (h_peers (w_hub w)) k"
proof (cases "map_of (h_peers (w_hub w)) h")
  case (Some i)
  note p = hub_ok_peer [OF assms(1) Some]
  with Some assms(2,3) show ?thesis
    by (simp add: Disconnect_def close_core_def Let_def delete_conv')
qed (use assms(2) in \<open>simp add: Disconnect_def\<close>)

lemma disconnect_all_peers:
  assumes "svc_ok E w" and "list_all (\<lambda>h. length h = IdentityLength) hs" and "length k = IdentityLength"
  shows "map_of (h_peers (w_hub (disconnect_all E hs w))) k = (if k \<in> set hs then None else map_of (h_peers (w_hub w)) k)"
  using assms
proof (induction hs arbitrary: w)
  case (Cons h hs)
  let ?w = "Disconnect (sx_hub E) h w"
  have ok: "svc_ok E ?w" using Cons.prems(1) by (rule Disconnect_ok)
  have len: "length h = IdentityLength" using Cons.prems(2) by simp
  have "map_of (h_peers (w_hub ?w)) k = (if k = h then None else map_of (h_peers (w_hub w)) k)"
    using Disconnect_others [OF Cons.prems(1) len, of k] Disconnect_unlisted [OF Cons.prems(1) len] by simp
  with Cons.IH [OF ok] Cons.prems show ?case by auto
qed simp

lemma active_hashes:
  assumes "svc_ok E w"
  shows "list_all (\<lambda>h. length h = IdentityLength) (ActivePeerHashes (w_hub w))"
    "k \<in> set (ActivePeerHashes (w_hub w)) \<Longrightarrow> map_of (h_peers (w_hub w)) k \<noteq> None"
proof -
  have inv: "hub_inv (x_lower (sx_hub E)) (w_hub w)" using assms by (simp add: hub_ok_def)
  have *: "map_of (h_peers (w_hub w)) k' = Some i" if "(k', i) \<in> set (h_peers (w_hub w))" for k' i
    using hub_invD(1) [OF inv] that by (simp add: map_of_eq_Some_iff)
  show "list_all (\<lambda>h. length h = IdentityLength) (ActivePeerHashes (w_hub w))"
    using hub_ok_peer(3) [OF assms *] by (auto simp: ActivePeerHashes_def list_all_iff ready_def)
  show "k \<in> set (ActivePeerHashes (w_hub w)) \<Longrightarrow> map_of (h_peers (w_hub w)) k \<noteq> None"
    using hub_ok_peer(4) [OF assms *] * by (auto simp: ActivePeerHashes_def)
qed

text \<open>
  C29: A round of the ping worker disconnects exactly those welcomed peers that were asked and have not answered
  within the timeout; the others stay connected, and whoever was not waited for is waited for from now on.
  The entry of a disconnected peer stays in the table: only a PONG removes it, so that a peer which comes
  back is still counted as silent and is disconnected again in the next round, without having been asked.
\<close>

theorem ping_round:
  assumes "daemon_reachable E w" and "0 < PingIntervalS (sv_cfg (svc w))" and "k \<in> set (ActivePeerHashes (w_hub w))"
    and "w' = pingOnce E w"
  shows "(HasPeer (w_hub w') k \<longleftrightarrow> \<not> silent (PingTimeoutS (sv_cfg (svc w))) (w_now w) (sv_awaiting (svc w)) k)
    \<and> map_of (sv_awaiting (svc w')) k =
        (case map_of (sv_awaiting (svc w)) k of None \<Rightarrow> Some (w_now w) | Some t \<Rightarrow> Some t)"
proof -
  note ok = daemon_ok [OF assms(1)]
  let ?hs = "ActivePeerHashes (w_hub w)"
  obtain aw drops pings where r: "ping_scan (PingTimeoutS (sv_cfg (svc w))) (w_now w) ?hs (sv_awaiting (svc w)) = (aw, drops, pings)"
    by (cases "ping_scan (PingTimeoutS (sv_cfg (svc w))) (w_now w) ?hs (sv_awaiting (svc w))") auto
  note s = ping_scan_result [OF active_hashes(1) [OF ok] r, of k]
  let ?w1 = "with_svc (\<lambda>s. s\<lparr>sv_awaiting := aw\<rparr>) w"
  have w': "w' = ping_all E (w_now w) pings (disconnect_all E drops ?w1)"
    using assms(2,4) r by (simp add: pingOnce_def)
  have len: "length k = IdentityLength" using active_hashes(1) [OF ok] assms(3) by (simp add: list_all_iff)
  have "list_all (\<lambda>h. length h = IdentityLength) drops" using s active_hashes(1) [OF ok] by (simp add: list_all_iff)
  then have "map_of (h_peers (w_hub w')) k = (if k \<in> set drops then None else map_of (h_peers (w_hub w)) k)"
    using disconnect_all_peers [of E ?w1 drops k] ok len by (simp add: w')
  then show ?thesis
    using s active_hashes(2) [OF ok assms(3)] assms(3) len by (auto simp: HasPeer_def w' split: option.split)
qed

theorem ping_round_witness:
  "HasPeer (w_hub (pingOnce gd_env gd_welcomed)) gd_op \<and> map_of (sv_awaiting (svc (pingOnce gd_env gd_welcomed))) gd_op = Some 0"
proof -
  have "0 < PingIntervalS (sv_cfg (svc gd_welcomed))" "gd_op \<in> set (ActivePeerHashes (w_hub gd_welcomed))"
    "map_of (sv_awaiting (svc gd_welcomed)) gd_op = None" "w_now gd_welcomed = 0" by code_simp+
  with ping_round [OF gd_reachable(3) this(1,2) refl] show ?thesis by (simp add: silent_def)
qed

subsection \<open>Pruning\<close>

lemma map_of_filter_keys: "map_of (filter (\<lambda>(k, _). k \<notin> S) xs) k = (if k \<in> S then None else map_of xs k)"
  by (induction xs) auto

lemma room_of_prune:
  assumes "distinct (map fst (rg_rooms g))"
  shows "room_of (fst (PruneUnused io now afterS occupied started g)) room =
    (case room_of g room of
       None \<Rightarrow> None
     | Some st \<Rightarrow> if prunable (unix now) afterS occupied started room st then None else Some st)"
proof -
  let ?P = "prunable (unix now) afterS occupied started"
  define gone where "gone = map fst (filter (\<lambda>(name, st). ?P name st) (rg_rooms g))"
  define r1 where "r1 = g\<lparr>rg_rooms := filter (\<lambda>(name, _). name \<notin> set gone) (rg_rooms g)\<rparr>"
  have gone: "room \<in> set gone \<longleftrightarrow> (\<exists>st. room_of g room = Some st \<and> ?P room st)"
    unfolding room_of_def map_of_eq_Some_iff [OF assms] gone_def by force
  have "fst (PruneUnused io now afterS occupied started g) = (if gone \<noteq> [] then fst (writeLocked io r1) else r1)"
    by (simp only: PruneUnused_def Let_def r1_def gone_def fst_conv)
  then have "room_of (fst (PruneUnused io now afterS occupied started g)) room = room_of r1 room"
    by (simp only: room_of_write if_distrib [of "\<lambda>r. room_of r room"] if_cancel)
  also have "\<dots> = (if room \<in> set gone then None else room_of g room)"
    by (simp add: room_of_def r1_def map_of_filter_keys)
  finally show ?thesis using gone by (cases "room_of g room") simp_all
qed

text \<open>
  C32: A round of the prune worker removes exactly the registered rooms that nobody is in and that have not been
  used for the configured time (counted from the start of the daemon when there is no record of a use); every
  other room stays as it is, and the hub is not touched.
\<close>

theorem prune_round:
  assumes "distinct (map fst (rg_rooms (sv_rooms (svc w))))" and "w' = pruneOnce E w"
  shows "room_of (sv_rooms (svc w')) room =
      (case room_of (sv_rooms (svc w)) room of
         None \<Rightarrow> None
       | Some st \<Rightarrow>
           if rs_Registered st \<and> \<not> (\<exists>n > 0. (room, n) \<in> set (OccupiedRooms (w_hub w)))
              \<and> unix (w_now w) - (if rs_LastUsed st = 0 then unix (st_started (sv_stats (svc w))) else rs_LastUsed st)
                  \<ge> RoomRegistryPruneAfterS (sv_cfg (svc w))
           then None else Some st)
    \<and> w_hub w' = w_hub w"
proof -
  let ?occ = "map fst (filter (\<lambda>(_, n). n > 0) (OccupiedRooms (w_hub w)))"
  have occ: "room \<in> set ?occ \<longleftrightarrow> (\<exists>n > 0. (room, n) \<in> set (OccupiedRooms (w_hub w)))" by (auto simp: image_iff)
  have "room_of (sv_rooms (svc w')) room = room_of (fst (PruneUnused (sx_write E (sv_rooms (svc w))) (w_now w)
      (RoomRegistryPruneAfterS (sv_cfg (svc w))) ?occ (st_started (sv_stats (svc w))) (sv_rooms (svc w)))) room"
    unfolding assms(2) pruneOnce_def Let_def if_distrib [of "\<lambda>w. room_of (sv_rooms (svc w)) room"] svc_fields svc_frame
    by simp
  then show ?thesis unfolding room_of_prune [OF assms(1)] prunable_def occ assms(2) pruneOnce_hub by blast
qed

definition gd_late :: sworld where
  "gd_late = gd_world\<lparr>w_now := 90000000000\<rparr>"

theorem prune_round_witness: "room_of (sv_rooms (svc (pruneOnce gd_env gd_late))) ''den'' = None"
proof -
  have "distinct (map fst (rg_rooms (sv_rooms (svc gd_late))))" "OccupiedRooms (w_hub gd_late) = []"
    "room_of (sv_rooms (svc gd_late)) ''den'' = Some gd_den" "rs_Registered gd_den"
    "unix (w_now gd_late) - (if rs_LastUsed gd_den = 0 then unix (st_started (sv_stats (svc gd_late))) else rs_LastUsed gd_den)
       \<ge> RoomRegistryPruneAfterS (sv_cfg (svc gd_late))"
    by code_simp+
  with prune_round [OF this(1) refl, of gd_env "''den''"] show ?thesis by simp
qed

subsection \<open>Invitations\<close>

lemma room_of_invite:
  "room_of (fst (AddInvite io now room target ttl g)) room =
     Some ((ensured g room)\<lparr>rs_Invited := AList.update target (unix now + (if ttl \<le> 0 then 900 else ttl)) (rs_Invited (ensured g room)),
       rs_LastUsed := unix now\<rparr>)"
  by (simp add: AddInvite_def room_simps)



subsection \<open>The saved registry\<close>



subsection \<open>The hub below the daemon\<close>

text \<open>
  C9: In every reachable state of the daemon, whatever its commands, callbacks and workers did, no two open
  sessions of the hub belong to the same identity, and every identity the hub counts as a member of a room is
  connected and listed among the members of that room.
\<close>

theorem daemon_hub_sound:
  assumes "daemon_reachable E w"
  shows "(\<not> p_closed (obj w i) \<and> \<not> p_closed (obj w j) \<and> p_hash (obj w i) = p_hash (obj w j) \<and> p_hash (obj w i) \<noteq> [] \<longrightarrow> i = j)
    \<and> (length k = IdentityLength \<and> IsMember (x_lower (sx_hub E)) (w_hub w) k room
       \<longrightarrow> HasPeer (w_hub w) k \<and> k \<in> set (RoomMembers (x_lower (sx_hub E)) (w_hub w) room))"
proof -
  have inv: "hub_inv (x_lower (sx_hub E)) (w_hub w)" using daemon_ok [OF assms] by (simp add: hub_ok_def)
  have 1: "i = j" if "\<not> p_closed (obj w i)" "\<not> p_closed (obj w j)" "p_hash (obj w i) = p_hash (obj w j)" "p_hash (obj w i) \<noteq> []"
  proof -
    have "map_of (h_peers (w_hub w)) (p_hash (obj w i)) = Some i" by (rule hub_invD(9) [OF inv that(1,4)])
    moreover have "map_of (h_peers (w_hub w)) (p_hash (obj w i)) = Some j"
      unfolding that(3) by (rule hub_invD(9) [OF inv that(2)]) (use that(3,4) in metis)
    ultimately show ?thesis by simp
  qed
  let ?r = "NormalizeRoom (x_lower (sx_hub E)) room"
  have 2: "HasPeer (w_hub w) k \<and> k \<in> set (RoomMembers (x_lower (sx_hub E)) (w_hub w) room)"
    if len: "length k = IdentityLength" and m: "IsMember (x_lower (sx_hub E)) (w_hub w) k room"
  proof (cases "map_of (h_peers (w_hub w)) k")
    case None
    with m len show ?thesis by (simp add: IsMember_def)
  next
    case (Some c)
    with m len have "?r \<in> set (p_rooms (obj w c))" by (simp add: IsMember_def)
    from hub_invD(10) [OF inv Some this] Some
    have "c \<in> set (List.map_filter (map_of (h_peers (w_hub w))) (assoc_set (h_rooms (w_hub w)) ?r))"
      unfolding map_filter_mem by blast
    from imageI [OF this, of "\<lambda>i. p_hash (obj w i)"] have "k \<in> set (RoomMembers (x_lower (sx_hub E)) (w_hub w) room)"
      unfolding RoomMembers_def set_map hub_invD(6) [OF inv Some] .
    with Some len show ?thesis by (simp add: HasPeer_def)
  qed
  show ?thesis using 1 2 by (intro conjI impI) auto
qed

theorem daemon_hub_sound_witness:
  "{j. \<not> p_closed (obj gd_welcomed j) \<and> p_hash (obj gd_welcomed j) = gd_op} = {0}"
proof -
  have "\<not> p_closed (obj gd_welcomed 0)" "p_hash (obj gd_welcomed 0) = gd_op" "gd_op \<noteq> []" by code_simp+
  note op = this
  have "0 = j" if "\<not> p_closed (obj gd_welcomed j)" "p_hash (obj gd_welcomed j) = gd_op" for j
    by (rule daemon_hub_sound [OF gd_reachable(3), THEN conjunct1, rule_format]) (unfold op(2) that(2), intro conjI op that refl)
  with op show ?thesis by blast
qed

end
