(* ===== verification/Msgpack.thy ===== *)
theory Msgpack
  imports Prelude
begin

text \<open>
  The part of the vendored MessagePack library (\<^verbatim>\<open>vendor/.../msgpack/v5/pkg/msgpack\<close>) that the LXST packet
  codec runs: the code bytes, the readers of \<^verbatim>\<open>decode.go\<close>, \<^verbatim>\<open>decode_number.go\<close>, \<^verbatim>\<open>decode_map.go\<close>,
  \<^verbatim>\<open>decode_slice.go\<close>, \<^verbatim>\<open>decode_string.go\<close> and \<^verbatim>\<open>ext.go\<close>, and the compact integer, array and map
  headers of the encoder.

  A reader takes the bytes that are left and returns a value with the bytes after it, or an error; the
  decoder runs over a \<^verbatim>\<open>bytes.Reader\<close>, so the number of bytes left is always known and the guards against
  oversized lengths are active.  \<^verbatim>\<open>io.EOF\<close> and \<^verbatim>\<open>io.ErrUnexpectedEOF\<close> are one error, which no caller tells
  apart.  The depth counter of \<^verbatim>\<open>enterDepth\<close> is the argument of \<open>Skip\<close>: the number of levels still allowed.
\<close>

datatype msgpack_error = EOF | InvalidCode byte | Oversized | DepthLimit

type_synonym 'a reader = "bytes \<Rightarrow> msgpack_error + 'a \<times> bytes"

subsection \<open>Big-endian numbers\<close>

definition be_nat :: "bytes \<Rightarrow> nat" where
  "be_nat b = foldl (\<lambda>a x. 256 * a + unat x) 0 b"

primrec be_bytes :: "nat \<Rightarrow> nat \<Rightarrow> bytes" where
  "be_bytes 0 n = []"
| "be_bytes (Suc k) n = be_bytes k (n div 256) @ [word_of_nat (n mod 256)]"

lemma be_nat_Nil [simp]: "be_nat [] = 0"
  by (simp add: be_nat_def)

lemma be_nat_snoc [simp]: "be_nat (xs @ [x]) = 256 * be_nat xs + unat x"
  by (simp add: be_nat_def)

lemma length_be_bytes [simp]: "length (be_bytes k n) = k"
  by (induction k arbitrary: n) auto

lemma be_nat_be_bytes [simp]: "be_nat (be_bytes k n) = n mod 256 ^ k"
proof (induction k arbitrary: n)
  case (Suc k)
  have "n mod (256 * 256 ^ k) = 256 * (n div 256 mod 256 ^ k) + n mod 256"
    by (rule mod_mult2_eq)
  then show ?case using Suc
    by (simp add: unat_of_nat take_bit_eq_mod)
qed simp

lemma sint_wrap:
  assumes "- (2 ^ (LENGTH('a) - 1)) \<le> n" "n < 2 ^ (LENGTH('a) - 1)"
  shows "sint (word_of_nat (nat (n mod 2 ^ LENGTH('a))) :: 'a :: len word) = n"
proof -
  have "(word_of_nat (nat (n mod 2 ^ LENGTH('a))) :: 'a word) = word_of_int (n mod 2 ^ LENGTH('a))"
    by simp
  also have "\<dots> = word_of_int n"
    by (simp add: word_of_int_eq_iff take_bit_eq_mod)
  finally show ?thesis using assms
    by (simp add: sint_sbintrunc' signed_take_bit_int_eq_self)
qed

subsection \<open>Codes\<close>

definition IsFixedNum :: "byte \<Rightarrow> bool" where
  "IsFixedNum c \<longleftrightarrow> c \<le> 0x7f \<or> c \<ge> 0xe0"

definition IsFixedMap :: "byte \<Rightarrow> bool" where
  "IsFixedMap c \<longleftrightarrow> c \<ge> 0x80 \<and> c \<le> 0x8f"

definition IsFixedArray :: "byte \<Rightarrow> bool" where
  "IsFixedArray c \<longleftrightarrow> c \<ge> 0x90 \<and> c \<le> 0x9f"

definition IsFixedString :: "byte \<Rightarrow> bool" where
  "IsFixedString c \<longleftrightarrow> c \<ge> 0xa0 \<and> c \<le> 0xbf"

definition IsFixedExt :: "byte \<Rightarrow> bool" where
  "IsFixedExt c \<longleftrightarrow> c \<ge> 0xd4 \<and> c \<le> 0xd8"

definition IsExt :: "byte \<Rightarrow> bool" where
  "IsExt c \<longleftrightarrow> IsFixedExt c \<or> c = 0xc7 \<or> c = 0xc8 \<or> c = 0xc9"

lemmas code_defs = IsFixedNum_def IsFixedMap_def IsFixedArray_def IsFixedString_def IsFixedExt_def IsExt_def

subsection \<open>Readers\<close>

definition readCode :: "byte reader" where
  "readCode s = (case s of [] \<Rightarrow> Inl EOF | c # r \<Rightarrow> Inr (c, r))"

definition PeekCode :: "bytes \<Rightarrow> msgpack_error + byte" where
  "PeekCode s = (case s of [] \<Rightarrow> Inl EOF | c # r \<Rightarrow> Inr c)"

definition readN :: "nat \<Rightarrow> bytes reader" where
  "readN n s = (if n \<le> length s then Inr (take n s, drop n s) else Inl EOF)"

definition skipN :: "nat \<Rightarrow> bytes \<Rightarrow> msgpack_error + bytes" where
  "skipN n s = bindE (readN n s) (\<lambda>(_, r). Inr r)"

text \<open>\<^verbatim>\<open>uint8\<close>, \<^verbatim>\<open>uint16\<close>, \<^verbatim>\<open>uint32\<close> and \<^verbatim>\<open>uint64\<close>, the number of bytes being the argument.\<close>

definition read_uint :: "nat \<Rightarrow> nat reader" where
  "read_uint k s = bindE (readN k s) (\<lambda>(b, r). Inr (be_nat b, r))"

definition rejectOversizedContainer :: "nat \<Rightarrow> nat \<Rightarrow> bytes \<Rightarrow> msgpack_error + unit" where
  "rejectOversizedContainer n m s = (if n \<le> 0 \<or> m \<le> 0 then Inr () else if n > length s div m then Inl Oversized else Inr ())"

definition rejectOversizedBytes :: "nat \<Rightarrow> bytes \<Rightarrow> msgpack_error + unit" where
  "rejectOversizedBytes n s = (if n \<le> 0 then Inr () else if n > length s then Inl Oversized else Inr ())"

text \<open>A claimed length, checked against the bytes left; \<open>m\<close> is the least size of an element.\<close>

definition checked_len :: "nat \<Rightarrow> nat \<Rightarrow> int reader" where
  "checked_len m n s = bindE (rejectOversizedContainer n m s) (\<lambda>_. Inr (int n, s))"

definition mapLen :: "byte \<Rightarrow> int reader" where
  "mapLen c s =
     (if c = 0xc0 then Inr (-1, s)
      else if IsFixedMap c then checked_len 2 (unat (and c 0xf)) s
      else if c = 0xde then bindE (read_uint 2 s) (\<lambda>(n, r). checked_len 2 n r)
      else if c = 0xdf then bindE (read_uint 4 s) (\<lambda>(n, r). checked_len 2 n r)
      else Inl (InvalidCode c))"

definition arrayLen :: "byte \<Rightarrow> int reader" where
  "arrayLen c s =
     (if c = 0xc0 then Inr (-1, s)
      else if IsFixedArray c then checked_len 1 (unat (and c 0xf)) s
      else if c = 0xdc then bindE (read_uint 2 s) (\<lambda>(n, r). checked_len 1 n r)
      else if c = 0xdd then bindE (read_uint 4 s) (\<lambda>(n, r). checked_len 1 n r)
      else Inl (InvalidCode c))"

definition checked_bytes_len :: "nat \<Rightarrow> int reader" where
  "checked_bytes_len n s = bindE (rejectOversizedBytes n s) (\<lambda>_. Inr (int n, s))"

definition bytesLen :: "byte \<Rightarrow> int reader" where
  "bytesLen c s =
     (if c = 0xc0 then Inr (-1, s)
      else if IsFixedString c then checked_bytes_len (unat (and c 0x1f)) s
      else if c = 0xd9 \<or> c = 0xc4 then bindE (read_uint 1 s) (\<lambda>(n, r). checked_bytes_len n r)
      else if c = 0xda \<or> c = 0xc5 then bindE (read_uint 2 s) (\<lambda>(n, r). checked_bytes_len n r)
      else if c = 0xdb \<or> c = 0xc6 then bindE (read_uint 4 s) (\<lambda>(n, r). checked_bytes_len n r)
      else Inl (InvalidCode c))"

definition parseExtLen :: "byte \<Rightarrow> int reader" where
  "parseExtLen c s =
     (if c = 0xd4 then Inr (1, s) else if c = 0xd5 then Inr (2, s) else if c = 0xd6 then Inr (4, s)
      else if c = 0xd7 then Inr (8, s) else if c = 0xd8 then Inr (16, s)
      else if c = 0xc7 then bindE (read_uint 1 s) (\<lambda>(n, r). checked_bytes_len n r)
      else if c = 0xc8 then bindE (read_uint 2 s) (\<lambda>(n, r). checked_bytes_len n r)
      else if c = 0xc9 then bindE (read_uint 4 s) (\<lambda>(n, r). checked_bytes_len n r)
      else Inl (InvalidCode c))"

definition extHeaderLen :: "byte \<Rightarrow> nat" where
  "extHeaderLen c = (if c = 0xc7 then 1 else if c = 0xc8 then 2 else if c = 0xc9 then 4 else 0)"

definition skipExtHeader :: "byte \<Rightarrow> bytes \<Rightarrow> msgpack_error + bytes" where
  "skipExtHeader c s = bindE (readCode s) (\<lambda>(_, r). skipN (extHeaderLen c) r)"

definition DecodeMapLen :: "int reader" where
  "DecodeMapLen s =
     bindE (readCode s) (\<lambda>(c, r).
       if IsExt c then bindE (skipExtHeader c r) (\<lambda>r1. bindE (readCode r1) (\<lambda>(c1, r2). mapLen c1 r2))
       else mapLen c r)"

definition DecodeArrayLen :: "int reader" where
  "DecodeArrayLen s = bindE (readCode s) (\<lambda>(c, r). arrayLen c r)"

definition DecodeBytes :: "bytes reader" where
  "DecodeBytes s =
     bindE (readCode s) (\<lambda>(c, r).
       bindE (bytesLen c r) (\<lambda>(n, r1). if n = -1 then Inr ([], r1) else readN (nat n) r1))"

text \<open>The integer codes of \<^verbatim>\<open>Decoder.int\<close>; the packet codec tests for them before it decodes.\<close>

definition IsIntCode :: "byte \<Rightarrow> bool" where
  "IsIntCode c \<longleftrightarrow> IsFixedNum c \<or> c = 0xd0 \<or> c = 0xd1 \<or> c = 0xd2 \<or> c = 0xd3 \<or> c = 0xcc \<or> c = 0xcd \<or> c = 0xce \<or> c = 0xcf"

definition int_code :: "byte \<Rightarrow> int reader" where
  "int_code c s =
     (if c = 0xc0 then Inr (0, s)
      else if IsFixedNum c then Inr (sint c, s)
      else if c = 0xcc then bindE (read_uint 1 s) (\<lambda>(n, r). Inr (int n, r))
      else if c = 0xd0 then bindE (read_uint 1 s) (\<lambda>(n, r). Inr (sint (word_of_nat n :: byte), r))
      else if c = 0xcd then bindE (read_uint 2 s) (\<lambda>(n, r). Inr (int n, r))
      else if c = 0xd1 then bindE (read_uint 2 s) (\<lambda>(n, r). Inr (sint (word_of_nat n :: uint16), r))
      else if c = 0xce then bindE (read_uint 4 s) (\<lambda>(n, r). Inr (int n, r))
      else if c = 0xd2 then bindE (read_uint 4 s) (\<lambda>(n, r). Inr (sint (word_of_nat n :: uint32), r))
      else if c = 0xcf \<or> c = 0xd3 then bindE (read_uint 8 s) (\<lambda>(n, r). Inr (sint (word_of_nat n :: uint64), r))
      else Inl (InvalidCode c))"

definition DecodeInt :: "int reader" where
  "DecodeInt s = bindE (readCode s) (\<lambda>(c, r). int_code c r)"

subsection \<open>Skipping a value\<close>

text \<open>\<^verbatim>\<open>for range n { ... }\<close> over a body that may fail.\<close>

primrec loopE :: "nat \<Rightarrow> ('s \<Rightarrow> 'e + 's) \<Rightarrow> 's \<Rightarrow> 'e + 's" where
  "loopE 0 f s = Inr s"
| "loopE (Suc n) f s = bindE (f s) (loopE n f)"

definition skipBytes :: "byte \<Rightarrow> bytes \<Rightarrow> msgpack_error + bytes" where
  "skipBytes c s = bindE (bytesLen c s) (\<lambda>(n, r). if n \<le> 0 then Inr r else skipN (nat n) r)"

definition skipSlice :: "(bytes \<Rightarrow> msgpack_error + bytes) \<Rightarrow> byte \<Rightarrow> bytes \<Rightarrow> msgpack_error + bytes" where
  "skipSlice skip c s = bindE (arrayLen c s) (\<lambda>(n, r). loopE (nat n) skip r)"

definition skipMap :: "(bytes \<Rightarrow> msgpack_error + bytes) \<Rightarrow> byte \<Rightarrow> bytes \<Rightarrow> msgpack_error + bytes" where
  "skipMap skip c s = bindE (mapLen c s) (\<lambda>(n, r). loopE (nat n) (\<lambda>t. bindE (skip t) skip) r)"

definition skipExt :: "byte \<Rightarrow> bytes \<Rightarrow> msgpack_error + bytes" where
  "skipExt c s = bindE (parseExtLen c s) (\<lambda>(n, r). bindE (skipN 1 r) (skipN (nat n)))"

primrec Skip :: "nat \<Rightarrow> bytes \<Rightarrow> msgpack_error + bytes" where
  "Skip 0 s = Inl DepthLimit"
| "Skip (Suc d) s =
     bindE (readCode s) (\<lambda>(c, r).
       if IsFixedNum c then Inr r
       else if IsFixedMap c then skipMap (Skip d) c r
       else if IsFixedArray c then skipSlice (Skip d) c r
       else if IsFixedString c then skipBytes c r
       else if c = 0xc0 \<or> c = 0xc2 \<or> c = 0xc3 then Inr r
       else if c = 0xcc \<or> c = 0xd0 then skipN 1 r
       else if c = 0xcd \<or> c = 0xd1 then skipN 2 r
       else if c = 0xce \<or> c = 0xd2 \<or> c = 0xca then skipN 4 r
       else if c = 0xcf \<or> c = 0xd3 \<or> c = 0xcb then skipN 8 r
       else if c = 0xc4 \<or> c = 0xc5 \<or> c = 0xc6 then skipBytes c r
       else if c = 0xd9 \<or> c = 0xda \<or> c = 0xdb then skipBytes c r
       else if c = 0xdc \<or> c = 0xdd then skipSlice (Skip d) c r
       else if c = 0xde \<or> c = 0xdf then skipMap (Skip d) c r
       else if IsExt c then skipExt c r
       else Inl (InvalidCode c))"

subsection \<open>The encoder\<close>

definition EncodeUint :: "nat \<Rightarrow> bytes" where
  "EncodeUint n =
     (if n \<le> 127 then [word_of_nat n]
      else if n \<le> 255 then 0xcc # be_bytes 1 n
      else if n \<le> 65535 then 0xcd # be_bytes 2 n
      else if n \<le> 4294967295 then 0xce # be_bytes 4 n
      else 0xcf # be_bytes 8 n)"

definition EncodeInt :: "int \<Rightarrow> bytes" where
  "EncodeInt n =
     (if n \<ge> 0 then EncodeUint (nat n)
      else if n \<ge> -32 then [word_of_int n]
      else if n \<ge> -128 then 0xd0 # be_bytes 1 (nat (n mod 2 ^ 8))
      else if n \<ge> -32768 then 0xd1 # be_bytes 2 (nat (n mod 2 ^ 16))
      else if n \<ge> -2147483648 then 0xd2 # be_bytes 4 (nat (n mod 2 ^ 32))
      else 0xd3 # be_bytes 8 (nat (n mod 2 ^ 64)))"

definition EncodeArrayLen :: "nat \<Rightarrow> bytes" where
  "EncodeArrayLen l =
     (if l < 16 then [or 0x90 (word_of_nat l)]
      else if l \<le> 65535 then 0xdc # be_bytes 2 l
      else 0xdd # be_bytes 4 l)"

definition EncodeMapLen :: "nat \<Rightarrow> bytes" where
  "EncodeMapLen l =
     (if l < 16 then [or 0x80 (word_of_nat l)]
      else if l \<le> 65535 then 0xde # be_bytes 2 l
      else 0xdf # be_bytes 4 l)"

text \<open>\<^verbatim>\<open>Encode\<close> on a \<^verbatim>\<open>[]int\<close> and on a \<^verbatim>\<open>map[int][]int\<close> given in the order of its iteration.\<close>

definition EncodeInts :: "int list \<Rightarrow> bytes" where
  "EncodeInts xs = EncodeArrayLen (length xs) @ concat (map EncodeInt xs)"

definition EncodeIntsMap :: "(int \<times> int list) list \<Rightarrow> bytes" where
  "EncodeIntsMap m = EncodeMapLen (length m) @ concat (map (\<lambda>(k, xs). EncodeInt k @ EncodeInts xs) m)"

subsection \<open>What is written is read back\<close>

lemma readN_append [simp]: "readN (length b) (b @ r) = Inr (b, r)"
  by (simp add: readN_def)

lemma read_uint_be [simp]: "read_uint k (be_bytes k n @ r) = Inr (n mod 256 ^ k, r)"
  by (simp add: read_uint_def readN_def)

definition goint :: "int \<Rightarrow> bool" where
  "goint n \<longleftrightarrow> - (2 ^ 63) \<le> n \<and> n < 2 ^ 63"

lemma EncodeUint_read:
  assumes "n < 2 ^ 63"
  shows "\<exists>c t. EncodeUint n = c # t \<and> IsIntCode c \<and> int_code c (t @ r) = Inr (int n, r)"
proof -
  consider "n \<le> 127" | "127 < n" "n \<le> 255" | "255 < n" "n \<le> 65535" | "65535 < n" "n \<le> 4294967295" | "4294967295 < n"
    by linarith
  then show ?thesis
  proof cases
    case 1
    then have u: "unat (word_of_nat n :: byte) = n" by (simp add: unat_of_nat take_bit_eq_mod)
    have "sint (word_of_int (int n) :: byte) = int n" using 1
      by (subst sint_sbintrunc') (simp add: signed_take_bit_int_eq_self)
    then have s: "sint (word_of_nat n :: byte) = int n" by simp
    have f: "IsFixedNum (word_of_nat n)" using 1 u by (simp add: IsFixedNum_def word_le_nat_alt)
    moreover have "(word_of_nat n :: byte) \<noteq> 0xc0" using u 1 by auto
    ultimately show ?thesis using 1 s
      by (intro exI [of _ "word_of_nat n"] exI [of _ "[]"]) (auto simp: EncodeUint_def IsIntCode_def int_code_def)
  next
    case 2 then show ?thesis
      by (intro exI [of _ "0xcc"] exI [of _ "be_bytes 1 n"]) (auto simp: EncodeUint_def IsIntCode_def int_code_def IsFixedNum_def simp del: be_bytes.simps)
  next
    case 3 then show ?thesis
      by (intro exI [of _ "0xcd"] exI [of _ "be_bytes 2 n"]) (auto simp: EncodeUint_def IsIntCode_def int_code_def IsFixedNum_def)
  next
    case 4 then show ?thesis
      by (intro exI [of _ "0xce"] exI [of _ "be_bytes 4 n"]) (auto simp: EncodeUint_def IsIntCode_def int_code_def IsFixedNum_def)
  next
    case 5
    then have "n mod 256 ^ 8 = n" using assms by simp
    moreover have "sint (word_of_int (int n) :: uint64) = int n" using assms
      by (subst sint_sbintrunc') (simp add: signed_take_bit_int_eq_self)
    then have "sint (word_of_nat n :: uint64) = int n" by simp
    ultimately show ?thesis using 5
      by (intro exI [of _ "0xcf"] exI [of _ "be_bytes 8 n"]) (auto simp: EncodeUint_def IsIntCode_def int_code_def IsFixedNum_def)
  qed
qed

lemma EncodeInt_read:
  assumes "goint n"
  shows "\<exists>c t. EncodeInt n = c # t \<and> IsIntCode c \<and> int_code c (t @ r) = Inr (n, r)"
proof (cases "0 \<le> n")
  case True
  with assms have "nat n < 2 ^ 63" by (simp add: goint_def)
  from EncodeUint_read [OF this] True show ?thesis by (simp add: EncodeInt_def)
next
  case False
  note sgn = sint_wrap [where 'a = 8, of n] sint_wrap [where 'a = 16, of n] sint_wrap [where 'a = 32, of n] sint_wrap [where 'a = 64, of n]
  consider "n \<ge> -32" | "n < -32" "n \<ge> -128" | "n < -128" "n \<ge> -32768" | "n < -32768" "n \<ge> -2147483648" | "n < -2147483648"
    by linarith
  then show ?thesis
  proof cases
    case 1
    have s: "sint (word_of_int n :: byte) = n" using 1 False
      by (subst sint_sbintrunc') (simp add: signed_take_bit_int_eq_self)
    have "uint (word_of_int n :: byte) = n mod 2 ^ 8" by (simp add: unsigned_of_int take_bit_eq_mod)
    also have "\<dots> = (n + 2 ^ 8) mod 2 ^ 8" by simp
    also have "\<dots> = n + 256" using 1 False by (subst mod_pos_pos_trivial) auto
    finally have u: "uint (word_of_int n :: byte) = n + 256" .
    then have "IsFixedNum (word_of_int n)" using 1 by (simp add: IsFixedNum_def word_le_def)
    moreover have "(word_of_int n :: byte) \<noteq> 0xc0"
    proof
      assume e: "(word_of_int n :: byte) = 0xc0"
      show False using u 1 unfolding e by simp
    qed
    ultimately show ?thesis using 1 False s
      by (intro exI [of _ "word_of_int n"] exI [of _ "[]"]) (auto simp: EncodeInt_def IsIntCode_def int_code_def)
  next
    case 2 then show ?thesis using False sgn
      by (intro exI [of _ "0xd0"] exI [of _ "be_bytes 1 (nat (n mod 2 ^ 8))"])
        (auto simp: EncodeInt_def IsIntCode_def int_code_def IsFixedNum_def simp del: be_bytes.simps)
  next
    case 3 then show ?thesis using False sgn
      by (intro exI [of _ "0xd1"] exI [of _ "be_bytes 2 (nat (n mod 2 ^ 16))"])
        (auto simp: EncodeInt_def IsIntCode_def int_code_def IsFixedNum_def)
  next
    case 4 then show ?thesis using False sgn
      by (intro exI [of _ "0xd2"] exI [of _ "be_bytes 4 (nat (n mod 2 ^ 32))"])
        (auto simp: EncodeInt_def IsIntCode_def int_code_def IsFixedNum_def)
  next
    case 5 then show ?thesis using False sgn assms
      by (intro exI [of _ "0xd3"] exI [of _ "be_bytes 8 (nat (n mod 2 ^ 64))"])
        (auto simp: EncodeInt_def IsIntCode_def int_code_def IsFixedNum_def goint_def)
  qed
qed

lemma DecodeInt_EncodeInt:
  assumes "goint n"
  shows "DecodeInt (EncodeInt n @ r) = Inr (n, r)" "\<exists>c. PeekCode (EncodeInt n @ r) = Inr c \<and> IsIntCode c" "EncodeInt n \<noteq> []"
proof -
  obtain c t where "EncodeInt n = c # t" "IsIntCode c" "int_code c (t @ r) = Inr (n, r)"
    using EncodeInt_read [OF assms] by blast
  then show "DecodeInt (EncodeInt n @ r) = Inr (n, r)" "\<exists>c. PeekCode (EncodeInt n @ r) = Inr c \<and> IsIntCode c" "EncodeInt n \<noteq> []"
    by (auto simp: DecodeInt_def PeekCode_def readCode_def)
qed

lemma array_header:
  assumes "l < 16"
  shows "unat (and (or 0x90 (word_of_nat l)) 0xf :: byte) = l" "IsFixedArray (or 0x90 (word_of_nat l))"
    "(or 0x90 (word_of_nat l) :: byte) \<noteq> 0xc0"
proof -
  have "l = 0 \<or> l = 1 \<or> l = 2 \<or> l = 3 \<or> l = 4 \<or> l = 5 \<or> l = 6 \<or> l = 7 \<or> l = 8 \<or> l = 9 \<or> l = 10 \<or> l = 11
    \<or> l = 12 \<or> l = 13 \<or> l = 14 \<or> l = 15" using assms by arith
  then show "unat (and (or 0x90 (word_of_nat l)) 0xf :: byte) = l" "IsFixedArray (or 0x90 (word_of_nat l))"
    "(or 0x90 (word_of_nat l) :: byte) \<noteq> 0xc0"
    by (auto simp: IsFixedArray_def)
qed

lemma DecodeArrayLen_EncodeArrayLen:
  assumes "l < 65536" "l \<le> length r"
  shows "DecodeArrayLen (EncodeArrayLen l @ r) = Inr (int l, r)"
    "\<exists>c. PeekCode (EncodeArrayLen l @ r) = Inr c \<and> (IsFixedArray c \<or> c = 0xdc \<or> c = 0xdd)"
proof -
  have c: "checked_len 1 l r = Inr (int l, r)" using assms(2)
    by (simp add: checked_len_def rejectOversizedContainer_def)
  show "DecodeArrayLen (EncodeArrayLen l @ r) = Inr (int l, r)"
  proof (cases "l < 16")
    case True
    with c array_header [OF True] show ?thesis
      by (simp add: DecodeArrayLen_def EncodeArrayLen_def readCode_def arrayLen_def)
  next
    case False
    with c assms(1) show ?thesis
      by (simp add: DecodeArrayLen_def EncodeArrayLen_def readCode_def arrayLen_def IsFixedArray_def)
  qed
  show "\<exists>c. PeekCode (EncodeArrayLen l @ r) = Inr c \<and> (IsFixedArray c \<or> c = 0xdc \<or> c = 0xdd)"
    using assms(1) array_header(2) by (auto simp: EncodeArrayLen_def PeekCode_def)
qed

lemma DecodeBytes_bin:
  assumes "length b < 65536"
  shows "DecodeBytes ((if length b \<le> 255 then 0xc4 # be_bytes 1 (length b) else 0xc5 # be_bytes 2 (length b)) @ b @ r) = Inr (b, r)"
  using assms
  by (auto simp: DecodeBytes_def readCode_def bytesLen_def IsFixedString_def checked_bytes_len_def rejectOversizedBytes_def readN_def
      simp del: be_bytes.simps)

subsection \<open>Readers only consume\<close>

lemma reader_shrinks:
  "readCode s = Inr (c, r) \<Longrightarrow> length r < length s"
  "readN n s = Inr (b, r) \<Longrightarrow> length b = n \<and> length s = n + length r"
  "read_uint k s = Inr (v, r) \<Longrightarrow> length r \<le> length s"
  by (auto simp: readCode_def readN_def read_uint_def bindE_Inr_iff split: list.splits if_splits)

lemma checked_len_bound: "checked_len m n s = Inr (k, r) \<Longrightarrow> m > 0 \<Longrightarrow> r = s \<and> k = int n \<and> n * m \<le> length s"
  by (auto simp: checked_len_def rejectOversizedContainer_def bindE_Inr_iff not_less div_le_mono split: if_splits)
    (meson dual_order.trans div_times_less_eq_dividend mult_le_mono1)

end
