(* ===== verification/LXST_Profiles.thy ===== *)
theory LXST_Profiles
  imports Prelude
begin

text \<open>
  The constants, quality profiles and names of the LXST telephony protocol: \<^verbatim>\<open>pkg/lxst/proto/constants.go\<close>,
  \<^verbatim>\<open>profiles.go\<close> and \<^verbatim>\<open>names.go\<close>.  A Go \<^verbatim>\<open>int\<close> is an \<^typ>\<open>int\<close>; \<^verbatim>\<open>MaxBytesPerFrame\<close> computes with \<^verbatim>\<open>float64\<close>
  and is modelled over the rationals.  A Go map from names to numbers is an association list.
\<close>

subsection \<open>Constants\<close>

definition FieldSignalling :: int where "FieldSignalling = 0x00"
definition FieldFrames :: int where "FieldFrames = 0x01"

definition StatusBusy :: int where "StatusBusy = 0x00"
definition StatusRejected :: int where "StatusRejected = 0x01"
definition StatusCalling :: int where "StatusCalling = 0x02"
definition StatusAvailable :: int where "StatusAvailable = 0x03"
definition StatusRinging :: int where "StatusRinging = 0x04"
definition StatusConnecting :: int where "StatusConnecting = 0x05"
definition StatusEstablished :: int where "StatusEstablished = 0x06"

definition PreferredMode :: int where "PreferredMode = 0xF0"
definition PreferredProfile :: int where "PreferredProfile = 0xFF"

definition CodecRaw :: byte where "CodecRaw = 0x00"
definition CodecOpus :: byte where "CodecOpus = 0x01"
definition CodecCodec2 :: byte where "CodecCodec2 = 0x02"
definition CodecNull :: byte where "CodecNull = 0xFF"

definition ModeFullDuplex :: int where "ModeFullDuplex = 0x01"
definition ModeHalfDuplex :: int where "ModeHalfDuplex = 0x02"
definition DefaultMode :: int where "DefaultMode = ModeFullDuplex"

definition ProfileBandwidthUltraLow :: int where "ProfileBandwidthUltraLow = 0x10"
definition ProfileBandwidthVeryLow :: int where "ProfileBandwidthVeryLow = 0x20"
definition ProfileBandwidthLow :: int where "ProfileBandwidthLow = 0x30"
definition ProfileQualityMedium :: int where "ProfileQualityMedium = 0x40"
definition ProfileQualityHigh :: int where "ProfileQualityHigh = 0x50"
definition ProfileQualityMax :: int where "ProfileQualityMax = 0x60"
definition ProfileLatencyUltraLow :: int where "ProfileLatencyUltraLow = 0x70"
definition ProfileLatencyLow :: int where "ProfileLatencyLow = 0x80"
definition DefaultProfile :: int where "DefaultProfile = ProfileQualityMedium"

definition MinBitrate :: int where "MinBitrate = 6000"
definition MaxBitrate :: int where "MaxBitrate = 128000"
definition PlaybackSampleRate :: int where "PlaybackSampleRate = 48000"

definition AppHashPrefixLen :: nat where "AppHashPrefixLen = 10"
definition DestHashLen :: nat where "DestHashLen = 16"

definition MaxSignals :: nat where "MaxSignals = 32"
definition MaxFrames :: nat where "MaxFrames = 8"
definition MaxFrameBytes :: nat where "MaxFrameBytes = 2048"
definition MaxUnpackBytes :: nat where "MaxUnpackBytes = 4096"

definition IsAutoStatus :: "int \<Rightarrow> bool" where
  "IsAutoStatus s \<longleftrightarrow> s \<in> {StatusCalling, StatusAvailable, StatusRinging, StatusConnecting, StatusEstablished}"

definition IsPreferredProfile :: "int \<Rightarrow> bool" where
  "IsPreferredProfile s \<longleftrightarrow> s \<ge> PreferredProfile"

definition IsPreferredMode :: "int \<Rightarrow> bool" where
  "IsPreferredMode s \<longleftrightarrow> s \<ge> PreferredMode \<and> s < PreferredProfile"

definition ProfileFromSignal :: "int \<Rightarrow> int" where
  "ProfileFromSignal s = s - PreferredProfile"

definition ModeFromSignal :: "int \<Rightarrow> int" where
  "ModeFromSignal s = s - PreferredMode"

definition SignalPreferredProfile :: "int \<Rightarrow> int" where
  "SignalPreferredProfile p = PreferredProfile + (if p = 0 then DefaultProfile else p)"

definition SignalPreferredMode :: "int \<Rightarrow> int" where
  "SignalPreferredMode m = PreferredMode + (if m = 0 then DefaultMode else m)"

lemmas profile_defs =
  ProfileBandwidthUltraLow_def ProfileBandwidthVeryLow_def ProfileBandwidthLow_def ProfileQualityMedium_def
  ProfileQualityHigh_def ProfileQualityMax_def ProfileLatencyUltraLow_def ProfileLatencyLow_def DefaultProfile_def

lemmas status_defs =
  StatusBusy_def StatusRejected_def StatusCalling_def StatusAvailable_def StatusRinging_def StatusConnecting_def
  StatusEstablished_def PreferredMode_def PreferredProfile_def

lemmas mode_defs = ModeFullDuplex_def ModeHalfDuplex_def DefaultMode_def

subsection \<open>Profiles\<close>

record CodecParams =
  cp_Codec :: byte
  cp_SampleRate :: int
  cp_Channels :: int
  cp_Bitrate :: int
  cp_FrameMs :: int
  cp_BufferN :: int
  cp_Voip :: bool

definition OpusProfileParams :: "int \<Rightarrow> CodecParams" where
  "OpusProfileParams p =
     (let mk = (\<lambda>rate ch br voip. \<lparr>cp_Codec = CodecOpus, cp_SampleRate = rate, cp_Channels = ch, cp_Bitrate = br,
                  cp_FrameMs = 0, cp_BufferN = 0, cp_Voip = voip\<rparr>)
      in if p = 0 then mk 8000 1 6000 True
         else if p = 1 then mk 24000 1 8000 True
         else if p = 2 then mk 48000 1 16000 True
         else if p = 3 then mk 48000 2 32000 True
         else if p = 4 then mk 8000 1 8000 False
         else if p = 5 then mk 12000 1 14000 False
         else if p = 6 then mk 24000 2 28000 False
         else if p = 7 then mk 48000 2 56000 False
         else if p = 8 then mk 48000 2 128000 False
         else mk 24000 1 8000 True)"

definition opusParams :: "int \<Rightarrow> int \<Rightarrow> int \<Rightarrow> CodecParams" where
  "opusParams p frameMs bufferN = (OpusProfileParams p)\<lparr>cp_FrameMs := frameMs, cp_BufferN := bufferN\<rparr>"

definition codec2Params :: "int \<Rightarrow> int \<Rightarrow> CodecParams" where
  "codec2Params br frameMs =
     \<lparr>cp_Codec = CodecCodec2, cp_SampleRate = 8000, cp_Channels = 1, cp_Bitrate = br, cp_FrameMs = frameMs,
      cp_BufferN = 2, cp_Voip = True\<rparr>"

definition ProfileParams :: "int \<Rightarrow> CodecParams" where
  "ProfileParams p0 =
     (let p = (if p0 = 0 then DefaultProfile else p0)
      in if p = ProfileBandwidthUltraLow then codec2Params 700 400
         else if p = ProfileBandwidthVeryLow then codec2Params 1600 320
         else if p = ProfileBandwidthLow then codec2Params 3200 200
         else if p = ProfileQualityMedium then opusParams 1 60 5
         else if p = ProfileQualityHigh then opusParams 2 60 5
         else if p = ProfileQualityMax then opusParams 3 60 5
         else if p = ProfileLatencyLow then opusParams 1 20 3
         else if p = ProfileLatencyUltraLow then opusParams 1 10 2
         else opusParams 1 60 5)"

text \<open>Go's integer division truncates; the operands are positive here, where it is \<^const>\<open>divide\<close>.\<close>

definition FrameSamples :: "CodecParams \<Rightarrow> int" where
  "FrameSamples p = (if cp_SampleRate p \<le> 0 \<or> cp_FrameMs p \<le> 0 then 0 else cp_SampleRate p * cp_FrameMs p div 1000)"

definition PlaybackFrameSamples :: "CodecParams \<Rightarrow> int" where
  "PlaybackFrameSamples p = (if cp_FrameMs p \<le> 0 then 0 else PlaybackSampleRate * cp_FrameMs p div 1000)"

definition MaxBytesPerFrame :: "CodecParams \<Rightarrow> int" where
  "MaxBytesPerFrame p =
     (if cp_Bitrate p \<le> 0 \<or> cp_FrameMs p \<le> 0 then 1500
      else max \<lceil>(rat_of_int (cp_Bitrate p) / 8) * (rat_of_int (cp_FrameMs p) / 1000)\<rceil> 8)"

definition SupportsOpus :: "int \<Rightarrow> bool" where
  "SupportsOpus p \<longleftrightarrow> cp_Codec (ProfileParams p) = CodecOpus"

definition SupportsCodec2 :: "int \<Rightarrow> bool" where
  "SupportsCodec2 p \<longleftrightarrow> cp_Codec (ProfileParams p) = CodecCodec2"

definition Codec2Mode :: "int \<Rightarrow> int \<times> byte" where
  "Codec2Mode p =
     (if p = ProfileBandwidthUltraLow then (700, 0x00)
      else if p = ProfileBandwidthVeryLow then (1600, 0x04)
      else if p = ProfileBandwidthLow then (3200, 0x06)
      else (0, 0))"

definition Codec2HeaderForBitrate :: "int \<Rightarrow> byte" where
  "Codec2HeaderForBitrate b =
     (if b = 700 then 0x00 else if b = 1200 then 0x01 else if b = 1300 then 0x02 else if b = 1400 then 0x03
      else if b = 1600 then 0x04 else if b = 2400 then 0x05 else if b = 3200 then 0x06 else 0x06)"

definition Codec2BitrateForHeader :: "byte \<Rightarrow> int" where
  "Codec2BitrateForHeader h =
     (if h = 0x00 then 700 else if h = 0x01 then 1200 else if h = 0x02 then 1300 else if h = 0x03 then 1400
      else if h = 0x04 then 1600 else if h = 0x05 then 2400 else if h = 0x06 then 3200 else 0)"

definition FallbackOpusProfile :: "int \<Rightarrow> int" where
  "FallbackOpusProfile p = (if SupportsOpus p then p else DefaultProfile)"

definition AvailableProfiles :: "int list" where
  "AvailableProfiles =
     [ProfileBandwidthUltraLow, ProfileBandwidthVeryLow, ProfileBandwidthLow, ProfileQualityMedium,
      ProfileQualityHigh, ProfileQualityMax, ProfileLatencyLow, ProfileLatencyUltraLow]"

text \<open>The loop of \<^verbatim>\<open>NextProfile\<close>: \<open>i\<close> is the index of the head of the rest of the list.\<close>

fun next_from :: "int list \<Rightarrow> nat \<Rightarrow> int list \<Rightarrow> int \<Rightarrow> int" where
  "next_from ps i [] p = 0"
| "next_from ps i (q # qs) p = (if q = p then ps ! ((i + 1) mod length ps) else next_from ps (i + 1) qs p)"

definition NextProfile :: "int \<Rightarrow> int" where
  "NextProfile p = next_from AvailableProfiles 0 AvailableProfiles p"

subsection \<open>Names\<close>

definition profileByName :: "(gostring \<times> int) list" where
  "profileByName =
     [(''ulbw'', ProfileBandwidthUltraLow), (''vlbw'', ProfileBandwidthVeryLow), (''lbw'', ProfileBandwidthLow),
      (''mq'', ProfileQualityMedium), (''hq'', ProfileQualityHigh), (''shq'', ProfileQualityMax),
      (''ll'', ProfileLatencyLow), (''ull'', ProfileLatencyUltraLow)]"

definition LookupProfile :: "gostring \<Rightarrow> int option" where
  "LookupProfile name = map_of profileByName name"

definition ProfileFromName :: "gostring \<Rightarrow> int" where
  "ProfileFromName name = (case LookupProfile name of Some p \<Rightarrow> p | None \<Rightarrow> DefaultProfile)"

definition modeByName :: "(gostring \<times> int) list" where
  "modeByName =
     [(''full'', ModeFullDuplex), (''fdx'', ModeFullDuplex), (''half'', ModeHalfDuplex), (''hdx'', ModeHalfDuplex),
      (''ptt'', ModeHalfDuplex)]"

definition LookupMode :: "gostring \<Rightarrow> int option" where
  "LookupMode name = map_of modeByName name"

definition ModeFromName :: "gostring \<Rightarrow> int" where
  "ModeFromName name = (case LookupMode name of Some m \<Rightarrow> m | None \<Rightarrow> DefaultMode)"

definition ModeName :: "int \<Rightarrow> gostring" where
  "ModeName m = (if m = ModeFullDuplex then ''full'' else if m = ModeHalfDuplex then ''half'' else ''unknown'')"

definition ProfileName :: "int \<Rightarrow> gostring" where
  "ProfileName p =
     (if p = ProfileBandwidthUltraLow then ''ulbw'' else if p = ProfileBandwidthVeryLow then ''vlbw''
      else if p = ProfileBandwidthLow then ''lbw'' else if p = ProfileQualityMedium then ''mq''
      else if p = ProfileQualityHigh then ''hq'' else if p = ProfileQualityMax then ''shq''
      else if p = ProfileLatencyLow then ''ll'' else if p = ProfileLatencyUltraLow then ''ull'' else ''unknown'')"

definition KnownProfile :: "int \<Rightarrow> bool" where
  "KnownProfile p \<longleftrightarrow> ProfileName p \<noteq> ''unknown''"

subsection \<open>The tables agree\<close>

text \<open>A profile is known exactly when it is listed, named, and found again under its name.\<close>

lemma KnownProfile_iff: "KnownProfile p \<longleftrightarrow> p \<in> set AvailableProfiles"
  by (simp add: KnownProfile_def ProfileName_def AvailableProfiles_def)

lemma LookupProfile_iff: "LookupProfile name = Some p \<longleftrightarrow> KnownProfile p \<and> ProfileName p = name"
  by (simp add: LookupProfile_def profileByName_def KnownProfile_def ProfileName_def profile_defs)

lemma ModeFromName_ModeName: "ModeName m \<noteq> ''unknown'' \<Longrightarrow> LookupMode (ModeName m) = Some m"
  by (auto simp: ModeName_def LookupMode_def modeByName_def mode_defs split: if_splits)

text \<open>\<^verbatim>\<open>NextProfile\<close> walks through the list and comes back.\<close>

lemma NextProfile_nth:
  assumes "i < length AvailableProfiles"
  shows "NextProfile (AvailableProfiles ! i) = AvailableProfiles ! ((i + 1) mod length AvailableProfiles)"
proof -
  have "i = 0 \<or> i = 1 \<or> i = 2 \<or> i = 3 \<or> i = 4 \<or> i = 5 \<or> i = 6 \<or> i = 7"
    using assms unfolding AvailableProfiles_def by simp arith
  then show ?thesis by (elim disjE) (simp_all add: NextProfile_def AvailableProfiles_def profile_defs)
qed

lemma NextProfile_unknown: "\<not> KnownProfile p \<Longrightarrow> NextProfile p = 0"
  unfolding KnownProfile_iff by (auto simp: NextProfile_def AvailableProfiles_def)

lemma NextProfile_funpow:
  assumes "i < length AvailableProfiles"
  shows "(NextProfile ^^ k) (AvailableProfiles ! i) = AvailableProfiles ! ((i + k) mod length AvailableProfiles)"
proof (induction k)
  case 0 with assms show ?case by simp
next
  case (Suc k)
  have "(i + k) mod length AvailableProfiles < length AvailableProfiles" by (simp add: AvailableProfiles_def)
  with Suc NextProfile_nth show ?case by (simp add: mod_Suc_eq)
qed

text \<open>A signalled profile or mode is read back as it was sent, and no such signal is taken for a status.\<close>

lemma signal_profile: "p > 0 \<Longrightarrow> IsPreferredProfile (SignalPreferredProfile p) \<and> ProfileFromSignal (SignalPreferredProfile p) = p"
  by (simp add: IsPreferredProfile_def SignalPreferredProfile_def ProfileFromSignal_def)

lemma signal_mode: "0 < m \<Longrightarrow> m < 15 \<Longrightarrow> IsPreferredMode (SignalPreferredMode m) \<and> ModeFromSignal (SignalPreferredMode m) = m"
  by (simp add: IsPreferredMode_def SignalPreferredMode_def ModeFromSignal_def status_defs)

lemma signal_disjoint:
  "IsPreferredProfile s \<Longrightarrow> \<not> IsPreferredMode s \<and> \<not> IsAutoStatus s"
  "IsPreferredMode s \<Longrightarrow> \<not> IsAutoStatus s"
  by (auto simp: IsPreferredProfile_def IsPreferredMode_def IsAutoStatus_def status_defs)

text \<open>Each available profile is carried by one codec; the Codec2 ones have a mode byte of their bit rate.\<close>

lemma codec_table:
  "\<forall>p \<in> set AvailableProfiles.
     (SupportsCodec2 p \<longleftrightarrow> \<not> SupportsOpus p)
     \<and> (SupportsCodec2 p \<longrightarrow> Codec2BitrateForHeader (snd (Codec2Mode p)) = cp_Bitrate (ProfileParams p)
          \<and> Codec2HeaderForBitrate (cp_Bitrate (ProfileParams p)) = snd (Codec2Mode p))"
  by code_simp

subsection \<open>Properties\<close>



end
