(* ===== verification/LXST_Packet.thy ===== *)
theory LXST_Packet
  imports Msgpack LXST_Profiles
begin

text \<open>
  The LXST wire packet, \<^verbatim>\<open>pkg/lxst/proto/packet.go\<close>: a MessagePack map from field numbers to signals and
  media frames.  \<open>Unpack\<close> runs the modelled MessagePack reader over the received bytes; pools and buffers are
  reused memory and have no counterpart.  SHA-256, for the destination hash, is the argument \<open>sha256\<close>.
\<close>

datatype lxst_error = ErrEmptyPacket | ErrMissingFields | ErrPacketTooLarge | ErrFrameTooShort | ErrMsgpack msgpack_error

record Packet =
  pk_Signals :: "int list"
  pk_Frames :: "bytes list"

definition maxMapKeys :: nat where "maxMapKeys = 4"

subsection \<open>Packing\<close>

definition PackSignalling :: "int list \<Rightarrow> lxst_error + bytes" where
  "PackSignalling signals =
     (if length signals = 0 then Inl ErrEmptyPacket
      else let sigs = (if length signals > MaxSignals then take MaxSignals signals else signals)
           in Inr (EncodeIntsMap [(FieldSignalling, sigs)]))"

definition PackFrameInto :: "byte \<Rightarrow> bytes \<Rightarrow> lxst_error + bytes" where
  "PackFrameInto codec payload0 =
     (let payload = (if length payload0 > MaxFrameBytes then take MaxFrameBytes payload0 else payload0);
          n = 1 + length payload;
          head = [0x81, word_of_int FieldFrames]
      in if n \<le> 255 then Inr (head @ [0xc4, word_of_nat n] @ [codec] @ payload)
         else if n > 0xffff then Inl ErrPacketTooLarge
         else Inr (head @ 0xc5 # be_bytes 2 n @ [codec] @ payload))"

definition PackFrame :: "byte \<Rightarrow> bytes \<Rightarrow> lxst_error + bytes" where
  "PackFrame codec payload = PackFrameInto codec payload"

subsection \<open>Unpacking\<close>

definition mp :: "msgpack_error + 'a \<Rightarrow> lxst_error + 'a" where
  "mp r = (case r of Inl e \<Rightarrow> Inl (ErrMsgpack e) | Inr x \<Rightarrow> Inr x)"

lemma mp_simps [simp]: "mp (Inl e) = Inl (ErrMsgpack e)" "mp (Inr x) = Inr x"
  by (simp_all add: mp_def)

lemma mp_Inr_iff [simp]: "mp r = Inr x \<longleftrightarrow> r = Inr x"
  by (cases r) auto

text \<open>The nesting limit \<^verbatim>\<open>Unpack\<close> sets on its decoder.\<close>

definition depth_limit :: nat where "depth_limit = 8"

text \<open>\<^const>\<open>None\<close> stands for \<^verbatim>\<open>ok = false\<close>: the value was no integer and has been skipped.\<close>

definition decodeIntOrSkip :: "int option reader" where
  "decodeIntOrSkip s =
     bindE (PeekCode s) (\<lambda>code.
       if IsIntCode code then bindE (DecodeInt s) (\<lambda>(n, r). Inr (Some n, r))
       else bindE (Skip depth_limit s) (\<lambda>r. Inr (None, r)))"

definition isArrayCode :: "byte \<Rightarrow> bool" where
  "isArrayCode c \<longleftrightarrow> IsFixedArray c \<or> c = 0xdc \<or> c = 0xdd"

primrec signal_loop :: "nat \<Rightarrow> int list \<times> bytes \<Rightarrow> lxst_error + int list \<times> bytes" where
  "signal_loop 0 st = Inr st"
| "signal_loop (Suc n) st =
     (case st of (out, s) \<Rightarrow>
        bindE (mp (decodeIntOrSkip s)) (\<lambda>(v, r).
          signal_loop n (case v of Some k \<Rightarrow> out @ [k] | None \<Rightarrow> out, r)))"

definition decodeSignals :: "bytes \<Rightarrow> lxst_error + int list \<times> bytes" where
  "decodeSignals s =
     bindE (mp (PeekCode s)) (\<lambda>code.
       if isArrayCode code then
         bindE (mp (DecodeArrayLen s)) (\<lambda>(n, r).
           if n < 0 then Inl ErrMissingFields
           else if n > int MaxSignals then Inl ErrPacketTooLarge
           else signal_loop (nat n) ([], r))
       else
         bindE (mp (decodeIntOrSkip s)) (\<lambda>(v, r).
           case v of Some k \<Rightarrow> Inr ([k], r) | None \<Rightarrow> Inl ErrMissingFields))"

definition decodeOneFrame :: "bytes \<Rightarrow> lxst_error + bytes \<times> bytes" where
  "decodeOneFrame s =
     bindE (mp (DecodeBytes s)) (\<lambda>(b, r). if length b > MaxFrameBytes then Inl ErrPacketTooLarge else Inr (b, r))"

primrec frame_loop :: "nat \<Rightarrow> bytes list \<times> bytes \<Rightarrow> lxst_error + bytes list \<times> bytes" where
  "frame_loop 0 st = Inr st"
| "frame_loop (Suc n) st =
     (case st of (out, s) \<Rightarrow>
        bindE (decodeOneFrame s) (\<lambda>(b, r). frame_loop n (if length b > 0 then out @ [b] else out, r)))"

definition decodeFrames :: "bytes \<Rightarrow> lxst_error + bytes list \<times> bytes" where
  "decodeFrames s =
     bindE (mp (PeekCode s)) (\<lambda>code.
       if isArrayCode code then
         bindE (mp (DecodeArrayLen s)) (\<lambda>(n, r).
           if n < 0 then Inl ErrMissingFields
           else if n > int MaxFrames then Inl ErrPacketTooLarge
           else frame_loop (nat n) ([], r))
       else
         bindE (decodeOneFrame s) (\<lambda>(b, r). if length b = 0 then Inr ([], r) else Inr ([b], r)))"

text \<open>One round of the loop of \<^verbatim>\<open>unpackMap\<close>: a key and what the packet takes from its value.\<close>

definition unpack_field :: "Packet \<times> bytes \<Rightarrow> lxst_error + Packet \<times> bytes" where
  "unpack_field = (\<lambda>(pkt, s).
     bindE (mp (decodeIntOrSkip s)) (\<lambda>(key, r).
       case key of
         None \<Rightarrow> bindE (mp (Skip depth_limit r)) (\<lambda>r1. Inr (pkt, r1))
       | Some k \<Rightarrow>
           if k = FieldSignalling then bindE (decodeSignals r) (\<lambda>(v, r1). Inr (pkt\<lparr>pk_Signals := v\<rparr>, r1))
           else if k = FieldFrames then bindE (decodeFrames r) (\<lambda>(v, r1). Inr (pkt\<lparr>pk_Frames := v\<rparr>, r1))
           else bindE (mp (Skip depth_limit r)) (\<lambda>r1. Inr (pkt, r1))))"

definition empty_Packet :: Packet where
  "empty_Packet = \<lparr>pk_Signals = [], pk_Frames = []\<rparr>"

definition unpackMap :: "bytes \<Rightarrow> lxst_error + Packet" where
  "unpackMap s =
     bindE (mp (DecodeMapLen s)) (\<lambda>(n, r).
       if n < 1 \<or> n > int maxMapKeys then Inl (if n = 0 then ErrMissingFields else ErrPacketTooLarge)
       else bindE (loopE (nat n) unpack_field (empty_Packet, r)) (\<lambda>(pkt, _).
              if length (pk_Signals pkt) = 0 \<and> length (pk_Frames pkt) = 0 then Inl ErrMissingFields else Inr pkt))"

definition Unpack :: "bytes \<Rightarrow> lxst_error + Packet" where
  "Unpack data =
     (if length data = 0 then Inl ErrEmptyPacket
      else if length data > MaxUnpackBytes then Inl ErrPacketTooLarge
      else unpackMap data)"

definition SplitFrame :: "bytes \<Rightarrow> lxst_error + byte \<times> bytes" where
  "SplitFrame frame = (case frame of [] \<Rightarrow> Inl ErrFrameTooShort | c # payload \<Rightarrow> Inr (c, payload))"

subsection \<open>Destination hashes\<close>

definition DestHash :: "(bytes \<Rightarrow> bytes) \<Rightarrow> bytes \<Rightarrow> gostring \<Rightarrow> gostring list \<Rightarrow> bytes" where
  "DestHash sha256 identityHash appName aspects =
     (let name = appName @ concat (map (\<lambda>a. CHR ''.'' # a) aspects);
          h = sha256 (bytes_of_string name)
      in take DestHashLen (sha256 (take AppHashPrefixLen h @ identityHash)))"

definition TelephonyHash :: "(bytes \<Rightarrow> bytes) \<Rightarrow> bytes \<Rightarrow> bytes" where
  "TelephonyHash sha256 identityHash = DestHash sha256 identityHash ''lxst'' [''telephony'']"

subsection \<open>Round trips\<close>

lemma decodeIntOrSkip_EncodeInt:
  assumes "goint n"
  shows "decodeIntOrSkip (EncodeInt n @ r) = Inr (Some n, r)"
  using DecodeInt_EncodeInt(1,2) [OF assms, of r] by (auto simp: decodeIntOrSkip_def)

lemma signal_loop_EncodeInts:
  "\<forall>n \<in> set xs. goint n \<Longrightarrow> signal_loop (length xs) (out, concat (map EncodeInt xs) @ r) = Inr (out @ xs, r)"
  by (induction xs arbitrary: out) (simp_all add: decodeIntOrSkip_EncodeInt)

lemma length_EncodeInt: "1 \<le> length (EncodeInt n)" "length (EncodeInt n) \<le> 9"
  by (simp_all add: EncodeInt_def EncodeUint_def)

lemma length_concat_EncodeInt:
  "length xs \<le> length (concat (map EncodeInt xs)) \<and> length (concat (map EncodeInt xs)) \<le> 9 * length xs"
proof (induction xs)
  case (Cons x xs)
  then show ?case using length_EncodeInt [of x] by simp
qed simp

lemma decodeSignals_EncodeInts:
  assumes "\<forall>n \<in> set xs. goint n" "length xs \<le> MaxSignals"
  shows "decodeSignals (EncodeInts xs @ r) = Inr (xs, r)"
proof -
  define rest where "rest = concat (map EncodeInt xs) @ r"
  have l: "length xs \<le> length rest" using length_concat_EncodeInt [of xs] by (simp add: rest_def)
  moreover have "length xs < 65536" using assms(2) by (simp add: MaxSignals_def)
  ultimately have d: "DecodeArrayLen (EncodeArrayLen (length xs) @ rest) = Inr (int (length xs), rest)"
    "\<exists>c. PeekCode (EncodeArrayLen (length xs) @ rest) = Inr c \<and> isArrayCode c"
    using DecodeArrayLen_EncodeArrayLen [of "length xs" rest] unfolding isArrayCode_def by auto
  have "signal_loop (length xs) ([], rest) = Inr (xs, r)"
    using signal_loop_EncodeInts [OF assms(1), of "[]" r] by (simp add: rest_def)
  then have "decodeSignals (EncodeArrayLen (length xs) @ rest) = Inr (xs, r)"
    using d assms(2) by (auto simp: decodeSignals_def)
  then show ?thesis by (simp add: EncodeInts_def rest_def)
qed

lemma fixmap1: "DecodeMapLen (0x81 # r) = (if length r \<ge> 2 then Inr (1, r) else Inl Oversized)"
  by (auto simp: DecodeMapLen_def readCode_def code_defs mapLen_def checked_len_def rejectOversizedContainer_def)

lemma key_field: "decodeIntOrSkip (EncodeInt k @ r) = Inr (Some k, r)" if "k = FieldSignalling \<or> k = FieldFrames"
  by (rule decodeIntOrSkip_EncodeInt) (use that in \<open>auto simp: goint_def FieldSignalling_def FieldFrames_def\<close>)

lemma EncodeInt_field: "EncodeInt FieldSignalling = [0]" "EncodeInt FieldFrames = [1]"
  by (simp_all add: EncodeInt_def EncodeUint_def FieldSignalling_def FieldFrames_def)

lemma decodeFrames_bin:
  assumes "0 < length b" "length b < 65536"
  shows "decodeFrames ((if length b \<le> 255 then 0xc4 # be_bytes 1 (length b) else 0xc5 # be_bytes 2 (length b)) @ b @ r)
     = (if length b > MaxFrameBytes then Inl ErrPacketTooLarge else Inr ([b], r))"
proof -
  define s where "s = (if length b \<le> 255 then 0xc4 # be_bytes 1 (length b) else 0xc5 # be_bytes 2 (length b)) @ b @ r"
  have "DecodeBytes s = Inr (b, r)" unfolding s_def by (rule DecodeBytes_bin [OF assms(2)])
  moreover have "\<exists>c. PeekCode s = Inr c \<and> \<not> isArrayCode c"
    by (auto simp: s_def PeekCode_def isArrayCode_def IsFixedArray_def)
  ultimately have "decodeFrames s = (if length b > MaxFrameBytes then Inl ErrPacketTooLarge else Inr ([b], r))"
    using assms(1) by (auto simp: decodeFrames_def decodeOneFrame_def)
  then show ?thesis by (simp only: s_def)
qed

subsection \<open>What a decoded packet holds\<close>

definition packet_ok :: "Packet \<Rightarrow> bool" where
  "packet_ok p \<longleftrightarrow> length (pk_Signals p) \<le> MaxSignals \<and> (\<forall>n \<in> set (pk_Signals p). goint n)
     \<and> length (pk_Frames p) \<le> MaxFrames \<and> (\<forall>b \<in> set (pk_Frames p). b \<noteq> [] \<and> length b \<le> MaxFrameBytes)"

lemma sint_goint:
  "goint (sint (w :: byte))" "goint (sint (w2 :: uint16))" "goint (sint (w4 :: uint32))" "goint (sint (w8 :: uint64))"
  using sint_greater_eq [of w] sint_less [of w] sint_greater_eq [of w2] sint_less [of w2]
    sint_greater_eq [of w4] sint_less [of w4] sint_greater_eq [of w8] sint_less [of w8]
  by (simp_all add: goint_def)

lemma be_nat_less: "be_nat b < 256 ^ length b"
proof (induction b rule: rev_induct)
  case (snoc x xs)
  have "unat x < 256" using unsigned_less [of x, where 'a = nat] by simp
  then have "256 * be_nat xs + unat x < 256 * N" if "be_nat xs < N" for N using that by linarith
  from this [OF snoc] show ?case by (simp only: be_nat_snoc length_append_singleton power_Suc)
qed simp

lemma read_uint_less: "read_uint k s = Inr (n, r) \<Longrightarrow> n < 256 ^ k"
  using be_nat_less [of "take k s"] by (cases "k \<le> length s") (simp_all add: read_uint_def readN_def min_absorb2)

lemma int_code_goint: "int_code c s = Inr (n, r) \<Longrightarrow> goint n"
proof -
  have u: "goint (int v)" if "read_uint k s = Inr (v, t)" "k = 1 \<or> k = 2 \<or> k = 4" for k v t
    using read_uint_less [OF that(1)] that(2) by (elim disjE) (simp_all add: goint_def)
  have z: "goint 0" by (simp add: goint_def)
  show "int_code c s = Inr (n, r) \<Longrightarrow> goint n"
    by (auto simp: int_code_def bindE_Inr_iff sint_goint z split: if_splits intro: u)
qed

lemma decodeIntOrSkip_goint: "decodeIntOrSkip s = Inr (Some n, r) \<Longrightarrow> goint n"
  by (auto simp: decodeIntOrSkip_def DecodeInt_def bindE_Inr_iff split: if_splits dest: int_code_goint)

lemma signal_loop_ok:
  "signal_loop k (out, s) = Inr (xs, r) \<Longrightarrow> \<forall>n \<in> set out. goint n
   \<Longrightarrow> length xs \<le> length out + k \<and> (\<forall>n \<in> set xs. goint n)"
proof (induction k arbitrary: out s)
  case (Suc k)
  then obtain v t where v: "decodeIntOrSkip s = Inr (v, t)"
    and l: "signal_loop k (case v of Some n \<Rightarrow> out @ [n] | None \<Rightarrow> out, t) = Inr (xs, r)"
    by (auto simp: bindE_Inr_iff)
  from Suc.IH [OF l] Suc.prems(2) decodeIntOrSkip_goint [of s _ t] v show ?case
    by (cases v) auto
qed auto

lemma decodeSignals_ok:
  assumes "decodeSignals s = Inr (xs, r)"
  shows "length xs \<le> MaxSignals \<and> (\<forall>n \<in> set xs. goint n)"
proof -
  from assms consider (arr) n t where "\<not> int MaxSignals < n" "signal_loop (nat n) ([], t) = Inr (xs, r)"
    | (one) k where "decodeIntOrSkip s = Inr (Some k, r)" "xs = [k]"
    by (auto simp: decodeSignals_def bindE_Inr_iff split: if_splits option.splits)
  then show ?thesis
  proof cases
    case arr
    from signal_loop_ok [OF arr(2)] arr(1) show ?thesis by simp linarith
  next
    case one
    from decodeIntOrSkip_goint [OF one(1)] one(2) show ?thesis by (simp add: MaxSignals_def)
  qed
qed

lemma frame_loop_ok:
  "frame_loop k (out, s) = Inr (xs, r) \<Longrightarrow> \<forall>b \<in> set out. b \<noteq> [] \<and> length b \<le> MaxFrameBytes
   \<Longrightarrow> length xs \<le> length out + k \<and> (\<forall>b \<in> set xs. b \<noteq> [] \<and> length b \<le> MaxFrameBytes)"
proof (induction k arbitrary: out s)
  case (Suc k)
  then obtain b t where b: "decodeOneFrame s = Inr (b, t)"
    and l: "frame_loop k (if length b > 0 then out @ [b] else out, t) = Inr (xs, r)"
    by (auto simp: bindE_Inr_iff)
  from b have "length b \<le> MaxFrameBytes" by (auto simp: decodeOneFrame_def bindE_Inr_iff split: if_splits)
  then have "\<forall>x \<in> set (if length b > 0 then out @ [b] else out). x \<noteq> [] \<and> length x \<le> MaxFrameBytes"
    using Suc.prems(2) by simp
  from Suc.IH [OF l this] show ?case by (simp split: if_splits)
qed simp

lemma decodeFrames_ok:
  assumes "decodeFrames s = Inr (xs, r)"
  shows "length xs \<le> MaxFrames \<and> (\<forall>b \<in> set xs. b \<noteq> [] \<and> length b \<le> MaxFrameBytes)"
proof -
  from assms consider (arr) n t where "\<not> int MaxFrames < n" "frame_loop (nat n) ([], t) = Inr (xs, r)"
    | (one) b where "decodeOneFrame s = Inr (b, r)" "xs = (if length b = 0 then [] else [b])"
    by (auto simp: decodeFrames_def bindE_Inr_iff split: if_splits)
  then show ?thesis
  proof cases
    case arr
    from frame_loop_ok [OF arr(2)] arr(1) show ?thesis by simp linarith
  next
    case one
    then show ?thesis by (auto simp: decodeOneFrame_def bindE_Inr_iff MaxFrames_def split: if_splits)
  qed
qed

lemma packet_ok_fields:
  "packet_ok p \<Longrightarrow> decodeSignals s = Inr (v, r) \<Longrightarrow> packet_ok (p\<lparr>pk_Signals := v\<rparr>)"
  "packet_ok p \<Longrightarrow> decodeFrames s = Inr (u, r) \<Longrightarrow> packet_ok (p\<lparr>pk_Frames := u\<rparr>)"
  using decodeSignals_ok [of s v r] decodeFrames_ok [of s u r] by (simp_all add: packet_ok_def)

lemma unpack_field_ok:
  assumes "unpack_field (p, s) = Inr (p', r)" "packet_ok p"
  shows "packet_ok p'"
  using assms
  by (auto simp: unpack_field_def bindE_Inr_iff split: option.splits if_splits intro: packet_ok_fields)

lemma loopE_invariant:
  "loopE n f s = Inr s' \<Longrightarrow> P s \<Longrightarrow> (\<And>a b. f a = Inr b \<Longrightarrow> P a \<Longrightarrow> P b) \<Longrightarrow> P s'"
  by (induction n arbitrary: s) (auto simp: bindE_Inr_iff)

lemma Unpack_ok:
  assumes "Unpack data = Inr p"
  shows "packet_ok p \<and> 0 < length data \<and> length data \<le> MaxUnpackBytes \<and> \<not> (pk_Signals p = [] \<and> pk_Frames p = [])"
proof -
  from assms obtain n r s where l: "loopE n unpack_field (empty_Packet, r) = Inr (p, s)"
    and p: "\<not> (pk_Signals p = [] \<and> pk_Frames p = [])" and d: "0 < length data" "length data \<le> MaxUnpackBytes"
    by (auto simp: Unpack_def unpackMap_def bindE_Inr_iff split: if_splits)
  have "(\<lambda>st. packet_ok (fst st)) (p, s)"
  proof (rule loopE_invariant [OF l])
    show "packet_ok (fst (empty_Packet, r))" by (simp add: packet_ok_def empty_Packet_def)
    show "packet_ok (fst b)" if "unpack_field a = Inr b" "packet_ok (fst a)" for a b
      using unpack_field_ok [of "fst a" "snd a" "fst b" "snd b"] that by simp
  qed
  with p d show ?thesis by simp
qed

lemma Unpack_PackSignalling:
  assumes "\<forall>n \<in> set signals. goint n"
    "signals \<noteq> []"
  shows "\<exists>raw. PackSignalling signals = Inr raw \<and> Unpack raw = Inr \<lparr>pk_Signals = take MaxSignals signals, pk_Frames = []\<rparr>"
proof -
  note False = assms(2)
  define sigs where "sigs = take MaxSignals signals"
  have s: "\<forall>n \<in> set sigs. goint n" "length sigs \<le> MaxSignals" "sigs \<noteq> []"
    using assms by (auto simp: sigs_def MaxSignals_def dest: in_set_takeD)
  define body where "body = EncodeInts sigs @ []"
  have "PackSignalling signals = Inr (0x81 # EncodeInt FieldSignalling @ body)"
    using False by (auto simp: PackSignalling_def Let_def EncodeIntsMap_def EncodeMapLen_def body_def sigs_def)
  moreover have "Unpack (0x81 # EncodeInt FieldSignalling @ body) = Inr \<lparr>pk_Signals = sigs, pk_Frames = []\<rparr>"
  proof -
    have h: "1 \<le> length (EncodeArrayLen (length sigs))" "length (EncodeArrayLen (length sigs)) \<le> 5"
      by (simp_all add: EncodeArrayLen_def)
    have len: "2 \<le> length (EncodeInt FieldSignalling @ body)" "length (0x81 # EncodeInt FieldSignalling @ body) \<le> MaxUnpackBytes"
      using h length_concat_EncodeInt [of sigs] s(2) unfolding MaxUnpackBytes_def MaxSignals_def
      by (simp_all add: EncodeInt_field body_def EncodeInts_def del: length_concat length_greater_0_conv length_0_conv)
    have f: "unpack_field (empty_Packet, EncodeInt FieldSignalling @ body) = Inr (empty_Packet\<lparr>pk_Signals := sigs\<rparr>, [])"
      using decodeSignals_EncodeInts [OF s(1,2), of "[]"] unfolding body_def [symmetric]
      by (simp add: unpack_field_def key_field)
    then show ?thesis using len s(3)
      by (auto simp: Unpack_def unpackMap_def fixmap1 maxMapKeys_def empty_Packet_def)
  qed
  ultimately show ?thesis by (simp add: sigs_def)
qed

subsection \<open>Properties\<close>

text \<open>
  C15: A media frame survives the wire exactly when its payload is shorter than the frame limit.  A packed frame
  of codec \<open>c\<close> whose payload has fewer than 2048 bytes unpacks to a packet with no signals and this one frame,
  and splitting the frame gives the codec and the payload back.  A payload of 2048 bytes or more is cut to 2048,
  which with its codec byte is one more than \<^verbatim>\<open>Unpack\<close> admits: the packet its own packer built is rejected as
  too large.
\<close>

theorem frame_roundtrip:
  "\<exists>raw. PackFrame c payload = Inr raw
     \<and> Unpack raw = (if length payload < MaxFrameBytes then Inr \<lparr>pk_Signals = [], pk_Frames = [c # payload]\<rparr>
                      else Inl ErrPacketTooLarge)
     \<and> SplitFrame (c # payload) = Inr (c, payload)"
proof -
  define q where "q = (if length payload > MaxFrameBytes then take MaxFrameBytes payload else payload)"
  define b where "b = c # q"
  define body where "body = (if length b \<le> 255 then 0xc4 # be_bytes 1 (length b) else 0xc5 # be_bytes 2 (length b)) @ b @ []"
  have q: "length q = min (length payload) MaxFrameBytes" by (auto simp: q_def)
  then have b: "0 < length b" "length b \<le> 2049" "length b < 65536" "length b > MaxFrameBytes \<longleftrightarrow> \<not> length payload < MaxFrameBytes"
    by (auto simp: b_def MaxFrameBytes_def)
  have "PackFrame c payload = Inr (0x81 # EncodeInt FieldFrames @ body)"
    using b(2) by (auto simp: PackFrame_def PackFrameInto_def Let_def body_def b_def EncodeInt_field q_def [symmetric]) (simp_all add: FieldFrames_def)
  moreover have "Unpack (0x81 # EncodeInt FieldFrames @ body)
    = (if length payload < MaxFrameBytes then Inr \<lparr>pk_Signals = [], pk_Frames = [c # payload]\<rparr> else Inl ErrPacketTooLarge)"
  proof -
    have len: "2 \<le> length (EncodeInt FieldFrames @ body)" "length (0x81 # EncodeInt FieldFrames @ body) \<le> MaxUnpackBytes"
      using b by (auto simp: EncodeInt_field body_def MaxUnpackBytes_def)
    have f: "unpack_field (empty_Packet, EncodeInt FieldFrames @ body)
        = (if length b > MaxFrameBytes then Inl ErrPacketTooLarge else Inr (empty_Packet\<lparr>pk_Frames := [b]\<rparr>, []))"
      using decodeFrames_bin [OF b(1,3), of "[]"] unfolding body_def [symmetric]
      by (simp add: unpack_field_def key_field) (simp add: FieldFrames_def FieldSignalling_def)
    have "q = payload" if "length payload < MaxFrameBytes" using that by (simp add: q_def)
    then show ?thesis using len f b(4)
      by (auto simp: Unpack_def unpackMap_def fixmap1 maxMapKeys_def empty_Packet_def b_def)
  qed
  ultimately show ?thesis by (auto simp: SplitFrame_def)
qed

text \<open>
  C27: Signals survive the wire.  For a non-empty list of signals, each in the range of a 64-bit integer, the
  packer builds a packet which unpacks to the first 32 of them in order, with no frames; an empty list is
  refused.
\<close>

theorem signalling_roundtrip:
  assumes "\<forall>n \<in> set signals. goint n"
  shows "if signals = [] then PackSignalling signals = Inl ErrEmptyPacket
    else \<exists>raw. PackSignalling signals = Inr raw \<and> Unpack raw = Inr \<lparr>pk_Signals = take MaxSignals signals, pk_Frames = []\<rparr>"
  using Unpack_PackSignalling [OF assms] by (simp add: PackSignalling_def [of "[]"])

theorem signalling_roundtrip_witness:
  "\<exists>raw. PackSignalling [StatusRinging, SignalPreferredProfile ProfileQualityHigh, -1] = Inr raw
     \<and> Unpack raw = Inr \<lparr>pk_Signals = [StatusRinging, SignalPreferredProfile ProfileQualityHigh, -1], pk_Frames = []\<rparr>"
proof -
  have "\<forall>n \<in> set [StatusRinging, SignalPreferredProfile ProfileQualityHigh, -1]. goint n" by code_simp
  from signalling_roundtrip [OF this] show ?thesis by (simp add: MaxSignals_def)
qed

text \<open>
  C20: Whatever bytes arrive, a packet that \<^verbatim>\<open>Unpack\<close> returns is within the limits of the protocol: the input had
  between 1 and 4096 bytes, the packet holds at most 32 signals, each a 64-bit integer, and at most 8 frames,
  none of them empty or longer than 2048 bytes, and it is not empty.
\<close>

theorem Unpack_bounds:
  assumes "Unpack data = Inr p"
  shows "0 < length data \<and> length data \<le> 4096
    \<and> length (pk_Signals p) \<le> 32 \<and> (\<forall>n \<in> set (pk_Signals p). - (2 ^ 63) \<le> n \<and> n < 2 ^ 63)
    \<and> length (pk_Frames p) \<le> 8 \<and> (\<forall>b \<in> set (pk_Frames p). 0 < length b \<and> length b \<le> 2048)
    \<and> \<not> (pk_Signals p = [] \<and> pk_Frames p = [])"
  using Unpack_ok [OF assms] unfolding packet_ok_def goint_def MaxSignals_def MaxFrames_def MaxFrameBytes_def MaxUnpackBytes_def
  by simp

theorem Unpack_bounds_witness:
  "Unpack [0x82, 0x00, 0x92, 0x04, 0xc0, 0x05, 0x81, 0x01, 0xc3] = Inr \<lparr>pk_Signals = [4], pk_Frames = []\<rparr>
   \<and> length (pk_Signals \<lparr>pk_Signals = [4], pk_Frames = []\<rparr>) \<le> 32"
proof -
  have u: "Unpack [0x82, 0x00, 0x92, 0x04, 0xc0, 0x05, 0x81, 0x01, 0xc3] = Inr \<lparr>pk_Signals = [4], pk_Frames = []\<rparr>"
    by code_simp
  from Unpack_bounds [OF u] u show ?thesis by blast
qed

end
