(* ===== verification/LXST_Media.thy ===== *)
theory LXST_Media
  imports LXST_Profiles "HOL-Library.Signed_Division"
begin

text \<open>
  The receive side of LXST media: the jitter buffer of \<^verbatim>\<open>pkg/lxst/media/jitter.go\<close> and the adaptive controller of
  \<^verbatim>\<open>adaptive.go\<close>.

  Sequence numbers are 16-bit words and wrap around; they are compared by the sign of their difference.  Times
  are integers (nanoseconds) and the zero time is \<^const>\<open>None\<close>; the current time is an argument.  Go's truncating
  division of durations is \<open>sdiv\<close>.  The map of frames is an association list in the order of its iteration, on
  which \<^verbatim>\<open>lowestSeqLocked\<close> may depend.  The metrics of the controller are \<^verbatim>\<open>float64\<close> and modelled over the
  rationals.
\<close>

subsection \<open>The jitter buffer\<close>

record Frame =
  f_Sequence :: uint16
  f_Timestamp :: uint32
  f_Payload :: bytes
  f_Arrival :: int

record JitterBuffer =
  jb_targetMs :: int
  jb_maxFrames :: int
  jb_frames :: "(uint16 \<times> Frame) list"
  jb_nextSeq :: uint16
  jb_started :: bool
  jb_lastPop :: "int option"
  jb_origin :: "int option"
  jb_lastTS :: uint32
  jb_lossCount :: uint64
  jb_recvCount :: uint64

definition NewJitterBuffer :: "int \<Rightarrow> int \<Rightarrow> JitterBuffer" where
  "NewJitterBuffer targetMs maxFrames =
     \<lparr>jb_targetMs = (if targetMs \<le> 0 then 60 else targetMs), jb_maxFrames = (if maxFrames \<le> 0 then 16 else maxFrames),
      jb_frames = [], jb_nextSeq = 0, jb_started = False, jb_lastPop = None, jb_origin = None, jb_lastTS = 0,
      jb_lossCount = 0, jb_recvCount = 0\<rparr>"

definition SetTargetMs :: "int \<Rightarrow> JitterBuffer \<Rightarrow> JitterBuffer" where
  "SetTargetMs ms j = j\<lparr>jb_targetMs := ms\<rparr>"

definition seqLess :: "uint16 \<Rightarrow> uint16 \<Rightarrow> bool" where
  "seqLess a b \<longleftrightarrow> sint (a - b) < 0"

definition lowest_step :: "uint16 option \<Rightarrow> uint16 \<Rightarrow> uint16 option" where
  "lowest_step l s = (case l of None \<Rightarrow> Some s | Some x \<Rightarrow> if seqLess s x then Some s else l)"

definition lowestSeqLocked :: "JitterBuffer \<Rightarrow> uint16" where
  "lowestSeqLocked j = (case foldl lowest_step None (map fst (jb_frames j)) of None \<Rightarrow> 0 | Some l \<Rightarrow> l)"

definition dropOldestLocked :: "JitterBuffer \<Rightarrow> JitterBuffer" where
  "dropOldestLocked j =
     (if jb_frames j = [] then j else j\<lparr>jb_frames := AList.delete (lowestSeqLocked j) (jb_frames j)\<rparr>)"

text \<open>The frame \<^verbatim>\<open>push\<close> stores: a missing timestamp becomes the milliseconds since the first push, at least one.\<close>

definition stored_frame :: "int \<Rightarrow> int \<Rightarrow> uint16 \<Rightarrow> uint32 \<Rightarrow> bytes \<Rightarrow> Frame" where
  "stored_frame now org seq timestamp payload =
     \<lparr>f_Sequence = seq, f_Timestamp = (if timestamp = 0 then word_of_int (max ((now - org) sdiv 1000000) 1) else timestamp),
      f_Payload = payload, f_Arrival = now\<rparr>"

definition push :: "int \<Rightarrow> uint16 \<Rightarrow> uint32 \<Rightarrow> bytes \<Rightarrow> JitterBuffer \<Rightarrow> JitterBuffer" where
  "push now seq timestamp payload j =
     (let j0 = j\<lparr>jb_recvCount := jb_recvCount j + 1\<rparr>
      in if jb_started j0 \<and> seqLess seq (jb_nextSeq j0) then j0
         else let org = (case jb_origin j0 of None \<Rightarrow> now | Some t \<Rightarrow> t);
                  j1 = j0\<lparr>jb_origin := Some org,
                          jb_frames := AList.update seq (stored_frame now org seq timestamp payload) (jb_frames j0)\<rparr>
              in if int (length (jb_frames j1)) > jb_maxFrames j1 then dropOldestLocked j1 else j1)"

definition shouldSkipMissingLocked :: "int \<Rightarrow> JitterBuffer \<Rightarrow> bool" where
  "shouldSkipMissingLocked now j =
     (let wait = (jb_targetMs j * 1000000) sdiv 2
      in case jb_lastPop j of
           None \<Rightarrow> length (jb_frames j) > 0
         | Some lp \<Rightarrow>
             now - lp > wait
             \<or> list_ex (\<lambda>(seq, f).
                  seqLess (jb_nextSeq j) seq
                  \<and> (now - f_Arrival f > wait
                     \<or> (jb_lastTS j \<noteq> 0 \<and> f_Timestamp f > jb_lastTS j
                         \<and> f_Timestamp f - jb_lastTS j > word_of_int (jb_targetMs j) div 2
                         \<and> now - f_Arrival f > wait sdiv 2))) (jb_frames j))"

definition start_locked :: "JitterBuffer \<Rightarrow> JitterBuffer" where
  "start_locked j = (if jb_started j then j else j\<lparr>jb_started := True, jb_nextSeq := lowestSeqLocked j\<rparr>)"

definition PopReady :: "int \<Rightarrow> JitterBuffer \<Rightarrow> JitterBuffer \<times> Frame option" where
  "PopReady now j0 =
     (if jb_frames j0 = [] then (j0, None)
      else let j = start_locked j0
           in case map_of (jb_frames j) (jb_nextSeq j) of
                None \<Rightarrow>
                  if shouldSkipMissingLocked now j
                  then (j\<lparr>jb_lossCount := jb_lossCount j + 1, jb_frames := AList.delete (jb_nextSeq j) (jb_frames j),
                          jb_nextSeq := jb_nextSeq j + 1\<rparr>, None)
                  else (j, None)
              | Some frame \<Rightarrow>
                  (j\<lparr>jb_frames := AList.delete (jb_nextSeq j) (jb_frames j), jb_nextSeq := jb_nextSeq j + 1,
                     jb_lastPop := Some now, jb_lastTS := f_Timestamp frame\<rparr>, Some frame))"

definition LossRate :: "JitterBuffer \<Rightarrow> rat" where
  "LossRate j = (if jb_recvCount j = 0 then 0 else of_nat (unat (jb_lossCount j)) / of_nat (unat (jb_recvCount j)))"

definition Depth :: "JitterBuffer \<Rightarrow> nat" where
  "Depth j = length (jb_frames j)"

subsection \<open>Invariant\<close>

text \<open>
  The buffer never holds more than its maximum, holds each sequence number once, and files every frame under its
  own number.
\<close>

definition jb_ok :: "JitterBuffer \<Rightarrow> bool" where
  "jb_ok j \<longleftrightarrow> distinct (map fst (jb_frames j)) \<and> int (length (jb_frames j)) \<le> jb_maxFrames j \<and> 0 < jb_maxFrames j
     \<and> (\<forall>(k, f) \<in> set (jb_frames j). f_Sequence f = k)"

lemma NewJitterBuffer_ok: "jb_ok (NewJitterBuffer t m)"
  by (simp add: jb_ok_def NewJitterBuffer_def)

lemma lowest_in: "foldl lowest_step (Some a) ks \<in> Some ` insert a (set ks)"
proof (induction ks arbitrary: a)
  case (Cons k ks)
  show ?case using Cons [of k] Cons [of a] by (auto simp: lowest_step_def)
qed simp

lemma lowestSeqLocked_in: "jb_frames j \<noteq> [] \<Longrightarrow> lowestSeqLocked j \<in> fst ` set (jb_frames j)"
proof -
  assume "jb_frames j \<noteq> []"
  then obtain x xs where c: "map fst (jb_frames j) = x # xs" by (cases "map fst (jb_frames j)") auto
  then have s: "fst ` set (jb_frames j) = insert x (set xs)" by (metis list.set_map list.simps(15))
  have "foldl lowest_step None (map fst (jb_frames j)) = foldl lowest_step (Some x) xs" using c by (simp add: lowest_step_def)
  then show ?thesis using lowest_in [of x xs] s by (auto simp: lowestSeqLocked_def)
qed

lemma delete_ok: "jb_ok j \<Longrightarrow> jb_ok (j\<lparr>jb_frames := AList.delete k (jb_frames j)\<rparr>)"
  using length_delete_le [of k "jb_frames j"] set_delete_subset [of k "jb_frames j"]
  by (auto simp: jb_ok_def distinct_delete)

lemma jb_ok_congs [simp]:
  "jb_ok (j\<lparr>jb_recvCount := a\<rparr>) = jb_ok j" "jb_ok (j\<lparr>jb_lossCount := a\<rparr>) = jb_ok j" "jb_ok (j\<lparr>jb_nextSeq := s\<rparr>) = jb_ok j"
  "jb_ok (j\<lparr>jb_started := b\<rparr>) = jb_ok j" "jb_ok (j\<lparr>jb_lastPop := t\<rparr>) = jb_ok j" "jb_ok (j\<lparr>jb_origin := t\<rparr>) = jb_ok j"
  "jb_ok (j\<lparr>jb_lastTS := ts\<rparr>) = jb_ok j" "jb_ok (j\<lparr>jb_targetMs := ms\<rparr>) = jb_ok j"
  by (simp_all add: jb_ok_def)

lemma dropOldestLocked_ok:
  assumes "distinct (map fst (jb_frames j))" "int (length (jb_frames j)) \<le> jb_maxFrames j + 1" "0 < jb_maxFrames j"
    "\<forall>(k, f) \<in> set (jb_frames j). f_Sequence f = k"
  shows "jb_ok (dropOldestLocked j)"
proof (cases "jb_frames j = []")
  case True
  with assms show ?thesis by (simp add: dropOldestLocked_def jb_ok_def)
next
  case False
  from length_delete_in [OF assms(1) lowestSeqLocked_in [OF False]] assms set_delete_subset [of "lowestSeqLocked j" "jb_frames j"] False
  show ?thesis by (auto simp: dropOldestLocked_def jb_ok_def distinct_delete)
qed

lemma push_ok:
  assumes "jb_ok j"
  shows "jb_ok (push now seq ts payload j)"
proof -
  define v where "v = stored_frame now (case jb_origin j of None \<Rightarrow> now | Some t \<Rightarrow> t) seq ts payload"
  have vs: "f_Sequence v = seq" by (simp add: v_def stored_frame_def)
  define j1 where "j1 = j\<lparr>jb_recvCount := jb_recvCount j + 1, jb_origin := Some (case jb_origin j of None \<Rightarrow> now | Some t \<Rightarrow> t),
    jb_frames := AList.update seq v (jb_frames j)\<rparr>"
  have e: "push now seq ts payload j =
     (if jb_started j \<and> seqLess seq (jb_nextSeq j) then j\<lparr>jb_recvCount := jb_recvCount j + 1\<rparr>
      else if int (length (jb_frames j1)) > jb_maxFrames j1 then dropOldestLocked j1 else j1)"
    by (simp add: push_def Let_def j1_def v_def)
  have d: "distinct (map fst (jb_frames j1))" using assms by (simp add: j1_def jb_ok_def distinct_update)
  have l: "int (length (jb_frames j1)) \<le> jb_maxFrames j1 + 1" "0 < jb_maxFrames j1"
    using assms by (auto simp: j1_def jb_ok_def length_AList_update)
  have k: "\<forall>(k, f) \<in> set (jb_frames j1). f_Sequence f = k"
    using set_update_subset [of seq v "jb_frames j"] assms vs by (auto simp: j1_def jb_ok_def)
  have "jb_ok (dropOldestLocked j1)" by (rule dropOldestLocked_ok [OF d l k])
  moreover have "jb_ok j1" if "\<not> int (length (jb_frames j1)) > jb_maxFrames j1"
    using that d l k by (simp add: jb_ok_def)
  ultimately show ?thesis using assms unfolding e by simp
qed

lemma start_locked_simps [simp]:
  "jb_frames (start_locked j) = jb_frames j" "jb_ok (start_locked j) = jb_ok j" "jb_started (start_locked j)"
  "jb_lastPop (start_locked j) = jb_lastPop j" "jb_targetMs (start_locked j) = jb_targetMs j"
  "jb_started j \<Longrightarrow> start_locked j = j"
  by (simp_all add: start_locked_def)

lemma PopReady_ok: "jb_ok j \<Longrightarrow> jb_ok (fst (PopReady now j))"
  using delete_ok [of "start_locked j"]
  by (simp add: PopReady_def Let_def split: option.splits) (simp add: jb_ok_def)

subsection \<open>Runs\<close>

text \<open>The callers interleave pushes and pops in any order; a run collects the frames that come out.\<close>

datatype jb_event = JPush int uint16 uint32 bytes | JPop int | JTarget int

definition jb_step :: "jb_event \<Rightarrow> JitterBuffer \<Rightarrow> JitterBuffer \<times> Frame list" where
  "jb_step ev j =
     (case ev of
        JPush now seq ts payload \<Rightarrow> (push now seq ts payload j, [])
      | JPop now \<Rightarrow> (case PopReady now j of (j', None) \<Rightarrow> (j', []) | (j', Some f) \<Rightarrow> (j', [f]))
      | JTarget ms \<Rightarrow> (SetTargetMs ms j, []))"

fun jb_run :: "jb_event list \<Rightarrow> JitterBuffer \<Rightarrow> JitterBuffer \<times> Frame list" where
  "jb_run [] j = (j, [])"
| "jb_run (e # es) j = (case jb_step e j of (j1, out) \<Rightarrow> case jb_run es j1 of (j2, out2) \<Rightarrow> (j2, out @ out2))"

lemma jb_step_ok: "jb_ok j \<Longrightarrow> jb_ok (fst (jb_step e j))"
proof (cases e)
  case (JPop now)
  then have "fst (jb_step e j) = fst (PopReady now j)" by (simp add: jb_step_def split: prod.splits option.splits)
  then show "jb_ok j \<Longrightarrow> jb_ok (fst (jb_step e j))" by (simp add: PopReady_ok)
qed (simp_all add: jb_step_def push_ok SetTargetMs_def)

lemma jb_run_ok: "jb_ok j \<Longrightarrow> jb_ok (fst (jb_run es j))"
proof (induction es arbitrary: j)
  case (Cons e es)
  obtain j1 out where s: "jb_step e j = (j1, out)" by (cases "jb_step e j")
  obtain j2 out2 where r: "jb_run es j1 = (j2, out2)" by (cases "jb_run es j1")
  from Cons.IH [of j1] jb_step_ok [OF Cons.prems, of e] s r show ?case by simp
qed simp

text \<open>The next expected number moves forward by at most one with each pop, and a frame that comes out has it.\<close>

lemma push_next [simp]:
  "jb_nextSeq (push now seq ts p j) = jb_nextSeq j" "jb_started (push now seq ts p j) = jb_started j"
  "jb_maxFrames (push now seq ts p j) = jb_maxFrames j"
  by (simp_all add: push_def Let_def dropOldestLocked_def)

lemma jb_frame_key: "jb_ok j \<Longrightarrow> map_of (jb_frames j) k = Some f \<Longrightarrow> f_Sequence f = k"
  by (auto simp: jb_ok_def dest: map_of_SomeD)

lemma PopReady_next:
  assumes "jb_ok j" "jb_started j"
  shows "case PopReady now j of (j', out) \<Rightarrow>
    jb_started j' \<and> jb_maxFrames j' = jb_maxFrames j
    \<and> (case out of None \<Rightarrow> jb_nextSeq j' = jb_nextSeq j \<or> jb_nextSeq j' = jb_nextSeq j + 1
       | Some f \<Rightarrow> f_Sequence f = jb_nextSeq j \<and> jb_nextSeq j' = jb_nextSeq j + 1 \<and> map_of (jb_frames j) (jb_nextSeq j) = Some f)"
  using assms jb_frame_key [OF assms(1)] by (simp add: PopReady_def Let_def split: option.splits)

definition pops :: "jb_event list \<Rightarrow> nat" where
  "pops es = length (filter (\<lambda>e. case e of JPop _ \<Rightarrow> True | _ \<Rightarrow> False) es)"

lemma pops_simps [simp]:
  "pops [] = 0" "pops (JPop n # es) = Suc (pops es)" "pops (JPush n s t p # es) = pops es" "pops (JTarget m # es) = pops es"
  by (simp_all add: pops_def)

text \<open>Numbers counted from \<open>base\<close> on: an increasing list of offsets below a bound.\<close>

definition in_order :: "uint16 \<Rightarrow> nat \<Rightarrow> uint16 list \<Rightarrow> bool" where
  "in_order base n ks \<longleftrightarrow> (\<exists>is. ks = map (\<lambda>i. base + of_nat i) is \<and> sorted_wrt (<) is \<and> (\<forall>i \<in> set is. i < n))"

lemma in_order_Nil [simp]: "in_order base n []"
  by (auto simp: in_order_def)

lemma in_order_mono: "in_order base m ks \<Longrightarrow> m \<le> n \<Longrightarrow> in_order base n ks"
  by (fastforce simp: in_order_def)

lemma in_order_shift: "in_order (base + 1) n ks \<Longrightarrow> in_order base (Suc n) ks"
proof -
  assume "in_order (base + 1) n ks"
  then obtain "is" where i: "ks = map (\<lambda>i. base + 1 + of_nat i) is" "sorted_wrt (<) is" "\<forall>i \<in> set is. i < n"
    by (auto simp: in_order_def)
  then show ?thesis unfolding in_order_def
    by (intro exI [of _ "map Suc is"]) (auto simp: sorted_wrt_map ac_simps)
qed

lemma in_order_Cons: "in_order (base + 1) n ks \<Longrightarrow> in_order base (Suc n) (base # ks)"
proof -
  assume "in_order (base + 1) n ks"
  then obtain "is" where i: "ks = map (\<lambda>i. base + 1 + of_nat i) is" "sorted_wrt (<) is" "\<forall>i \<in> set is. i < n"
    by (auto simp: in_order_def)
  then show ?thesis unfolding in_order_def
    by (intro exI [of _ "0 # map Suc is"]) (auto simp: sorted_wrt_map ac_simps)
qed

lemma jb_run_order_started:
  "jb_ok j \<Longrightarrow> jb_started j \<Longrightarrow> in_order (jb_nextSeq j) (pops es) (map f_Sequence (snd (jb_run es j)))"
proof (induction es arbitrary: j)
  case (Cons e es)
  obtain j1 out where s: "jb_step e j = (j1, out)" by (cases "jb_step e j")
  have ok1: "jb_ok j1" using jb_step_ok [OF Cons.prems(1), of e] s by simp
  have run: "map f_Sequence (snd (jb_run (e # es) j)) = map f_Sequence out @ map f_Sequence (snd (jb_run es j1))"
    using s by (simp split: prod.splits)
  show ?case
  proof (cases e)
    case (JPush now seq ts p)
    then have e1: "jb_nextSeq j1 = jb_nextSeq j" "jb_started j1" "out = []"
      using s Cons.prems(2) by (auto simp: jb_step_def)
    from Cons.IH [OF ok1 e1(2)] e1 run show ?thesis by (simp add: JPush)
  next
    case (JTarget ms)
    then have e1: "jb_nextSeq j1 = jb_nextSeq j" "jb_started j1" "out = []"
      using s Cons.prems(2) by (auto simp: jb_step_def SetTargetMs_def)
    from Cons.IH [OF ok1 e1(2)] e1 run show ?thesis by (simp add: JTarget)
  next
    case (JPop now)
    obtain o1 where p: "PopReady now j = (j1, o1)" "out = (case o1 of None \<Rightarrow> [] | Some f \<Rightarrow> [f])"
      using s JPop by (auto simp: jb_step_def split: prod.splits option.splits)
    from PopReady_next [OF Cons.prems, of now] p
    have n: "jb_started j1" "o1 = None \<Longrightarrow> jb_nextSeq j1 = jb_nextSeq j \<or> jb_nextSeq j1 = jb_nextSeq j + 1"
      "\<And>f. o1 = Some f \<Longrightarrow> f_Sequence f = jb_nextSeq j \<and> jb_nextSeq j1 = jb_nextSeq j + 1" by auto
    note ih = Cons.IH [OF ok1 n(1)]
    show ?thesis
    proof (cases o1)
      case None
      with n(2) have "jb_nextSeq j1 = jb_nextSeq j \<or> jb_nextSeq j1 = jb_nextSeq j + 1" by simp
      with ih have "in_order (jb_nextSeq j) (Suc (pops es)) (map f_Sequence (snd (jb_run es j1)))"
        by (auto intro: in_order_mono in_order_shift)
      with run p(2) None show ?thesis by (simp add: JPop)
    next
      case (Some f)
      with n(3) ih have "in_order (jb_nextSeq j) (Suc (pops es)) (f_Sequence f # map f_Sequence (snd (jb_run es j1)))"
        by (auto intro: in_order_Cons)
      with run p(2) Some show ?thesis by (simp add: JPop)
    qed
  qed
qed simp

text \<open>Before the first pop of a non-empty buffer nothing comes out; that pop starts the count at the lowest number.\<close>

lemma PopReady_start: "jb_frames j \<noteq> [] \<Longrightarrow> PopReady now (start_locked j) = PopReady now j"
  by (simp add: PopReady_def)

lemma jb_run_start:
  "jb_frames j \<noteq> [] \<Longrightarrow> jb_run (JPop now # es) j = jb_run (JPop now # es) (start_locked j)"
  by (simp add: jb_step_def PopReady_start)

lemma jb_run_order: "jb_ok j \<Longrightarrow> \<exists>base. in_order base (pops es) (map f_Sequence (snd (jb_run es j)))"
proof (induction es arbitrary: j)
  case (Cons e es)
  show ?case
  proof (cases "jb_started j")
    case True
    with Cons.prems show ?thesis by (blast intro: jb_run_order_started)
  next
    case False
    show ?thesis
    proof (cases "\<exists>now. e = JPop now \<and> jb_frames j \<noteq> []")
      case True
      then obtain now where e: "e = JPop now" "jb_frames j \<noteq> []" by blast
      with jb_run_order_started [of "start_locked j" "JPop now # es"] Cons.prems
      show ?thesis by (metis jb_run_start start_locked_simps(2,3))
    next
      case nofirst: False
      have out: "snd (jb_step e j) = []" using nofirst by (cases e) (auto simp: jb_step_def PopReady_def)
      obtain j1 where s: "jb_step e j = (j1, [])" using out by (metis prod.collapse)
      have "jb_ok j1" using jb_step_ok [OF Cons.prems, of e] s by simp
      from Cons.IH [OF this] obtain base where b: "in_order base (pops es) (map f_Sequence (snd (jb_run es j1)))" by blast
      have "pops es \<le> pops (e # es)" by (cases e) simp_all
      with b have "in_order base (pops (e # es)) (map f_Sequence (snd (jb_run es j1)))" by (rule in_order_mono)
      moreover have "snd (jb_run (e # es) j) = snd (jb_run es j1)" using s by (simp split: prod.splits)
      ultimately show ?thesis by auto
    qed
  qed
qed simp

text \<open>Every frame that comes out went in with the same number and payload.\<close>

definition pushed :: "jb_event list \<Rightarrow> (uint16 \<times> bytes) set" where
  "pushed es = {(seq, p). \<exists>now ts. JPush now seq ts p \<in> set es}"

definition held :: "JitterBuffer \<Rightarrow> (uint16 \<times> bytes) set" where
  "held j = (\<lambda>(k, f). (f_Sequence f, f_Payload f)) ` set (jb_frames j)"

lemma push_held: "held (push now seq ts p j) \<subseteq> insert (seq, p) (held j)"
proof -
  define v where "v = stored_frame now (case jb_origin j of None \<Rightarrow> now | Some t \<Rightarrow> t) seq ts p"
  have vs: "f_Sequence v = seq" "f_Payload v = p" by (simp_all add: v_def stored_frame_def)
  have f: "jb_frames (push now seq ts p j) \<in>
      {jb_frames j, AList.update seq v (jb_frames j)} \<union> range (\<lambda>k. AList.delete k (AList.update seq v (jb_frames j)))"
    by (simp add: push_def Let_def dropOldestLocked_def v_def)
  then have "set (jb_frames (push now seq ts p j)) \<subseteq> insert (seq, v) (set (jb_frames j))"
  proof (elim UnE insertE emptyE rangeE)
    show ?thesis if "jb_frames (push now seq ts p j) = jb_frames j" unfolding that by blast
    show ?thesis if "jb_frames (push now seq ts p j) = AList.update seq v (jb_frames j)"
      unfolding that by (rule set_update_subset)
    show ?thesis if "jb_frames (push now seq ts p j) = AList.delete k (AList.update seq v (jb_frames j))" for k
      unfolding that by (rule subset_trans [OF set_delete_subset set_update_subset])
  qed
  then have "held (push now seq ts p j) \<subseteq> (\<lambda>(k, f). (f_Sequence f, f_Payload f)) ` insert (seq, v) (set (jb_frames j))"
    unfolding held_def by (rule image_mono)
  then show ?thesis by (simp add: held_def vs)
qed

lemma PopReady_held:
  "held (fst (PopReady now j)) \<subseteq> held j \<and> (\<lambda>f. (f_Sequence f, f_Payload f)) ` set_option (snd (PopReady now j)) \<subseteq> held j"
proof -
  have d: "(\<lambda>(k, f). (f_Sequence f, f_Payload f)) ` set (AList.delete k m) \<subseteq> (\<lambda>(k, f). (f_Sequence f, f_Payload f)) ` set m"
    for k :: uint16 and m :: "(uint16 \<times> Frame) list" using set_delete_subset [of k m] by (rule image_mono)
  have l: "(f_Sequence f, f_Payload f) \<in> (\<lambda>(k, f). (f_Sequence f, f_Payload f)) ` set m" if "map_of m k = Some f"
    for k :: uint16 and f :: Frame and m using map_of_SomeD [OF that] by force
  show ?thesis using d l
    by (simp add: PopReady_def held_def Let_def split: option.splits)
qed

lemma jb_run_provenance:
  "(\<lambda>f. (f_Sequence f, f_Payload f)) ` set (snd (jb_run es j)) \<subseteq> held j \<union> pushed es"
proof (induction es arbitrary: j)
  case (Cons e es)
  obtain j1 out where s: "jb_step e j = (j1, out)" by (cases "jb_step e j")
  obtain j2 out2 where r: "jb_run es j1 = (j2, out2)" by (cases "jb_run es j1")
  have "held j1 \<subseteq> held j \<union> pushed (e # es) \<and> (\<lambda>f. (f_Sequence f, f_Payload f)) ` set out \<subseteq> held j"
  proof (cases e)
    case (JPush now seq ts p)
    then show ?thesis using s push_held [of now seq ts p j] by (auto simp: jb_step_def pushed_def)
  next
    case (JPop now)
    then show ?thesis using s PopReady_held [of now j] by (auto simp: jb_step_def split: prod.splits option.splits)
  next
    case (JTarget ms)
    then show ?thesis using s by (auto simp: jb_step_def SetTargetMs_def held_def)
  qed
  moreover have "pushed es \<subseteq> pushed (e # es)" by (auto simp: pushed_def)
  ultimately show ?case using Cons.IH [of j1] s r by (simp add: image_Un) blast
qed (simp add: held_def)

subsection \<open>No stall\<close>

text \<open>
  When frames are waiting and the last frame came out more than half the target time ago, or none ever did, every
  pop either yields a frame or steps over a missing number, so the next frame comes out after as many pops as
  there are missing numbers before it.
\<close>

definition overdue :: "int \<Rightarrow> JitterBuffer \<Rightarrow> bool" where
  "overdue now j \<longleftrightarrow> (case jb_lastPop j of None \<Rightarrow> True | Some lp \<Rightarrow> now - lp > (jb_targetMs j * 1000000) sdiv 2)"

lemma overdue_skips: "jb_frames j \<noteq> [] \<Longrightarrow> overdue now j \<Longrightarrow> shouldSkipMissingLocked now j"
  by (auto simp: overdue_def shouldSkipMissingLocked_def Let_def split: option.splits)

fun pop_until :: "int \<Rightarrow> nat \<Rightarrow> JitterBuffer \<Rightarrow> Frame option" where
  "pop_until now 0 j = None"
| "pop_until now (Suc n) j = (case PopReady now j of (j', Some f) \<Rightarrow> Some f | (j', None) \<Rightarrow> pop_until now n j')"

lemma pop_until_started:
  assumes "jb_started j" "overdue now j" "k \<in> fst ` set (jb_frames j)" "unat (k - jb_nextSeq j) < n"
  shows "\<exists>f. pop_until now n j = Some f"
  using assms
proof (induction n arbitrary: j)
  case (Suc n)
  have ne: "jb_frames j \<noteq> []" using Suc.prems(3) by auto
  show ?case
  proof (cases "map_of (jb_frames j) (jb_nextSeq j)")
    case (Some f)
    with ne Suc.prems(1) show ?thesis by (simp add: PopReady_def Let_def)
  next
    case None
    define j' where "j' = j\<lparr>jb_lossCount := jb_lossCount j + 1, jb_frames := AList.delete (jb_nextSeq j) (jb_frames j),
      jb_nextSeq := jb_nextSeq j + 1\<rparr>"
    have p: "PopReady now j = (j', None)"
      using None ne Suc.prems(1) overdue_skips [OF ne Suc.prems(2)] by (simp add: PopReady_def Let_def j'_def)
    have kn: "k \<noteq> jb_nextSeq j" using None Suc.prems(3) by (metis map_of_eq_None_iff)
    then have "k \<in> fst ` set (jb_frames j')" using Suc.prems(3) by (auto simp: j'_def AList.delete_eq image_iff)
    moreover have "unat (k - jb_nextSeq j') < n"
    proof -
      have "k - jb_nextSeq j \<noteq> 0" using kn by simp
      then have "unat (k - jb_nextSeq j - 1) = unat (k - jb_nextSeq j) - 1" by (rule unat_minus_one)
      moreover have "unat (k - jb_nextSeq j) \<noteq> 0" using kn by (simp add: unat_eq_0)
      ultimately show ?thesis using Suc.prems(4) by (simp add: j'_def diff_diff_eq)
    qed
    moreover have "jb_started j'" "overdue now j'" using Suc.prems(1,2) by (simp_all add: j'_def overdue_def split: option.splits)
    ultimately have "\<exists>f. pop_until now n j' = Some f" using Suc.IH by blast
    with p show ?thesis by simp
  qed
qed simp

subsection \<open>The adaptive controller\<close>

record LinkMetrics =
  m_RTT :: rat
  m_RSSI :: rat
  m_SNR :: rat
  m_Q :: rat
  m_LossRate :: rat
  m_JitterMs :: rat

record AdaptiveController =
  ac_bitrate :: int
  ac_useFEC :: bool
  ac_jitterMs :: int

definition NewAdaptiveController :: AdaptiveController where
  "NewAdaptiveController = \<lparr>ac_bitrate = 16000, ac_useFEC = False, ac_jitterMs = 80\<rparr>"

definition clampInt :: "int \<Rightarrow> int \<Rightarrow> int \<Rightarrow> int" where
  "clampInt v lo hi = (if v < lo then lo else if v > hi then hi else v)"

definition clampFloat :: "rat \<Rightarrow> rat \<Rightarrow> rat \<Rightarrow> rat" where
  "clampFloat v lo hi = max lo (min hi v)"

definition scoreMetrics :: "LinkMetrics \<Rightarrow> rat" where
  "scoreMetrics m =
     (let rttScore = 1 - clampFloat (m_RTT m / 2) 0 1;
          lossScore = 1 - clampFloat (m_LossRate m) 0 1;
          jitterScore = 1 - clampFloat (m_JitterMs m / 200) 0 1;
          rfScore = clampFloat ((m_Q m + m_SNR m / 30) / 2) 0 1
      in clampFloat (rttScore * (35 / 100) + lossScore * (35 / 100) + jitterScore * (15 / 100) + rfScore * (15 / 100)) 0 1)"

definition poorScore :: rat where "poorScore = 35 / 100"
definition fairScore :: rat where "fairScore = 65 / 100"

definition Update :: "LinkMetrics \<Rightarrow> AdaptiveController \<Rightarrow> AdaptiveController" where
  "Update m a =
     (if scoreMetrics m < poorScore
      then a\<lparr>ac_bitrate := clampInt (ac_bitrate a - 4000) MinBitrate MaxBitrate, ac_useFEC := True,
             ac_jitterMs := clampInt (ac_jitterMs a + 20) 40 300\<rparr>
      else if scoreMetrics m < fairScore
      then a\<lparr>ac_useFEC := (m_LossRate m > 5 / 100), ac_jitterMs := clampInt (ac_jitterMs a + 5) 40 200\<rparr>
      else a\<lparr>ac_bitrate := clampInt (ac_bitrate a + 2000) MinBitrate MaxBitrate,
             ac_useFEC := (if m_LossRate m < 1 / 100 then False else ac_useFEC a),
             ac_jitterMs := clampInt (ac_jitterMs a - 10) 40 160\<rparr>)"

lemma clampInt_range: "lo \<le> hi \<Longrightarrow> lo \<le> clampInt v lo hi \<and> clampInt v lo hi \<le> hi"
  by (simp add: clampInt_def)

definition ac_ok :: "AdaptiveController \<Rightarrow> bool" where
  "ac_ok a \<longleftrightarrow> MinBitrate \<le> ac_bitrate a \<and> ac_bitrate a \<le> MaxBitrate \<and> 40 \<le> ac_jitterMs a \<and> ac_jitterMs a \<le> 300"

lemma Update_ok: "ac_ok a \<Longrightarrow> ac_ok (Update m a)"
  by (auto simp: ac_ok_def Update_def clampInt_def MinBitrate_def MaxBitrate_def)

lemma fold_Update_ok: "ac_ok a \<Longrightarrow> ac_ok (fold Update ms a)"
  by (induction ms arbitrary: a) (simp_all add: Update_ok)

lemma scoreMetrics_range: "0 \<le> scoreMetrics m \<and> scoreMetrics m \<le> 1"
  by (simp add: scoreMetrics_def clampFloat_def Let_def)

text \<open>A link that stays poor is driven to the lowest bit rate and the deepest buffer, with error correction on.\<close>

lemma poor_steps:
  assumes "\<forall>m \<in> set ms. scoreMetrics m < poorScore" "ac_ok a"
  shows "ac_bitrate (fold Update ms a) = max MinBitrate (ac_bitrate a - 4000 * int (length ms))
    \<and> ac_jitterMs (fold Update ms a) = min 300 (ac_jitterMs a + 20 * int (length ms))
    \<and> (ms \<noteq> [] \<longrightarrow> ac_useFEC (fold Update ms a))"
  using assms
proof (induction ms rule: rev_induct)
  case (snoc m ms)
  define b where "b = fold Update ms a"
  have b: "ac_bitrate b = max MinBitrate (ac_bitrate a - 4000 * int (length ms))"
    "ac_jitterMs b = min 300 (ac_jitterMs a + 20 * int (length ms))" "ac_ok b"
    using snoc fold_Update_ok [OF snoc.prems(2), of ms] by (simp_all add: b_def)
  have "Update m b = b\<lparr>ac_bitrate := clampInt (ac_bitrate b - 4000) MinBitrate MaxBitrate, ac_useFEC := True,
             ac_jitterMs := clampInt (ac_jitterMs b + 20) 40 300\<rparr>"
    using snoc.prems(1) by (simp add: Update_def)
  moreover have "fold Update (ms @ [m]) a = Update m b" by (simp add: b_def)
  ultimately have u: "ac_bitrate (fold Update (ms @ [m]) a) = clampInt (ac_bitrate b - 4000) MinBitrate MaxBitrate"
    "ac_jitterMs (fold Update (ms @ [m]) a) = clampInt (ac_jitterMs b + 20) 40 300" "ac_useFEC (fold Update (ms @ [m]) a)"
    by simp_all
  have "clampInt (ac_bitrate b - 4000) MinBitrate MaxBitrate = max MinBitrate (ac_bitrate a - 4000 * int (length (ms @ [m])))"
    using b(1,3) unfolding clampInt_def ac_ok_def MinBitrate_def MaxBitrate_def max_def by (simp split: if_splits)
  moreover have "clampInt (ac_jitterMs b + 20) 40 300 = min 300 (ac_jitterMs a + 20 * int (length (ms @ [m])))"
    using b(2,3) unfolding clampInt_def ac_ok_def min_def by (simp split: if_splits)
  ultimately show ?case using u by simp
qed (simp add: ac_ok_def)

subsection \<open>Properties\<close>







end
