(* ===== verification/LXST_Call.thy ===== *)
theory LXST_Call
  imports LXST_Packet LXST_Media
begin

text \<open>
  One LXST telephone call: \<^verbatim>\<open>pkg/lxst/call/call.go\<close>, \<^verbatim>\<open>signaling.go\<close>, \<^verbatim>\<open>access.go\<close>, \<^verbatim>\<open>ratelimit.go\<close>,
  \<^verbatim>\<open>codec.go\<close> and the control part of \<^verbatim>\<open>pipeline.go\<close>.

  The state of a \<^verbatim>\<open>Call\<close> is a record; every method and callback that changes it is a function on this record.
  The atomics, locks and channels are plain fields: a handler runs as one step, and the goroutines of a call
  (resending, identifying, auto-answering, timeouts, the receiver) are steps of their own that the environment
  schedules in any order.  What goes out (packets, callbacks to the application, tones, link teardown) is the list
  \<open>c_out\<close>.

  The Reticulum link, the codecs and the audio device are not part of the repository's protocol logic: whether a send,
  an identification, the opening of a codec or device succeeds is read from an environment record that may differ at
  every step.  The peer link is \<open>c_peer\<close>: absent, or present with its active flag.  A codec is represented by the
  parameters it was opened with, and decoding is a function of the environment.
\<close>

datatype call_error =
  ErrNotActive | ErrAlreadyCall | ErrNoIdentity | ErrRemoteRequired | ErrNotRinging | ErrNotIncoming | ErrInvalidMode
  | ErrPipelinesClosed | ErrAnswerRaced | ErrBlocked | ErrRateLimited | ErrInvalidProfile
  | ErrSend | ErrPack lxst_error | ErrCodec | ErrDevice | ErrLink

datatype call_state = StateIdle | StateRinging | StateConnecting | StateActive | StateEnded

datatype call_tone = RingTone | DialTone | BusyTone

datatype call_out =
  Sent bytes | SentIdentity | Teardown | OnRinging | OnAnswered | OnBusy | OnRejected | OnEnded string | OnFrame "int list"
  | PlayTone call_tone

datatype call_timer = TimerConnect | TimerCall | TimerIdentify | TimerRing

subsection \<open>The rate limiter\<close>

record bucket =
  bk_tokens :: rat
  bk_last :: int

record RateLimiter =
  rl_interval :: int
  rl_burst :: int
  rl_buckets :: "(bytes \<times> bucket) list"

definition rateLimitMaxBuckets :: nat where "rateLimitMaxBuckets = 4096"
definition second_ns :: int where "second_ns = 1000000000"
definition minute_ns :: int where "minute_ns = 60 * second_ns"

definition NewRateLimiter :: "int \<Rightarrow> int \<Rightarrow> RateLimiter" where
  "NewRateLimiter interval burst =
     \<lparr>rl_interval = (if interval \<le> 0 then minute_ns else interval), rl_burst = (if burst \<le> 0 then 3 else burst), rl_buckets = []\<rparr>"

definition rateHashKey :: "bytes \<Rightarrow> bytes" where
  "rateHashKey hash = take 16 (hash @ replicate 16 0)"

definition pruneLocked :: "int \<Rightarrow> RateLimiter \<Rightarrow> RateLimiter" where
  "pruneLocked now r =
     (let stale = max (rl_interval r * 2) minute_ns;
          bs = filter (\<lambda>(k, b). \<not> now - bk_last b > stale) (rl_buckets r)
      in if length bs < rateLimitMaxBuckets then r\<lparr>rl_buckets := bs\<rparr>
         else r\<lparr>rl_buckets := drop (rateLimitMaxBuckets div 2) bs\<rparr>)"

definition take_token :: "int \<Rightarrow> bytes \<Rightarrow> bucket \<Rightarrow> RateLimiter \<Rightarrow> RateLimiter \<times> bool" where
  "take_token now key b r =
     (let elapsed = rat_of_int (now - bk_last b) / rat_of_int (rl_interval r);
          tokens = min (bk_tokens b + elapsed) (rat_of_int (rl_burst r));
          put = (\<lambda>t. r\<lparr>rl_buckets := AList.update key \<lparr>bk_tokens = t, bk_last = now\<rparr> (rl_buckets r)\<rparr>)
      in if tokens < 1 then (put tokens, False) else (put (tokens - 1), True))"

definition Allow :: "int \<Rightarrow> bytes \<Rightarrow> RateLimiter \<Rightarrow> RateLimiter \<times> bool" where
  "Allow now hash r0 =
     (let key = rateHashKey hash;
          r = (if length (rl_buckets r0) \<ge> rateLimitMaxBuckets then pruneLocked now r0 else r0)
      in case map_of (rl_buckets r) key of
           Some b \<Rightarrow> take_token now key b r
         | None \<Rightarrow>
             let r1 = (if length (rl_buckets r) \<ge> rateLimitMaxBuckets then pruneLocked now r else r)
             in if length (rl_buckets r1) \<ge> rateLimitMaxBuckets then (r1, False)
                else take_token now key \<lparr>bk_tokens = rat_of_int (rl_burst r1), bk_last = now\<rparr> r1)"

subsection \<open>State and environment\<close>

record call_Config =
  cfg_Identity :: bool
  cfg_UseAudio :: bool
  cfg_Device :: bool
  cfg_Profile :: int
  cfg_Mode :: int
  cfg_RingTime :: int
  cfg_WaitTime :: int
  cfg_ConnectTime :: int
  cfg_AutoAnswer :: int
  cfg_AllowPolicy :: byte
  cfg_Allowed :: "bytes list"
  cfg_Blocked :: "bytes list"
  cfg_AllowFunc :: "(bytes \<Rightarrow> bool) option"

record Call =
  c_cfg :: call_Config
  c_state :: call_state
  c_muted :: bool
  c_mutedRX :: bool
  c_squelched :: bool
  c_incoming :: bool
  c_answered :: bool
  c_identified :: bool
  c_modeFollowOff :: bool
  c_status :: int
  c_profile :: int
  c_callMode :: int
  c_frameSeq :: uint32
  c_recvCount :: uint64
  c_peer :: "bool option"
  c_jitter :: JitterBuffer
  c_adaptive :: AdaptiveController
  c_limiter :: "RateLimiter option"
  c_agcPaused :: bool
  c_ringStopped :: bool
  c_encoder :: "CodecParams option"
  c_decoder :: "(byte \<times> CodecParams) option"
  c_device :: bool
  c_deviceOwned :: bool
  c_params :: CodecParams
  c_opened :: bool
  c_started :: bool
  c_txArmed :: bool
  c_ended :: bool
  c_endErr :: "call_error option"
  c_recvKind :: byte
  c_timers :: "call_timer list"
  c_resends :: nat
  c_identifyTries :: nat
  c_autoAnswer :: bool
  c_out :: "call_out list"

record call_env =
  ce_now :: int
  ce_dest :: bool
  ce_establish :: bool
  ce_active :: bool
  ce_send :: bool
  ce_identify :: bool
  ce_newEncoder :: "CodecParams \<Rightarrow> bool"
  ce_newDecoder :: "byte \<Rightarrow> CodecParams \<Rightarrow> bool"
  ce_decode :: "byte \<times> CodecParams \<Rightarrow> bytes \<Rightarrow> int list option"
  ce_plc :: "byte \<times> CodecParams \<Rightarrow> int list option"
  ce_open :: bool
  ce_start :: bool

definition emit :: "call_out \<Rightarrow> Call \<Rightarrow> Call" where
  "emit o1 c = c\<lparr>c_out := c_out c @ [o1]\<rparr>"

definition AllowAll :: byte where "AllowAll = 0xFF"
definition AllowNone :: byte where "AllowNone = 0xFE"

definition withDefaults :: "call_Config \<Rightarrow> call_Config" where
  "withDefaults cfg =
     cfg\<lparr>cfg_Profile := (if cfg_Profile cfg = 0 then DefaultProfile else cfg_Profile cfg),
         cfg_Mode := (if cfg_Mode cfg = 0 then DefaultMode else cfg_Mode cfg),
         cfg_RingTime := (if cfg_RingTime cfg = 0 then 60 * second_ns else cfg_RingTime cfg),
         cfg_WaitTime := (if cfg_WaitTime cfg = 0 then 70 * second_ns else cfg_WaitTime cfg),
         cfg_ConnectTime := (if cfg_ConnectTime cfg = 0 then 5 * second_ns else cfg_ConnectTime cfg),
         cfg_AllowPolicy := (if cfg_AllowPolicy cfg = 0 \<and> length (cfg_Allowed cfg) = 0 \<and> Option.is_none (cfg_AllowFunc cfg)
                             then AllowAll else cfg_AllowPolicy cfg),
         cfg_UseAudio := (if cfg_Device cfg then True else cfg_UseAudio cfg)\<rparr>"

definition clampInt32 :: "int \<Rightarrow> int" where
  "clampInt32 v = (if v > 2147483647 then 2147483647 else if v < -2147483648 then -2147483648 else v)"

subsection \<open>State changes and signals\<close>

definition casState :: "call_state \<Rightarrow> call_state \<Rightarrow> Call \<Rightarrow> Call \<times> bool" where
  "casState from to c = (if c_state c = from then (c\<lparr>c_state := to\<rparr>, True) else (c, False))"

definition storeState :: "call_state \<Rightarrow> Call \<Rightarrow> Call" where
  "storeState s c = c\<lparr>c_state := s\<rparr>"

definition note_status :: "int list \<Rightarrow> Call \<Rightarrow> Call" where
  "note_status = fold (\<lambda>s c. if IsAutoStatus s \<and> s \<ge> c_status c then c\<lparr>c_status := clampInt32 s\<rparr> else c)"

definition sendSignals :: "call_env \<Rightarrow> int list \<Rightarrow> Call \<Rightarrow> Call \<times> call_error option" where
  "sendSignals E signals c =
     (if c_peer c \<noteq> Some True then (c, Some ErrNotActive)
      else let c1 = note_status signals c
           in case PackSignalling signals of
                Inl e \<Rightarrow> (c1, Some (ErrPack e))
              | Inr raw \<Rightarrow> if ce_send E then (emit (Sent raw) c1, None) else (c1, Some ErrSend))"

definition applyProfile :: "int \<Rightarrow> Call \<Rightarrow> Call" where
  "applyProfile profile0 c =
     (let profile = (if profile0 = 0 then DefaultProfile else profile0);
          params = ProfileParams profile
      in c\<lparr>c_profile := clampInt32 profile, c_params := params,
           c_jitter := SetTargetMs (cp_FrameMs params * cp_BufferN params) (c_jitter c)\<rparr>)"

definition setSquelchState :: "bool \<Rightarrow> Call \<Rightarrow> Call" where
  "setSquelchState on c =
     (if c_squelched c = on then c
      else let c1 = c\<lparr>c_squelched := on\<rparr> in if c_state c1 = StateActive then c1\<lparr>c_agcPaused := on\<rparr> else c1)"

definition applyModeSquelch :: "Call \<Rightarrow> Call" where
  "applyModeSquelch c = setSquelchState (c_callMode c = ModeHalfDuplex) c"

definition stopRingtone :: "Call \<Rightarrow> Call" where
  "stopRingtone c = c\<lparr>c_ringStopped := True\<rparr>"

definition startTone :: "call_tone \<Rightarrow> Call \<Rightarrow> Call" where
  "startTone t c =
     (if cfg_UseAudio (c_cfg c) \<and> (t = BusyTone \<or> \<not> c_ringStopped c) then emit (PlayTone t) c else c)"

definition armTX :: "Call \<Rightarrow> Call" where
  "armTX c = c\<lparr>c_txArmed := True\<rparr>"

definition armTimeout :: "int \<Rightarrow> call_timer \<Rightarrow> Call \<Rightarrow> Call" where
  "armTimeout d t c = (if d \<le> 0 then c else c\<lparr>c_timers := c_timers c @ [t]\<rparr>)"

definition end_call :: "string \<Rightarrow> Call \<Rightarrow> Call" where
  "end_call reason c0 =
     (let c = c0\<lparr>c_ended := True\<rparr>
      in if c_state c = StateEnded then c
         else let c1 = stopRingtone (c\<lparr>c_state := StateEnded, c_status := StatusAvailable\<rparr>);
                  c2 = c1\<lparr>c_encoder := None, c_decoder := None, c_device := False, c_deviceOwned := False,
                          c_opened := False, c_started := False\<rparr>;
                  c3 = (if c_peer c2 = Some True then emit Teardown (c2\<lparr>c_peer := Some False\<rparr>) else c2)
              in emit (OnEnded reason) c3)"

definition NewCall :: "call_Config \<Rightarrow> Call" where
  "NewCall cfg0 =
     (let cfg = withDefaults cfg0
      in applyProfile (cfg_Profile cfg)
        \<lparr>c_cfg = cfg, c_state = StateIdle, c_muted = False, c_mutedRX = False, c_squelched = (cfg_Mode cfg = ModeHalfDuplex),
         c_incoming = False, c_answered = False, c_identified = False, c_modeFollowOff = False, c_status = StatusAvailable,
         c_profile = 0, c_callMode = clampInt32 (cfg_Mode cfg), c_frameSeq = 0, c_recvCount = 0, c_peer = None,
         c_jitter = NewJitterBuffer 80 32, c_adaptive = NewAdaptiveController, c_limiter = None, c_agcPaused = False,
         c_ringStopped = False, c_encoder = None, c_decoder = None, c_device = False, c_deviceOwned = False,
         c_params = ProfileParams 0, c_opened = False, c_started = False, c_txArmed = False, c_ended = False, c_endErr = None,
         c_recvKind = 0, c_timers = [], c_resends = 0, c_identifyTries = 0, c_autoAnswer = False, c_out = []\<rparr>)"

definition SetRateCheck :: "RateLimiter option \<Rightarrow> Call \<Rightarrow> Call" where
  "SetRateCheck l c = c\<lparr>c_limiter := l\<rparr>"

definition Transmitting :: "Call \<Rightarrow> bool" where
  "Transmitting c =
     (if c_state c \<noteq> StateActive \<or> c_muted c then False
      else if c_callMode c = ModeHalfDuplex \<and> c_squelched c then False else True)"

definition isLive :: "Call \<Rightarrow> bool" where
  "isLive c \<longleftrightarrow> c_state c = StateActive \<or> c_state c = StateRinging"

definition callerAllowed :: "call_Config \<Rightarrow> bytes option \<Rightarrow> bool" where
  "callerAllowed cfg i =
     (case i of
        None \<Rightarrow> False
      | Some hash \<Rightarrow>
          if list_ex (\<lambda>b. b = hash) (cfg_Blocked cfg) then False
          else case cfg_AllowFunc cfg of
                 Some f \<Rightarrow> f hash
               | None \<Rightarrow>
                   if cfg_AllowPolicy cfg = AllowNone then False
                   else if cfg_AllowPolicy cfg = AllowAll then True
                   else if cfg_AllowPolicy cfg = 0 \<and> length (cfg_Allowed cfg) = 0 then True
                   else list_ex (\<lambda>a. a = hash) (cfg_Allowed cfg))"

subsection \<open>Pipelines\<close>

definition openPipelines :: "call_env \<Rightarrow> Call \<Rightarrow> Call \<times> call_error option" where
  "openPipelines E c =
     (if c_opened c then (c, None)
      else if c_state c = StateEnded then (c, Some ErrNotActive)
      else let params = ProfileParams (c_profile c);
               c1 = c\<lparr>c_opened := True, c_params := params\<rparr>;
               closed = c1\<lparr>c_opened := False\<rparr>
           in if \<not> ce_newEncoder E params then (closed, Some ErrCodec)
              else if \<not> ce_newDecoder E (cp_Codec params) params then (closed, Some ErrCodec)
              else if \<not> cfg_Device (c_cfg c) \<and> cfg_UseAudio (c_cfg c) \<and> \<not> ce_open E then (closed, Some ErrDevice)
              else if \<not> ce_start E then (closed, Some ErrDevice)
              else if c_state c1 = StateEnded then (closed, Some ErrNotActive)
              else let c2 = c1\<lparr>c_encoder := Some params, c_decoder := Some (cp_Codec params, params), c_device := True,
                               c_deviceOwned := \<not> cfg_Device (c_cfg c), c_recvKind := cp_Codec params\<rparr>
                   in (if \<not> c_incoming c2 then fst (sendSignals E [StatusEstablished] c2) else c2, None))"

definition startPipelines :: "Call \<Rightarrow> Call \<times> call_error option" where
  "startPipelines c =
     (if c_started c then (c, None)
      else if c_state c = StateEnded then (c, Some ErrNotActive)
      else if c_encoder c = None then (c, Some ErrPipelinesClosed)
      else (applyModeSquelch (c\<lparr>c_started := True\<rparr>), None))"

definition switchProfile :: "call_env \<Rightarrow> int \<Rightarrow> Call \<Rightarrow> Call \<times> call_error option" where
  "switchProfile E profile c =
     (if c_state c \<noteq> StateActive then (applyProfile profile c, None)
      else let params = ProfileParams profile
           in if \<not> ce_newEncoder E params then (c, Some ErrCodec)
              else if \<not> ce_newDecoder E (cp_Codec params) params then (c, Some ErrCodec)
              else ((applyProfile profile c)\<lparr>c_encoder := Some params, c_decoder := Some (cp_Codec params, params),
                      c_params := params\<rparr>, None))"

subsection \<open>Placing and receiving a call\<close>

text \<open>\<^verbatim>\<open>Dial\<close> up to the point where it waits for the call to become active.\<close>

definition call_Dial :: "call_env \<Rightarrow> bool \<Rightarrow> Call \<Rightarrow> Call \<times> call_error option" where
  "call_Dial E remote c =
     (if \<not> remote then (c, Some ErrRemoteRequired)
      else if \<not> cfg_Identity (c_cfg c) then (c, Some ErrNoIdentity)
      else case casState StateIdle StateConnecting c of
             (c1, False) \<Rightarrow> (c1, Some ErrAlreadyCall)
           | (c1, True) \<Rightarrow>
               let c2 = c1\<lparr>c_incoming := False, c_status := StatusCalling\<rparr>
               in if \<not> ce_dest E then (storeState StateIdle c2, Some ErrLink)
                  else let c3 = c2\<lparr>c_peer := Some False\<rparr>
                       in if \<not> ce_establish E then ((storeState StateIdle c3)\<lparr>c_peer := None\<rparr>, Some ErrLink)
                          else (armTimeout (cfg_WaitTime (c_cfg c3)) TimerCall c3, None))"

definition onOutgoingEstablished :: "Call \<Rightarrow> Call" where
  "onOutgoingEstablished c =
     (armTimeout (cfg_ConnectTime (c_cfg c)) TimerConnect (c\<lparr>c_peer := Some True\<rparr>))\<lparr>c_identifyTries := 8\<rparr>"

definition identifyOnce :: "call_env \<Rightarrow> Call \<Rightarrow> Call" where
  "identifyOnce E c =
     (if c_incoming c \<or> \<not> cfg_Identity (c_cfg c) then c
      else if c_status c \<ge> StatusRinging then c
      else if c_peer c \<noteq> Some True then c
      else if c_identified c then c
      else if ce_identify E then emit SentIdentity (c\<lparr>c_identified := True\<rparr>) else c\<lparr>c_identified := False\<rparr>)"

text \<open>One round of the loop of \<^verbatim>\<open>identifyIfStillConnecting\<close>, after its sleep.\<close>

definition identifyIfStillConnecting :: "call_env \<Rightarrow> Call \<Rightarrow> Call" where
  "identifyIfStillConnecting E c =
     (if c_identifyTries c = 0 then c
      else if c_ended c \<or> c_state c \<noteq> StateConnecting \<or> c_status c \<ge> StatusRinging then c\<lparr>c_identifyTries := 0\<rparr>
      else let c1 = identifyOnce E c
           in c1\<lparr>c_identifyTries := (if c_identified c1 then 0 else c_identifyTries c1 - 1)\<rparr>)"

definition ServeIncoming :: "call_env \<Rightarrow> Call \<Rightarrow> Call \<times> call_error option" where
  "ServeIncoming E c =
     (case casState StateIdle StateConnecting c of
        (c1, False) \<Rightarrow> (c1, Some ErrAlreadyCall)
      | (c1, True) \<Rightarrow>
          let c2 = c1\<lparr>c_incoming := True, c_peer := Some (ce_active E), c_status := StatusAvailable\<rparr>
          in case sendSignals E [StatusAvailable] c2 of
               (c3, Some e) \<Rightarrow> ((storeState StateIdle c3)\<lparr>c_peer := None\<rparr>, Some e)
             | (c3, None) \<Rightarrow> (armTimeout (cfg_ConnectTime (c_cfg c3)) TimerIdentify (c3\<lparr>c_resends := 25\<rparr>), None))"

text \<open>One round of the loop of \<^verbatim>\<open>resendAvailableUntilIdentified\<close>, after its sleep.\<close>

definition resendAvailableUntilIdentified :: "call_env \<Rightarrow> Call \<Rightarrow> Call" where
  "resendAvailableUntilIdentified E c =
     (if c_resends c = 0 then c
      else if c_ended c \<or> \<not> c_incoming c \<or> c_state c \<noteq> StateConnecting \<or> c_status c \<ge> StatusRinging then c\<lparr>c_resends := 0\<rparr>
      else fst (sendSignals E [StatusAvailable] (c\<lparr>c_resends := c_resends c - 1\<rparr>)))"

definition rejectIncoming :: "call_env \<Rightarrow> call_error \<Rightarrow> string \<Rightarrow> Call \<Rightarrow> Call" where
  "rejectIncoming E err reason c =
     end_call reason (fst (sendSignals E [StatusBusy] (emit OnBusy (c\<lparr>c_endErr := Some err\<rparr>))))"

definition limiterAllows :: "call_env \<Rightarrow> bytes option \<Rightarrow> Call \<Rightarrow> Call \<times> bool" where
  "limiterAllows E i c =
     (case (c_limiter c, i) of
        (Some l, Some hash) \<Rightarrow> (case Allow (ce_now E) hash l of (l', ok) \<Rightarrow> (c\<lparr>c_limiter := Some l'\<rparr>, ok))
      | _ \<Rightarrow> (c, True))"

definition onIdentified :: "call_env \<Rightarrow> bytes option \<Rightarrow> Call \<Rightarrow> Call" where
  "onIdentified E i c =
     (if \<not> c_incoming c then c
      else if \<not> callerAllowed (c_cfg c) i then rejectIncoming E ErrBlocked ''caller blocked'' c
      else case limiterAllows E i c of
             (c1, False) \<Rightarrow> rejectIncoming E ErrRateLimited ''rate limited'' c1
           | (c1, True) \<Rightarrow>
               (case casState StateConnecting StateRinging c1 of
                  (c2, False) \<Rightarrow> c2
                | (c2, True) \<Rightarrow>
                    let c3 = fst (sendSignals E [StatusRinging] (c2\<lparr>c_status := StatusRinging\<rparr>));
                        c4 = startTone RingTone (emit OnRinging c3);
                        c5 = c4\<lparr>c_autoAnswer := (cfg_AutoAnswer (c_cfg c4) > 0)\<rparr>
                    in armTimeout (cfg_RingTime (c_cfg c5)) TimerRing c5))"

definition call_onLinkClosed :: "Call \<Rightarrow> Call" where
  "call_onLinkClosed c =
     end_call ''link closed''
       ((if \<not> c_incoming c \<and> c_state c = StateRinging then emit OnRejected c else c)\<lparr>c_peer := map_option (\<lambda>_. False) (c_peer c)\<rparr>)"

text \<open>The goroutine of \<^verbatim>\<open>armTimeout\<close>: the timer fires once and ends the call if it is still waiting.\<close>

definition stillWaiting :: "call_timer \<Rightarrow> Call \<Rightarrow> bool" where
  "stillWaiting t c =
     (case t of
        TimerConnect \<Rightarrow> c_status c < StatusRinging
      | TimerCall \<Rightarrow> c_status c < StatusEstablished
      | TimerIdentify \<Rightarrow> c_incoming c \<and> c_state c = StateConnecting
      | TimerRing \<Rightarrow> c_status c < StatusEstablished)"

definition timer_reason :: "call_timer \<Rightarrow> string" where
  "timer_reason t =
     (case t of TimerConnect \<Rightarrow> ''connect timeout'' | TimerCall \<Rightarrow> ''call timeout'' | TimerIdentify \<Rightarrow> ''identify timeout''
      | TimerRing \<Rightarrow> ''ring timeout'')"

definition fire_timeout :: "call_timer \<Rightarrow> Call \<Rightarrow> Call" where
  "fire_timeout t c0 =
     (if t \<notin> set (c_timers c0) then c0
      else let c = c0\<lparr>c_timers := remove1 t (c_timers c0)\<rparr>
           in if stillWaiting t c \<and> c_state c \<noteq> StateEnded \<and> c_state c \<noteq> StateIdle then end_call (timer_reason t) c else c)"

subsection \<open>Signals from the peer\<close>

definition signalBusy :: "Call \<Rightarrow> Call" where
  "signalBusy c = end_call ''busy'' (startTone BusyTone (emit OnBusy c))"

definition signalRejected :: "Call \<Rightarrow> Call" where
  "signalRejected c = end_call ''rejected'' (startTone BusyTone (emit OnRejected c))"

definition signalRinging :: "call_env \<Rightarrow> Call \<Rightarrow> Call" where
  "signalRinging E c =
     (case casState StateConnecting StateRinging (c\<lparr>c_status := StatusRinging\<rparr>) of
        (c1, ok) \<Rightarrow>
          if ok \<or> c_state c1 = StateRinging then
            let c2 = applyProfile (c_profile c1) c1;
                c3 = emit OnRinging (fst (sendSignals E [SignalPreferredProfile (c_profile c2), SignalPreferredMode (c_callMode c2)] c2))
            in if \<not> c_incoming c3 then startTone DialTone c3 else c3
          else c1)"

definition signalConnecting :: "call_env \<Rightarrow> Call \<Rightarrow> Call" where
  "signalConnecting E c =
     (let c1 = c\<lparr>c_status := StatusConnecting\<rparr> in if \<not> c_incoming c1 then fst (openPipelines E c1) else c1)"

definition signalEstablished :: "call_env \<Rightarrow> Call \<Rightarrow> Call" where
  "signalEstablished E c =
     (if \<not> c_incoming c then
        let c1 = fst (openPipelines E c);
            became = (c_state c1 = StateRinging \<or> c_state c1 = StateConnecting);
            c2 = (if became then c1\<lparr>c_state := StateActive, c_status := StatusEstablished\<rparr> else c1);
            c3 = fst (startPipelines (armTX c2))
        in if became then emit OnAnswered c3 else c3
      else c\<lparr>c_status := StatusEstablished\<rparr>)"

definition applyPreferredProfile :: "call_env \<Rightarrow> int \<Rightarrow> Call \<Rightarrow> Call" where
  "applyPreferredProfile E signal c =
     (let p = ProfileFromSignal signal; profile = (if p = 0 then DefaultProfile else p)
      in if \<not> KnownProfile profile then c
         else if c_state c = StateActive then fst (switchProfile E profile c)
         else applyProfile profile c)"

definition applyPreferredMode :: "int \<Rightarrow> Call \<Rightarrow> Call" where
  "applyPreferredMode signal c =
     (if c_modeFollowOff c then c
      else let mode = ModeFromSignal signal
           in if mode \<noteq> ModeFullDuplex \<and> mode \<noteq> ModeHalfDuplex then c
              else let c1 = c\<lparr>c_callMode := mode\<rparr>
                   in if c_state c1 = StateActive then setSquelchState (mode = ModeHalfDuplex) c1
                      else c1\<lparr>c_squelched := (mode = ModeHalfDuplex)\<rparr>)"

definition handleSignal :: "call_env \<Rightarrow> int \<Rightarrow> Call \<Rightarrow> Call" where
  "handleSignal E signal c =
     (if c_incoming c \<and> \<not> c_answered c \<and> signal < PreferredMode then c
      else if signal = StatusBusy then signalBusy c
      else if signal = StatusRejected then signalRejected c
      else if signal = StatusAvailable then identifyOnce E (c\<lparr>c_status := signal\<rparr>)
      else if signal = StatusRinging then signalRinging E c
      else if signal = StatusConnecting then signalConnecting E c
      else if signal = StatusEstablished then signalEstablished E c
      else if IsPreferredProfile signal then applyPreferredProfile E signal c
      else if IsPreferredMode signal then applyPreferredMode signal c
      else c)"

definition handleSignals :: "call_env \<Rightarrow> int list \<Rightarrow> Call \<Rightarrow> Call" where
  "handleSignals E = fold (handleSignal E)"

definition handleFrame :: "call_env \<Rightarrow> bytes \<Rightarrow> Call \<Rightarrow> Call" where
  "handleFrame E frame c =
     (if c_incoming c \<and> \<not> c_answered c then c
      else if c_state c = StateIdle \<or> c_state c = StateEnded then c
      else if length frame < 1 then c
      else let c1 = c\<lparr>c_frameSeq := c_frameSeq c + 1\<rparr>
           in c1\<lparr>c_jitter := push (ce_now E) (ucast (c_frameSeq c1)) 0 frame (c_jitter c1), c_recvCount := c_recvCount c1 + 1\<rparr>)"

definition onPacket :: "call_env \<Rightarrow> bytes \<Rightarrow> Call \<Rightarrow> Call" where
  "onPacket E data c =
     (if length data > MaxUnpackBytes then c
      else case Unpack data of
             Inl e \<Rightarrow> c
           | Inr msg \<Rightarrow>
               let c1 = (if length (pk_Signals msg) > 0 then handleSignals E (pk_Signals msg) c else c)
               in fold (handleFrame E) (pk_Frames msg) c1)"

subsection \<open>The local user\<close>

definition Answer :: "call_env \<Rightarrow> Call \<Rightarrow> Call \<times> call_error option" where
  "Answer E c =
     (if c_state c \<noteq> StateRinging then (c, Some ErrNotRinging)
      else if \<not> c_incoming c then (c, Some ErrNotIncoming)
      else case sendSignals E [StatusConnecting] (stopRingtone (c\<lparr>c_answered := True\<rparr>)) of
             (c1, Some e) \<Rightarrow> (c1, Some e)
           | (c1, None) \<Rightarrow>
               (case openPipelines E c1 of
                  (c2, Some e) \<Rightarrow> (c2, Some e)
                | (c2, None) \<Rightarrow>
                    (case casState StateRinging StateActive c2 of
                       (c3, False) \<Rightarrow> (end_call ''answer raced hangup'' c3, Some ErrAnswerRaced)
                     | (c3, True) \<Rightarrow>
                         (case startPipelines (c3\<lparr>c_status := StatusEstablished\<rparr>) of
                            (c4, Some e) \<Rightarrow> (end_call ''pipeline start failed'' c4, Some e)
                          | (c4, None) \<Rightarrow>
                              (case sendSignals E [StatusEstablished] c4 of
                                 (c5, Some e) \<Rightarrow> (end_call ''establish failed'' c5, Some e)
                               | (c5, None) \<Rightarrow> (emit OnAnswered (armTX c5), None))))))"

definition autoAnswer :: "call_env \<Rightarrow> Call \<Rightarrow> Call" where
  "autoAnswer E c0 =
     (if \<not> c_autoAnswer c0 then c0
      else let c = c0\<lparr>c_autoAnswer := False\<rparr> in if c_ended c then c else fst (Answer E c))"

definition Reject :: "call_env \<Rightarrow> string \<Rightarrow> Call \<Rightarrow> Call \<times> call_error option" where
  "Reject E reason c =
     (if c_state c \<noteq> StateRinging then (c, Some ErrNotRinging)
      else let c1 = (if c_incoming c then fst (sendSignals E [StatusRejected] c) else c)
           in (end_call (if reason = [] then ''rejected'' else reason) c1, None))"

definition Hangup :: "call_env \<Rightarrow> string \<Rightarrow> Call \<Rightarrow> Call" where
  "Hangup E reason c =
     (if c_state c = StateIdle \<or> c_state c = StateEnded then c
      else end_call reason
        (if c_incoming c \<and> c_state c = StateRinging \<and> \<not> c_answered c then fst (sendSignals E [StatusRejected] c) else c))"

definition MuteTX :: "bool \<Rightarrow> Call \<Rightarrow> Call \<times> call_error option" where
  "MuteTX m c = (if \<not> isLive c then (c, Some ErrNotActive) else (c\<lparr>c_muted := m\<rparr>, None))"

definition MuteRX :: "bool \<Rightarrow> Call \<Rightarrow> Call \<times> call_error option" where
  "MuteRX m c = (if \<not> isLive c then (c, Some ErrNotActive) else (c\<lparr>c_mutedRX := m\<rparr>, None))"

definition Squelch :: "bool \<Rightarrow> Call \<Rightarrow> Call" where
  "Squelch on c = (if c_state c \<noteq> StateActive then c else setSquelchState on c)"

definition PTT :: "bool \<Rightarrow> Call \<Rightarrow> Call" where
  "PTT down c = (if c_state c \<noteq> StateActive then c else setSquelchState (\<not> down) c)"

definition DisableRemoteModeFollow :: "Call \<Rightarrow> Call" where
  "DisableRemoteModeFollow c = c\<lparr>c_modeFollowOff := True\<rparr>"

definition SwitchProfile :: "call_env \<Rightarrow> int \<Rightarrow> Call \<Rightarrow> Call \<times> call_error option" where
  "SwitchProfile E profile0 c =
     (let profile = (if profile0 = 0 then DefaultProfile else profile0)
      in if \<not> KnownProfile profile then (c, Some ErrInvalidProfile)
         else if c_state c = StateActive then
           (case switchProfile E profile c of
              (c1, Some e) \<Rightarrow> (c1, Some e)
            | (c1, None) \<Rightarrow> sendSignals E [SignalPreferredProfile profile] c1)
         else (applyProfile profile c, None))"

definition SwitchMode :: "call_env \<Rightarrow> int \<Rightarrow> Call \<Rightarrow> Call \<times> call_error option" where
  "SwitchMode E mode c =
     (if mode \<noteq> ModeFullDuplex \<and> mode \<noteq> ModeHalfDuplex then (c, Some ErrInvalidMode)
      else let c1 = c\<lparr>c_callMode := mode\<rparr>
           in if c_state c1 = StateActive then sendSignals E [SignalPreferredMode mode] (setSquelchState (mode = ModeHalfDuplex) c1)
              else (c1\<lparr>c_squelched := (mode = ModeHalfDuplex)\<rparr>, None))"

subsection \<open>The media goroutines\<close>

definition ensureRecvDecoder :: "call_env \<Rightarrow> byte \<Rightarrow> bytes \<Rightarrow> Call \<Rightarrow> Call \<times> call_error option" where
  "ensureRecvDecoder E codec payload c =
     (if c_decoder c \<noteq> None \<and> c_recvKind c = codec then (c, None)
      else if c_decoder c \<noteq> None \<and> c_recvKind c \<noteq> codec \<and> (codec \<noteq> CodecCodec2 \<or> c_recvKind c \<noteq> CodecCodec2) then (c, None)
      else let p = c_params c;
               params = (if codec = CodecCodec2 \<and> length payload > 0
                         then let br = Codec2BitrateForHeader (hd payload)
                              in if br > 0 then p\<lparr>cp_Bitrate := br, cp_Codec := CodecCodec2\<rparr> else p
                         else p\<lparr>cp_Codec := codec\<rparr>)
           in if \<not> ce_newDecoder E codec params then (c, Some ErrCodec)
              else if c_decoder c \<noteq> None \<and> c_recvKind c = codec then (c, None)
              else (c\<lparr>c_decoder := Some (codec, params), c_recvKind := codec\<rparr>, None))"

text \<open>One round of \<^verbatim>\<open>mediaReceiver\<close>: a decoding error falls back to loss concealment.\<close>

definition playReadyFrame :: "call_env \<Rightarrow> Call \<Rightarrow> Call" where
  "playReadyFrame E c0 =
     (case PopReady (ce_now E) (c_jitter c0) of
        (j, None) \<Rightarrow> c0\<lparr>c_jitter := j\<rparr>
      | (j, Some frame) \<Rightarrow>
          let c = c0\<lparr>c_jitter := j\<rparr>
          in case SplitFrame (f_Payload frame) of
               Inl e \<Rightarrow> c
             | Inr (codec, payload) \<Rightarrow>
                 (case ensureRecvDecoder E codec payload c of
                    (c1, Some e) \<Rightarrow> c1
                  | (c1, None) \<Rightarrow>
                      (case c_decoder c1 of
                         None \<Rightarrow> c1
                       | Some d \<Rightarrow>
                           (case (case ce_decode E d payload of Some pcm \<Rightarrow> Some pcm | None \<Rightarrow> ce_plc E d) of
                              None \<Rightarrow> c1
                            | Some pcm \<Rightarrow> emit (OnFrame pcm) c1))))"

definition applyLinkStats :: "LinkMetrics \<Rightarrow> Call \<Rightarrow> Call" where
  "applyLinkStats m c =
     (if c_peer c = None then c
      else let a = Update (m\<lparr>m_LossRate := LossRate (c_jitter c), m_JitterMs := rat_of_int (jb_targetMs (c_jitter c))\<rparr>) (c_adaptive c);
               minJitter = cp_FrameMs (c_params c) * cp_BufferN (c_params c);
               j = (if minJitter > 0 \<and> ac_jitterMs a < minJitter then minJitter else ac_jitterMs a)
           in c\<lparr>c_adaptive := a, c_jitter := SetTargetMs j (c_jitter c)\<rparr>)"

definition clampPercent :: "int \<Rightarrow> int" where
  "clampPercent v = (if v < 0 then 0 else if v > 100 then 100 else v)"

text \<open>The bit rate, error correction flag and loss percentage \<^verbatim>\<open>applyOpusAdaptation\<close> sets on the encoder.\<close>

definition applyOpusAdaptation :: "AdaptiveController \<Rightarrow> CodecParams \<Rightarrow> rat \<Rightarrow> int \<times> bool \<times> int" where
  "applyOpusAdaptation a params lossRate =
     (let br0 = (if cp_Bitrate params > 0 \<and> ac_bitrate a > cp_Bitrate params then cp_Bitrate params else ac_bitrate a);
          br = (if br0 < MinBitrate then MinBitrate else br0)
      in (br, ac_useFEC a, clampPercent \<lfloor>lossRate * 100\<rfloor>))"

end
