(* ===== verification/LXST_Call_Inv.thy ===== *)
theory LXST_Call_Inv
  imports LXST_Call
begin

text \<open>
  Runs of a call and what holds in every one of them.  A run is any sequence of events, each with its own
  environment: API calls of the local user, packets and callbacks of the link, and rounds of the call's goroutines.
  The part of the state the invariant is about is projected to \<open>core\<close>, so that each operation is shown once to change
  the core in one of a few ways.
\<close>

subsection \<open>Steps\<close>

datatype call_ev =
  EvDial bool | EvEstablished | EvServe | EvIdentified "bytes option" | EvPacket bytes | EvLinkClosed | EvTimer call_timer
  | EvResend | EvIdentifyRound | EvAutoAnswer | EvAnswer | EvReject string | EvHangup string | EvMuteTX bool | EvMuteRX bool
  | EvSquelch bool | EvPTT bool | EvNoFollow | EvSwitchProfile int | EvSwitchMode int | EvPlay | EvStats LinkMetrics
  | EvRateCheck "RateLimiter option"

text \<open>Callbacks of the link need a link, and the media goroutines run once the pipelines have started.\<close>

definition call_do :: "call_env \<Rightarrow> call_ev \<Rightarrow> Call \<Rightarrow> Call" where
  "call_do E ev c =
     (case ev of
        EvDial remote \<Rightarrow> fst (call_Dial E remote c)
      | EvEstablished \<Rightarrow> if c_peer c = None then c else onOutgoingEstablished c
      | EvServe \<Rightarrow> fst (ServeIncoming E c)
      | EvIdentified i \<Rightarrow> if c_peer c = None then c else onIdentified E i c
      | EvPacket data \<Rightarrow> if c_peer c = None then c else onPacket E data c
      | EvLinkClosed \<Rightarrow> if c_peer c = None then c else call_onLinkClosed c
      | EvTimer t \<Rightarrow> fire_timeout t c
      | EvResend \<Rightarrow> resendAvailableUntilIdentified E c
      | EvIdentifyRound \<Rightarrow> identifyIfStillConnecting E c
      | EvAutoAnswer \<Rightarrow> autoAnswer E c
      | EvAnswer \<Rightarrow> fst (Answer E c)
      | EvReject reason \<Rightarrow> fst (Reject E reason c)
      | EvHangup reason \<Rightarrow> Hangup E reason c
      | EvMuteTX m \<Rightarrow> fst (MuteTX m c)
      | EvMuteRX m \<Rightarrow> fst (MuteRX m c)
      | EvSquelch on \<Rightarrow> Squelch on c
      | EvPTT down \<Rightarrow> PTT down c
      | EvNoFollow \<Rightarrow> DisableRemoteModeFollow c
      | EvSwitchProfile p \<Rightarrow> fst (SwitchProfile E p c)
      | EvSwitchMode m \<Rightarrow> fst (SwitchMode E m c)
      | EvPlay \<Rightarrow> if c_started c then playReadyFrame E c else c
      | EvStats m \<Rightarrow> if c_started c then applyLinkStats m c else c
      | EvRateCheck l \<Rightarrow> SetRateCheck l c)"

definition call_run :: "(call_env \<times> call_ev) list \<Rightarrow> Call \<Rightarrow> Call" where
  "call_run es c = fold (\<lambda>(E, ev). call_do E ev) es c"

lemma call_run_simps [simp]:
  "call_run [] c = c" "call_run (es @ [(E, ev)]) c = call_do E ev (call_run es c)"
  "call_run ((E, ev) # es) c = call_run es (call_do E ev c)"
  by (simp_all add: call_run_def)

subsection \<open>The core of a call\<close>

record call_core =
  k_cfg :: call_Config
  k_state :: call_state
  k_incoming :: bool
  k_answered :: bool
  k_encoder :: "CodecParams option"
  k_decoder :: "(byte \<times> CodecParams) option"
  k_device :: bool
  k_opened :: bool
  k_started :: bool
  k_txArmed :: bool
  k_frames :: "(uint16 \<times> Frame) list"
  k_peer :: "bool option"
  k_ended :: bool
  k_endings :: nat
  k_auto :: bool

definition isEnded :: "call_out \<Rightarrow> bool" where
  "isEnded o1 = (case o1 of OnEnded _ \<Rightarrow> True | _ \<Rightarrow> False)"

definition core :: "Call \<Rightarrow> call_core" where
  "core c = \<lparr>k_cfg = c_cfg c, k_state = c_state c, k_incoming = c_incoming c, k_answered = c_answered c, k_encoder = c_encoder c,
     k_decoder = c_decoder c, k_device = c_device c, k_opened = c_opened c, k_started = c_started c, k_txArmed = c_txArmed c,
     k_frames = jb_frames (c_jitter c), k_peer = c_peer c, k_ended = c_ended c, k_endings = length (filter isEnded (c_out c)), k_auto = c_autoAnswer c\<rparr>"

lemma core_sel [simp]:
  "k_cfg (core c) = c_cfg c" "k_state (core c) = c_state c" "k_incoming (core c) = c_incoming c" "k_answered (core c) = c_answered c"
  "k_encoder (core c) = c_encoder c" "k_decoder (core c) = c_decoder c" "k_device (core c) = c_device c" "k_opened (core c) = c_opened c"
  "k_started (core c) = c_started c" "k_txArmed (core c) = c_txArmed c" "k_frames (core c) = jb_frames (c_jitter c)"
  "k_peer (core c) = c_peer c" "k_ended (core c) = c_ended c" "k_endings (core c) = length (filter isEnded (c_out c))"
  "k_auto (core c) = c_autoAnswer c"
  by (simp_all add: core_def)

text \<open>Updates of fields outside the core, and of those inside.\<close>

lemma core_upd [simp]:
  "core (c\<lparr>c_muted := b\<rparr>) = core c" "core (c\<lparr>c_mutedRX := b\<rparr>) = core c" "core (c\<lparr>c_squelched := b\<rparr>) = core c"
  "core (c\<lparr>c_identified := b\<rparr>) = core c" "core (c\<lparr>c_modeFollowOff := b\<rparr>) = core c" "core (c\<lparr>c_status := n\<rparr>) = core c"
  "core (c\<lparr>c_profile := n\<rparr>) = core c" "core (c\<lparr>c_callMode := n\<rparr>) = core c" "core (c\<lparr>c_frameSeq := sq\<rparr>) = core c"
  "core (c\<lparr>c_recvCount := rc\<rparr>) = core c" "core (c\<lparr>c_adaptive := a\<rparr>) = core c" "core (c\<lparr>c_limiter := l\<rparr>) = core c"
  "core (c\<lparr>c_agcPaused := b\<rparr>) = core c" "core (c\<lparr>c_ringStopped := b\<rparr>) = core c" "core (c\<lparr>c_deviceOwned := b\<rparr>) = core c"
  "core (c\<lparr>c_params := p\<rparr>) = core c" "core (c\<lparr>c_endErr := e\<rparr>) = core c" "core (c\<lparr>c_recvKind := k\<rparr>) = core c"
  "core (c\<lparr>c_timers := ts\<rparr>) = core c" "core (c\<lparr>c_resends := r\<rparr>) = core c" "core (c\<lparr>c_identifyTries := r\<rparr>) = core c"
  by (simp_all add: core_def)

lemma core_upd_in [simp]:
  "core (c\<lparr>c_state := s\<rparr>) = (core c)\<lparr>k_state := s\<rparr>" "core (c\<lparr>c_incoming := b\<rparr>) = (core c)\<lparr>k_incoming := b\<rparr>"
  "core (c\<lparr>c_answered := b\<rparr>) = (core c)\<lparr>k_answered := b\<rparr>" "core (c\<lparr>c_encoder := e\<rparr>) = (core c)\<lparr>k_encoder := e\<rparr>"
  "core (c\<lparr>c_decoder := d\<rparr>) = (core c)\<lparr>k_decoder := d\<rparr>" "core (c\<lparr>c_device := b\<rparr>) = (core c)\<lparr>k_device := b\<rparr>"
  "core (c\<lparr>c_opened := b\<rparr>) = (core c)\<lparr>k_opened := b\<rparr>" "core (c\<lparr>c_started := b\<rparr>) = (core c)\<lparr>k_started := b\<rparr>"
  "core (c\<lparr>c_txArmed := b\<rparr>) = (core c)\<lparr>k_txArmed := b\<rparr>" "core (c\<lparr>c_peer := l\<rparr>) = (core c)\<lparr>k_peer := l\<rparr>"
  "core (c\<lparr>c_ended := b\<rparr>) = (core c)\<lparr>k_ended := b\<rparr>" "core (c\<lparr>c_jitter := j\<rparr>) = (core c)\<lparr>k_frames := jb_frames j\<rparr>"
  "core (c\<lparr>c_autoAnswer := b\<rparr>) = (core c)\<lparr>k_auto := b\<rparr>"
  by (simp_all add: core_def)

lemma core_emit: "core (emit o1 c) = (if isEnded o1 then k_endings_update Suc (core c) else core c)"
  by (simp add: emit_def core_def)

lemma core_emit_simps [simp]:
  "core (emit (Sent raw) c) = core c" "core (emit SentIdentity c) = core c" "core (emit Teardown c) = core c"
  "core (emit OnRinging c) = core c" "core (emit OnAnswered c) = core c" "core (emit OnBusy c) = core c"
  "core (emit OnRejected c) = core c" "core (emit (OnFrame pcm) c) = core c" "core (emit (PlayTone t) c) = core c"
  "core (emit (OnEnded r) c) = k_endings_update Suc (core c)"
  by (simp_all add: core_emit isEnded_def)

text \<open>Fields are read off the core, so that equal cores agree on them.\<close>

lemma core_fields:
  "c_cfg c = k_cfg (core c)" "c_state c = k_state (core c)" "c_incoming c = k_incoming (core c)" "c_answered c = k_answered (core c)"
  "c_encoder c = k_encoder (core c)" "c_decoder c = k_decoder (core c)" "c_opened c = k_opened (core c)"
  "c_started c = k_started (core c)" "c_peer c = k_peer (core c)" "c_ended c = k_ended (core c)"
  by simp_all

lemma core_note_status [simp]: "core (note_status ss c) = core c"
  by (induction ss arbitrary: c) (simp_all add: note_status_def)

lemma core_sendSignals [simp]: "core (fst (sendSignals E ss c)) = core c"
  by (simp add: sendSignals_def Let_def split: sum.splits)

lemma core_profile [simp]: "core (applyProfile p c) = core c"
proof -
  have "(core c)\<lparr>k_frames := jb_frames (c_jitter c)\<rparr> = core c" by (simp add: core_def)
  then show ?thesis by (simp add: applyProfile_def SetTargetMs_def Let_def)
qed

lemma core_squelch [simp]: "core (setSquelchState on c) = core c" "core (applyModeSquelch c) = core c"
  by (simp_all add: setSquelchState_def applyModeSquelch_def Let_def)

lemma core_tones [simp]: "core (stopRingtone c) = core c" "core (startTone t c) = core c"
  by (simp_all add: stopRingtone_def startTone_def)

lemma core_arm [simp]:
  "core (armTimeout d tm c) = core c" "core (armTX c) = (core c)\<lparr>k_txArmed := True\<rparr>" "core (storeState s c) = (core c)\<lparr>k_state := s\<rparr>"
  by (simp_all add: armTimeout_def armTX_def storeState_def)

lemma core_identifyOnce [simp]: "core (identifyOnce E c) = core c"
  by (simp add: identifyOnce_def)

lemma core_identifyIfStillConnecting [simp]: "core (identifyIfStillConnecting E c) = core c"
  by (simp add: identifyIfStillConnecting_def Let_def)

lemma core_resend [simp]: "core (resendAvailableUntilIdentified E c) = core c"
  by (simp add: resendAvailableUntilIdentified_def)

lemma core_applyPreferredMode [simp]: "core (applyPreferredMode sg c) = core c"
  by (simp add: applyPreferredMode_def Let_def)

lemma core_user [simp]:
  "core (fst (MuteTX m c)) = core c" "core (fst (MuteRX m c)) = core c" "core (Squelch on c) = core c" "core (PTT down c) = core c"
  "core (DisableRemoteModeFollow c) = core c" "core (SetRateCheck l c) = core c"
  by (simp_all add: MuteTX_def MuteRX_def Squelch_def PTT_def DisableRemoteModeFollow_def SetRateCheck_def)

lemma core_SwitchMode [simp]: "core (fst (SwitchMode E md c)) = core c"
  by (simp add: SwitchMode_def Let_def)

lemma core_applyLinkStats [simp]: "core (applyLinkStats lm c) = core c"
proof -
  have "(core c)\<lparr>k_frames := jb_frames (c_jitter c)\<rparr> = core c" by (simp add: core_def)
  then show ?thesis by (simp add: applyLinkStats_def Let_def SetTargetMs_def)
qed

lemma core_limiterAllows [simp]: "core (fst (limiterAllows E i c)) = core c"
  by (simp add: limiterAllows_def split: option.splits prod.splits)

subsection \<open>The invariant\<close>

definition closed_pipes :: "call_core \<Rightarrow> bool" where
  "closed_pipes k \<longleftrightarrow> k_encoder k = None \<and> k_decoder k = None \<and> \<not> k_device k \<and> \<not> k_opened k \<and> \<not> k_started k"

definition core_ok :: "call_core \<Rightarrow> bool" where
  "core_ok k \<longleftrightarrow>
     (k_incoming k \<and> \<not> k_answered k \<longrightarrow> k_state k \<noteq> StateActive \<and> closed_pipes k \<and> \<not> k_txArmed k \<and> k_frames k = [])
     \<and> (k_state k = StateEnded \<longrightarrow> closed_pipes k)
     \<and> (k_state k = StateIdle \<longrightarrow> closed_pipes k \<and> \<not> k_txArmed k \<and> k_frames k = [] \<and> \<not> k_answered k \<and> k_peer k = None)
     \<and> (k_answered k \<longrightarrow> k_incoming k \<and> k_state k \<noteq> StateConnecting)
     \<and> (k_ended k \<longleftrightarrow> k_state k = StateEnded)
     \<and> k_endings k = (if k_state k = StateEnded then 1 else 0)
     \<and> (k_auto k \<longrightarrow> cfg_AutoAnswer (k_cfg k) > 0)"

text \<open>A call that has a link: not idle any more.\<close>

definition live_ok :: "call_core \<Rightarrow> bool" where
  "live_ok k \<longleftrightarrow> core_ok k \<and> k_state k \<noteq> StateIdle"

lemma core_ok_peer_live: "core_ok k \<Longrightarrow> k_peer k \<noteq> None \<Longrightarrow> live_ok k"
  by (auto simp: live_ok_def core_ok_def)

lemma live_ok_D: "live_ok k \<Longrightarrow> core_ok k"
  by (simp add: live_ok_def)

definition ended_core :: "call_core \<Rightarrow> call_core" where
  "ended_core k = k_endings_update Suc (k\<lparr>k_ended := True, k_state := StateEnded, k_encoder := None, k_decoder := None, k_device := False, k_opened := False,
     k_started := False, k_peer := (if k_peer k = Some True then Some False else k_peer k)\<rparr>)"

lemma core_end_call:
  "core (end_call r c) = (if c_state c = StateEnded then (core c)\<lparr>k_ended := True\<rparr> else ended_core (core c))"
  by (simp add: end_call_def ended_core_def Let_def stopRingtone_def)

lemma ended_core_ok: "core_ok k \<Longrightarrow> k_state k \<noteq> StateEnded \<Longrightarrow> live_ok (ended_core k)"
  by (simp add: core_ok_def live_ok_def ended_core_def closed_pipes_def)

lemma end_call_ok: "core_ok (core c) \<Longrightarrow> live_ok (core (end_call r c))"
proof (cases "c_state c = StateEnded")
  case True
  assume ok: "core_ok (core c)"
  with True have "(core c)\<lparr>k_ended := True\<rparr> = core c" by (simp add: core_ok_def core_def)
  with True ok show ?thesis by (simp add: core_end_call live_ok_def)
qed (simp add: core_end_call ended_core_ok)

lemma end_call_Ended [simp]: "c_state (end_call r c) = StateEnded"
  by (simp add: end_call_def Let_def stopRingtone_def emit_def)

definition open_core :: "CodecParams \<Rightarrow> call_core \<Rightarrow> call_core" where
  "open_core p k = k\<lparr>k_opened := True, k_encoder := Some p, k_decoder := Some (cp_Codec p, p), k_device := True\<rparr>"

lemma core_openPipelines:
  "core (fst (openPipelines E c)) = core c
   \<or> c_state c \<noteq> StateEnded \<and> (\<exists>p. core (fst (openPipelines E c)) = open_core p (core c))"
proof (cases "c_opened c \<or> c_state c = StateEnded")
  case False
  have "(core c)\<lparr>k_opened := False\<rparr> = core c" using False by (simp add: core_def)
  with False show ?thesis by (simp add: openPipelines_def Let_def open_core_def) auto
qed (auto simp: openPipelines_def)

text \<open>
  A good step keeps the invariant of a call with a link, its configuration and direction, whether it was answered, and
  its end; it moves the state of an incoming call that was not answered at most to the end.
\<close>

definition good :: "call_core \<Rightarrow> call_core \<Rightarrow> bool" where
  "good k k' \<longleftrightarrow> (live_ok k \<longrightarrow>
     live_ok k' \<and> k_cfg k' = k_cfg k \<and> k_incoming k' = k_incoming k \<and> k_answered k' = k_answered k
     \<and> (k_state k = StateEnded \<longrightarrow> k_state k' = StateEnded)
     \<and> (k_incoming k \<and> \<not> k_answered k \<longrightarrow> k_state k' = k_state k \<or> k_state k' = StateEnded))"

lemma good_refl [simp]: "good k k"
  by (simp add: good_def)

lemma good_trans: "good k k1 \<Longrightarrow> good k1 k2 \<Longrightarrow> good k k2"
  unfolding good_def by (cases "live_ok k") auto

lemma good_end: "k_state k \<noteq> StateEnded \<Longrightarrow> good k (ended_core k)"
  using ended_core_ok [of k] by (simp add: good_def live_ok_D) (simp add: ended_core_def)

lemma good_end_call: "good (core c) (core (end_call r c))"
proof (cases "c_state c = StateEnded")
  case True
  show ?thesis unfolding good_def
  proof
    assume ok: "live_ok (core c)"
    with True have "(core c)\<lparr>k_ended := True\<rparr> = core c" by (simp add: live_ok_def core_ok_def core_def)
    with True ok show "live_ok (core (end_call r c)) \<and> k_cfg (core (end_call r c)) = k_cfg (core c)
        \<and> k_incoming (core (end_call r c)) = k_incoming (core c) \<and> k_answered (core (end_call r c)) = k_answered (core c)
        \<and> (k_state (core c) = StateEnded \<longrightarrow> k_state (core (end_call r c)) = StateEnded)
        \<and> (k_incoming (core c) \<and> \<not> k_answered (core c) \<longrightarrow>
             k_state (core (end_call r c)) = k_state (core c) \<or> k_state (core (end_call r c)) = StateEnded)"
      by (simp only: core_end_call if_True) simp
  qed
qed (simp add: core_end_call good_end)

text \<open>Steps that only an outgoing or an answered call takes.\<close>

definition talking :: "call_core \<Rightarrow> bool" where
  "talking k \<longleftrightarrow> \<not> k_incoming k \<or> k_answered k"

lemma good_open: "talking k \<Longrightarrow> k_state k \<noteq> StateEnded \<Longrightarrow> good k (open_core p k)"
  unfolding good_def live_ok_def core_ok_def open_core_def talking_def by auto

lemma good_started: "talking k \<Longrightarrow> k_state k \<noteq> StateEnded \<Longrightarrow> good k (k\<lparr>k_started := True\<rparr>)"
  unfolding good_def live_ok_def core_ok_def talking_def by auto

lemma good_armed: "talking k \<Longrightarrow> good k (k\<lparr>k_txArmed := True\<rparr>)"
  unfolding good_def live_ok_def core_ok_def talking_def closed_pipes_def by auto

lemma good_frames: "talking k \<Longrightarrow> good k (k\<lparr>k_frames := fs\<rparr>)"
  unfolding good_def live_ok_def core_ok_def talking_def closed_pipes_def by auto

lemma good_state:
  "talking k \<Longrightarrow> k_state k = StateConnecting \<or> k_state k = StateRinging \<Longrightarrow> s = StateRinging \<or> s = StateActive
   \<Longrightarrow> good k (k\<lparr>k_state := s\<rparr>)"
  unfolding good_def live_ok_def core_ok_def talking_def closed_pipes_def by auto

lemma good_codec: "k_state k = StateActive \<Longrightarrow> good k (k\<lparr>k_encoder := e, k_decoder := d\<rparr>)"
  unfolding good_def live_ok_def core_ok_def by simp

subsection \<open>Every handler is a good step\<close>

lemma talking_good: "good k k' \<Longrightarrow> live_ok k \<Longrightarrow> talking k' \<longleftrightarrow> talking k"
  by (simp add: good_def talking_def)

lemma good_openPipelines:
  assumes "talking (core c)"
  shows "good (core c) (core (fst (openPipelines E c)))"
  using core_openPipelines [of E c]
proof (elim disjE conjE exE)
  assume "core (fst (openPipelines E c)) = core c"
  then show ?thesis by (simp only: good_refl)
next
  fix p assume s: "c_state c \<noteq> StateEnded" and e: "core (fst (openPipelines E c)) = open_core p (core c)"
  show ?thesis unfolding e by (rule good_open [OF assms]) (use s in simp)
qed

lemma good_startPipelines:
  assumes "talking (core c)"
  shows "good (core c) (core (fst (startPipelines c)))"
proof (cases "core (fst (startPipelines c)) = core c")
  case False
  then have s: "c_state c \<noteq> StateEnded" and e: "core (fst (startPipelines c)) = (core c)\<lparr>k_started := True\<rparr>"
    by (auto simp: startPipelines_def split: if_splits)
  show ?thesis unfolding e by (rule good_started [OF assms]) (use s in simp)
qed simp

lemma good_switchProfile: "good (core c) (core (fst (switchProfile E p c)))"
proof (cases "c_state c = StateActive \<and> core (fst (switchProfile E p c)) \<noteq> core c")
  case True
  then obtain e d where "core (fst (switchProfile E p c)) = (core c)\<lparr>k_encoder := Some e, k_decoder := Some d\<rparr>"
    by (auto simp: switchProfile_def Let_def split: if_splits)
  then show ?thesis using good_codec [of "core c"] True by simp
next
  case False
  then have "core (fst (switchProfile E p c)) = core c" by (auto simp: switchProfile_def)
  then show ?thesis by simp
qed

lemma good_signalBusy: "good (core c) (core (signalBusy c))"
  using good_end_call [of "startTone BusyTone (emit OnBusy c)"] by (simp add: signalBusy_def)

lemma good_signalRejected: "good (core c) (core (signalRejected c))"
  using good_end_call [of "startTone BusyTone (emit OnRejected c)"] by (simp add: signalRejected_def)

lemma core_signalRinging:
  "core (signalRinging E c) = (if c_state c = StateConnecting then (core c)\<lparr>k_state := StateRinging\<rparr> else core c)"
  by (simp add: signalRinging_def casState_def Let_def)

lemma good_signalRinging: "talking (core c) \<Longrightarrow> good (core c) (core (signalRinging E c))"
  using good_state [of "core c" StateRinging] by (simp add: core_signalRinging)

lemma good_signalConnecting: "talking (core c) \<Longrightarrow> good (core c) (core (signalConnecting E c))"
  using good_openPipelines [of "c\<lparr>c_status := StatusConnecting\<rparr>" E] by (simp add: signalConnecting_def Let_def)

lemma good_signalEstablished:
  assumes "live_ok (core c)"
  shows "good (core c) (core (signalEstablished E c))"
proof (cases "c_incoming c")
  case True
  then show ?thesis by (simp add: signalEstablished_def)
next
  case False
  then have t: "talking (core c)" by (simp add: talking_def)
  define c1 where "c1 = fst (openPipelines E c)"
  define became where "became = (c_state c1 = StateRinging \<or> c_state c1 = StateConnecting)"
  define c2 where "c2 = (if became then c1\<lparr>c_state := StateActive, c_status := StatusEstablished\<rparr> else c1)"
  have g1: "good (core c) (core c1)" unfolding c1_def by (rule good_openPipelines [OF t])
  then have l1: "live_ok (core c1)" "talking (core c1)" using assms t talking_good [OF g1] by (auto simp: good_def)
  have "good (core c1) (core c2)"
    using good_state [OF l1(2), of StateActive] by (auto simp: c2_def became_def)
  then have g2: "good (core c) (core c2)" by (rule good_trans [OF g1])
  then have t2: "talking (core c2)" using assms t talking_good by blast
  have g3: "good (core c) (core (armTX c2))" using good_trans [OF g2 good_armed [OF t2]] by simp
  then have "talking (core (armTX c2))" using assms t talking_good by blast
  from good_trans [OF g3 good_startPipelines [OF this]]
  have "good (core c) (core (fst (startPipelines (armTX c2))))" .
  moreover have "core (signalEstablished E c) = core (fst (startPipelines (armTX c2)))"
    using False by (simp add: signalEstablished_def Let_def c1_def became_def c2_def)
  ultimately show ?thesis by simp
qed

lemma good_applyPreferredProfile: "good (core c) (core (applyPreferredProfile E s c))"
  using good_switchProfile by (simp add: applyPreferredProfile_def Let_def)

lemma good_handleSignal:
  assumes "live_ok (core c)"
  shows "good (core c) (core (handleSignal E s c))"
proof (cases "c_incoming c \<and> \<not> c_answered c \<and> s < PreferredMode")
  case True
  then show ?thesis by (simp add: handleSignal_def)
next
  case guard: False
  show ?thesis
  proof (cases "s < PreferredMode")
    case True
    with guard have t: "talking (core c)" by (auto simp: talking_def)
    have np: "\<not> IsPreferredProfile s" "\<not> IsPreferredMode s"
      using True by (auto simp: IsPreferredProfile_def IsPreferredMode_def PreferredMode_def PreferredProfile_def)
    show ?thesis unfolding handleSignal_def if_not_P [OF guard]
      using good_signalBusy good_signalRejected good_signalRinging [OF t] good_signalConnecting [OF t] good_signalEstablished [OF assms] np
      by (simp del: core_sel)
  next
    case False
    then have ns: "s \<noteq> StatusBusy" "s \<noteq> StatusRejected" "s \<noteq> StatusAvailable" "s \<noteq> StatusRinging" "s \<noteq> StatusConnecting"
      "s \<noteq> StatusEstablished" by (auto simp: status_defs)
    show ?thesis unfolding handleSignal_def if_not_P [OF guard]
      using ns good_applyPreferredProfile by (simp del: core_sel)
  qed
qed

lemma good_fold:
  assumes "\<And>x c. live_ok (core c) \<Longrightarrow> good (core c) (core (f x c))"
  shows "live_ok (core c) \<Longrightarrow> good (core c) (core (fold f xs c))"
proof (induction xs arbitrary: c)
  case (Cons x xs)
  have g: "good (core c) (core (f x c))" by (rule assms [OF Cons.prems])
  then have "live_ok (core (f x c))" using Cons.prems by (simp add: good_def)
  from good_trans [OF g Cons.IH [OF this]] show ?case by simp
qed simp

lemma good_handleFrame: "good (core c) (core (handleFrame E frame c))"
proof (cases "talking (core c)")
  case True
  then show ?thesis using good_frames [OF True] by (simp add: handleFrame_def Let_def)
qed (simp add: handleFrame_def talking_def)

lemma good_onPacket:
  assumes "live_ok (core c)"
  shows "good (core c) (core (onPacket E data c))"
proof (cases "length data > MaxUnpackBytes \<or> (\<exists>e. Unpack data = Inl e)")
  case True
  then show ?thesis by (auto simp: onPacket_def)
next
  case False
  then obtain msg where u: "Unpack data = Inr msg" by (cases "Unpack data") auto
  define c1 where "c1 = (if length (pk_Signals msg) > 0 then handleSignals E (pk_Signals msg) c else c)"
  have g: "good (core c) (core c1)"
    using good_fold [of "handleSignal E", OF good_handleSignal assms] by (simp add: c1_def handleSignals_def)
  then have "live_ok (core c1)" using assms by (simp add: good_def)
  from good_trans [OF g good_fold [of "handleFrame E", OF good_handleFrame this]]
  have "good (core c) (core (fold (handleFrame E) (pk_Frames msg) c1))" .
  moreover have "onPacket E data c = fold (handleFrame E) (pk_Frames msg) c1" using False u by (simp add: onPacket_def c1_def)
  ultimately show ?thesis by (simp only:)
qed

lemma good_unlink: "good k (k\<lparr>k_peer := l\<rparr>)"
  unfolding good_def live_ok_def core_ok_def closed_pipes_def by auto

lemma good_onLinkClosed: "good (core c) (core (call_onLinkClosed c))"
proof -
  define c1 where "c1 = (if \<not> c_incoming c \<and> c_state c = StateRinging then emit OnRejected c else c)\<lparr>c_peer := map_option (\<lambda>_. False) (c_peer c)\<rparr>"
  have "core c1 = (core c)\<lparr>k_peer := map_option (\<lambda>_. False) (c_peer c)\<rparr>" by (simp add: c1_def)
  then have "good (core c) (core c1)" by (simp only: good_unlink)
  from good_trans [OF this good_end_call] show ?thesis unfolding call_onLinkClosed_def c1_def .
qed

lemma good_fire_timeout: "good (core c) (core (fire_timeout t c))"
  using good_end_call [of "c\<lparr>c_timers := remove1 t (c_timers c)\<rparr>" "timer_reason t"] by (simp add: fire_timeout_def Let_def)

lemma good_rejectIncoming: "good (core c) (core (rejectIncoming E err r c))"
  using good_end_call [of "fst (sendSignals E [StatusBusy] (emit OnBusy (c\<lparr>c_endErr := Some err\<rparr>)))" r]
  by (simp add: rejectIncoming_def)

lemma good_Reject: "good (core c) (core (fst (Reject E r c)))"
  using good_end_call [of c] good_end_call [of "fst (sendSignals E [StatusRejected] c)"] by (simp add: Reject_def Let_def)

lemma good_Hangup: "good (core c) (core (Hangup E r c))"
  using good_end_call [of c r] good_end_call [of "fst (sendSignals E [StatusRejected] c)" r] by (simp add: Hangup_def)

lemma good_SwitchProfile: "good (core c) (core (fst (SwitchProfile E p c)))"
proof -
  have "core (fst (SwitchProfile E p c)) = core c
     \<or> core (fst (SwitchProfile E p c)) = core (fst (switchProfile E (if p = 0 then DefaultProfile else p) c))"
    by (auto simp: SwitchProfile_def Let_def split: prod.splits option.splits)
  then show ?thesis using good_switchProfile by (elim disjE) simp_all
qed

lemma ensureRecvDecoder_core:
  "\<exists>d. core (fst (ensureRecvDecoder E codec payload c)) = (core c)\<lparr>k_decoder := d\<rparr>"
proof -
  have same: "\<exists>d. core c = (core c)\<lparr>k_decoder := d\<rparr>" by (rule exI [of _ "c_decoder c"]) (simp add: core_def)
  show ?thesis unfolding ensureRecvDecoder_def Let_def using same by auto
qed

lemma playReadyFrame_core:
  "\<exists>fs d. core (playReadyFrame E c) = (core c)\<lparr>k_frames := fs, k_decoder := d\<rparr>"
proof -
  have same: "\<exists>fs d. (core c)\<lparr>k_frames := jb_frames j\<rparr> = (core c)\<lparr>k_frames := fs, k_decoder := d\<rparr>" for j
    by (rule exI [of _ "jb_frames j"], rule exI [of _ "c_decoder c"]) (simp add: core_def)
  obtain j fo where p: "PopReady (ce_now E) (c_jitter c) = (j, fo)" by (cases "PopReady (ce_now E) (c_jitter c)")
  define c1 where "c1 = c\<lparr>c_jitter := j\<rparr>"
  have k1: "core c1 = (core c)\<lparr>k_frames := jb_frames j\<rparr>" by (simp add: c1_def)
  have "core (playReadyFrame E c) = core c1
    \<or> (\<exists>codec payload. core (playReadyFrame E c) = core (fst (ensureRecvDecoder E codec payload c1)))"
  proof (cases fo)
    case None
    then show ?thesis using p by (simp add: playReadyFrame_def c1_def)
  next
    case (Some frame)
    show ?thesis
    proof (cases "SplitFrame (f_Payload frame)")
      case (Inl e)
      then show ?thesis using p Some by (simp add: playReadyFrame_def c1_def Let_def)
    next
      case (Inr cp)
      obtain codec payload where cp: "cp = (codec, payload)" by (cases cp)
      obtain c2 e where r: "ensureRecvDecoder E codec payload c1 = (c2, e)" by (cases "ensureRecvDecoder E codec payload c1")
      have "core (playReadyFrame E c) = core c2"
        using p Some Inr cp r [unfolded c1_def] by (simp add: playReadyFrame_def Let_def split: option.splits)
      then show ?thesis using r by (intro disjI2 exI [of _ codec] exI [of _ payload]) simp
    qed
  qed
  then show ?thesis using ensureRecvDecoder_core [of E _ _ c1] same unfolding k1 by metis
qed

lemma good_play:
  assumes "core_ok (core c)" "c_started c"
  shows "core_ok (core (playReadyFrame E c)) \<and> good (core c) (core (playReadyFrame E c))"
proof -
  obtain fs d where e: "core (playReadyFrame E c) = (core c)\<lparr>k_frames := fs, k_decoder := d\<rparr>"
    using playReadyFrame_core [of E c] by blast
  have "k_started (core c)" using assms(2) by simp
  then have "core_ok ((core c)\<lparr>k_frames := fs, k_decoder := d\<rparr>) \<and> good (core c) ((core c)\<lparr>k_frames := fs, k_decoder := d\<rparr>)"
    using assms(1) unfolding good_def live_ok_def core_ok_def closed_pipes_def by auto
  then show ?thesis unfolding e .
qed

text \<open>Placing and receiving a call leave the idle state only; nothing of the pipelines is open yet.\<close>

definition begun :: "call_core \<Rightarrow> call_core \<Rightarrow> bool" where
  "begun k k' \<longleftrightarrow> k_state k = StateIdle \<and> k_cfg k' = k_cfg k \<and> \<not> k_answered k' \<and> (k_state k' = StateIdle \<or> k_state k' = StateConnecting)"

lemma begun_ok:
  assumes "core_ok k" "k_state k = StateIdle"
  shows "core_ok (k\<lparr>k_state := StateConnecting, k_incoming := b, k_peer := l\<rparr>) \<and> begun k (k\<lparr>k_state := StateConnecting, k_incoming := b, k_peer := l\<rparr>)"
    "core_ok (k\<lparr>k_state := StateIdle, k_incoming := b, k_peer := None\<rparr>) \<and> begun k (k\<lparr>k_state := StateIdle, k_incoming := b, k_peer := None\<rparr>)"
  using assms unfolding core_ok_def begun_def closed_pipes_def by auto

lemma Dial_core:
  "core (fst (call_Dial E r c)) = core c
   \<or> c_state c = StateIdle \<and> (\<exists>l. core (fst (call_Dial E r c)) = (core c)\<lparr>k_state := StateConnecting, k_incoming := False, k_peer := l\<rparr>)
   \<or> c_state c = StateIdle \<and> (\<exists>l. l \<in> {None, c_peer c} \<and> core (fst (call_Dial E r c)) = (core c)\<lparr>k_state := StateIdle, k_incoming := False, k_peer := l\<rparr>)"
proof (cases "r \<and> cfg_Identity (c_cfg c) \<and> c_state c = StateIdle")
  case False
  then show ?thesis by (auto simp: call_Dial_def casState_def)
next
  case True
  have "(core c)\<lparr>k_peer := c_peer c\<rparr> = core c" by (simp add: core_def)
  then have p: "(core c)\<lparr>k_state := StateIdle, k_incoming := False\<rparr> = (core c)\<lparr>k_state := StateIdle, k_incoming := False, k_peer := c_peer c\<rparr>"
    by (simp add: core_def)
  consider "\<not> ce_dest E" | "ce_dest E" "\<not> ce_establish E" | "ce_dest E" "ce_establish E" by blast
  then show ?thesis
  proof cases
    case 1
    with True have "core (fst (call_Dial E r c)) = (core c)\<lparr>k_state := StateIdle, k_incoming := False, k_peer := c_peer c\<rparr>"
      unfolding p [symmetric] by (simp add: call_Dial_def casState_def Let_def)
    with True show ?thesis by blast
  next
    case 2
    with True have "core (fst (call_Dial E r c)) = (core c)\<lparr>k_state := StateIdle, k_incoming := False, k_peer := None\<rparr>"
      by (simp add: call_Dial_def casState_def Let_def)
    with True show ?thesis by blast
  next
    case 3
    with True have "core (fst (call_Dial E r c)) = (core c)\<lparr>k_state := StateConnecting, k_incoming := False, k_peer := Some False\<rparr>"
      by (simp add: call_Dial_def casState_def Let_def)
    with True show ?thesis by blast
  qed
qed

lemma Dial_ok:
  assumes "core_ok (core c)"
  shows "core_ok (core (fst (call_Dial E r c))) \<and> (core (fst (call_Dial E r c)) = core c \<or> begun (core c) (core (fst (call_Dial E r c))))"
  using Dial_core [of E r c]
proof (elim disjE conjE exE)
  assume "core (fst (call_Dial E r c)) = core c"
  then show ?thesis using assms by (simp only: simp_thms)
next
  fix l assume s: "c_state c = StateIdle" and e: "core (fst (call_Dial E r c)) = (core c)\<lparr>k_state := StateConnecting, k_incoming := False, k_peer := l\<rparr>"
  show ?thesis unfolding e using begun_ok(1) [OF assms, where b = False and l = l] s by simp
next
  fix l assume s: "c_state c = StateIdle" and l: "l \<in> {None, c_peer c}"
    and e: "core (fst (call_Dial E r c)) = (core c)\<lparr>k_state := StateIdle, k_incoming := False, k_peer := l\<rparr>"
  have "l = None" using assms s l by (auto simp: core_ok_def)
  then show ?thesis unfolding e using begun_ok(2) [OF assms, where b = False] s by simp
qed

lemma Serve_core:
  "core (fst (ServeIncoming E c)) = core c
   \<or> c_state c = StateIdle \<and> (\<exists>l. core (fst (ServeIncoming E c)) = (core c)\<lparr>k_state := StateConnecting, k_incoming := True, k_peer := l\<rparr>)
   \<or> c_state c = StateIdle \<and> core (fst (ServeIncoming E c)) = (core c)\<lparr>k_state := StateIdle, k_incoming := True, k_peer := None\<rparr>"
proof (cases "c_state c = StateIdle")
  case False
  then show ?thesis by (simp add: ServeIncoming_def casState_def)
next
  case True
  define c2 where "c2 = c\<lparr>c_state := StateConnecting, c_incoming := True, c_peer := Some (ce_active E), c_status := StatusAvailable\<rparr>"
  obtain c3 r where s: "sendSignals E [StatusAvailable] c2 = (c3, r)" by (cases "sendSignals E [StatusAvailable] c2")
  have k3: "core c3 = core c2" using core_sendSignals [of E "[StatusAvailable]" c2] s by simp
  have "core (fst (ServeIncoming E c)) = (case r of Some e \<Rightarrow> (core c3)\<lparr>k_state := StateIdle, k_peer := None\<rparr> | None \<Rightarrow> core c3)"
    using True s [unfolded c2_def] by (simp add: ServeIncoming_def casState_def Let_def split: option.splits)
  moreover have "core c2 = (core c)\<lparr>k_state := StateConnecting, k_incoming := True, k_peer := Some (ce_active E)\<rparr>" by (simp add: c2_def)
  ultimately have "core (fst (ServeIncoming E c)) = (core c)\<lparr>k_state := StateIdle, k_incoming := True, k_peer := None\<rparr>
      \<or> core (fst (ServeIncoming E c)) = (core c)\<lparr>k_state := StateConnecting, k_incoming := True, k_peer := Some (ce_active E)\<rparr>"
    unfolding k3 by (cases r) simp_all
  then show ?thesis using True by blast
qed

lemma Serve_ok:
  assumes "core_ok (core c)"
  shows "core_ok (core (fst (ServeIncoming E c))) \<and> (core (fst (ServeIncoming E c)) = core c \<or> begun (core c) (core (fst (ServeIncoming E c))))"
  using Serve_core [of E c]
proof (elim disjE conjE exE)
  assume "core (fst (ServeIncoming E c)) = core c"
  then show ?thesis using assms by (simp only: simp_thms)
next
  fix l assume s: "c_state c = StateIdle" and e: "core (fst (ServeIncoming E c)) = (core c)\<lparr>k_state := StateConnecting, k_incoming := True, k_peer := l\<rparr>"
  show ?thesis unfolding e using begun_ok(1) [OF assms, where b = True and l = l] s by simp
next
  assume s: "c_state c = StateIdle" and e: "core (fst (ServeIncoming E c)) = (core c)\<lparr>k_state := StateIdle, k_incoming := True, k_peer := None\<rparr>"
  show ?thesis unfolding e using begun_ok(2) [OF assms, where b = True] s by simp
qed

end
