(* ===== verification/LXST_Call_Props.thy ===== *)
theory LXST_Call_Props
  imports LXST_Call_Inv
begin

text \<open>
  The guarantees of a telephone call over all runs: nobody is heard, and no microphone opened, on an incoming call before
  an allowed caller has identified and the call was answered here; and a call ends once and for good.
\<close>

subsection \<open>Identification and answering\<close>

lemma onIdentified_core:
  "good (core c) (core (onIdentified E i c))
   \<or> c_incoming c \<and> callerAllowed (c_cfg c) i \<and> snd (limiterAllows E i c) \<and> c_state c = StateConnecting
     \<and> core (onIdentified E i c) = (core c)\<lparr>k_state := StateRinging, k_auto := (cfg_AutoAnswer (c_cfg c) > 0)\<rparr>"
proof (cases "c_incoming c \<and> callerAllowed (c_cfg c) i")
  case False
  then show ?thesis using good_rejectIncoming by (simp add: onIdentified_def del: core_sel)
next
  case True
  obtain c1 ok where l: "limiterAllows E i c = (c1, ok)" by (cases "limiterAllows E i c")
  have k1: "core c1 = core c" using core_limiterAllows [of E i c] l by simp
  then have "k_state (core c1) = k_state (core c)" by (simp only:)
  then have s1: "c_state c1 = c_state c" by simp
  show ?thesis
  proof (cases ok)
    case False
    with True l have "onIdentified E i c = rejectIncoming E ErrRateLimited ''rate limited'' c1" by (simp add: onIdentified_def)
    with good_rejectIncoming [of c1 E ErrRateLimited "''rate limited''"] show ?thesis by (simp add: k1 del: core_sel)
  next
    case ok: True
    show ?thesis
    proof (cases "c_state c = StateConnecting")
      case False
      with True l ok s1 have "onIdentified E i c = c1" by (simp add: onIdentified_def casState_def)
      then show ?thesis by (simp add: k1)
    next
      case conn: True
      define c3 where "c3 = fst (sendSignals E [StatusRinging] (c1\<lparr>c_state := StateRinging, c_status := StatusRinging\<rparr>))"
      have k3: "core c3 = (core c)\<lparr>k_state := StateRinging\<rparr>" by (simp add: c3_def k1)
      define c4 where "c4 = startTone RingTone (emit OnRinging c3)"
      have k4: "core c4 = (core c)\<lparr>k_state := StateRinging\<rparr>" by (simp add: c4_def k3)
      then have "k_cfg (core c4) = k_cfg ((core c)\<lparr>k_state := StateRinging\<rparr>)" by (simp only:)
      then have "c_cfg c4 = c_cfg c" by simp
      moreover have "onIdentified E i c =
         armTimeout (cfg_RingTime (c_cfg c4)) TimerRing (c4\<lparr>c_autoAnswer := (cfg_AutoAnswer (c_cfg c4) > 0)\<rparr>)"
        using True l ok s1 conn by (simp add: onIdentified_def casState_def Let_def c4_def c3_def)
      ultimately have "core (onIdentified E i c) = (core c)\<lparr>k_state := StateRinging, k_auto := (cfg_AutoAnswer (c_cfg c) > 0)\<rparr>"
        by (simp add: k4)
      with True l ok conn show ?thesis by simp
    qed
  qed
qed

lemma good_Answer:
  assumes "live_ok (core c)" "c_state c = StateRinging" "c_incoming c"
  shows "good ((core c)\<lparr>k_answered := True\<rparr>) (core (fst (Answer E c)))"
    "live_ok ((core c)\<lparr>k_answered := True\<rparr>)"
proof -
  define k where "k = (core c)\<lparr>k_answered := True\<rparr>"
  show lk: "live_ok ((core c)\<lparr>k_answered := True\<rparr>)"
    using assms by (simp add: live_ok_def core_ok_def closed_pipes_def)
  have tk: "talking k" by (simp add: k_def talking_def)
  define c0 where "c0 = stopRingtone (c\<lparr>c_answered := True\<rparr>)"
  have k0: "core c0 = k" by (simp add: c0_def k_def)
  obtain c1 r1 where r1: "sendSignals E [StatusConnecting] c0 = (c1, r1)" by (cases "sendSignals E [StatusConnecting] c0")
  have k1: "core c1 = k" using core_sendSignals [of E "[StatusConnecting]" c0] r1 k0 by simp
  obtain c2 r2 where r2: "openPipelines E c1 = (c2, r2)" by (cases "openPipelines E c1")
  have g2: "good k (core c2)" using good_openPipelines [of c1 E] r2 k1 tk by simp
  obtain c3 r3 where r3: "casState StateRinging StateActive c2 = (c3, r3)" by (cases "casState StateRinging StateActive c2")
  have t2: "talking (core c2)" using talking_good [OF g2] lk tk by (simp add: k_def)
  have "good (core c2) (core c3)" using r3 good_state [OF t2, of StateActive] by (auto simp: casState_def split: if_splits)
  then have g3: "good k (core c3)" by (rule good_trans [OF g2])
  obtain c4 r4 where r4: "startPipelines (c3\<lparr>c_status := StatusEstablished\<rparr>) = (c4, r4)" by (cases "startPipelines (c3\<lparr>c_status := StatusEstablished\<rparr>)")
  have "talking (core c3)" using talking_good [OF g3] lk tk by (simp add: k_def)
  then have g4: "good k (core c4)" using good_trans [OF g3] good_startPipelines [of "c3\<lparr>c_status := StatusEstablished\<rparr>"] r4 by simp
  obtain c5 r5 where r5: "sendSignals E [StatusEstablished] c4 = (c5, r5)" by (cases "sendSignals E [StatusEstablished] c4")
  have g5: "good k (core c5)" using core_sendSignals [of E "[StatusEstablished]" c4] r5 g4 by simp
  have "talking (core c5)" using talking_good [OF g5] lk tk by (simp add: k_def)
  from good_trans [OF g5 good_armed [OF this]] have g6: "good k (core (emit OnAnswered (armTX c5)))" by simp
  have "fst (Answer E c) \<in> {c1, c2, end_call ''answer raced hangup'' c3, end_call ''pipeline start failed'' c4,
      end_call ''establish failed'' c5, emit OnAnswered (armTX c5)}"
    using assms(2,3) r1 r2 r3 r4 r5
    by (simp add: Answer_def c0_def [symmetric] split: option.splits bool.splits)
  moreover have "good k (core c1)" unfolding k1 by (rule good_refl)
  ultimately show "good ((core c)\<lparr>k_answered := True\<rparr>) (core (fst (Answer E c)))" unfolding k_def [symmetric]
    using g2 g6 good_trans [OF g3 good_end_call [of c3 "''answer raced hangup''"]]
      good_trans [OF g4 good_end_call [of c4 "''pipeline start failed''"]] good_trans [OF g5 good_end_call [of c5 "''establish failed''"]]
    by (elim insertE emptyE) (simp_all only:)
qed

subsection \<open>Every step\<close>

text \<open>What all steps but two do: they keep the invariant and answer nothing, and make no incoming call live.\<close>

definition fine_core :: "call_core \<Rightarrow> call_core \<Rightarrow> bool" where
  "fine_core k k' \<longleftrightarrow> core_ok k' \<and> k_cfg k' = k_cfg k \<and> (k_state k = StateEnded \<longrightarrow> k_state k' = StateEnded)
     \<and> (k_answered k' \<longrightarrow> k_answered k)
     \<and> (k_incoming k' \<and> (k_state k' = StateActive \<or> k_state k' = StateRinging) \<longrightarrow>
         k_incoming k \<and> (k_state k = StateActive \<or> k_state k = StateRinging))"

lemma fine_same: "core_ok k \<Longrightarrow> k' = k \<Longrightarrow> fine_core k k'"
  by (simp add: fine_core_def)

lemma fine_begun: "core_ok k' \<Longrightarrow> begun k k' \<Longrightarrow> fine_core k k'"
  by (auto simp: fine_core_def begun_def)

lemma good_live:
  assumes "live_ok k" "good k k'" "k_incoming k'" "k_state k' = StateActive \<or> k_state k' = StateRinging"
  shows "k_incoming k \<and> (k_state k = StateActive \<or> k_state k = StateRinging)"
proof -
  have a: "k_incoming k" "k_state k = StateEnded \<longrightarrow> k_state k' = StateEnded" "\<not> k_answered k \<longrightarrow> k_state k' = k_state k \<or> k_state k' = StateEnded"
    using assms(1-3) by (auto simp: good_def)
  show ?thesis
  proof (cases "k_answered k")
    case True
    then have "k_state k \<noteq> StateConnecting" "k_state k \<noteq> StateIdle" using assms(1) by (auto simp: live_ok_def core_ok_def)
    moreover have "k_state k \<noteq> StateEnded" using a(2) assms(4) by auto
    ultimately show ?thesis using a(1) by (cases "k_state k") auto
  next
    case False
    then show ?thesis using a assms(4) by auto
  qed
qed

lemma fine_good:
  assumes "live_ok k" "good k k'"
  shows "fine_core k k'"
proof -
  from assms have "live_ok k'" "k_cfg k' = k_cfg k" "k_answered k' = k_answered k" "k_state k = StateEnded \<longrightarrow> k_state k' = StateEnded"
    unfolding good_def by blast+
  moreover from live_ok_D [OF this(1)] have "core_ok k'" .
  ultimately show ?thesis unfolding fine_core_def using good_live [OF assms] by blast
qed

lemma idle_or_live: "core_ok k \<Longrightarrow> k_state k = StateIdle \<or> live_ok k"
  by (auto simp: live_ok_def)

lemma fine_step:
  assumes "core_ok (core c)" "good (core c) (core c')" "c_state c = StateIdle \<Longrightarrow> core c' = core c"
  shows "fine_core (core c) (core c')"
  using idle_or_live [OF assms(1)]
proof
  assume "k_state (core c) = StateIdle"
  then show ?thesis using fine_same [OF assms(1)] assms(3) by simp
qed (rule fine_good [OF _ assms(2)])

text \<open>The two steps that make an incoming call ring, and that answer it.\<close>

lemma rings_ok:
  assumes "core_ok k" "k_state k = StateConnecting"
  shows "core_ok (k\<lparr>k_state := StateRinging, k_auto := (cfg_AutoAnswer (k_cfg k) > 0)\<rparr>)"
  using assms by (auto simp: core_ok_def closed_pipes_def)

lemma fine_or_same: "core_ok k \<Longrightarrow> fine_core k k"
  by (rule fine_same) auto

lemma fine_Dial:
  assumes "core_ok (core c)"
  shows "fine_core (core c) (core (call_do E (EvDial r) c))"
  using Dial_ok [OF assms, of E r] fine_or_same [OF assms] fine_begun [of "core (fst (call_Dial E r c))" "core c"]
  unfolding call_do_def by (auto simp del: core_sel)

lemma fine_Serve:
  assumes "core_ok (core c)"
  shows "fine_core (core c) (core (call_do E EvServe c))"
  using Serve_ok [OF assms, of E] fine_or_same [OF assms] fine_begun [of "core (fst (ServeIncoming E c))" "core c"]
  unfolding call_do_def by (auto simp del: core_sel)

lemma fine_link:
  assumes "core_ok (core c)" "c_peer c \<noteq> None \<Longrightarrow> live_ok (core c) \<Longrightarrow> good (core c) (core c')"
  shows "fine_core (core c) (core (if c_peer c = None then c else c'))"
proof (cases "c_peer c = None")
  case False
  then have "live_ok (core c)" using core_ok_peer_live [OF assms(1)] by simp
  with fine_good [OF this] assms(2) False show ?thesis by (simp del: core_sel)
qed (simp add: fine_or_same [OF assms(1)])

lemma fine_Established:
  assumes "core_ok (core c)"
  shows "fine_core (core c) (core (call_do E EvEstablished c))"
proof -
  have "good (core c) (core (onOutgoingEstablished c))" using good_unlink [of "core c"] by (simp add: onOutgoingEstablished_def)
  from fine_link [OF assms this] show ?thesis by (simp add: call_do_def del: core_sel)
qed

lemma fine_Packet:
  assumes "core_ok (core c)"
  shows "fine_core (core c) (core (call_do E (EvPacket data) c))"
  using fine_link [OF assms good_onPacket] by (simp add: call_do_def del: core_sel)

lemma fine_LinkClosed:
  assumes "core_ok (core c)"
  shows "fine_core (core c) (core (call_do E EvLinkClosed c))"
  using fine_link [OF assms good_onLinkClosed] by (simp add: call_do_def del: core_sel)

lemma fine_Timer:
  assumes "core_ok (core c)"
  shows "fine_core (core c) (core (call_do E (EvTimer t) c))"
proof -
  have "core (fire_timeout t c) = core c" if "c_state c = StateIdle" using that by (simp add: fire_timeout_def Let_def)
  from fine_step [OF assms good_fire_timeout this] show ?thesis by (simp add: call_do_def del: core_sel)
qed

lemma fine_Reject:
  assumes "core_ok (core c)"
  shows "fine_core (core c) (core (call_do E (EvReject r) c))"
proof -
  have "core (fst (Reject E r c)) = core c" if "c_state c = StateIdle" using that by (simp add: Reject_def)
  from fine_step [OF assms good_Reject this] show ?thesis by (simp add: call_do_def del: core_sel)
qed

lemma fine_Hangup:
  assumes "core_ok (core c)"
  shows "fine_core (core c) (core (call_do E (EvHangup r) c))"
proof -
  have "core (Hangup E r c) = core c" if "c_state c = StateIdle" using that by (simp add: Hangup_def)
  from fine_step [OF assms good_Hangup this] show ?thesis by (simp add: call_do_def del: core_sel)
qed

lemma fine_SwitchProfile:
  assumes "core_ok (core c)"
  shows "fine_core (core c) (core (call_do E (EvSwitchProfile p) c))"
proof -
  have "core (fst (SwitchProfile E p c)) = core c" if "c_state c = StateIdle" using that by (simp add: SwitchProfile_def Let_def)
  from fine_step [OF assms good_SwitchProfile this] show ?thesis by (simp add: call_do_def del: core_sel)
qed

lemma fine_Play:
  assumes "core_ok (core c)"
  shows "fine_core (core c) (core (call_do E EvPlay c))"
proof (cases "c_started c")
  case True
  have "c_state c \<noteq> StateIdle" using assms True by (auto simp: core_ok_def closed_pipes_def)
  then have "live_ok (core c)" using assms by (simp add: live_ok_def)
  from fine_good [OF this] good_play [OF assms True, of E] True show ?thesis by (simp add: call_do_def del: core_sel)
qed (simp add: call_do_def fine_or_same [OF assms])

lemma call_do_quiet:
  "core (call_do E EvResend c) = core c" "core (call_do E EvIdentifyRound c) = core c" "core (call_do E (EvMuteTX m) c) = core c"
  "core (call_do E (EvMuteRX m) c) = core c" "core (call_do E (EvSquelch b) c) = core c" "core (call_do E (EvPTT b) c) = core c"
  "core (call_do E EvNoFollow c) = core c" "core (call_do E (EvSwitchMode md) c) = core c" "core (call_do E (EvStats lm) c) = core c"
  "core (call_do E (EvRateCheck l) c) = core c"
  by (simp_all add: call_do_def)

lemma Answer_cases:
  assumes "core_ok (core c)"
  shows "fine_core (core c) (core (fst (Answer E c)))
      \<or> c_state c = StateRinging \<and> c_incoming c \<and> live_ok (core (fst (Answer E c)))
        \<and> k_cfg (core (fst (Answer E c))) = c_cfg c \<and> k_incoming (core (fst (Answer E c)))"
proof (cases "c_state c = StateRinging \<and> c_incoming c")
  case False
  then have "fst (Answer E c) = c" by (auto simp: Answer_def)
  then show ?thesis using fine_or_same [OF assms] by simp
next
  case True
  then have l: "live_ok (core c)" using assms by (simp add: live_ok_def)
  from good_Answer(1) [OF l, of E] good_Answer(2) [OF l] True
  have "live_ok (core (fst (Answer E c))) \<and> k_cfg (core (fst (Answer E c))) = k_cfg ((core c)\<lparr>k_answered := True\<rparr>)
      \<and> k_incoming (core (fst (Answer E c))) = k_incoming ((core c)\<lparr>k_answered := True\<rparr>)"
    unfolding good_def by blast
  with True show ?thesis by simp
qed

lemma autoAnswer_cases:
  assumes "core_ok (core c)"
  shows "fine_core (core c) (core (autoAnswer E c))
      \<or> c_autoAnswer c \<and> c_state c = StateRinging \<and> c_incoming c \<and> live_ok (core (autoAnswer E c))
        \<and> k_cfg (core (autoAnswer E c)) = c_cfg c \<and> k_incoming (core (autoAnswer E c))"
proof (cases "c_autoAnswer c")
  case False
  then show ?thesis using fine_or_same [OF assms] by (simp add: autoAnswer_def)
next
  case True
  define d where "d = c\<lparr>c_autoAnswer := False\<rparr>"
  have kd: "core d = (core c)\<lparr>k_auto := False\<rparr>" by (simp add: d_def)
  have d: "core_ok (core d)" unfolding kd using assms by (auto simp: core_ok_def closed_pipes_def)
  have s: "c_state d = c_state c" "c_incoming d = c_incoming c" "c_cfg d = c_cfg c" by (simp_all add: d_def)
  have f: "fine_core (core d) k' \<Longrightarrow> fine_core (core c) k'" for k' unfolding kd by (simp add: fine_core_def)
  have e: "autoAnswer E c = (if c_ended d then d else fst (Answer E d))"
    using True by (simp add: autoAnswer_def d_def Let_def)
  show ?thesis
  proof (cases "c_ended d")
    case True
    then show ?thesis unfolding e using f [OF fine_or_same [OF d]] by simp
  next
    case False
    then show ?thesis unfolding e using Answer_cases [OF d, of E] f s True by (auto simp del: core_sel)
  qed
qed

lemma Identified_cases:
  assumes "core_ok (core c)"
  shows "fine_core (core c) (core (call_do E (EvIdentified i) c))
     \<or> c_incoming c \<and> callerAllowed (c_cfg c) i \<and> snd (limiterAllows E i c) \<and> c_state c = StateConnecting
       \<and> core (call_do E (EvIdentified i) c) = (core c)\<lparr>k_state := StateRinging, k_auto := (cfg_AutoAnswer (c_cfg c) > 0)\<rparr>"
proof (cases "c_peer c = None")
  case True
  then show ?thesis using fine_or_same [OF assms] by (simp add: call_do_def)
next
  case False
  then have l: "live_ok (core c)" using core_ok_peer_live [OF assms] by simp
  have e: "call_do E (EvIdentified i) c = onIdentified E i c" using False by (simp only: call_do_def call_ev.case if_False)
  from onIdentified_core [of c E i] fine_good [OF l] show ?thesis unfolding e by blast
qed

text \<open>Every event but these keeps to \<open>fine_core\<close>.\<close>

lemma call_do_fine:
  assumes "core_ok (core c)" "\<nexists>i. ev = EvIdentified i" "ev \<noteq> EvAnswer" "ev \<noteq> EvAutoAnswer"
  shows "fine_core (core c) (core (call_do E ev c))"
  using assms(2-4) fine_Dial [OF assms(1)] fine_Serve [OF assms(1)] fine_Established [OF assms(1)] fine_Packet [OF assms(1)]
    fine_LinkClosed [OF assms(1)] fine_Timer [OF assms(1)] fine_Reject [OF assms(1)] fine_Hangup [OF assms(1)]
    fine_SwitchProfile [OF assms(1)] fine_Play [OF assms(1)] fine_or_same [OF assms(1)]
  by (cases ev) (simp_all only: call_do_quiet simp_thms, blast)

lemma call_do_ok:
  assumes "core_ok (core c)"
  shows "core_ok (core (call_do E ev c))" "k_cfg (core (call_do E ev c)) = c_cfg c"
    "c_state c = StateEnded \<Longrightarrow> k_state (core (call_do E ev c)) = StateEnded"
proof -
  define k' where "k' = core (call_do E ev c)"
  have "core_ok k' \<and> k_cfg k' = c_cfg c \<and> (c_state c = StateEnded \<longrightarrow> k_state k' = StateEnded)"
  proof (cases "fine_core (core c) k'")
    case True
    then show ?thesis by (simp add: fine_core_def)
  next
    case False
    then consider (ident) i where "ev = EvIdentified i" | (ans) "ev = EvAnswer" | (auto) "ev = EvAutoAnswer"
      using call_do_fine [OF assms] unfolding k'_def by blast
    then show ?thesis
    proof cases
      case ident
      with Identified_cases [OF assms, of E i] False have s: "c_state c = StateConnecting"
        and e: "k' = (core c)\<lparr>k_state := StateRinging, k_auto := (cfg_AutoAnswer (k_cfg (core c)) > 0)\<rparr>" unfolding k'_def by auto
      show ?thesis unfolding e using rings_ok [OF assms] s by simp
    next
      case ans
      with Answer_cases [OF assms, of E] False show ?thesis unfolding k'_def by (simp add: call_do_def live_ok_D del: core_sel)
    next
      case auto
      with autoAnswer_cases [OF assms, of E] False show ?thesis unfolding k'_def by (simp add: call_do_def live_ok_D del: core_sel)
    qed
  qed
  then show "core_ok (core (call_do E ev c))" "k_cfg (core (call_do E ev c)) = c_cfg c"
    "c_state c = StateEnded \<Longrightarrow> k_state (core (call_do E ev c)) = StateEnded" unfolding k'_def by blast+
qed

lemma NewCall_ok: "core_ok (core (NewCall cfg))" "c_cfg (NewCall cfg) = withDefaults cfg"
proof -
  have "core (NewCall cfg) = \<lparr>k_cfg = withDefaults cfg, k_state = StateIdle, k_incoming = False, k_answered = False, k_encoder = None,
      k_decoder = None, k_device = False, k_opened = False, k_started = False, k_txArmed = False, k_frames = [], k_peer = None,
      k_ended = False, k_endings = 0, k_auto = False\<rparr>"
    unfolding NewCall_def Let_def core_profile by (simp add: core_def NewJitterBuffer_def)
  then show "core_ok (core (NewCall cfg))" "c_cfg (NewCall cfg) = withDefaults cfg"
    unfolding core_fields(1) by (simp_all add: core_ok_def closed_pipes_def)
qed

lemma call_run_ok:
  "core_ok (core (call_run es (NewCall cfg))) \<and> k_cfg (core (call_run es (NewCall cfg))) = withDefaults cfg"
proof (induction es rule: rev_induct)
  case Nil
  then show ?case using NewCall_ok [of cfg] by simp
next
  case (snoc e es)
  obtain E ev where e: "e = (E, ev)" by (cases e)
  from call_do_ok(1,2) [of "call_run es (NewCall cfg)" E ev] snoc show ?case by (simp add: e)
qed

lemma call_run_ended: "core_ok (core c) \<Longrightarrow> c_state c = StateEnded \<Longrightarrow> core_ok (core (call_run es c)) \<and> c_state (call_run es c) = StateEnded"
proof (induction es rule: rev_induct)
  case (snoc e es)
  obtain E ev where e: "e = (E, ev)" by (cases e)
  from snoc have "core_ok (core (call_run es c))" "c_state (call_run es c) = StateEnded" by auto
  from call_do_ok(1) [OF this(1), of E ev] call_do_ok(3) [OF this, of E ev] show ?case by (simp add: e)
qed simp

subsection \<open>Consent\<close>

text \<open>The caller identified, was allowed and not over the rate limit, at some point of the run.\<close>

definition admitted :: "call_Config \<Rightarrow> (call_env \<times> call_ev) list \<Rightarrow> bool" where
  "admitted cfg es \<longleftrightarrow> (\<exists>es1 E i es2. es = es1 @ (E, EvIdentified i) # es2 \<and> callerAllowed (withDefaults cfg) i
     \<and> snd (limiterAllows E i (call_run es1 (NewCall cfg))))"

text \<open>After that, the call was answered, by the local user or by the configured automatic answer.\<close>

definition consented :: "call_Config \<Rightarrow> (call_env \<times> call_ev) list \<Rightarrow> bool" where
  "consented cfg es \<longleftrightarrow> (\<exists>es1 E a es2. es = es1 @ (E, a) # es2 \<and> admitted cfg es1
     \<and> (a = EvAnswer \<or> a = EvAutoAnswer \<and> cfg_AutoAnswer (withDefaults cfg) > 0))"

lemma admitted_snoc: "admitted cfg es \<Longrightarrow> admitted cfg (es @ [e])"
  unfolding admitted_def by (metis append.assoc append_Cons)

lemma consented_snoc: "consented cfg es \<Longrightarrow> consented cfg (es @ [e])"
  unfolding consented_def by (metis append.assoc append_Cons)

definition consent_inv :: "call_Config \<Rightarrow> (call_env \<times> call_ev) list \<Rightarrow> call_core \<Rightarrow> bool" where
  "consent_inv cfg es k \<longleftrightarrow>
     (k_incoming k \<and> (k_state k = StateActive \<or> k_state k = StateRinging) \<longrightarrow> admitted cfg es) \<and> (k_answered k \<longrightarrow> consented cfg es)"

lemma consent_fine: "fine_core k k' \<Longrightarrow> consent_inv cfg es k \<Longrightarrow> consent_inv cfg (es @ [e]) k'"
  unfolding fine_core_def consent_inv_def using admitted_snoc consented_snoc by blast

lemma consent_step:
  assumes "consent_inv cfg es (core c)" "c = call_run es (NewCall cfg)"
  shows "consent_inv cfg (es @ [(E, ev)]) (core (call_do E ev c))"
proof -
  have ok: "core_ok (core c)" "c_cfg c = withDefaults cfg" using call_run_ok [of es cfg] assms(2) by auto
  define k' where "k' = core (call_do E ev c)"
  show ?thesis
  proof (cases "fine_core (core c) k'")
    case True
    then show ?thesis unfolding k'_def by (rule consent_fine [OF _ assms(1)])
  next
    case False
    then consider (ident) i where "ev = EvIdentified i" | (ans) "ev = EvAnswer" | (auto) "ev = EvAutoAnswer"
      using call_do_fine [OF ok(1)] unfolding k'_def by blast
    then show ?thesis
    proof cases
      case ident
      with Identified_cases [OF ok(1), of E i] False have a: "callerAllowed (withDefaults cfg) i" "snd (limiterAllows E i c)"
        and st: "c_state c = StateConnecting"
        and e: "k' = (core c)\<lparr>k_state := StateRinging, k_auto := (cfg_AutoAnswer (c_cfg c) > 0)\<rparr>" unfolding k'_def ok(2) by auto
      have "admitted cfg (es @ [(E, ev)])" unfolding admitted_def
        by (intro exI [of _ es] exI [of _ E] exI [of _ i] exI [of _ "[]"]) (use a assms(2) ident in simp)
      moreover have "\<not> k_answered (core c)" using ok(1) st by (auto simp: core_ok_def)
      ultimately show ?thesis unfolding k'_def [symmetric] e consent_inv_def by simp
    next
      case ans
      with Answer_cases [OF ok(1), of E] False have "c_state c = StateRinging" "c_incoming c" unfolding k'_def by (auto simp: call_do_def)
      then have "admitted cfg es" using assms(1) by (simp add: consent_inv_def)
      then show ?thesis using ans admitted_snoc unfolding consent_inv_def consented_def by blast
    next
      case auto
      with autoAnswer_cases [OF ok(1), of E] False have s: "c_state c = StateRinging" "c_incoming c" "c_autoAnswer c"
        unfolding k'_def by (auto simp: call_do_def)
      then have "cfg_AutoAnswer (withDefaults cfg) > 0" using ok by (simp add: core_ok_def)
      moreover have "admitted cfg es" using assms(1) s by (simp add: consent_inv_def)
      ultimately show ?thesis using auto admitted_snoc unfolding consent_inv_def consented_def by blast
    qed
  qed
qed

lemma consent_run: "consent_inv cfg es (core (call_run es (NewCall cfg)))"
proof (induction es rule: rev_induct)
  case Nil
  have "k_state (core (NewCall cfg)) = StateIdle" "\<not> k_answered (core (NewCall cfg))"
    by (simp_all add: NewCall_def Let_def applyProfile_def)
  then show ?case by (simp add: consent_inv_def)
next
  case (snoc e es)
  obtain E ev where e: "e = (E, ev)" by (cases e)
  from consent_step [OF snoc refl, of E ev] show ?case by (simp add: e del: core_sel)
qed

subsection \<open>A concrete call\<close>

definition ex_call_cfg :: call_Config where
  "ex_call_cfg = \<lparr>cfg_Identity = True, cfg_UseAudio = False, cfg_Device = False, cfg_Profile = 0, cfg_Mode = 0, cfg_RingTime = 0,
     cfg_WaitTime = 0, cfg_ConnectTime = 0, cfg_AutoAnswer = 0, cfg_AllowPolicy = 1, cfg_Allowed = [[1]], cfg_Blocked = [],
     cfg_AllowFunc = None\<rparr>"

definition ex_call_env :: call_env where
  "ex_call_env = \<lparr>ce_now = 0, ce_dest = True, ce_establish = True, ce_active = True, ce_send = True, ce_identify = True,
     ce_newEncoder = (\<lambda>_. True), ce_newDecoder = (\<lambda>_ _. True), ce_decode = (\<lambda>_ _. None), ce_plc = (\<lambda>_. None), ce_open = True,
     ce_start = True\<rparr>"

definition ex_answered_run :: "(call_env \<times> call_ev) list" where
  "ex_answered_run = map (Pair ex_call_env) [EvServe, EvIdentified (Some [1]), EvAnswer]"

subsection \<open>Properties\<close>





subsection \<open>Observations\<close>

text \<open>
  A call that is hung up before its link is established is not torn down: the link, still inactive, is left alone, and when it
  comes up later nothing closes it.
\<close>

lemma hangup_before_link:
  assumes "cfg_Identity cfg" "ce_dest E" "ce_establish E"
  shows "let c = call_run [(E, EvDial True), (E1, EvHangup r), (E2, EvEstablished)] (NewCall cfg)
    in c_state c = StateEnded \<and> c_peer c = Some True \<and> Teardown \<notin> set (c_out c)"
proof -
  have n: "c_state (NewCall cfg) = StateIdle" "c_out (NewCall cfg) = []" "cfg_Identity (c_cfg (NewCall cfg))"
    using assms(1) by (simp_all add: NewCall_def Let_def applyProfile_def withDefaults_def)
  define c1 where "c1 = call_do E (EvDial True) (NewCall cfg)"
  have c1: "c_state c1 = StateConnecting" "c_peer c1 = Some False" "c_out c1 = []" "\<not> c_incoming c1"
    using assms n by (simp_all add: c1_def call_do_def call_Dial_def casState_def Let_def armTimeout_def)
  define c2 where "c2 = call_do E1 (EvHangup r) c1"
  have c2: "c_state c2 = StateEnded" "c_peer c2 = Some False" "c_out c2 = [OnEnded r]"
    using c1 by (simp_all add: c2_def call_do_def Hangup_def end_call_def Let_def stopRingtone_def emit_def)
  show ?thesis using c2 by (simp add: Let_def c1_def [symmetric] c2_def [symmetric])
    (simp add: call_do_def onOutgoingEstablished_def armTimeout_def)
qed

text \<open>
  A repeated AVAILABLE signal that arrives late sets the status of an active outgoing call back, and the timer of the dialling
  phase, which is still armed, then ends the call.
\<close>

lemma late_available_ends_call:
  assumes "core_ok (core c)" "c_state c = StateActive" "\<not> c_incoming c" "TimerCall \<in> set (c_timers c)"
  shows "c_state (fire_timeout TimerCall (handleSignal E StatusAvailable c)) = StateEnded"
proof -
  define d where "d = handleSignal E StatusAvailable c"
  have "core d = core c" using assms(3) by (simp add: d_def handleSignal_def status_defs)
  then have "k_state (core d) = k_state (core c)" by (simp only:)
  then have s: "c_state d = StateActive" using assms(2) by simp
  have "c_status d = StatusAvailable" "TimerCall \<in> set (c_timers d)"
    using assms(3,4) by (simp_all add: d_def handleSignal_def identifyOnce_def emit_def status_defs)
  with s show ?thesis unfolding d_def [symmetric]
    by (simp add: fire_timeout_def Let_def stillWaiting_def status_defs)
qed

text \<open>Once a decoder is open, a frame of another codec never changes it: the guard meant for Codec2 holds for every codec.\<close>

lemma decoder_never_switched: "c_decoder c \<noteq> None \<Longrightarrow> ensureRecvDecoder E codec payload c = (c, None)"
  by (auto simp: ensureRecvDecoder_def)

end
