(* ===== verification/LXST_Switchboard.thy ===== *)
theory LXST_Switchboard
  imports LXST_Call_Props
begin

text \<open>
  The telephone around the calls: \<^verbatim>\<open>pkg/lxst/call/switchboard.go\<close> and \<^verbatim>\<open>phone.go\<close>.  A phone owns a switchboard, which
  keeps at most one call active, and all calls made so far in a list; a call is named by its index.  The rate limiter is
  shared by pointer in the code, so an event of a call reads it from the board and writes it back.  The link-established
  callback is split at the point where the lock is released between registering the call and serving it.
\<close>

record Switchboard =
  sb_cfg :: call_Config
  sb_limiter :: "RateLimiter option"
  sb_active :: "nat option"
  sb_forcedBusy :: bool

record Phone =
  ph_cfg :: call_Config
  ph_board :: Switchboard
  ph_calls :: "Call list"
  ph_lastAnn :: "int option"
  ph_announced :: nat

definition NewPhone :: "call_Config \<Rightarrow> Phone" where
  "NewPhone cfg0 =
     (let cfg = withDefaults cfg0
      in \<lparr>ph_cfg = cfg, ph_board = \<lparr>sb_cfg = cfg, sb_limiter = None, sb_active = None, sb_forcedBusy = False\<rparr>, ph_calls = [],
          ph_lastAnn = None, ph_announced = 0\<rparr>)"

definition sb_busyLocked :: "Phone \<Rightarrow> Switchboard \<times> bool" where
  "sb_busyLocked p =
     (let b = ph_board p
      in if sb_forcedBusy b then (b, True)
         else case sb_active b of
                None \<Rightarrow> (b, False)
              | Some i \<Rightarrow>
                  (let st = c_state (ph_calls p ! i)
                   in if st = StateIdle \<or> st = StateEnded then (b\<lparr>sb_active := None\<rparr>, False) else (b, True)))"

text \<open>\<^verbatim>\<open>Occupy\<close> on a new call: the call is appended to the list and registered, unless the board is busy.\<close>

definition Occupy :: "Call \<Rightarrow> Phone \<Rightarrow> Phone \<times> bool" where
  "Occupy c p =
     (case sb_busyLocked p of
        (b, True) \<Rightarrow> (p\<lparr>ph_board := b\<rparr>, False)
      | (b, False) \<Rightarrow> (p\<lparr>ph_board := b\<lparr>sb_active := Some (length (ph_calls p))\<rparr>, ph_calls := ph_calls p @ [c]\<rparr>, True))"

definition Release :: "nat \<Rightarrow> Phone \<Rightarrow> Phone" where
  "Release i p =
     (let b = ph_board p in if sb_active b = Some i then p\<lparr>ph_board := b\<lparr>sb_active := None\<rparr>\<rparr> else p)"

text \<open>
  The first half of the callback \<^verbatim>\<open>Bind\<close> installs: it gives the index of the call that was registered and the
  limiter it read, or \<^const>\<open>None\<close> when the link is turned away as busy.
\<close>

definition accept_occupy :: "Phone \<Rightarrow> Phone \<times> (nat \<times> RateLimiter option) option" where
  "accept_occupy p =
     (let cfg = sb_cfg (ph_board p); limiter = sb_limiter (ph_board p)
      in case sb_busyLocked p of
           (b, True) \<Rightarrow> (p\<lparr>ph_board := b\<rparr>, None)
         | (b, False) \<Rightarrow>
             (case Occupy (NewCall cfg) (p\<lparr>ph_board := b\<rparr>) of
                (p1, False) \<Rightarrow> (p1, None)
              | (p1, True) \<Rightarrow> (p1, Some (length (ph_calls p), limiter))))"

text \<open>The second half: serve the link; on failure the registration is taken back.\<close>

definition accept_serve :: "call_env \<Rightarrow> nat \<Rightarrow> RateLimiter option \<Rightarrow> Phone \<Rightarrow> Phone" where
  "accept_serve E i limiter p =
     (case ServeIncoming E (SetRateCheck limiter (ph_calls p ! i)) of
        (c, Some e) \<Rightarrow> Release i (p\<lparr>ph_calls := (ph_calls p)[i := c]\<rparr>)
      | (c, None) \<Rightarrow> p\<lparr>ph_calls := (ph_calls p)[i := c]\<rparr>)"

definition accept_link :: "call_env \<Rightarrow> Phone \<Rightarrow> Phone" where
  "accept_link E p = (case accept_occupy p of (p1, None) \<Rightarrow> p1 | (p1, Some (i, limiter)) \<Rightarrow> accept_serve E i limiter p1)"

text \<open>\<^verbatim>\<open>Phone.Dial\<close>: the call of a failed dial is hung up and released.\<close>

definition phone_Dial :: "call_env \<Rightarrow> bool \<Rightarrow> Phone \<Rightarrow> Phone \<times> call_error option" where
  "phone_Dial E remote p =
     (case Occupy (NewCall (ph_cfg p)) p of
        (p1, False) \<Rightarrow> (p1, Some ErrAlreadyCall)
      | (p1, True) \<Rightarrow>
          (let i = length (ph_calls p)
           in case call_Dial E remote (ph_calls p1 ! i) of
                (c, Some e) \<Rightarrow> (Release i (p1\<lparr>ph_calls := (ph_calls p1)[i := Hangup E ''dial failed'' c]\<rparr>), Some e)
              | (c, None) \<Rightarrow> (p1\<lparr>ph_calls := (ph_calls p1)[i := c]\<rparr>, None)))"

text \<open>An event of call \<open>i\<close>: the shared limiter goes in and comes back, and the end of the call releases the board.\<close>

definition phone_event :: "call_env \<Rightarrow> nat \<Rightarrow> call_ev \<Rightarrow> Phone \<Rightarrow> Phone" where
  "phone_event E i ev p =
     (if \<not> i < length (ph_calls p) then p
      else let c0 = ph_calls p ! i;
               c = (case c_limiter c0 of None \<Rightarrow> c0 | Some _ \<Rightarrow> c0\<lparr>c_limiter := sb_limiter (ph_board p)\<rparr>);
               c' = call_do E ev c;
               p1 = p\<lparr>ph_calls := (ph_calls p)[i := c'],
                      ph_board := (case c_limiter c' of None \<Rightarrow> ph_board p | Some l \<Rightarrow> (ph_board p)\<lparr>sb_limiter := Some l\<rparr>)\<rparr>
           in if c_state c0 \<noteq> StateEnded \<and> c_state c' = StateEnded then Release i p1 else p1)"

definition SetBusy :: "bool \<Rightarrow> Phone \<Rightarrow> Phone" where
  "SetBusy busy p = p\<lparr>ph_board := (ph_board p)\<lparr>sb_forcedBusy := busy\<rparr>\<rparr>"

definition SetRateLimiter :: "RateLimiter option \<Rightarrow> Phone \<Rightarrow> Phone" where
  "SetRateLimiter l p = p\<lparr>ph_board := (ph_board p)\<lparr>sb_limiter := l\<rparr>\<rparr>"

definition SetAllowed :: "byte \<Rightarrow> bytes list \<Rightarrow> (bytes \<Rightarrow> bool) option \<Rightarrow> Phone \<Rightarrow> Phone" where
  "SetAllowed policy hashes fn p =
     (let cfg = (ph_cfg p)\<lparr>cfg_AllowPolicy := policy, cfg_Allowed := hashes, cfg_AllowFunc := fn\<rparr>;
          b = ph_board p
      in p\<lparr>ph_cfg := cfg,
           ph_board := b\<lparr>sb_cfg := (sb_cfg b)\<lparr>cfg_AllowPolicy := policy, cfg_Allowed := hashes, cfg_Blocked := cfg_Blocked cfg,
                                             cfg_AllowFunc := fn\<rparr>\<rparr>\<rparr>)"

definition SetBlocked :: "bytes list \<Rightarrow> Phone \<Rightarrow> Phone" where
  "SetBlocked hashes p =
     (let cfg = (ph_cfg p)\<lparr>cfg_Blocked := hashes\<rparr>; b = ph_board p
      in p\<lparr>ph_cfg := cfg,
           ph_board := b\<lparr>sb_cfg := (sb_cfg b)\<lparr>cfg_AllowPolicy := cfg_AllowPolicy cfg, cfg_Allowed := cfg_Allowed cfg, cfg_Blocked := hashes,
                                             cfg_AllowFunc := cfg_AllowFunc cfg\<rparr>\<rparr>\<rparr>)"

definition SetMode :: "int \<Rightarrow> Phone \<Rightarrow> Phone" where
  "SetMode mode p = p\<lparr>ph_cfg := (ph_cfg p)\<lparr>cfg_Mode := (if mode = 0 then DefaultMode else mode)\<rparr>\<rparr>"

definition MinAnnounceInterval :: int where "MinAnnounceInterval = 5 * minute_ns"

definition Announce :: "int \<Rightarrow> Phone \<Rightarrow> Phone" where
  "Announce now p =
     (case ph_lastAnn p of
        Some t \<Rightarrow> if now - t < MinAnnounceInterval then p else p\<lparr>ph_lastAnn := Some now, ph_announced := ph_announced p + 1\<rparr>
      | None \<Rightarrow> p\<lparr>ph_lastAnn := Some now, ph_announced := ph_announced p + 1\<rparr>)"

subsection \<open>Steps of a phone\<close>

datatype phone_ev =
  PhAccept | PhDial bool | PhCall nat call_ev | PhBusy bool | PhLimiter "RateLimiter option"
  | PhAllowed byte "bytes list" "(bytes \<Rightarrow> bool) option" | PhBlocked "bytes list" | PhMode int | PhAnnounce

text \<open>Dialling and serving go through the phone; the other events belong to a call it made.\<close>

definition phone_do :: "call_env \<Rightarrow> phone_ev \<Rightarrow> Phone \<Rightarrow> Phone" where
  "phone_do E ev p =
     (case ev of
        PhAccept \<Rightarrow> accept_link E p
      | PhDial remote \<Rightarrow> fst (phone_Dial E remote p)
      | PhCall i e \<Rightarrow> if (\<exists>r. e = EvDial r) \<or> e = EvServe then p else phone_event E i e p
      | PhBusy b \<Rightarrow> SetBusy b p
      | PhLimiter l \<Rightarrow> SetRateLimiter l p
      | PhAllowed pol hs fn \<Rightarrow> SetAllowed pol hs fn p
      | PhBlocked hs \<Rightarrow> SetBlocked hs p
      | PhMode m \<Rightarrow> SetMode m p
      | PhAnnounce \<Rightarrow> Announce (ce_now E) p)"

definition phone_run :: "(call_env \<times> phone_ev) list \<Rightarrow> Phone \<Rightarrow> Phone" where
  "phone_run es p = fold (\<lambda>(E, ev). phone_do E ev) es p"

lemma phone_run_simps [simp]:
  "phone_run [] p = p" "phone_run (es @ [(E, ev)]) p = phone_do E ev (phone_run es p)"
  by (simp_all add: phone_run_def)

subsection \<open>One call at a time\<close>

definition underway :: "Call \<Rightarrow> bool" where
  "underway c \<longleftrightarrow> c_state c \<noteq> StateIdle \<and> c_state c \<noteq> StateEnded"

definition call_fine :: "Call \<Rightarrow> bool" where
  "call_fine c \<longleftrightarrow> core_ok (core c)"

text \<open>All elements of a list satisfy \<open>P\<close>, and one that satisfies \<open>Q\<close> is the marked one.\<close>

definition marked_ok :: "('a \<Rightarrow> bool) \<Rightarrow> ('a \<Rightarrow> bool) \<Rightarrow> nat option \<Rightarrow> 'a list \<Rightarrow> bool" where
  "marked_ok P Q a xs \<longleftrightarrow> (\<forall>i < length xs. P (xs ! i) \<and> (Q (xs ! i) \<longrightarrow> a = Some i)) \<and> (case a of None \<Rightarrow> True | Some i \<Rightarrow> i < length xs)"

lemma marked_ok_append: "marked_ok P Q None xs \<Longrightarrow> P x \<Longrightarrow> marked_ok P Q (Some (length xs)) (xs @ [x])"
  by (simp add: marked_ok_def nth_append less_Suc_eq)

lemma marked_ok_update:
  assumes "marked_ok P Q a xs" "P x" "Q x \<longrightarrow> a = Some i"
  shows "marked_ok P Q a (xs[i := x])"
  using assms by (cases "i < length xs") (auto simp: marked_ok_def nth_list_update split: option.splits if_splits)

lemma marked_ok_release: "marked_ok P Q (Some i) xs \<Longrightarrow> \<not> Q (xs ! i) \<Longrightarrow> marked_ok P Q None xs"
  by (auto simp: marked_ok_def)

lemma marked_ok_nth:
  assumes "marked_ok P Q a xs"
  shows "i < length xs \<Longrightarrow> P (xs ! i)" "i < length xs \<Longrightarrow> Q (xs ! i) \<Longrightarrow> a = Some i" "a = Some i \<Longrightarrow> i < length xs"
  using assms by (simp_all add: marked_ok_def)

text \<open>The calls satisfy their invariant, and one that is under way is the one the board counts as active.\<close>

abbreviation board_ok :: "nat option \<Rightarrow> Call list \<Rightarrow> bool" where
  "board_ok \<equiv> marked_ok call_fine underway"

definition phone_ok :: "Phone \<Rightarrow> bool" where
  "phone_ok p \<longleftrightarrow> board_ok (sb_active (ph_board p)) (ph_calls p)"

lemma NewPhone_ok: "phone_ok (NewPhone cfg)"
  by (simp add: phone_ok_def marked_ok_def NewPhone_def Let_def)

text \<open>Asking whether the board is busy may clear a finished call, and answers no only when no call is under way.\<close>

lemma sb_busyLocked_cases:
  assumes "phone_ok p" "sb_busyLocked p = (b, busy)"
  shows "board_ok (sb_active b) (ph_calls p)" "\<not> busy \<Longrightarrow> sb_active b = None" "sb_cfg b = sb_cfg (ph_board p)"
    "sb_limiter b = sb_limiter (ph_board p)" "sb_forcedBusy b = sb_forcedBusy (ph_board p)"
proof -
  consider (keep) "b = ph_board p" "busy \<or> sb_active b = None"
    | (clear) j where "b = (ph_board p)\<lparr>sb_active := None\<rparr>" "sb_active (ph_board p) = Some j" "\<not> underway (ph_calls p ! j)"
    using assms(2) unfolding sb_busyLocked_def Let_def underway_def
    by (cases "sb_forcedBusy (ph_board p)"; cases "sb_active (ph_board p)") (auto split: if_splits)
  then have "board_ok (sb_active b) (ph_calls p) \<and> (\<not> busy \<longrightarrow> sb_active b = None) \<and> sb_cfg b = sb_cfg (ph_board p)
      \<and> sb_limiter b = sb_limiter (ph_board p) \<and> sb_forcedBusy b = sb_forcedBusy (ph_board p)"
  proof cases
    case keep
    then show ?thesis using assms(1) by (cases busy) (simp_all add: phone_ok_def)
  next
    case clear
    have "board_ok (Some j) (ph_calls p)" using assms(1) clear(2) by (simp add: phone_ok_def)
    from marked_ok_release [of call_fine underway, OF this clear(3)] show ?thesis by (simp add: clear(1))
  qed
  then show "board_ok (sb_active b) (ph_calls p)" "\<not> busy \<Longrightarrow> sb_active b = None" "sb_cfg b = sb_cfg (ph_board p)"
    "sb_limiter b = sb_limiter (ph_board p)" "sb_forcedBusy b = sb_forcedBusy (ph_board p)" by blast+
qed

lemma NewCall_state: "c_state (NewCall cfg) = StateIdle"
  by (simp add: NewCall_def Let_def applyProfile_def)

lemma NewCall_fine: "call_fine (NewCall cfg)"
  unfolding call_fine_def by (rule NewCall_ok(1))

lemma Occupy_ok:
  assumes "phone_ok p" "Occupy (NewCall cfg) p = (p', ok)"
  shows "phone_ok p'"
    "ok \<Longrightarrow> sb_active (ph_board p') = Some (length (ph_calls p)) \<and> ph_calls p' = ph_calls p @ [NewCall cfg]"
    "\<not> ok \<Longrightarrow> ph_calls p' = ph_calls p"
proof -
  obtain b busy where b: "sb_busyLocked p = (b, busy)" by (cases "sb_busyLocked p")
  note bl = sb_busyLocked_cases [OF assms(1) b]
  have "phone_ok p' \<and> (ok \<longrightarrow> sb_active (ph_board p') = Some (length (ph_calls p)) \<and> ph_calls p' = ph_calls p @ [NewCall cfg])
     \<and> (\<not> ok \<longrightarrow> ph_calls p' = ph_calls p)"
  proof (cases busy)
    case True
    then have "p' = p\<lparr>ph_board := b\<rparr>" "\<not> ok" using assms(2) b by (simp_all add: Occupy_def)
    with bl(1) show ?thesis by (simp add: phone_ok_def)
  next
    case False
    then have p': "p' = p\<lparr>ph_board := b\<lparr>sb_active := Some (length (ph_calls p))\<rparr>, ph_calls := ph_calls p @ [NewCall cfg]\<rparr>" "ok"
      using assms(2) b by (simp_all add: Occupy_def)
    have "board_ok (Some (length (ph_calls p))) (ph_calls p @ [NewCall cfg])"
      using marked_ok_append [of call_fine underway "ph_calls p" "NewCall cfg"] bl(1) bl(2) [OF False] NewCall_fine [of cfg] by simp
    then show ?thesis by (simp add: p' phone_ok_def)
  qed
  then show "phone_ok p'" "ok \<Longrightarrow> sb_active (ph_board p') = Some (length (ph_calls p)) \<and> ph_calls p' = ph_calls p @ [NewCall cfg]"
    "\<not> ok \<Longrightarrow> ph_calls p' = ph_calls p" by blast+
qed

text \<open>Replacing the call the board counts as active, or one that stays out of the way.\<close>

lemma phone_ok_update:
  assumes "phone_ok p" "call_fine c" "underway c \<Longrightarrow> sb_active (ph_board p) = Some i"
  shows "phone_ok (p\<lparr>ph_calls := (ph_calls p)[i := c]\<rparr>)"
  using marked_ok_update [of call_fine underway "sb_active (ph_board p)" "ph_calls p" c i] assms by (simp add: phone_ok_def)

lemma Release_ok:
  assumes "phone_ok p" "\<not> underway (ph_calls p ! i)"
  shows "phone_ok (Release i p)"
  using assms marked_ok_release [of call_fine underway i "ph_calls p"]
  by (cases "sb_active (ph_board p) = Some i") (simp_all add: phone_ok_def Release_def Let_def)

lemma Release_calls [simp]: "ph_calls (Release i p) = ph_calls p"
  by (simp add: Release_def Let_def)

lemma phone_ok_limiter [simp]: "phone_ok (p\<lparr>ph_board := (ph_board p)\<lparr>sb_limiter := l\<rparr>\<rparr>) = phone_ok p"
  by (simp add: phone_ok_def)

text \<open>No event but dialling and serving gets an idle call under way.\<close>

lemma idle_stays:
  assumes "core_ok (core c)" "c_state c = StateIdle" "\<nexists>r. ev = EvDial r" "ev \<noteq> EvServe"
  shows "c_state (call_do E ev c) = StateIdle"
proof -
  have n: "c_peer c = None" "\<not> c_started c" using assms(1,2) by (simp_all add: core_ok_def closed_pipes_def)
  have q: "c_state d = StateIdle" if "core d = core c" for d
    using arg_cong [OF that, where f = k_state] assms(2) by simp
  show ?thesis
  proof (cases ev)
    case (EvTimer t)
    then show ?thesis using assms(2) by (simp add: call_do_def fire_timeout_def Let_def)
  next
    case EvAutoAnswer
    then show ?thesis using assms(2) by (simp add: call_do_def autoAnswer_def Answer_def Let_def)
  next
    case (EvSwitchProfile pr)
    have "core (fst (SwitchProfile E pr c)) = core c" using assms(2) by (simp add: SwitchProfile_def Let_def)
    with EvSwitchProfile show ?thesis by (simp add: call_do_def q)
  qed (use assms n in \<open>simp_all add: call_do_def q Answer_def Reject_def Hangup_def call_do_quiet [unfolded call_do_def, simplified]\<close>)
qed

lemma Hangup_done: "\<not> underway (Hangup E r c)"
  by (simp add: Hangup_def underway_def)

lemma Dial_fine: "call_fine c \<Longrightarrow> call_fine (fst (call_Dial E r c))"
  unfolding call_fine_def using Dial_ok [of c E r] by blast

lemma Hangup_fine: "call_fine c \<Longrightarrow> call_fine (Hangup E r c)"
  unfolding call_fine_def using call_do_ok(1) [of c E "EvHangup r"] by (simp add: call_do_def del: core_sel)

lemma Serve_fine: "call_fine c \<Longrightarrow> call_fine (fst (ServeIncoming E c))"
  unfolding call_fine_def using Serve_ok [of c E] by blast

lemma Serve_failed:
  "c_state c = StateIdle \<Longrightarrow> ServeIncoming E c = (c', Some e) \<Longrightarrow> \<not> underway c'"
  by (auto simp: ServeIncoming_def casState_def storeState_def Let_def underway_def split: prod.splits option.splits)

text \<open>The steps of a phone keep its invariant.\<close>

lemma accept_serve_ok:
  assumes "phone_ok p" "sb_active (ph_board p) = Some i" "c_state (ph_calls p ! i) = StateIdle"
  shows "phone_ok (accept_serve E i l p)"
proof -
  define c0 where "c0 = SetRateCheck l (ph_calls p ! i)"
  obtain c e where s: "ServeIncoming E c0 = (c, e)" by (rule prod.exhaust)
  have m: "board_ok (Some i) (ph_calls p)" using assms(1,2) by (simp add: phone_ok_def)
  have i: "i < length (ph_calls p)" by (rule marked_ok_nth(3) [OF m refl])
  have "call_fine (ph_calls p ! i)" by (rule marked_ok_nth(1) [OF m i])
  then have f: "call_fine c0" unfolding c0_def call_fine_def SetRateCheck_def core_upd .
  have st: "c_state c0 = StateIdle" unfolding c0_def SetRateCheck_def using assms(3) by simp
  have "call_fine c" using Serve_fine [OF f, of E] unfolding s by simp
  then have u: "phone_ok (p\<lparr>ph_calls := (ph_calls p)[i := c]\<rparr>)" by (rule phone_ok_update [OF assms(1) _ assms(2)])
  have a: "accept_serve E i l p = (case e of Some x \<Rightarrow> Release i (p\<lparr>ph_calls := (ph_calls p)[i := c]\<rparr>) | None \<Rightarrow> p\<lparr>ph_calls := (ph_calls p)[i := c]\<rparr>)"
    unfolding accept_serve_def c0_def [symmetric] s by (simp split: option.split)
  show ?thesis
  proof (cases e)
    case None
    then show ?thesis using u unfolding a by simp
  next
    case (Some x)
    have "\<not> underway c" by (rule Serve_failed [OF st s [unfolded Some]])
    then have "phone_ok (Release i (p\<lparr>ph_calls := (ph_calls p)[i := c]\<rparr>))" using Release_ok [OF u, of i] i by simp
    then show ?thesis unfolding a Some by simp
  qed
qed

lemma accept_occupy_ok:
  assumes "phone_ok p" "accept_occupy p = (p1, r)"
  shows "phone_ok p1" "r = Some (i, l) \<Longrightarrow> sb_active (ph_board p1) = Some i \<and> c_state (ph_calls p1 ! i) = StateIdle"
proof -
  obtain b busy where b: "sb_busyLocked p = (b, busy)" by (rule prod.exhaust)
  have k: "phone_ok (p\<lparr>ph_board := b\<rparr>)" using sb_busyLocked_cases(1) [OF assms(1) b] by (simp add: phone_ok_def)
  define cfg where "cfg = sb_cfg (ph_board p)"
  obtain p2 ok where o: "Occupy (NewCall cfg) (p\<lparr>ph_board := b\<rparr>) = (p2, ok)" by (rule prod.exhaust)
  have e: "(p1, r) = (if busy then (p\<lparr>ph_board := b\<rparr>, None) else if ok then (p2, Some (length (ph_calls p), sb_limiter (ph_board p))) else (p2, None))"
    using assms(2) unfolding accept_occupy_def b Let_def cfg_def [symmetric] by (simp add: o split: bool.splits)
  note oo = Occupy_ok [OF k o]
  have "c_state (ph_calls p2 ! length (ph_calls p)) = StateIdle" if ok using oo(2) [OF that] by (simp add: NewCall_state)
  with e k oo show "phone_ok p1" "r = Some (i, l) \<Longrightarrow> sb_active (ph_board p1) = Some i \<and> c_state (ph_calls p1 ! i) = StateIdle"
    by (cases busy; cases ok; simp)+
qed

lemma accept_link_ok:
  assumes "phone_ok p"
  shows "phone_ok (accept_link E p)"
proof -
  obtain p1 r where a: "accept_occupy p = (p1, r)" by (rule prod.exhaust)
  note ok = accept_occupy_ok [OF assms a]
  show ?thesis
  proof (cases r)
    case None
    then show ?thesis using ok(1) by (simp add: accept_link_def a)
  next
    case (Some il)
    obtain i l where il: "il = (i, l)" by (rule prod.exhaust)
    have "phone_ok (accept_serve E i l p1)" using accept_serve_ok [OF ok(1)] ok(2) [OF Some [unfolded il]] by simp
    then show ?thesis by (simp add: accept_link_def a Some il)
  qed
qed

lemma phone_Dial_ok:
  assumes "phone_ok p"
  shows "phone_ok (fst (phone_Dial E r p))"
proof -
  define n where "n = length (ph_calls p)"
  obtain p1 ok where o: "Occupy (NewCall (ph_cfg p)) p = (p1, ok)" by (rule prod.exhaust)
  note oo = Occupy_ok [OF assms o, folded n_def]
  show ?thesis
  proof (cases ok)
    case False
    then show ?thesis using oo(1) by (simp add: phone_Dial_def o)
  next
    case True
    note p1 = oo(2) [OF True]
    define c0 where "c0 = ph_calls p1 ! n"
    have "c0 = NewCall (ph_cfg p)" using p1 by (simp add: c0_def n_def)
    then have f0: "call_fine c0" by (simp add: NewCall_fine)
    obtain c e where d: "call_Dial E r c0 = (c, e)" by (rule prod.exhaust)
    have f: "call_fine c" using Dial_fine [OF f0, of E r] unfolding d by simp
    have n: "n < length (ph_calls p1)" using p1 by (simp add: n_def)
    have u: "phone_ok (p1\<lparr>ph_calls := (ph_calls p1)[n := d]\<rparr>)" if "call_fine d" for d
      by (rule phone_ok_update [OF oo(1) that conjunct1 [OF p1]])
    have a: "fst (phone_Dial E r p) = (case e of Some x \<Rightarrow> Release n (p1\<lparr>ph_calls := (ph_calls p1)[n := Hangup E ''dial failed'' c]\<rparr>)
        | None \<Rightarrow> p1\<lparr>ph_calls := (ph_calls p1)[n := c]\<rparr>)"
      unfolding phone_Dial_def o n_def [symmetric] Let_def using True by (simp add: d c0_def [symmetric] split: option.split)
    show ?thesis
    proof (cases e)
      case None
      then show ?thesis using u [OF f] unfolding a by simp
    next
      case (Some x)
      have "\<not> underway (ph_calls (p1\<lparr>ph_calls := (ph_calls p1)[n := Hangup E ''dial failed'' c]\<rparr>) ! n)" using n Hangup_done by simp
      from Release_ok [OF u [OF Hangup_fine [OF f]] this] show ?thesis unfolding a Some by simp
    qed
  qed
qed

lemma call_do_underway:
  assumes "call_fine c" "\<nexists>r. ev = EvDial r" "ev \<noteq> EvServe" "underway (call_do E ev c)"
  shows "underway c"
proof -
  have "c_state c \<noteq> StateIdle" using idle_stays [OF assms(1) [unfolded call_fine_def] _ assms(2,3), of E] assms(4) unfolding underway_def by blast
  moreover have "c_state c \<noteq> StateEnded" using call_do_ok(3) [OF assms(1) [unfolded call_fine_def], of E ev] assms(4) unfolding underway_def core_sel by blast
  ultimately show ?thesis unfolding underway_def by blast
qed

lemma phone_event_ok:
  assumes "phone_ok p" "\<nexists>r. ev = EvDial r" "ev \<noteq> EvServe"
  shows "phone_ok (phone_event E i ev p)"
proof (cases "i < length (ph_calls p)")
  case False
  then show ?thesis using assms(1) by (simp add: phone_event_def)
next
  case True
  define c0 where "c0 = ph_calls p ! i"
  define c where "c = (case c_limiter c0 of None \<Rightarrow> c0 | Some _ \<Rightarrow> c0\<lparr>c_limiter := sb_limiter (ph_board p)\<rparr>)"
  define c' where "c' = call_do E ev c"
  define b where "b = (case c_limiter c' of None \<Rightarrow> ph_board p | Some l \<Rightarrow> (ph_board p)\<lparr>sb_limiter := Some l\<rparr>)"
  define p1 where "p1 = p\<lparr>ph_calls := (ph_calls p)[i := c'], ph_board := b\<rparr>"
  have m: "board_ok (sb_active (ph_board p)) (ph_calls p)" using assms(1) by (simp add: phone_ok_def)
  have f0: "call_fine c0" unfolding c0_def by (rule marked_ok_nth(1) [OF m True])
  have k: "core c = core c0" unfolding c_def by (cases "c_limiter c0") simp_all
  have f: "call_fine c" using f0 unfolding call_fine_def k .
  have f': "call_fine c'" unfolding c'_def call_fine_def by (rule call_do_ok(1) [OF f [unfolded call_fine_def]])
  have s: "c_state c = c_state c0" using arg_cong [OF k, where f = k_state] by simp
  have act: "underway c' \<longrightarrow> sb_active (ph_board p) = Some i"
  proof
    assume "underway c'"
    then have "underway c" unfolding c'_def by (rule call_do_underway [OF f assms(2,3)])
    then have "underway c0" unfolding underway_def s .
    then show "sb_active (ph_board p) = Some i" unfolding c0_def by (rule marked_ok_nth(2) [OF m True])
  qed
  have bb: "sb_active b = sb_active (ph_board p)" unfolding b_def by (cases "c_limiter c'") simp_all
  have o: "phone_ok p1" using marked_ok_update [OF m, of c' i] f' act by (simp add: phone_ok_def p1_def bb)
  have e: "phone_event E i ev p = (if c_state c0 \<noteq> StateEnded \<and> c_state c' = StateEnded then Release i p1 else p1)"
    unfolding phone_event_def Let_def c0_def [symmetric] c_def [symmetric] c'_def [symmetric] b_def [symmetric] p1_def [symmetric] using True by simp
  show ?thesis
  proof (cases "c_state c' = StateEnded")
    case True
    have "ph_calls p1 ! i = c'" using \<open>i < length (ph_calls p)\<close> by (simp add: p1_def)
    then have "\<not> underway (ph_calls p1 ! i)" using True by (simp add: underway_def)
    from Release_ok [OF o this] o show ?thesis unfolding e by simp
  qed (use o in \<open>simp add: e\<close>)
qed

lemma phone_settings_ok:
  "phone_ok (SetBusy b p) = phone_ok p" "phone_ok (SetRateLimiter l p) = phone_ok p" "phone_ok (SetAllowed pol hs fn p) = phone_ok p"
  "phone_ok (SetBlocked hs p) = phone_ok p" "phone_ok (SetMode md p) = phone_ok p" "phone_ok (Announce now p) = phone_ok p"
  by (simp_all add: phone_ok_def SetBusy_def SetRateLimiter_def SetAllowed_def SetBlocked_def SetMode_def Announce_def Let_def split: option.split)

lemma phone_do_ok: "phone_ok p \<Longrightarrow> phone_ok (phone_do E ev p)"
  using accept_link_ok [of p E] phone_Dial_ok [of p E] phone_event_ok [of p _ E] phone_settings_ok
  by (cases ev) (simp_all add: phone_do_def)

lemma phone_run_ok: "phone_ok (phone_run es (NewPhone cfg))"
proof (induction es rule: rev_induct)
  case Nil
  then show ?case by (simp add: NewPhone_ok)
next
  case (snoc e es)
  obtain E ev where "e = (E, ev)" by (rule prod.exhaust)
  then show ?case using phone_do_ok [OF snoc] by simp
qed

lemma busy_iff_underway:
  assumes "phone_ok p"
  shows "snd (sb_busyLocked p) \<longleftrightarrow> sb_forcedBusy (ph_board p) \<or> (\<exists>i < length (ph_calls p). underway (ph_calls p ! i))"
proof (cases "sb_forcedBusy (ph_board p)")
  case True
  then show ?thesis by (simp add: sb_busyLocked_def Let_def)
next
  case False
  have m: "board_ok (sb_active (ph_board p)) (ph_calls p)" using assms by (simp add: phone_ok_def)
  show ?thesis
  proof (cases "sb_active (ph_board p)")
    case None
    then have "\<not> underway (ph_calls p ! i)" if "i < length (ph_calls p)" for i using marked_ok_nth(2) [OF m that] by auto
    then show ?thesis using None False by (simp add: sb_busyLocked_def Let_def)
  next
    case (Some i)
    have i: "i < length (ph_calls p)" by (rule marked_ok_nth(3) [OF m Some])
    have "(\<exists>j < length (ph_calls p). underway (ph_calls p ! j)) \<longleftrightarrow> underway (ph_calls p ! i)"
      using marked_ok_nth(2) [OF m] Some i by auto
    then show ?thesis using Some False by (simp add: sb_busyLocked_def Let_def underway_def)
  qed
qed

subsection \<open>Property\<close>


definition ex_phone_run :: "(call_env \<times> phone_ev) list" where
  "ex_phone_run = map (Pair ex_call_env) [PhAccept, PhAccept, PhCall 0 (EvIdentified (Some [1])), PhDial True]"


subsection \<open>Observation\<close>

text \<open>
  A call that is registered but not yet served is idle, and the board takes an idle call for a finished one.  Two links whose
  callbacks interleave between the two halves are both accepted.
\<close>

lemma interleaved_links_both_accepted:
  "let E = ex_call_env; (p1, r1) = accept_occupy (NewPhone ex_call_cfg); (p2, r2) = accept_occupy p1;
       p = accept_serve E 1 None (accept_serve E 0 None p2)
   in r1 = Some (0, None) \<and> r2 = Some (1, None) \<and> length (ph_calls p) = 2 \<and> underway (ph_calls p ! 0) \<and> underway (ph_calls p ! 1)"
  by code_simp

end
