(* ===== verification/RNV_Proto.thy ===== *)
theory RNV_Proto
  imports Wire_Value
begin

text \<open>
  \<^verbatim>\<open>pkg/rnv/proto\<close>: the messages of the RNV media protocol.  Live frames are a five-byte header and a payload; everything
  else is a CBOR map with a version, a type and a body, and each kind of body has a record with its conversion to and
  from a map.  Profiles bound what two peers may stream to each other.

  The CBOR library is the argument \<open>C\<close>, as in the other protocols.  Go's \<^verbatim>\<open>int\<close> is an integer here; the conversions
  \<^verbatim>\<open>uint64(n)\<close> and \<^verbatim>\<open>int(u)\<close> go through a 64-bit word.  A nil map in a body is \<^const>\<open>None\<close>.
\<close>

unbundle bit_operations_syntax

subsection \<open>Constants\<close>

abbreviation rnv_ProtocolVersion :: uint64 where "rnv_ProtocolVersion \<equiv> 1"

abbreviation FieldVersion :: uint64 where "FieldVersion \<equiv> 0"
abbreviation FieldType :: uint64 where "FieldType \<equiv> 1"
abbreviation FieldBody :: uint64 where "FieldBody \<equiv> 2"
abbreviation FieldExtensions :: uint64 where "FieldExtensions \<equiv> 90"

abbreviation rnv_TypeHello :: uint64 where "rnv_TypeHello \<equiv> 1"
abbreviation TypeReject :: uint64 where "TypeReject \<equiv> 2"
abbreviation TypeStill :: uint64 where "TypeStill \<equiv> 10"
abbreviation TypeClipOffer :: uint64 where "TypeClipOffer \<equiv> 20"
abbreviation TypeClipAccept :: uint64 where "TypeClipAccept \<equiv> 21"
abbreviation TypeClipDone :: uint64 where "TypeClipDone \<equiv> 22"
abbreviation TypeStreamOffer :: uint64 where "TypeStreamOffer \<equiv> 30"
abbreviation TypeStreamAccept :: uint64 where "TypeStreamAccept \<equiv> 31"
abbreviation TypeStreamCtrl :: uint64 where "TypeStreamCtrl \<equiv> 32"
abbreviation TypeBye :: uint64 where "TypeBye \<equiv> 40"
abbreviation TypePrivateMin :: uint64 where "TypePrivateMin \<equiv> 1000"

abbreviation CodecJPEG :: byte where "CodecJPEG \<equiv> 0x01"
abbreviation CodecAVIF :: byte where "CodecAVIF \<equiv> 0x02"
abbreviation CodecOpaque :: byte where "CodecOpaque \<equiv> 0x10"
abbreviation CodecH264 :: byte where "CodecH264 \<equiv> 0x20"
abbreviation CodecVP8 :: byte where "CodecVP8 \<equiv> 0x21"
abbreviation CodecPCM16 :: byte where "CodecPCM16 \<equiv> 0x80"
abbreviation rnv_CodecOpus :: byte where "rnv_CodecOpus \<equiv> 0x81"
abbreviation rnv_CodecCodec2 :: byte where "rnv_CodecCodec2 \<equiv> 0x82"
abbreviation CodecPrivateMin :: byte where "CodecPrivateMin \<equiv> 0xE0"
abbreviation CodecPrivateMax :: byte where "CodecPrivateMax \<equiv> 0xFE"

abbreviation MagicVideo :: byte where "MagicVideo \<equiv> 0xF1"
abbreviation MagicAudio :: byte where "MagicAudio \<equiv> 0xF2"
abbreviation FlagKeyframe :: byte where "FlagKeyframe \<equiv> 0x01"
abbreviation TrackVideo :: byte where "TrackVideo \<equiv> 0x01"
abbreviation TrackAudio :: byte where "TrackAudio \<equiv> 0x02"

abbreviation ProfileUltraLow :: int where "ProfileUltraLow \<equiv> 0x10"
abbreviation ProfileLow :: int where "ProfileLow \<equiv> 0x20"
abbreviation ProfileMedium :: int where "ProfileMedium \<equiv> 0x30"
abbreviation ProfileHigh :: int where "ProfileHigh \<equiv> 0x40"

abbreviation TransferPacket :: int where "TransferPacket \<equiv> 0"
abbreviation TransferResource :: int where "TransferResource \<equiv> 1"

abbreviation RejectCapacity :: int where "RejectCapacity \<equiv> 1"
abbreviation RejectSize :: int where "RejectSize \<equiv> 2"
abbreviation RejectUnknown :: int where "RejectUnknown \<equiv> 3"
abbreviation RejectPolicy :: int where "RejectPolicy \<equiv> 4"

abbreviation MaxStillBytes :: uint64 where "MaxStillBytes \<equiv> 262144"
abbreviation MaxClipBytes :: uint64 where "MaxClipBytes \<equiv> 8388608"
abbreviation MaxStreamFrameBytes :: nat where "MaxStreamFrameBytes \<equiv> 400"
abbreviation MaxAudioFrameBytes :: nat where "MaxAudioFrameBytes \<equiv> 256"
abbreviation rnv_MaxEnvelopeBytes :: nat where "rnv_MaxEnvelopeBytes \<equiv> 4096"
abbreviation MaxWidth :: int where "MaxWidth \<equiv> 4096"
abbreviation MaxHeight :: int where "MaxHeight \<equiv> 4096"
abbreviation FrameHeaderLen :: nat where "FrameHeaderLen \<equiv> 5"
abbreviation LinkPacketSoftMax :: nat where "LinkPacketSoftMax \<equiv> 400"

text \<open>The errors the package makes itself; \<open>PCodec\<close> is one of the CBOR library.\<close>

datatype proto_error =
    PEnvelopeEmpty | PEnvelopeTooLarge | PWrongVersion uint64 | PCodec gostring
  | PFrameTooLarge | PFrameTooShort | PBadMagic byte
  | PAnnounceTooLarge | PBuiltin byte | PNoEncoder byte | PNoDecoder byte

subsection \<open>Live frames\<close>

record rnv_Frame =
  rf_Magic :: byte
  rf_Codec :: byte
  rf_Flags :: byte
  rf_Seq :: uint16
  rf_Payload :: bytes

definition frame_max :: "byte \<Rightarrow> nat" where
  "frame_max magic = (if magic = MagicAudio then MaxAudioFrameBytes else MaxStreamFrameBytes)"

definition rnv_PackFrame :: "byte \<Rightarrow> byte \<Rightarrow> byte \<Rightarrow> uint16 \<Rightarrow> bytes \<Rightarrow> proto_error + bytes" where
  "rnv_PackFrame magic codec flags seq payload =
     (if length payload > frame_max magic then Inl PFrameTooLarge
      else Inr ([magic, codec, flags, ucast (drop_bit 8 seq), ucast seq] @ payload))"

definition PackVideo :: "byte \<Rightarrow> byte \<Rightarrow> uint16 \<Rightarrow> bytes \<Rightarrow> proto_error + bytes" where
  "PackVideo codec flags seq payload = rnv_PackFrame MagicVideo codec flags seq payload"

definition PackAudio :: "byte \<Rightarrow> byte \<Rightarrow> uint16 \<Rightarrow> bytes \<Rightarrow> proto_error + bytes" where
  "PackAudio codec flags seq payload = rnv_PackFrame MagicAudio codec flags seq payload"

definition rnv_SplitFrame :: "bytes \<Rightarrow> proto_error + rnv_Frame" where
  "rnv_SplitFrame raw =
     (if length raw < FrameHeaderLen then Inl PFrameTooShort
      else let magic = raw ! 0; payload = drop FrameHeaderLen raw
           in if magic \<noteq> MagicVideo \<and> magic \<noteq> MagicAudio then Inl (PBadMagic magic)
              else if length payload > frame_max magic then Inl PFrameTooLarge
              else Inr \<lparr>rf_Magic = magic, rf_Codec = raw ! 1, rf_Flags = raw ! 2,
                        rf_Seq = push_bit 8 (ucast (raw ! 3)) OR ucast (raw ! 4), rf_Payload = payload\<rparr>)"

definition IsMediaFrame :: "bytes \<Rightarrow> bool" where
  "IsMediaFrame raw = (if length raw < 1 then False else raw ! 0 = MagicVideo \<or> raw ! 0 = MagicAudio)"

subsection \<open>Envelopes\<close>

type_synonym body = "(uint64 \<times> val) list"

record rnv_Envelope =
  ev_Version :: uint64
  ev_Type :: uint64
  ev_Body :: "body option"
  ev_Extensions :: "(uint64 \<times> bytes) list"

fun rnv_asUint64 :: "val \<Rightarrow> uint64" where
  "rnv_asUint64 (VUint64 n) = n"
| "rnv_asUint64 (VUint32 n) = ucast n"
| "rnv_asUint64 (VUint16 n) = ucast n"
| "rnv_asUint64 (VUint8 n) = ucast n"
| "rnv_asUint64 (VInt64 n) = (if sint n < 0 then 0 else n)"
| "rnv_asUint64 (VInt n) = (if sint n < 0 then 0 else n)"
| "rnv_asUint64 (VInt32 n) = (if sint n < 0 then 0 else ucast n)"
| "rnv_asUint64 _ = 0"

text \<open>\<^verbatim>\<open>int(asUint64(v))\<close>.\<close>

definition as_int :: "val \<Rightarrow> int" where
  "as_int v = sint (rnv_asUint64 v)"

fun uint_entries :: "(val \<times> val) list \<Rightarrow> body \<Rightarrow> body" where
  "uint_entries [] out = out"
| "uint_entries ((k, v) # m) out = uint_entries m (AList.update (rnv_asUint64 k) v out)"

fun asUint64Map :: "val \<Rightarrow> body" where
  "asUint64Map (VMapU m) = m"
| "asUint64Map (VMapA m) = uint_entries m []"
| "asUint64Map _ = []"

fun ext_entries :: "body \<Rightarrow> (uint64 \<times> bytes) list \<Rightarrow> (uint64 \<times> bytes) list" where
  "ext_entries [] out = out"
| "ext_entries ((k, v) # m) out =
     ext_entries m (case v of VBytes b \<Rightarrow> AList.update k b out | VString s \<Rightarrow> AList.update k (bytes_of_string s) out | _ \<Rightarrow> out)"

definition asExtMap :: "val \<Rightarrow> (uint64 \<times> bytes) list" where
  "asExtMap v = ext_entries (asUint64Map v) []"

fun rnv_asString :: "val \<Rightarrow> gostring" where
  "rnv_asString (VString s) = s"
| "rnv_asString (VBytes b) = string_of_bytes b"
| "rnv_asString _ = []"

fun rnv_asBytes :: "val \<Rightarrow> bytes" where
  "rnv_asBytes (VBytes b) = b"
| "rnv_asBytes (VString s) = bytes_of_string s"
| "rnv_asBytes _ = []"

definition ext_val :: "(uint64 \<times> bytes) list \<Rightarrow> val" where
  "ext_val ext = VMapU (map (map_prod id VBytes) ext)"

text \<open>The map \<^verbatim>\<open>Pack\<close> hands to the encoder.\<close>

definition rnv_envelope_map :: "rnv_Envelope \<Rightarrow> body" where
  "rnv_envelope_map e =
     [(FieldVersion, VUint64 (if ev_Version e = 0 then rnv_ProtocolVersion else ev_Version e)), (FieldType, VUint64 (ev_Type e))]
     @ (case ev_Body e of None \<Rightarrow> [] | Some b \<Rightarrow> [(FieldBody, VMapU b)])
     @ (if ev_Extensions e = [] then [] else [(FieldExtensions, ext_val (ev_Extensions e))])"

definition rnv_Pack :: "cbor \<Rightarrow> rnv_Envelope \<Rightarrow> proto_error + bytes" where
  "rnv_Pack C e =
     (if ev_Version e \<noteq> 0 \<and> ev_Version e \<noteq> rnv_ProtocolVersion then Inl (PWrongVersion (ev_Version e))
      else case c_enc C (rnv_envelope_map e) of
             Inl t \<Rightarrow> Inl (PCodec t)
           | Inr d \<Rightarrow> if length d > rnv_MaxEnvelopeBytes then Inl PEnvelopeTooLarge else Inr d)"

definition UnpackEnvelope :: "cbor \<Rightarrow> bytes \<Rightarrow> proto_error + rnv_Envelope" where
  "UnpackEnvelope C raw =
     (if raw = [] then Inl PEnvelopeEmpty
      else if length raw > rnv_MaxEnvelopeBytes then Inl PEnvelopeTooLarge
      else case c_dec C raw of
             Inl t \<Rightarrow> Inl (PCodec t)
           | Inr m \<Rightarrow>
               (let version = (case map_of m FieldVersion of Some v \<Rightarrow> rnv_asUint64 v | None \<Rightarrow> 0)
                in if version \<noteq> rnv_ProtocolVersion then Inl (PWrongVersion version)
                   else Inr \<lparr>ev_Version = version,
                     ev_Type = (case map_of m FieldType of Some v \<Rightarrow> rnv_asUint64 v | None \<Rightarrow> 0),
                     ev_Body = Some (case map_of m FieldBody of Some v \<Rightarrow> asUint64Map v | None \<Rightarrow> []),
                     ev_Extensions = (case map_of m FieldExtensions of Some v \<Rightarrow> asExtMap v | None \<Rightarrow> [])\<rparr>))"

definition NewTyped :: "uint64 \<Rightarrow> body option \<Rightarrow> rnv_Envelope" where
  "NewTyped typ b = \<lparr>ev_Version = rnv_ProtocolVersion, ev_Type = typ, ev_Body = b, ev_Extensions = []\<rparr>"

end
