(* ===== verification/RNV_Bodies.thy ===== *)
theory RNV_Bodies
  imports RNV_Proto
begin

text \<open>
  The bodies of \<^verbatim>\<open>pkg/rnv/proto/envelope.go\<close> and the announce data of \<^verbatim>\<open>announce.go\<close>, each with its conversion to and
  from a map, and that each survives the trip over the wire.  The contract is a locale: a conversion and a reading that
  undoes it on any map with the same entries, up to the types the CBOR decoder gives to numbers and maps.
\<close>

subsection \<open>Records and conversions\<close>

record Caps =
  caps_MaxStill :: uint64
  caps_MaxClip :: uint64
  caps_Profiles :: "int list"
  caps_Codecs :: bytes
  caps_Tracks :: byte
  caps_Preferred :: int
  caps_StrictExt :: bool
  caps_Extensions :: "(uint64 \<times> bytes) list"

definition vuint :: "int \<Rightarrow> val" where
  "vuint n = VUint64 (word_of_int n)"

definition vbyte :: "byte \<Rightarrow> val" where
  "vbyte b = VUint64 (ucast b)"

definition Caps_ToBody :: "Caps \<Rightarrow> body" where
  "Caps_ToBody c =
     [(0, VUint64 (caps_MaxStill c)), (1, VUint64 (caps_MaxClip c)), (2, VArr (map vuint (caps_Profiles c))),
      (3, VArr (map vbyte (caps_Codecs c))), (4, vbyte (caps_Tracks c)), (5, vuint (caps_Preferred c))]
     @ (if caps_StrictExt c then [(6, VBool True)] else [])
     @ (if caps_Extensions c = [] then [] else [(7, ext_val (caps_Extensions c))])"

fun asIntList :: "val \<Rightarrow> int list" where
  "asIntList (VArr a) = map as_int a"
| "asIntList _ = []"

fun asByteList :: "val \<Rightarrow> bytes" where
  "asByteList (VArr a) = map (\<lambda>x. ucast (rnv_asUint64 x)) a"
| "asByteList (VBytes b) = b"
| "asByteList _ = []"

text \<open>The guarded read \<^verbatim>\<open>if v, ok := body[k]; ok { ... }\<close> with the value kept otherwise.\<close>

definition read_or :: "'a \<Rightarrow> (val \<Rightarrow> 'a) \<Rightarrow> body \<Rightarrow> uint64 \<Rightarrow> 'a" where
  "read_or d conv b k = (case map_of b k of Some v \<Rightarrow> conv v | None \<Rightarrow> d)"

fun asBool :: "bool \<Rightarrow> val \<Rightarrow> bool" where
  "asBool d (VBool b) = b"
| "asBool d _ = d"

definition no_Caps :: Caps where
  "no_Caps = \<lparr>caps_MaxStill = 0, caps_MaxClip = 0, caps_Profiles = [], caps_Codecs = [], caps_Tracks = 0, caps_Preferred = 0,
     caps_StrictExt = False, caps_Extensions = []\<rparr>"

definition CapsFromBody :: "body option \<Rightarrow> Caps" where
  "CapsFromBody body =
     (let c = no_Caps\<lparr>caps_MaxStill := MaxStillBytes, caps_MaxClip := MaxClipBytes, caps_Preferred := ProfileLow,
                      caps_Tracks := TrackVideo OR TrackAudio\<rparr>
      in case body of
           None \<Rightarrow> c
         | Some b \<Rightarrow>
             \<lparr>caps_MaxStill = read_or MaxStillBytes rnv_asUint64 b 0, caps_MaxClip = read_or MaxClipBytes rnv_asUint64 b 1,
              caps_Profiles = read_or [] asIntList b 2, caps_Codecs = read_or [] asByteList b 3,
              caps_Tracks = read_or (TrackVideo OR TrackAudio) (\<lambda>v. ucast (rnv_asUint64 v)) b 4,
              caps_Preferred = read_or ProfileLow as_int b 5, caps_StrictExt = read_or False (asBool False) b 6,
              caps_Extensions = read_or [] asExtMap b 7\<rparr>)"

record StillMeta =
  sm_Width :: int
  sm_Height :: int
  sm_Codec :: byte
  sm_Size :: uint64
  sm_Transfer :: int
  sm_ID :: bytes
  sm_Data :: bytes

definition StillMeta_ToBody :: "StillMeta \<Rightarrow> body" where
  "StillMeta_ToBody s =
     [(0, vuint (sm_Width s)), (1, vuint (sm_Height s)), (2, vbyte (sm_Codec s)), (3, VUint64 (sm_Size s)), (4, vuint (sm_Transfer s))]
     @ (if sm_ID s = [] then [] else [(5, VBytes (sm_ID s))]) @ (if sm_Data s = [] then [] else [(6, VBytes (sm_Data s))])"

definition StillMetaFromBody :: "body option \<Rightarrow> StillMeta" where
  "StillMetaFromBody body =
     (case body of
        None \<Rightarrow> \<lparr>sm_Width = 0, sm_Height = 0, sm_Codec = CodecJPEG, sm_Size = 0, sm_Transfer = TransferPacket, sm_ID = [], sm_Data = []\<rparr>
      | Some b \<Rightarrow> \<lparr>sm_Width = as_int (map_get b 0), sm_Height = as_int (map_get b 1), sm_Codec = ucast (rnv_asUint64 (map_get b 2)),
          sm_Size = rnv_asUint64 (map_get b 3), sm_Transfer = as_int (map_get b 4), sm_ID = rnv_asBytes (map_get b 5),
          sm_Data = rnv_asBytes (map_get b 6)\<rparr>)"

record ClipMeta =
  cm_ID :: bytes
  cm_Size :: uint64
  cm_Codec :: byte
  cm_Mime :: gostring
  cm_SHA256 :: bytes

definition ClipMeta_ToBody :: "ClipMeta \<Rightarrow> body" where
  "ClipMeta_ToBody c =
     [(1, VUint64 (cm_Size c)), (2, vbyte (cm_Codec c))]
     @ (if cm_ID c = [] then [] else [(0, VBytes (cm_ID c))]) @ (if cm_Mime c = [] then [] else [(3, VString (cm_Mime c))])
     @ (if cm_SHA256 c = [] then [] else [(4, VBytes (cm_SHA256 c))])"

definition ClipMetaFromBody :: "body option \<Rightarrow> ClipMeta" where
  "ClipMetaFromBody body =
     (case body of
        None \<Rightarrow> \<lparr>cm_ID = [], cm_Size = 0, cm_Codec = CodecOpaque, cm_Mime = [], cm_SHA256 = []\<rparr>
      | Some b \<Rightarrow> \<lparr>cm_ID = rnv_asBytes (map_get b 0), cm_Size = rnv_asUint64 (map_get b 1), cm_Codec = ucast (rnv_asUint64 (map_get b 2)),
          cm_Mime = rnv_asString (map_get b 3), cm_SHA256 = rnv_asBytes (map_get b 4)\<rparr>)"

record StreamOffer =
  so_Profile :: int
  so_Tracks :: byte
  so_Video :: byte
  so_Audio :: byte
  so_MaxFPS :: int

definition StreamOffer_ToBody :: "StreamOffer \<Rightarrow> body" where
  "StreamOffer_ToBody s =
     [(0, vuint (so_Profile s)), (1, vbyte (so_Tracks s))]
     @ (if so_Video s \<noteq> 0 then [(2, vbyte (so_Video s))] else []) @ (if so_Audio s \<noteq> 0 then [(3, vbyte (so_Audio s))] else [])
     @ (if so_MaxFPS s > 0 then [(4, vuint (so_MaxFPS s))] else [])"

definition StreamOfferFromBody :: "body option \<Rightarrow> StreamOffer" where
  "StreamOfferFromBody body =
     (case body of
        None \<Rightarrow> \<lparr>so_Profile = ProfileMedium, so_Tracks = 0, so_Video = CodecJPEG, so_Audio = rnv_CodecOpus, so_MaxFPS = 0\<rparr>
      | Some b \<Rightarrow> \<lparr>so_Profile = as_int (map_get b 0), so_Tracks = ucast (rnv_asUint64 (map_get b 1)),
          so_Video = read_or CodecJPEG (\<lambda>v. ucast (rnv_asUint64 v)) b 2, so_Audio = read_or rnv_CodecOpus (\<lambda>v. ucast (rnv_asUint64 v)) b 3,
          so_MaxFPS = read_or 0 as_int b 4\<rparr>)"

record RejectBody =
  rj_Code :: int
  rj_Reason :: gostring

definition RejectBody_ToBody :: "RejectBody \<Rightarrow> body" where
  "RejectBody_ToBody r = [(0, vuint (rj_Code r))] @ (if rj_Reason r = [] then [] else [(1, VString (rj_Reason r))])"

definition RejectFromBody :: "body option \<Rightarrow> RejectBody" where
  "RejectFromBody body =
     (case body of
        None \<Rightarrow> \<lparr>rj_Code = 0, rj_Reason = []\<rparr>
      | Some b \<Rightarrow> \<lparr>rj_Code = as_int (map_get b 0), rj_Reason = rnv_asString (map_get b 1)\<rparr>)"

record CtrlBody =
  ct_Bitrate :: int
  ct_Keyframe :: bool
  ct_Pause :: bool

definition CtrlBody_ToBody :: "CtrlBody \<Rightarrow> body" where
  "CtrlBody_ToBody c =
     (if ct_Bitrate c > 0 then [(0, vuint (ct_Bitrate c))] else []) @ (if ct_Keyframe c then [(1, VBool True)] else [])
     @ (if ct_Pause c then [(2, VBool True)] else [])"

definition CtrlFromBody :: "body option \<Rightarrow> CtrlBody" where
  "CtrlFromBody body =
     (case body of
        None \<Rightarrow> \<lparr>ct_Bitrate = 0, ct_Keyframe = False, ct_Pause = False\<rparr>
      | Some b \<Rightarrow> \<lparr>ct_Bitrate = as_int (map_get b 0), ct_Keyframe = asBool False (map_get b 1), ct_Pause = asBool False (map_get b 2)\<rparr>)"

record AnnounceAppData =
  an_Version :: uint64
  an_Caps :: uint64
  an_Profile :: int
  an_ExtBloom :: bytes

definition announce_map :: "AnnounceAppData \<Rightarrow> body" where
  "announce_map a =
     [(0, VUint64 (if an_Version a = 0 then rnv_ProtocolVersion else an_Version a)), (1, VUint64 (an_Caps a)), (2, vuint (an_Profile a))]
     @ (if an_ExtBloom a = [] then [] else [(3, VBytes (an_ExtBloom a))])"

definition EncodeAnnounceAppData :: "cbor \<Rightarrow> AnnounceAppData \<Rightarrow> proto_error + bytes" where
  "EncodeAnnounceAppData C a =
     (case c_enc C (announce_map a) of
        Inl t \<Rightarrow> Inl (PCodec t)
      | Inr d \<Rightarrow> if length d > 512 then Inl PAnnounceTooLarge else Inr d)"

definition announce_default :: AnnounceAppData where
  "announce_default = \<lparr>an_Version = rnv_ProtocolVersion, an_Caps = 0, an_Profile = ProfileLow, an_ExtBloom = []\<rparr>"

definition announce_of_map :: "body \<Rightarrow> AnnounceAppData" where
  "announce_of_map m =
     \<lparr>an_Version = read_or rnv_ProtocolVersion rnv_asUint64 m 0, an_Caps = read_or 0 rnv_asUint64 m 1,
      an_Profile = read_or ProfileLow as_int m 2, an_ExtBloom = read_or [] rnv_asBytes m 3\<rparr>"

definition DecodeAnnounceAppData :: "cbor \<Rightarrow> bytes \<Rightarrow> proto_error + AnnounceAppData" where
  "DecodeAnnounceAppData C raw =
     (if raw = [] then Inr announce_default
      else case c_dec C raw of
             Inl t \<Rightarrow> Inl (PCodec t)
           | Inr m \<Rightarrow> Inr (announce_of_map m))"

subsection \<open>The trip over the wire\<close>

lemma word_of_byte [simp]: "ucast (ucast b :: uint64) = (b :: byte)"
  by (simp add: unsigned_ucast_eq take_bit_word_eq_self)

definition int64 :: "int \<Rightarrow> bool" where
  "int64 n \<longleftrightarrow> - (2 ^ 63) \<le> n \<and> n < 2 ^ 63"

lemma as_int_vuint [simp]: "int64 n \<Longrightarrow> as_int (vuint n) = n"
  by (simp add: as_int_def vuint_def int64_def signed_of_int signed_take_bit_int_eq_self)

lemma norm_vals [simp]: "wire_norm (vuint n) = vuint n" "wire_norm (vbyte b) = vbyte b" "rnv_asUint64 (vbyte b) = ucast b"
  by (simp_all add: vuint_def vbyte_def)

lemma uint_entries_uint_keys:
  "distinct (map fst (out @ m)) \<Longrightarrow> uint_entries (map (map_prod VUint64 id) m) out = out @ m"
proof (induction m arbitrary: out)
  case (Cons kv m)
  obtain k v where kv: "kv = (k, v)" by fastforce
  with Cons.prems have "AList.update k v out = out @ [(k, v)]" by (intro update_append_new) auto
  with Cons.IH [of "out @ [(k, v)]"] Cons.prems show ?case by (simp add: kv)
qed simp

lemma asUint64Map_norm: "distinct (map fst m) \<Longrightarrow> asUint64Map (wire_norm (VMapU m)) = norm_map m"
  using uint_entries_uint_keys [of "[]" "norm_map m"] by (simp add: norm_map_def comp_def)

lemma ext_entries_bytes:
  "distinct (map fst (out @ ext)) \<Longrightarrow> ext_entries (map (map_prod id VBytes) ext) out = out @ ext"
proof (induction ext arbitrary: out)
  case (Cons kb ext)
  obtain k b where kb: "kb = (k, b)" by fastforce
  with Cons.prems have "AList.update k b out = out @ [(k, b)]" by (intro update_append_new) auto
  with Cons.IH [of "out @ [(k, b)]"] Cons.prems show ?case by (simp add: kb)
qed simp

lemma asExtMap_norm [simp]: "distinct (map fst ext) \<Longrightarrow> asExtMap (wire_norm (ext_val ext)) = ext"
proof -
  assume d: "distinct (map fst ext)"
  have n: "norm_map (map (map_prod id VBytes) ext) = map (map_prod id VBytes) ext"
    by (auto simp: norm_map_def)
  have "asUint64Map (wire_norm (ext_val ext)) = norm_map (map (map_prod id VBytes) ext)"
    unfolding ext_val_def by (rule asUint64Map_norm) (use d in \<open>simp add: comp_def\<close>)
  then show ?thesis unfolding asExtMap_def n using ext_entries_bytes [of "[]" ext] d by simp
qed

text \<open>A map that holds the entries of another one as the decoder returns them.\<close>

definition carried :: "body \<Rightarrow> body \<Rightarrow> bool" where
  "carried m b \<longleftrightarrow> (\<forall>k. map_of m k = map_option wire_norm (map_of b k))"

lemma carried_norm_map: "carried (norm_map b) b"
  by (simp add: carried_def)

lemma carried_read: "carried m b \<Longrightarrow> read_or d conv m k = (case map_of b k of Some v \<Rightarrow> conv (wire_norm v) | None \<Rightarrow> d)"
  by (simp add: carried_def read_or_def split: option.split)

lemma carried_get: "carried m b \<Longrightarrow> map_get m k = (case map_of b k of Some v \<Rightarrow> wire_norm v | None \<Rightarrow> VNil)"
  by (simp add: carried_def map_get_def split: option.split)

lemmas carried_simps = carried_read carried_get

locale wire_body =
  fixes to_body :: "'a \<Rightarrow> body"
    and from_body :: "body option \<Rightarrow> 'a"
    and sendable :: "'a \<Rightarrow> bool"
    and seen :: "'a \<Rightarrow> 'a"
  assumes keys: "distinct (map fst (to_body x))"
    and reads_back: "sendable x \<Longrightarrow> carried m (to_body x) \<Longrightarrow> from_body (Some m) = seen x"
begin

lemma arrives_as_seen:
  assumes "sendable x" "cbor_carries C rnv_MaxEnvelopeBytes (rnv_envelope_map (NewTyped t (Some (to_body x))))"
  obtains raw e where "rnv_Pack C (NewTyped t (Some (to_body x))) = Inr raw" "UnpackEnvelope C raw = Inr e"
    "ev_Type e = t" "from_body (ev_Body e) = seen x" "ev_Extensions e = []"
proof -
  let ?m = "rnv_envelope_map (NewTyped t (Some (to_body x)))"
  from assms(2) obtain d raw where d: "c_enc C ?m = Inr d" "d \<noteq> []" "length d \<le> rnv_MaxEnvelopeBytes" "c_dec C d = Inr raw"
    and raw: "map_of raw = map_of (map (map_prod id wire_norm) ?m)" by (rule cbor_carriesE)
  have f: "map_of raw FieldVersion = Some (VUint64 1)" "map_of raw FieldType = Some (VUint64 t)"
    "map_of raw FieldBody = Some (wire_norm (VMapU (to_body x)))" "map_of raw FieldExtensions = None"
    unfolding raw map_of_wire_norm by (simp_all add: rnv_envelope_map_def NewTyped_def)
  have "rnv_Pack C (NewTyped t (Some (to_body x))) = Inr d" using d(1,3) by (simp add: rnv_Pack_def NewTyped_def)
  moreover have "UnpackEnvelope C d = Inr \<lparr>ev_Version = 1, ev_Type = t, ev_Body = Some (norm_map (to_body x)), ev_Extensions = []\<rparr>"
    using d f asUint64Map_norm [OF keys, of x] by (simp add: UnpackEnvelope_def Let_def)
  ultimately show thesis
    using that [of d "\<lparr>ev_Version = 1, ev_Type = t, ev_Body = Some (norm_map (to_body x)), ev_Extensions = []\<rparr>"]
      reads_back [OF assms(1) carried_norm_map] by simp
qed

end

definition Caps_sendable :: "Caps \<Rightarrow> bool" where
  "Caps_sendable c \<longleftrightarrow> (\<forall>p \<in> set (caps_Profiles c). int64 p) \<and> int64 (caps_Preferred c) \<and> distinct (map fst (caps_Extensions c))"

interpretation caps: wire_body Caps_ToBody CapsFromBody Caps_sendable "\<lambda>c. c"
proof unfold_locales
  fix c :: Caps and m :: body
  show "distinct (map fst (Caps_ToBody c))" by (simp add: Caps_ToBody_def)
  assume "Caps_sendable c" "carried m (Caps_ToBody c)"
  then show "CapsFromBody (Some m) = c"
    by (simp add: CapsFromBody_def carried_read Caps_ToBody_def Caps_sendable_def Let_def no_Caps_def comp_def cong: map_cong)
qed

definition StillMeta_sendable :: "StillMeta \<Rightarrow> bool" where
  "StillMeta_sendable s \<longleftrightarrow> int64 (sm_Width s) \<and> int64 (sm_Height s) \<and> int64 (sm_Transfer s)"

interpretation still: wire_body StillMeta_ToBody StillMetaFromBody StillMeta_sendable "\<lambda>s. s"
proof unfold_locales
  fix s :: StillMeta and m :: body
  show "distinct (map fst (StillMeta_ToBody s))" by (simp add: StillMeta_ToBody_def)
  assume "StillMeta_sendable s" "carried m (StillMeta_ToBody s)"
  then show "StillMetaFromBody (Some m) = s"
    by (simp add: StillMetaFromBody_def carried_get StillMeta_ToBody_def StillMeta_sendable_def)
qed

interpretation clip: wire_body ClipMeta_ToBody ClipMetaFromBody "\<lambda>_. True" "\<lambda>c. c"
proof unfold_locales
  fix c :: ClipMeta and m :: body
  show "distinct (map fst (ClipMeta_ToBody c))" by (simp add: ClipMeta_ToBody_def)
  assume "carried m (ClipMeta_ToBody c)"
  then show "ClipMetaFromBody (Some m) = c"
    by (simp add: ClipMetaFromBody_def carried_get ClipMeta_ToBody_def)
qed

text \<open>An offer that leaves a codec open, or asks for no frame rate, is completed by the reading side.\<close>

definition StreamOffer_sendable :: "StreamOffer \<Rightarrow> bool" where
  "StreamOffer_sendable s \<longleftrightarrow> int64 (so_Profile s) \<and> int64 (so_MaxFPS s)"

definition offer_seen :: "StreamOffer \<Rightarrow> StreamOffer" where
  "offer_seen s = s\<lparr>so_Video := (if so_Video s = 0 then CodecJPEG else so_Video s),
     so_Audio := (if so_Audio s = 0 then rnv_CodecOpus else so_Audio s), so_MaxFPS := max 0 (so_MaxFPS s)\<rparr>"

interpretation offer: wire_body StreamOffer_ToBody StreamOfferFromBody StreamOffer_sendable offer_seen
proof unfold_locales
  fix s :: StreamOffer and m :: body
  show "distinct (map fst (StreamOffer_ToBody s))" by (simp add: StreamOffer_ToBody_def)
  assume "StreamOffer_sendable s" "carried m (StreamOffer_ToBody s)"
  then show "StreamOfferFromBody (Some m) = offer_seen s"
    by (simp add: StreamOfferFromBody_def carried_simps StreamOffer_ToBody_def StreamOffer_sendable_def offer_seen_def max_def)
qed

interpretation reject: wire_body RejectBody_ToBody RejectFromBody "\<lambda>r. int64 (rj_Code r)" "\<lambda>r. r"
proof unfold_locales
  fix r :: RejectBody and m :: body
  show "distinct (map fst (RejectBody_ToBody r))" by (simp add: RejectBody_ToBody_def)
  assume "int64 (rj_Code r)" "carried m (RejectBody_ToBody r)"
  then show "RejectFromBody (Some m) = r"
    by (simp add: RejectFromBody_def carried_get RejectBody_ToBody_def)
qed

interpretation ctrl: wire_body CtrlBody_ToBody CtrlFromBody "\<lambda>c. 0 \<le> ct_Bitrate c \<and> int64 (ct_Bitrate c)" "\<lambda>c. c"
proof unfold_locales
  fix c :: CtrlBody and m :: body
  show "distinct (map fst (CtrlBody_ToBody c))" by (simp add: CtrlBody_ToBody_def)
  assume a: "0 \<le> ct_Bitrate c \<and> int64 (ct_Bitrate c)" "carried m (CtrlBody_ToBody c)"
  have "as_int VNil = 0" by (simp add: as_int_def)
  with a show "CtrlFromBody (Some m) = c"
    by (simp add: CtrlFromBody_def carried_get CtrlBody_ToBody_def)
qed

lemma announce_of_map_carried:
  assumes "an_Version a \<noteq> 0" "int64 (an_Profile a)" "carried m (announce_map a)"
  shows "announce_of_map m = a"
  using assms by (simp add: announce_of_map_def carried_read announce_map_def)

subsection \<open>Frames\<close>

lemma seq_bytes: "push_bit 8 (ucast (ucast (drop_bit 8 s) :: byte)) OR ucast (ucast s :: byte) = (s :: uint16)"
  by (rule bit_word_eqI) (auto simp: bit_simps)

lemma SplitFrame_PackFrame:
  assumes "magic = MagicVideo \<or> magic = MagicAudio"
  shows "rnv_PackFrame magic codec flags seq payload =
      (if length payload \<le> frame_max magic then Inr ([magic, codec, flags, ucast (drop_bit 8 seq), ucast seq] @ payload) else Inl PFrameTooLarge)"
    and "rnv_PackFrame magic codec flags seq payload = Inr raw \<Longrightarrow> IsMediaFrame raw \<and>
      rnv_SplitFrame raw = Inr \<lparr>rf_Magic = magic, rf_Codec = codec, rf_Flags = flags, rf_Seq = seq, rf_Payload = payload\<rparr>"
  using assms by (auto simp: rnv_PackFrame_def rnv_SplitFrame_def IsMediaFrame_def Let_def seq_bytes nth_Cons' split: if_splits)

end
