(* ===== verification/RNV_Profiles.thy ===== *)
theory RNV_Profiles
  imports RNV_Bodies
begin

text \<open>
  What two peers may stream to each other: the profiles of \<^verbatim>\<open>pkg/rnv/proto/profiles.go\<close>, the checks of
  \<^verbatim>\<open>pkg/rnv/recommend.go\<close> and \<^verbatim>\<open>pkg/rnv/session/guards.go\<close>, the capability bits of \<^verbatim>\<open>announce.go\<close> and the codec
  registry of \<^verbatim>\<open>registry.go\<close>.  The theorems say what an accepted offer is and whether the two ends agree on it.
\<close>

datatype rnv_error =
    ErrNilArgument | ErrBadFieldLength | ErrStillTooLarge | ErrClipTooLarge | ErrFrameTooLarge | ErrBadDimensions
  | ErrCapacity | ErrRejected | ErrLinkInactive | ErrDialTimeout | ErrHelloTimeout | ErrNotHandshaken | ErrStreamNotOpen
  | ErrStreamAlreadyOpen | ErrProgressRequired | ErrParallelLXST | ErrVideoTrackDenied | ErrAudioTrackDenied | ErrInvalidOffer
  | ErrResourceTimeout | ErrRateLimited | ErrProto proto_error | ErrBelow gostring

subsection \<open>Profiles\<close>

record ProfileLimits =
  lim_StillMax :: uint64
  lim_ClipMax :: uint64
  lim_AllowVideo :: bool
  lim_AllowAudio :: bool
  lim_MaxFPS :: int
  lim_AudioCodecs :: bytes
  lim_VideoCodecs :: bytes

definition low_limits :: ProfileLimits where
  "low_limits = \<lparr>lim_StillMax = 131072, lim_ClipMax = 1048576, lim_AllowVideo = False, lim_AllowAudio = True, lim_MaxFPS = 0,
     lim_AudioCodecs = [rnv_CodecCodec2], lim_VideoCodecs = [CodecJPEG]\<rparr>"

definition LimitsFor :: "int \<Rightarrow> ProfileLimits" where
  "LimitsFor profile =
     (if profile = ProfileUltraLow then
        \<lparr>lim_StillMax = 32768, lim_ClipMax = 0, lim_AllowVideo = False, lim_AllowAudio = False, lim_MaxFPS = 0, lim_AudioCodecs = [],
         lim_VideoCodecs = [CodecJPEG]\<rparr>
      else if profile = ProfileLow then low_limits
      else if profile = ProfileMedium then
        \<lparr>lim_StillMax = MaxStillBytes, lim_ClipMax = 4194304, lim_AllowVideo = True, lim_AllowAudio = True, lim_MaxFPS = 2,
         lim_AudioCodecs = [rnv_CodecOpus, rnv_CodecCodec2], lim_VideoCodecs = [CodecJPEG]\<rparr>
      else if profile = ProfileHigh then
        \<lparr>lim_StillMax = MaxStillBytes, lim_ClipMax = 8388608, lim_AllowVideo = True, lim_AllowAudio = True, lim_MaxFPS = 5,
         lim_AudioCodecs = [rnv_CodecOpus, rnv_CodecCodec2], lim_VideoCodecs = [CodecJPEG]\<rparr>
      else low_limits)"

definition normalizeProfile :: "int \<Rightarrow> int" where
  "normalizeProfile p = (if p \<in> {ProfileUltraLow, ProfileLow, ProfileMedium, ProfileHigh} then p else ProfileLow)"

definition MinProfile :: "int \<Rightarrow> int \<Rightarrow> int" where
  "MinProfile a b = (if normalizeProfile a < normalizeProfile b then normalizeProfile a else normalizeProfile b)"

definition SupportsProfile :: "Caps \<Rightarrow> int \<Rightarrow> bool" where
  "SupportsProfile caps profile =
     (if caps_Profiles caps = [] then True
      else list_ex (\<lambda>p. normalizeProfile p = normalizeProfile profile) (caps_Profiles caps))"

definition HasCodec :: "Caps \<Rightarrow> byte \<Rightarrow> bool" where
  "HasCodec caps codec = (if caps_Codecs caps = [] then True else List.member (caps_Codecs caps) codec)"

definition DefaultCaps :: Caps where
  "DefaultCaps = \<lparr>caps_MaxStill = MaxStillBytes, caps_MaxClip = MaxClipBytes,
     caps_Profiles = [ProfileUltraLow, ProfileLow, ProfileMedium, ProfileHigh], caps_Codecs = [CodecJPEG, CodecOpaque, rnv_CodecOpus, rnv_CodecCodec2],
     caps_Tracks = TrackVideo OR TrackAudio, caps_Preferred = ProfileLow, caps_StrictExt = False, caps_Extensions = []\<rparr>"

definition has_track :: "byte \<Rightarrow> byte \<Rightarrow> bool" where
  "has_track tracks t \<longleftrightarrow> tracks AND t \<noteq> 0"

text \<open>The checks of the video track and of the audio track; \<^const>\<open>None\<close> is success.\<close>

definition offer_video :: "Caps \<Rightarrow> Caps \<Rightarrow> ProfileLimits \<Rightarrow> StreamOffer \<Rightarrow> gostring option" where
  "offer_video local remote lmt o1 =
     (if \<not> has_track (so_Tracks o1) TrackVideo then None
      else if \<not> lim_AllowVideo lmt then Some ''video not allowed at effective profile''
      else if \<not> has_track (caps_Tracks local) TrackVideo \<or> \<not> has_track (caps_Tracks remote) TrackVideo then Some ''video track not advertised''
      else let vid = (if so_Video o1 = 0 then CodecJPEG else so_Video o1)
           in if \<not> HasCodec local vid \<or> \<not> HasCodec remote vid then Some ''video codec not supported'' else None)"

definition offer_audio :: "Caps \<Rightarrow> Caps \<Rightarrow> int \<Rightarrow> ProfileLimits \<Rightarrow> StreamOffer \<Rightarrow> gostring option" where
  "offer_audio local remote eff lmt o1 =
     (if \<not> has_track (so_Tracks o1) TrackAudio then None
      else if \<not> lim_AllowAudio lmt then Some ''audio not allowed at effective profile''
      else if \<not> has_track (caps_Tracks local) TrackAudio \<or> \<not> has_track (caps_Tracks remote) TrackAudio then Some ''audio track not advertised''
      else let aud = (if so_Audio o1 = 0 then (if eff = ProfileLow then rnv_CodecCodec2 else rnv_CodecOpus) else so_Audio o1)
           in if eff = ProfileLow \<and> aud \<noteq> rnv_CodecCodec2 then Some ''low profile audio requires codec2''
              else if \<not> HasCodec local aud \<or> \<not> HasCodec remote aud then Some ''audio codec not supported'' else None)"

definition offer_profile :: "Caps \<Rightarrow> Caps \<Rightarrow> StreamOffer \<Rightarrow> int" where
  "offer_profile local remote o1 =
     (if so_Profile o1 = 0 then MinProfile (caps_Preferred local) (caps_Preferred remote) else normalizeProfile (so_Profile o1))"

definition ValidateStreamOffer :: "Caps \<Rightarrow> Caps \<Rightarrow> StreamOffer \<Rightarrow> gostring option" where
  "ValidateStreamOffer local remote o1 =
     (if so_Tracks o1 = 0 then Some ''empty track mask''
      else let eff = offer_profile local remote o1
           in if \<not> SupportsProfile local eff \<or> \<not> SupportsProfile remote eff then Some ''profile not supported by both peers''
              else let lmt = LimitsFor eff
                   in case offer_video local remote lmt o1 of
                        Some e \<Rightarrow> Some e
                      | None \<Rightarrow>
                          (case offer_audio local remote eff lmt o1 of
                             Some e \<Rightarrow> Some e
                           | None \<Rightarrow>
                               if so_MaxFPS o1 > 0 \<and> lim_MaxFPS lmt > 0 \<and> so_MaxFPS o1 > lim_MaxFPS lmt then Some ''fps exceeds profile''
                               else None))"

definition ValidateOffer :: "Caps \<Rightarrow> Caps \<Rightarrow> StreamOffer \<Rightarrow> rnv_error option" where
  "ValidateOffer local remote o1 = (case ValidateStreamOffer local remote o1 of Some _ \<Rightarrow> Some ErrInvalidOffer | None \<Rightarrow> None)"

definition ValidateStillMeta :: "StillMeta \<Rightarrow> uint64 \<Rightarrow> rnv_error option" where
  "ValidateStillMeta meta maxBytes =
     (if sm_Width meta < 0 \<or> sm_Height meta < 0 \<or> sm_Width meta > MaxWidth \<or> sm_Height meta > MaxHeight then Some ErrBadDimensions
      else let m = (if maxBytes = 0 then MaxStillBytes else maxBytes)
           in if sm_Size meta > m \<or> sm_Size meta > MaxStillBytes then Some ErrStillTooLarge else None)"

definition ValidateClipMeta :: "ClipMeta \<Rightarrow> uint64 \<Rightarrow> rnv_error option" where
  "ValidateClipMeta meta maxBytes =
     (let m = (if maxBytes = 0 then MaxClipBytes else maxBytes)
      in if cm_Size meta > m \<or> cm_Size meta > MaxClipBytes then Some ErrClipTooLarge else None)"

subsection \<open>The guard before a stream\<close>

definition EffectiveProfile :: "Caps \<Rightarrow> Caps \<Rightarrow> int \<Rightarrow> int" where
  "EffectiveProfile local remote offerProfile =
     (let eff = MinProfile (caps_Preferred local) (caps_Preferred remote)
      in if offerProfile \<noteq> 0 then MinProfile eff offerProfile else eff)"

definition GuardStreamOffer :: "Caps \<Rightarrow> Caps \<Rightarrow> StreamOffer \<Rightarrow> rnv_error option" where
  "GuardStreamOffer local remote o1 =
     (if so_Tracks o1 = 0 then Some ErrInvalidOffer
      else if has_track (so_Tracks o1) TrackVideo \<and> (so_Profile o1 = 0 \<or> so_Profile o1 < ProfileMedium) then Some ErrVideoTrackDenied
      else let lmt = LimitsFor (if so_Profile o1 = 0 then EffectiveProfile local remote 0 else so_Profile o1)
           in if has_track (so_Tracks o1) TrackVideo \<and> \<not> lim_AllowVideo lmt then Some ErrCapacity
              else if has_track (so_Tracks o1) TrackAudio \<and> \<not> lim_AllowAudio lmt then Some ErrAudioTrackDenied
              else ValidateOffer local remote o1)"

subsection \<open>Announced capabilities\<close>

definition bitmap_profile :: "int \<Rightarrow> uint64 \<Rightarrow> uint64" where
  "bitmap_profile p b =
     (let lmt = LimitsFor p; b1 = (if lim_AllowVideo lmt then b OR 4 else b) in if lim_AllowAudio lmt then b1 OR 8 else b1)"

definition CapsBitmap :: "Caps \<Rightarrow> uint64" where
  "CapsBitmap c =
     (let b0 = (0 OR 1 :: uint64); b1 = (if caps_MaxClip c > 0 then b0 OR 2 else b0); b2 = fold bitmap_profile (caps_Profiles c) b1;
          b3 = (if has_track (caps_Tracks c) TrackAudio then b2 OR 8 else b2)
      in if has_track (caps_Tracks c) TrackVideo then b3 OR 4 else b3)"

subsection \<open>Registered codecs\<close>

type_synonym CodecFunc = "bytes \<Rightarrow> gostring + bytes"

record CodecRegistry =
  reg_encode :: "(byte \<times> CodecFunc) list"
  reg_decode :: "(byte \<times> CodecFunc) list"

definition NewCodecRegistry :: CodecRegistry where
  "NewCodecRegistry = \<lparr>reg_encode = [], reg_decode = []\<rparr>"

definition reg_Register :: "byte \<Rightarrow> CodecFunc option \<Rightarrow> CodecFunc option \<Rightarrow> CodecRegistry \<Rightarrow> CodecRegistry \<times> proto_error option" where
  "reg_Register i encode decode r =
     (if (i < CodecPrivateMin \<or> i > CodecPrivateMax) \<and> (i = CodecJPEG \<or> i = rnv_CodecOpus \<or> i = rnv_CodecCodec2 \<or> i = CodecOpaque)
      then (r, Some (PBuiltin i))
      else (\<lparr>reg_encode = (case encode of Some f \<Rightarrow> AList.update i f (reg_encode r) | None \<Rightarrow> reg_encode r),
             reg_decode = (case decode of Some f \<Rightarrow> AList.update i f (reg_decode r) | None \<Rightarrow> reg_decode r)\<rparr>, None))"

definition reg_Encode :: "byte \<Rightarrow> bytes \<Rightarrow> CodecRegistry \<Rightarrow> rnv_error + bytes" where
  "reg_Encode i inp r =
     (case map_of (reg_encode r) i of
        None \<Rightarrow> Inl (ErrProto (PNoEncoder i))
      | Some f \<Rightarrow> (case f inp of Inl t \<Rightarrow> Inl (ErrBelow t) | Inr out \<Rightarrow> Inr out))"

definition reg_Decode :: "byte \<Rightarrow> bytes \<Rightarrow> CodecRegistry \<Rightarrow> rnv_error + bytes" where
  "reg_Decode i inp r =
     (case map_of (reg_decode r) i of
        None \<Rightarrow> Inl (ErrProto (PNoDecoder i))
      | Some f \<Rightarrow> (case f inp of Inl t \<Rightarrow> Inl (ErrBelow t) | Inr out \<Rightarrow> Inr out))"

definition reg_Has :: "byte \<Rightarrow> CodecRegistry \<Rightarrow> bool" where
  "reg_Has i r \<longleftrightarrow> map_of (reg_encode r) i \<noteq> None \<or> map_of (reg_decode r) i \<noteq> None"

definition KnownBuiltin :: "byte \<Rightarrow> bool" where
  "KnownBuiltin i \<longleftrightarrow> i \<in> {CodecJPEG, CodecOpaque, rnv_CodecOpus, rnv_CodecCodec2, CodecPCM16}"

subsection \<open>What an accepted offer is\<close>

lemma LimitsFor_normalize: "LimitsFor (normalizeProfile p) = LimitsFor p"
  by (simp add: LimitsFor_def normalizeProfile_def)

lemma normalize_idem [simp]: "normalizeProfile (normalizeProfile p) = normalizeProfile p"
  by (simp add: normalizeProfile_def)

lemma MinProfile_min: "MinProfile a b = min (normalizeProfile a) (normalizeProfile b)"
  by (simp add: MinProfile_def min_def)

lemma offer_profile_normal: "normalizeProfile (offer_profile l r o1) = offer_profile l r o1"
  by (simp add: offer_profile_def MinProfile_def)

lemma offer_profile_sym: "offer_profile l r o1 = offer_profile r l o1"
  by (simp add: offer_profile_def MinProfile_min min.commute)

lemma limits_video: "lim_AllowVideo (LimitsFor p) \<longleftrightarrow> normalizeProfile p \<in> {ProfileMedium, ProfileHigh}"
  by (simp add: LimitsFor_def normalizeProfile_def low_limits_def)

lemma limits_audio: "lim_AllowAudio (LimitsFor p) \<longleftrightarrow> normalizeProfile p \<noteq> ProfileUltraLow"
  by (simp add: LimitsFor_def normalizeProfile_def low_limits_def)

text \<open>The frame rate a profile admits; a profile without video does not look at it.\<close>

definition fps_ok :: "int \<Rightarrow> int \<Rightarrow> bool" where
  "fps_ok eff fps \<longleftrightarrow> (eff = ProfileMedium \<longrightarrow> fps \<le> 2) \<and> (eff = ProfileHigh \<longrightarrow> fps \<le> 5)"

lemma limits_fps: "(fps > 0 \<and> lim_MaxFPS (LimitsFor p) > 0 \<and> fps > lim_MaxFPS (LimitsFor p)) \<longleftrightarrow> \<not> fps_ok (normalizeProfile p) fps"
  by (auto simp: LimitsFor_def normalizeProfile_def low_limits_def fps_ok_def)

definition both :: "(Caps \<Rightarrow> bool) \<Rightarrow> Caps \<Rightarrow> Caps \<Rightarrow> bool" where
  "both P l r \<longleftrightarrow> P l \<and> P r"

text \<open>The codecs an offer stands for, with the defaults filled in.\<close>

definition offered_video :: "StreamOffer \<Rightarrow> byte" where
  "offered_video o1 = (if so_Video o1 = 0 then CodecJPEG else so_Video o1)"

definition offered_audio :: "int \<Rightarrow> StreamOffer \<Rightarrow> byte" where
  "offered_audio eff o1 = (if so_Audio o1 = 0 then (if eff = ProfileLow then rnv_CodecCodec2 else rnv_CodecOpus) else so_Audio o1)"

text \<open>
  The offers two peers can carry: some track; a profile both list; for video an explicit profile of at least medium
  quality, for audio any but the lowest; tracks and codecs both announced; a frame rate within the profile.
\<close>

definition stream_allowed :: "Caps \<Rightarrow> Caps \<Rightarrow> StreamOffer \<Rightarrow> bool" where
  "stream_allowed l r o1 \<longleftrightarrow>
     (let eff = offer_profile l r o1
      in so_Tracks o1 \<noteq> 0 \<and> both (\<lambda>c. SupportsProfile c eff) l r \<and> fps_ok eff (so_MaxFPS o1)
         \<and> (has_track (so_Tracks o1) TrackVideo \<longrightarrow>
              so_Profile o1 \<in> {ProfileMedium, ProfileHigh} \<and> both (\<lambda>c. has_track (caps_Tracks c) TrackVideo) l r
              \<and> both (\<lambda>c. HasCodec c (offered_video o1)) l r)
         \<and> (has_track (so_Tracks o1) TrackAudio \<longrightarrow>
              eff \<noteq> ProfileUltraLow \<and> both (\<lambda>c. has_track (caps_Tracks c) TrackAudio) l r
              \<and> (eff = ProfileLow \<longrightarrow> offered_audio eff o1 = rnv_CodecCodec2) \<and> both (\<lambda>c. HasCodec c (offered_audio eff o1)) l r))"

lemma offer_video_None:
  "offer_video l r (LimitsFor p) o1 = None \<longleftrightarrow> (has_track (so_Tracks o1) TrackVideo \<longrightarrow>
     normalizeProfile p \<in> {ProfileMedium, ProfileHigh} \<and> both (\<lambda>c. has_track (caps_Tracks c) TrackVideo) l r
     \<and> both (\<lambda>c. HasCodec c (offered_video o1)) l r)"
  by (auto simp: offer_video_def limits_video offered_video_def both_def Let_def)

lemma offer_audio_None:
  "offer_audio l r eff (LimitsFor p) o1 = None \<longleftrightarrow> (has_track (so_Tracks o1) TrackAudio \<longrightarrow>
     normalizeProfile p \<noteq> ProfileUltraLow \<and> both (\<lambda>c. has_track (caps_Tracks c) TrackAudio) l r
     \<and> (eff = ProfileLow \<longrightarrow> offered_audio eff o1 = rnv_CodecCodec2) \<and> both (\<lambda>c. HasCodec c (offered_audio eff o1)) l r)"
  by (auto simp: offer_audio_def limits_audio offered_audio_def both_def Let_def)

lemma Validate_None:
  "ValidateStreamOffer l r o1 = None \<longleftrightarrow>
     (let eff = offer_profile l r o1
      in so_Tracks o1 \<noteq> 0 \<and> both (\<lambda>c. SupportsProfile c eff) l r \<and> offer_video l r (LimitsFor eff) o1 = None
         \<and> offer_audio l r eff (LimitsFor eff) o1 = None \<and> fps_ok eff (so_MaxFPS o1))"
  unfolding ValidateStreamOffer_def Let_def limits_fps offer_profile_normal
  by (auto simp: both_def split: option.split)

lemma guard_allowed: "GuardStreamOffer l r o1 = None \<longleftrightarrow> stream_allowed l r o1"
proof -
  define eff where "eff = offer_profile l r o1"
  have e: "normalizeProfile eff = eff" unfolding eff_def by (rule offer_profile_normal)
  have lim: "LimitsFor (if so_Profile o1 = 0 then EffectiveProfile l r 0 else so_Profile o1) = LimitsFor eff"
    by (simp add: eff_def offer_profile_def EffectiveProfile_def LimitsFor_normalize)
  have vp: "so_Profile o1 \<noteq> 0 \<and> \<not> so_Profile o1 < ProfileMedium \<and> eff \<in> {ProfileMedium, ProfileHigh} \<longleftrightarrow> so_Profile o1 \<in> {ProfileMedium, ProfileHigh}"
    by (auto simp: eff_def offer_profile_def normalizeProfile_def split: if_splits)
  have g: "GuardStreamOffer l r o1 = None \<longleftrightarrow> so_Tracks o1 \<noteq> 0
      \<and> (has_track (so_Tracks o1) TrackVideo \<longrightarrow> so_Profile o1 \<noteq> 0 \<and> \<not> so_Profile o1 < ProfileMedium \<and> eff \<in> {ProfileMedium, ProfileHigh})
      \<and> (has_track (so_Tracks o1) TrackAudio \<longrightarrow> eff \<noteq> ProfileUltraLow) \<and> ValidateStreamOffer l r o1 = None"
    unfolding GuardStreamOffer_def lim Let_def ValidateOffer_def limits_video limits_audio e by (auto split: option.splits if_splits)
  show ?thesis
    unfolding g vp Validate_None [of l r o1] Let_def eff_def [symmetric] offer_video_None offer_audio_None e stream_allowed_def
    using vp by blast
qed

text \<open>
  The peer that receives the offer checks it with the roles exchanged and with the defaults the reading side fills in.  The
  one default on which the two sides differ is the audio codec of the low profile.
\<close>

lemma both_sym: "both P l r \<longleftrightarrow> both P r l"
  by (auto simp: both_def)

lemma stream_allowed_sym: "stream_allowed l r o1 \<longleftrightarrow> stream_allowed r l o1"
  unfolding stream_allowed_def offer_profile_sym [of l r] both_sym [of _ l r] ..

lemma stream_allowed_seen:
  assumes "stream_allowed l r o1"
  shows "stream_allowed l r (offer_seen o1) \<longleftrightarrow>
    \<not> (has_track (so_Tracks o1) TrackAudio \<and> so_Audio o1 = 0 \<and> offer_profile l r o1 = ProfileLow)"
proof -
  have f: "offer_profile l r (offer_seen o1) = offer_profile l r o1" "so_Tracks (offer_seen o1) = so_Tracks o1"
    "so_Profile (offer_seen o1) = so_Profile o1" "offered_video (offer_seen o1) = offered_video o1"
    by (simp_all add: offer_seen_def offer_profile_def offered_video_def)
  have fps: "fps_ok e (so_MaxFPS (offer_seen o1)) \<longleftrightarrow> fps_ok e (so_MaxFPS o1)" for e
    by (auto simp: offer_seen_def fps_ok_def)
  have a: "offered_audio e (offer_seen o1) = (if so_Audio o1 = 0 then rnv_CodecOpus else so_Audio o1)" for e
    by (simp add: offer_seen_def offered_audio_def)
  show ?thesis
  proof (cases "so_Audio o1 = 0 \<and> offer_profile l r o1 = ProfileLow")
    case True
    then show ?thesis using assms unfolding stream_allowed_def Let_def f fps a by auto
  next
    case False
    then have "offered_audio (offer_profile l r o1) (offer_seen o1) = offered_audio (offer_profile l r o1) o1"
      unfolding a by (auto simp: offered_audio_def)
    with assms False show ?thesis unfolding stream_allowed_def Let_def f fps by (simp only:) blast
  qed
qed

end
