(* ===== verification/RNV_Media.thy ===== *)
theory RNV_Media
  imports Prelude
begin

text \<open>
  \<^verbatim>\<open>pkg/rnv/media\<close>: the jitter buffer of one track and the clock.  The current time is an argument (nanoseconds); the map of
  frames is an association list in the order of its iteration, on which the choice of the oldest frame may depend, because
  the wrap-around comparison of sequence numbers is not transitive.
\<close>

record media_Frame =
  mf_Sequence :: uint16
  mf_Payload :: bytes
  mf_Arrival :: int

record rnv_JitterBuffer =
  rj_targetMs :: int
  rj_maxFrames :: int
  rj_frames :: "(uint16 \<times> media_Frame) list"
  rj_nextSeq :: uint16
  rj_started :: bool
  rj_recvCount :: uint64
  rj_dropCount :: uint64

definition rnv_NewJitterBuffer :: "int \<Rightarrow> int \<Rightarrow> rnv_JitterBuffer" where
  "rnv_NewJitterBuffer targetMs maxFrames =
     \<lparr>rj_targetMs = (if targetMs \<le> 0 then 80 else targetMs), rj_maxFrames = (if maxFrames \<le> 0 then 12 else maxFrames), rj_frames = [],
      rj_nextSeq = 0, rj_started = False, rj_recvCount = 0, rj_dropCount = 0\<rparr>"

definition rnv_seqLess :: "uint16 \<Rightarrow> uint16 \<Rightarrow> bool" where
  "rnv_seqLess a b \<longleftrightarrow> sint (a - b) < 0"

text \<open>The loop that looks for the earliest sequence number.\<close>

definition earliest_step :: "uint16 \<Rightarrow> uint16 option \<Rightarrow> uint16 option" where
  "earliest_step seq best = (case best of None \<Rightarrow> Some seq | Some e \<Rightarrow> if rnv_seqLess seq e then Some seq else best)"

definition earliest :: "(uint16 \<times> media_Frame) list \<Rightarrow> uint16 option" where
  "earliest frames = fold earliest_step (map fst frames) None"

definition rnv_dropOldestLocked :: "rnv_JitterBuffer \<Rightarrow> rnv_JitterBuffer" where
  "rnv_dropOldestLocked j =
     (case earliest (rj_frames j) of
        None \<Rightarrow> j
      | Some oldest \<Rightarrow> j\<lparr>rj_frames := AList.delete oldest (rj_frames j), rj_dropCount := rj_dropCount j + 1\<rparr>)"

definition PushOwned :: "int \<Rightarrow> uint16 \<Rightarrow> bytes \<Rightarrow> rnv_JitterBuffer \<Rightarrow> rnv_JitterBuffer" where
  "PushOwned now seq payload j0 =
     (let j = j0\<lparr>rj_recvCount := rj_recvCount j0 + 1\<rparr>
      in if rj_started j \<and> rnv_seqLess seq (rj_nextSeq j) then j\<lparr>rj_dropCount := rj_dropCount j + 1\<rparr>
         else let j1 = j\<lparr>rj_frames := AList.update seq \<lparr>mf_Sequence = seq, mf_Payload = payload, mf_Arrival = now\<rparr> (rj_frames j)\<rparr>
              in if int (length (rj_frames j1)) > rj_maxFrames j1 then rnv_dropOldestLocked j1 else j1)"

text \<open>The frame at the next number, once it has waited for the target delay.\<close>

definition pop_next :: "int \<Rightarrow> rnv_JitterBuffer \<Rightarrow> rnv_JitterBuffer \<times> media_Frame option" where
  "pop_next now j =
     (case map_of (rj_frames j) (rj_nextSeq j) of
        None \<Rightarrow> (j, None)
      | Some fr \<Rightarrow>
          if now - mf_Arrival fr < rj_targetMs j * 1000000 then (j, None)
          else (j\<lparr>rj_frames := AList.delete (rj_nextSeq j) (rj_frames j), rj_nextSeq := rj_nextSeq j + 1\<rparr>, Some fr))"

definition rnv_PopReady :: "int \<Rightarrow> rnv_JitterBuffer \<Rightarrow> rnv_JitterBuffer \<times> media_Frame option" where
  "rnv_PopReady now j =
     (if rj_frames j = [] then (j, None)
      else if rj_started j then pop_next now j
      else case earliest (rj_frames j) of
             None \<Rightarrow> (j, None)
           | Some e \<Rightarrow>
               (case map_of (rj_frames j) e of
                  None \<Rightarrow> (j, None)
                | Some fr \<Rightarrow>
                    if now - mf_Arrival fr < rj_targetMs j * 1000000 then (j, None)
                    else pop_next now (j\<lparr>rj_started := True, rj_nextSeq := e\<rparr>)))"

record Clock =
  ck_origin :: "int option"
  ck_videoSkew :: int
  ck_audioSkew :: int

definition clock_origin :: "int \<Rightarrow> Clock \<Rightarrow> int" where
  "clock_origin now c = (case ck_origin c of None \<Rightarrow> now | Some t \<Rightarrow> t)"

definition NoteVideo :: "int \<Rightarrow> Clock \<Rightarrow> Clock" where
  "NoteVideo now c = c\<lparr>ck_origin := Some (clock_origin now c), ck_videoSkew := now - clock_origin now c\<rparr>"

definition NoteAudio :: "int \<Rightarrow> Clock \<Rightarrow> Clock" where
  "NoteAudio now c = c\<lparr>ck_origin := Some (clock_origin now c), ck_audioSkew := now - clock_origin now c\<rparr>"

definition Skew :: "Clock \<Rightarrow> int" where
  "Skew c = ck_audioSkew c - ck_videoSkew c"

subsection \<open>The buffer is bounded\<close>

definition rj_ok :: "rnv_JitterBuffer \<Rightarrow> bool" where
  "rj_ok j \<longleftrightarrow> distinct (map fst (rj_frames j)) \<and> 0 < rj_maxFrames j \<and> int (length (rj_frames j)) \<le> rj_maxFrames j
     \<and> (\<forall>(s, f) \<in> set (rj_frames j). mf_Sequence f = s)"

lemma earliest_mem: "frames \<noteq> [] \<Longrightarrow> \<exists>e \<in> fst ` set frames. earliest frames = Some e"
proof -
  have "\<exists>e \<in> set xs \<union> {b}. fold earliest_step xs (Some b) = Some e" for xs b
  proof (induction xs arbitrary: b)
    case (Cons x xs)
    from Cons [of x] Cons [of b] show ?case by (auto simp: earliest_step_def)
  qed simp
  then show ?thesis if "frames \<noteq> []"
    using that by (cases frames) (fastforce simp: earliest_def earliest_step_def)+
qed

lemma NewJitterBuffer_rj_ok: "rj_ok (rnv_NewJitterBuffer t m)"
  by (simp add: rj_ok_def rnv_NewJitterBuffer_def)

lemma rj_ok_cong:
  "rj_ok (j\<lparr>rj_dropCount := a\<rparr>) = rj_ok j" "rj_ok (j\<lparr>rj_recvCount := a\<rparr>) = rj_ok j" "rj_ok (j\<lparr>rj_nextSeq := n\<rparr>) = rj_ok j"
  "rj_ok (j\<lparr>rj_started := b\<rparr>) = rj_ok j"
  by (simp_all add: rj_ok_def)

lemma rj_ok_delete: "rj_ok j \<Longrightarrow> rj_ok (j\<lparr>rj_frames := AList.delete k (rj_frames j)\<rparr>)"
  using length_delete_le [of k "rj_frames j"] set_delete_subset [of k "rj_frames j"]
  by (auto simp: rj_ok_def distinct_delete)

lemma PushOwned_ok:
  assumes "rj_ok j"
  shows "rj_ok (PushOwned now seq payload j)"
proof -
  define fr where "fr = \<lparr>mf_Sequence = seq, mf_Payload = payload, mf_Arrival = now\<rparr>"
  define fs where "fs = AList.update seq fr (rj_frames j)"
  have fs: "distinct (map fst fs)" "fs \<noteq> []" "int (length fs) \<le> rj_maxFrames j + 1" "\<forall>(s, f) \<in> set fs. mf_Sequence f = s"
    using assms length_AList_update_le [of seq fr "rj_frames j"] set_update_subset [of seq fr "rj_frames j"]
    by (auto simp: rj_ok_def fs_def distinct_update fr_def length_AList_update)
  obtain e where e: "earliest fs = Some e" "e \<in> fst ` set fs" using earliest_mem [OF fs(2)] by auto
  have d: "Suc (length (AList.delete e fs)) = length fs" by (rule length_delete_in [OF fs(1) e(2)])
  define j1 where "j1 = j\<lparr>rj_recvCount := rj_recvCount j + 1, rj_frames := fs\<rparr>"
  have "rj_ok (rnv_dropOldestLocked j1)"
    using fs d assms set_delete_subset [of e fs] by (auto simp: rnv_dropOldestLocked_def j1_def e(1) rj_ok_def distinct_delete)
  moreover have "rj_ok j1" if "\<not> int (length (rj_frames j1)) > rj_maxFrames j1"
    using that fs assms by (auto simp: j1_def rj_ok_def)
  ultimately show ?thesis
    using assms by (simp add: PushOwned_def Let_def rj_ok_cong fr_def [symmetric] fs_def [symmetric] j1_def [symmetric])
qed

lemma pop_next_ok: "rj_ok j \<Longrightarrow> rj_ok (fst (pop_next now j))"
  using rj_ok_delete [of j "rj_nextSeq j"] by (simp add: pop_next_def rj_ok_cong split: option.split)

lemma PopReady_rj_ok: "rj_ok j \<Longrightarrow> rj_ok (fst (rnv_PopReady now j))"
  using pop_next_ok [of j now] pop_next_ok [of "j\<lparr>rj_started := True, rj_nextSeq := _\<rparr>" now]
  by (simp add: rnv_PopReady_def rj_ok_cong split: option.split)

subsection \<open>Runs of the buffer\<close>

text \<open>A step pushes a frame or asks for the next one; a run collects the frames that came out.\<close>

datatype rj_ev = RjPush uint16 bytes | RjPop

fun rj_run :: "(int \<times> rj_ev) list \<Rightarrow> rnv_JitterBuffer \<Rightarrow> rnv_JitterBuffer \<times> media_Frame list" where
  "rj_run [] j = (j, [])"
| "rj_run ((now, RjPush seq payload) # es) j = rj_run es (PushOwned now seq payload j)"
| "rj_run ((now, RjPop) # es) j =
     (case rnv_PopReady now j of
        (j1, None) \<Rightarrow> rj_run es j1
      | (j1, Some fr) \<Rightarrow> (case rj_run es j1 of (j2, frs) \<Rightarrow> (j2, fr # frs)))"

lemma rj_run_ok: "rj_ok j \<Longrightarrow> rj_ok (fst (rj_run es j))"
proof (induction es j rule: rj_run.induct)
  case (3 now es j)
  then show ?case using PopReady_rj_ok [of j now] by (auto split: prod.split option.split)
qed (auto simp: PushOwned_ok)

lemma PushOwned_next: "rj_started (PushOwned now seq p j) = rj_started j" "rj_nextSeq (PushOwned now seq p j) = rj_nextSeq j"
  by (simp_all add: PushOwned_def rnv_dropOldestLocked_def Let_def split: option.split)

lemma pop_next_result:
  assumes "rj_ok j"
  shows "case pop_next now j of (j', None) \<Rightarrow> j' = j
    | (j', Some fr) \<Rightarrow> mf_Sequence fr = rj_nextSeq j \<and> rj_nextSeq j' = rj_nextSeq j + 1 \<and> rj_started j' = rj_started j"
  using assms by (auto simp: pop_next_def rj_ok_def dest!: map_of_SomeD split: option.split)

definition consecutive :: "uint16 \<Rightarrow> media_Frame list \<Rightarrow> bool" where
  "consecutive n frs \<longleftrightarrow> map mf_Sequence frs = map (\<lambda>i. n + of_nat i) [0..<length frs]"

lemma consecutive_Cons: "mf_Sequence f = n \<Longrightarrow> consecutive (n + 1) fs \<Longrightarrow> consecutive n (f # fs)"
  by (simp add: consecutive_def upt_conv_Cons map_Suc_upt [symmetric] comp_def add.assoc del: upt_Suc)

lemma rj_run_consecutive:
  "rj_ok j \<Longrightarrow> rj_started j \<Longrightarrow> consecutive (rj_nextSeq j) (snd (rj_run es j))"
proof (induction es j rule: rj_run.induct)
  case (1 j)
  then show ?case by (simp add: consecutive_def)
next
  case (2 now seq payload es j)
  then show ?case by (simp add: PushOwned_ok PushOwned_next)
next
  case (3 now es j)
  show ?case
  proof (cases "rj_frames j = []")
    case True
    then have "rnv_PopReady now j = (j, None)" by (simp add: rnv_PopReady_def)
    with "3.IH"(1) [of j None] 3 show ?thesis by simp
  next
    case False
    then have p: "rnv_PopReady now j = pop_next now j" using 3 by (simp add: rnv_PopReady_def)
    obtain j' r where jr: "pop_next now j = (j', r)" by (rule prod.exhaust)
    have ok: "rj_ok j'" using pop_next_ok [OF 3(3), of now] by (simp add: jr)
    show ?thesis
    proof (cases r)
      case None
      with pop_next_result [OF 3(3), of now] jr have "j' = j" by simp
      with "3.IH"(1) [of j' None] None p jr 3 show ?thesis by simp
    next
      case (Some fr)
      with pop_next_result [OF 3(3), of now] jr
      have f: "mf_Sequence fr = rj_nextSeq j" "rj_nextSeq j' = rj_nextSeq j + 1" "rj_started j'" using 3 by auto
      have "consecutive (rj_nextSeq j') (snd (rj_run es j'))" using "3.IH"(2) [of j' r fr] Some p jr ok f(3) by simp
      then have "consecutive (rj_nextSeq j) (fr # snd (rj_run es j'))" using f consecutive_Cons by simp
      then show ?thesis using p jr Some by (simp split: prod.split) (metis snd_conv)
    qed
  qed
qed

lemma rj_run_starts:
  "rj_ok j \<Longrightarrow> \<exists>n. consecutive n (snd (rj_run es j))"
proof (induction es j rule: rj_run.induct)
  case (1 j)
  then show ?case by (simp add: consecutive_def)
next
  case (2 now seq payload es j)
  then show ?case by (simp add: PushOwned_ok)
next
  case (3 now es j)
  obtain j' r where jr: "rnv_PopReady now j = (j', r)" by (rule prod.exhaust)
  have ok: "rj_ok j'" using PopReady_rj_ok [OF 3(3), of now] by (simp add: jr)
  show ?case
  proof (cases r)
    case None
    with "3.IH"(1) [of j' None] jr ok show ?thesis by simp
  next
    case (Some fr)
    have "\<exists>j0. rj_ok j0 \<and> rj_started j0 \<and> pop_next now j0 = (j', Some fr)"
    proof (cases "rj_started j")
      case True
      then show ?thesis using jr 3(3) Some by (auto simp: rnv_PopReady_def split: if_splits)
    next
      case False
      then obtain n where "pop_next now (j\<lparr>rj_started := True, rj_nextSeq := n\<rparr>) = (j', Some fr)"
        using jr Some by (auto simp: rnv_PopReady_def split: if_splits option.splits)
      then show ?thesis using 3(3) by (intro exI [of _ "j\<lparr>rj_started := True, rj_nextSeq := n\<rparr>"]) (simp add: rj_ok_def)
    qed
    then obtain j0 where j0: "rj_ok j0" "rj_started j0" "pop_next now j0 = (j', Some fr)" by blast
    then have f: "mf_Sequence fr = rj_nextSeq j0" "rj_nextSeq j' = rj_nextSeq j0 + 1" "rj_started j'"
      using pop_next_result [OF j0(1), of now] by auto
    have "consecutive (rj_nextSeq j0) (fr # snd (rj_run es j'))"
      using consecutive_Cons [OF f(1)] rj_run_consecutive [OF ok f(3), of es] f(2) by simp
    then show ?thesis using jr Some by (simp split: prod.split) (metis snd_conv)
  qed
qed

text \<open>What comes out was put in.\<close>

definition rj_pushed :: "(int \<times> rj_ev) list \<Rightarrow> media_Frame set" where
  "rj_pushed es = {\<lparr>mf_Sequence = s, mf_Payload = p, mf_Arrival = t\<rparr> | s p t. (t, RjPush s p) \<in> set es}"

lemma PushOwned_frames:
  "snd ` set (rj_frames (PushOwned now seq p j)) \<subseteq> insert \<lparr>mf_Sequence = seq, mf_Payload = p, mf_Arrival = now\<rparr> (snd ` set (rj_frames j))"
proof -
  define fs where "fs = AList.update seq \<lparr>mf_Sequence = seq, mf_Payload = p, mf_Arrival = now\<rparr> (rj_frames j)"
  have u: "set fs \<subseteq> insert (seq, \<lparr>mf_Sequence = seq, mf_Payload = p, mf_Arrival = now\<rparr>) (set (rj_frames j))"
    unfolding fs_def by (rule set_update_subset)
  have "\<exists>k. rj_frames (PushOwned now seq p j) \<in> {rj_frames j, fs, AList.delete k fs}"
    unfolding PushOwned_def Let_def rnv_dropOldestLocked_def
    by (auto simp: fs_def [symmetric] split: option.split)
  then obtain k where "rj_frames (PushOwned now seq p j) \<in> {rj_frames j, fs, AList.delete k fs}" ..
  then have "set (rj_frames (PushOwned now seq p j)) \<subseteq> set (rj_frames j) \<union> set fs"
    using set_delete_subset [of k fs] by auto
  with u show ?thesis by force
qed

lemma pop_next_frames:
  "snd ` set (rj_frames (fst (pop_next now j))) \<subseteq> snd ` set (rj_frames j)"
  "snd (pop_next now j) = Some fr \<Longrightarrow> fr \<in> snd ` set (rj_frames j)"
  using set_delete_subset [of "rj_nextSeq j" "rj_frames j"]
  by (force simp: pop_next_def dest: map_of_SomeD split: option.splits if_splits)+

lemma PopReady_frames:
  "snd ` set (rj_frames (fst (rnv_PopReady now j))) \<subseteq> snd ` set (rj_frames j)"
  "snd (rnv_PopReady now j) = Some fr \<Longrightarrow> fr \<in> snd ` set (rj_frames j)"
  using pop_next_frames [of now j] pop_next_frames [of now "j\<lparr>rj_started := True, rj_nextSeq := _\<rparr>"]
  by (auto simp: rnv_PopReady_def split: option.splits if_splits)

lemma rj_run_pushed: "set (snd (rj_run es j)) \<subseteq> snd ` set (rj_frames j) \<union> rj_pushed es"
proof (induction es j rule: rj_run.induct)
  case (2 now seq payload es j)
  have "rj_pushed ((now, RjPush seq payload) # es) = insert \<lparr>mf_Sequence = seq, mf_Payload = payload, mf_Arrival = now\<rparr> (rj_pushed es)"
    by (auto simp: rj_pushed_def)
  with 2 PushOwned_frames [of now seq payload j] show ?case unfolding rj_run.simps by blast
next
  case (3 now es j)
  have e: "rj_pushed ((now, RjPop) # es) = rj_pushed es" by (auto simp: rj_pushed_def)
  obtain j' r where jr: "rnv_PopReady now j = (j', r)" by (rule prod.exhaust)
  have s: "snd ` set (rj_frames j') \<subseteq> snd ` set (rj_frames j)" using PopReady_frames(1) [of now j] by (simp add: jr)
  show ?case
  proof (cases r)
    case None
    with "3.IH"(1) [of j' None] jr s e show ?thesis by auto
  next
    case (Some fr)
    have "set (snd (rj_run es j')) \<subseteq> snd ` set (rj_frames j') \<union> rj_pushed es" using "3.IH"(2) [of j' r fr] jr Some by simp
    moreover have "fr \<in> snd ` set (rj_frames j)" using PopReady_frames(2) [of now j fr] jr Some by simp
    moreover have "snd (rj_run ((now, RjPop) # es) j) = fr # snd (rj_run es j')" using jr Some by (simp split: prod.split)
    ultimately show ?thesis using s e by auto
  qed
qed simp

subsection \<open>Property\<close>

text \<open>
  C40: The jitter buffer of a track never holds more frames than it was set up for, and what it gives out are pushed frames whose
  sequence numbers follow each other without a gap, wrapping around at the end.  So frames come out in order, none twice and
  none made up; and the buffer never skips a number: a frame that is lost holds back every later one for good, unlike in the
  telephony buffer, which skips it after a while.
\<close>

theorem rnv_jitter_consecutive:
  assumes "rj_run es (rnv_NewJitterBuffer t m) = (j, frs)"
  shows "int (length (rj_frames j)) \<le> (if m \<le> 0 then 12 else m)
    \<and> set frs \<subseteq> rj_pushed es \<and> (\<exists>n. map mf_Sequence frs = map (\<lambda>i. n + of_nat i) [0..<length frs])"
proof -
  have mx: "rj_maxFrames (fst (rj_run es j0)) = rj_maxFrames j0" for j0
  proof (induction es j0 rule: rj_run.induct)
    case (2 now seq payload es j)
    then show ?case by (simp add: PushOwned_def rnv_dropOldestLocked_def Let_def split: option.split)
  next
    case (3 now es j)
    obtain j' r where jr: "rnv_PopReady now j = (j', r)" by (rule prod.exhaust)
    have "rj_maxFrames j' = rj_maxFrames j"
      using jr by (auto simp: rnv_PopReady_def pop_next_def split: if_splits option.splits)
    with 3 jr show ?case by (cases r) (auto split: prod.split)
  qed simp
  have "rj_ok j" using rj_run_ok [OF NewJitterBuffer_rj_ok, of es t m] assms by simp
  then have "int (length (rj_frames j)) \<le> rj_maxFrames j" by (simp add: rj_ok_def)
  moreover have "rj_maxFrames j = (if m \<le> 0 then 12 else m)" using mx [of "rnv_NewJitterBuffer t m"] assms by (simp add: rnv_NewJitterBuffer_def)
  moreover have "set frs \<subseteq> rj_pushed es" using rj_run_pushed [of es "rnv_NewJitterBuffer t m"] assms by (simp add: rnv_NewJitterBuffer_def)
  ultimately show ?thesis using rj_run_starts [OF NewJitterBuffer_rj_ok, of es t m] assms by (simp add: consecutive_def)
qed

definition ex_rj_run :: "(int \<times> rj_ev) list" where
  "ex_rj_run = [(0, RjPush 0xFFFF [1]), (0, RjPush 1 [3]), (1, RjPush 0 [2])] @ replicate 5 (200000000, RjPop)"

theorem rnv_jitter_consecutive_witness:
  "map mf_Sequence (snd (rj_run ex_rj_run (rnv_NewJitterBuffer 0 0))) = [0xFFFF, 0, 1]
   \<and> set (snd (rj_run ex_rj_run (rnv_NewJitterBuffer 0 0))) \<subseteq> rj_pushed ex_rj_run"
proof -
  have "map mf_Sequence (snd (rj_run ex_rj_run (rnv_NewJitterBuffer 0 0))) = [0xFFFF, 0, 1]" by code_simp
  with rnv_jitter_consecutive [OF prod.collapse [symmetric], of ex_rj_run 0 0] show ?thesis by blast
qed

end
