(* ===== verification/RNV_Session.thy ===== *)
theory RNV_Session
  imports RNV_Profiles RNV_Media
begin

text \<open>
  \<^verbatim>\<open>pkg/rnv/session\<close>: one RNV connection, with its configuration, the HELLO exchange, stills, clips and streams.

  The state of a \<^verbatim>\<open>Conn\<close> is a record; streams and the channels on which clips are awaited are objects the code reaches through
  pointers, so they live in lists and are named by their index.  A blocking call is two definitions: the part up to the
  \<^verbatim>\<open>select\<close>, and the part after it, which says which case of the \<^verbatim>\<open>select\<close> was taken.  A channel of capacity one is an
  optional value; sending to a full or nil channel falls through to the \<^verbatim>\<open>default\<close> case.

  The parameter \<open>rnv_env\<close> stands for what the package imports at the moment of a call: the CBOR codec, the clock, whether the link is
  active and takes a packet, the outcome of a resource transfer, the test for a parallel call, the dimensions of a JPEG
  image and SHA-256.  What leaves the connection (packets, resources, calls of the application's handlers) is a list.
\<close>

record rnv_env =
  re_cbor :: cbor
  re_now :: int
  re_active :: bool
  re_send :: "gostring option"
  re_resource :: "rnv_error option"
  re_lxst :: "bytes \<Rightarrow> bool"
  re_jpeg :: "bytes \<Rightarrow> (int \<times> int) option"
  re_sha :: "bytes \<Rightarrow> bytes"

subsection \<open>Configuration\<close>

record rnv_Config =
  rc_Caps :: Caps
  rc_DialTimeout :: int
  rc_HelloTimeout :: int
  rc_StillTimeout :: int
  rc_ClipTimeout :: int
  rc_AllowParallelLXST :: bool
  rc_StrictExtensions :: bool
  rc_DangerousRaiseLimits :: bool
  rc_MaxStillBytes :: uint64
  rc_MaxClipBytes :: uint64
  rc_MaxStillsPerMinute :: int
  rc_MaxClipsPerMinute :: int

abbreviation second :: int where "second \<equiv> 1000000000"

definition SafeConfig :: rnv_Config where
  "SafeConfig = \<lparr>rc_Caps = DefaultCaps, rc_DialTimeout = 45 * second, rc_HelloTimeout = 20 * second, rc_StillTimeout = 120 * second,
     rc_ClipTimeout = 600 * second, rc_AllowParallelLXST = False, rc_StrictExtensions = False, rc_DangerousRaiseLimits = False,
     rc_MaxStillBytes = 0, rc_MaxClipBytes = 0, rc_MaxStillsPerMinute = 30, rc_MaxClipsPerMinute = 6\<rparr>"

text \<open>One of the two limits: the custom one, cut to the package limit unless raising is allowed, then the announced one.\<close>

definition guard_limit :: "bool \<Rightarrow> uint64 \<Rightarrow> uint64 \<Rightarrow> uint64 \<Rightarrow> uint64 \<times> uint64" where
  "guard_limit raise mx custom announced =
     (let custom1 = (if custom > 0 \<and> custom > mx \<and> \<not> raise then mx else custom);
          announced1 = (if custom > 0 then custom1 else announced)
      in (custom1, if announced1 = 0 \<or> (announced1 > mx \<and> \<not> raise) then mx else announced1))"

definition applyLimitGuards :: "rnv_Config \<Rightarrow> rnv_Config" where
  "applyLimitGuards c =
     (case guard_limit (rc_DangerousRaiseLimits c) MaxStillBytes (rc_MaxStillBytes c) (caps_MaxStill (rc_Caps c)) of
        (cs, s) \<Rightarrow>
          (case guard_limit (rc_DangerousRaiseLimits c) MaxClipBytes (rc_MaxClipBytes c) (caps_MaxClip (rc_Caps c)) of
             (cc, k) \<Rightarrow> c\<lparr>rc_MaxStillBytes := cs, rc_MaxClipBytes := cc, rc_Caps := (rc_Caps c)\<lparr>caps_MaxStill := s, caps_MaxClip := k\<rparr>\<rparr>))"

definition rnv_withDefaults :: "rnv_Config \<Rightarrow> rnv_Config" where
  "rnv_withDefaults c =
     (let d = SafeConfig; pos = (\<lambda>f. if f c \<le> 0 then f d else f c);
          caps = (if caps_MaxStill (rc_Caps c) = 0 \<and> caps_Preferred (rc_Caps c) = 0 \<and> caps_Profiles (rc_Caps c) = [] then rc_Caps d else rc_Caps c)
      in applyLimitGuards (c\<lparr>rc_Caps := caps\<lparr>caps_StrictExt := (rc_StrictExtensions c \<or> caps_StrictExt caps)\<rparr>,
           rc_DialTimeout := pos rc_DialTimeout, rc_HelloTimeout := pos rc_HelloTimeout, rc_StillTimeout := pos rc_StillTimeout,
           rc_ClipTimeout := pos rc_ClipTimeout, rc_MaxStillsPerMinute := pos rc_MaxStillsPerMinute,
           rc_MaxClipsPerMinute := pos rc_MaxClipsPerMinute\<rparr>))"

subsection \<open>The connection\<close>

datatype rnv_out =
    RSent bytes | RTeardown | RResource bytes | RProgress uint64 uint64
  | OnStill StillMeta bytes | OnClip ClipMeta bytes | OnStream StreamOffer | OnVideo rnv_Frame | OnAudio rnv_Frame
  | OnReject RejectBody | OnExtension uint64 bytes | OnBye | OnCtrl CtrlBody

record Stream =
  st_offer :: StreamOffer
  st_closed :: bool
  st_videoSeq :: uint32
  st_audioSeq :: uint32
  st_waits :: bool
  st_accept :: "StreamOffer option"
  st_reject :: "RejectBody option"

record clipResult =
  cl_meta :: "ClipMeta option"
  cl_data :: bytes

record Conn =
  cn_cfg :: rnv_Config
  cn_peerHash :: bytes
  cn_outbound :: bool
  cn_localCaps :: Caps
  cn_peerCaps :: Caps
  cn_handshaken :: bool
  cn_closed :: bool
  cn_streams :: "Stream list"
  cn_stream :: "nat option"
  cn_videoJB :: rnv_JitterBuffer
  cn_audioJB :: rnv_JitterBuffer
  cn_avClock :: Clock
  cn_pendingStillID :: bytes
  cn_pendingClipID :: bytes
  cn_pendingClipCh :: "nat option"
  cn_chans :: "clipResult option list"
  cn_waits :: "(nat \<times> ClipMeta) list"
  cn_resourceExpect :: uint64
  cn_stillTimes :: "int list"
  cn_clipTimes :: "int list"
  cn_droppedBadMagic :: uint64
  cn_out :: "rnv_out list"

definition newConn :: "rnv_Config \<Rightarrow> bytes \<Rightarrow> bool \<Rightarrow> Conn" where
  "newConn cfg peerHash outbound =
     \<lparr>cn_cfg = cfg, cn_peerHash = peerHash, cn_outbound = outbound, cn_localCaps = rc_Caps cfg, cn_peerCaps = no_Caps,
      cn_handshaken = False, cn_closed = False, cn_streams = [], cn_stream = None, cn_videoJB = rnv_NewJitterBuffer 0 0,
      cn_audioJB = rnv_NewJitterBuffer 0 0, cn_avClock = \<lparr>ck_origin = None, ck_videoSkew = 0, ck_audioSkew = 0\<rparr>,
      cn_pendingStillID = [], cn_pendingClipID = [], cn_pendingClipCh = None, cn_chans = [], cn_waits = [], cn_resourceExpect = 0,
      cn_stillTimes = [], cn_clipTimes = [], cn_droppedBadMagic = 0, cn_out = []\<rparr>"

definition out :: "rnv_out \<Rightarrow> Conn \<Rightarrow> Conn" where
  "out o1 c = c\<lparr>cn_out := cn_out c @ [o1]\<rparr>"

definition rnv_sendRaw :: "rnv_env \<Rightarrow> bytes \<Rightarrow> Conn \<Rightarrow> Conn \<times> rnv_error option" where
  "rnv_sendRaw E raw c =
     (if cn_closed c \<or> \<not> re_active E then (c, Some ErrLinkInactive)
      else case re_send E of Some t \<Rightarrow> (c, Some (ErrBelow t)) | None \<Rightarrow> (out (RSent raw) c, None))"

definition rnv_sendEnvelope :: "rnv_env \<Rightarrow> rnv_Envelope \<Rightarrow> Conn \<Rightarrow> Conn \<times> rnv_error option" where
  "rnv_sendEnvelope E env c =
     (case rnv_Pack (re_cbor E) env of Inl e \<Rightarrow> (c, Some (ErrProto e)) | Inr raw \<Rightarrow> rnv_sendRaw E raw c)"

definition rnv_sendHello :: "rnv_env \<Rightarrow> Conn \<Rightarrow> Conn \<times> rnv_error option" where
  "rnv_sendHello E c = rnv_sendEnvelope E (NewTyped rnv_TypeHello (Some (Caps_ToBody (cn_localCaps c)))) c"

definition sendReject :: "rnv_env \<Rightarrow> int \<Rightarrow> gostring \<Rightarrow> Conn \<Rightarrow> Conn \<times> rnv_error option" where
  "sendReject E code reason c =
     rnv_sendEnvelope E (NewTyped TypeReject (Some (RejectBody_ToBody \<lparr>rj_Code = code, rj_Reason = reason\<rparr>))) c"

definition requireHandshake :: "Conn \<Rightarrow> rnv_error option" where
  "requireHandshake c = (if cn_handshaken c then None else Some ErrNotHandshaken)"

definition effective_max :: "uint64 \<Rightarrow> uint64 \<Rightarrow> uint64 \<Rightarrow> uint64" where
  "effective_max mx a b = (let a1 = (if a = 0 then mx else a); b1 = (if b = 0 then mx else b) in if a1 < b1 then a1 else b1)"

definition effectiveStillMax :: "Conn \<Rightarrow> uint64" where
  "effectiveStillMax c = effective_max MaxStillBytes (caps_MaxStill (cn_localCaps c)) (caps_MaxStill (cn_peerCaps c))"

definition effectiveClipMax :: "Conn \<Rightarrow> uint64" where
  "effectiveClipMax c = effective_max MaxClipBytes (caps_MaxClip (cn_localCaps c)) (caps_MaxClip (cn_peerCaps c))"

definition upd_stream :: "nat \<Rightarrow> (Stream \<Rightarrow> Stream) \<Rightarrow> Conn \<Rightarrow> Conn" where
  "upd_stream i f c = c\<lparr>cn_streams := (cn_streams c)[i := f (cn_streams c ! i)]\<rparr>"

definition stream_markClosed :: "nat \<Rightarrow> Conn \<Rightarrow> Conn" where
  "stream_markClosed i c = upd_stream i (\<lambda>s. s\<lparr>st_closed := True\<rparr>) c"

definition conn_markClosed :: "Conn \<Rightarrow> Conn" where
  "conn_markClosed c0 =
     (let c = c0\<lparr>cn_closed := True\<rparr> in case cn_stream c of None \<Rightarrow> c | Some i \<Rightarrow> stream_markClosed i c)"

definition conn_Close :: "rnv_env \<Rightarrow> Conn \<Rightarrow> Conn" where
  "conn_Close E c =
     (if cn_closed c then c
      else let c1 = c\<lparr>cn_closed := True\<rparr>; c2 = fst (rnv_sendEnvelope E (NewTyped TypeBye None) c1) in out RTeardown c2)"

text \<open>
  The sliding window behind \<^verbatim>\<open>rateStillOK\<close> and \<^verbatim>\<open>rateClipOK\<close>: what is younger than a minute is kept, and the call is counted
  when there is room for it.
\<close>

definition rate_window :: "int \<Rightarrow> int \<Rightarrow> int list \<Rightarrow> int list \<times> bool" where
  "rate_window now limit ts =
     (let kept = filter (\<lambda>t. t > now - 60 * second) ts
      in if int (length kept) \<ge> limit then (kept, False) else (kept @ [now], True))"

definition rateStillOK :: "rnv_env \<Rightarrow> Conn \<Rightarrow> Conn \<times> bool" where
  "rateStillOK E c =
     (case rate_window (re_now E) (rc_MaxStillsPerMinute (cn_cfg c)) (cn_stillTimes c) of (ts, ok) \<Rightarrow> (c\<lparr>cn_stillTimes := ts\<rparr>, ok))"

definition rateClipOK :: "rnv_env \<Rightarrow> Conn \<Rightarrow> Conn \<times> bool" where
  "rateClipOK E c =
     (case rate_window (re_now E) (rc_MaxClipsPerMinute (cn_cfg c)) (cn_clipTimes c) of (ts, ok) \<Rightarrow> (c\<lparr>cn_clipTimes := ts\<rparr>, ok))"

definition ensureActiveLXSTGuard :: "rnv_env \<Rightarrow> byte \<Rightarrow> Conn \<Rightarrow> rnv_error option" where
  "ensureActiveLXSTGuard E tracks c =
     (if \<not> has_track tracks TrackAudio then None
      else if rc_AllowParallelLXST (cn_cfg c) then None
      else if re_lxst E (cn_peerHash c) then Some ErrParallelLXST else None)"

definition contentHash :: "rnv_env \<Rightarrow> bytes \<Rightarrow> bytes" where
  "contentHash E b = take 8 (re_sha E b)"

definition sendPayload :: "rnv_env \<Rightarrow> bytes \<Rightarrow> Conn \<Rightarrow> Conn \<times> rnv_error option" where
  "sendPayload E payload c =
     (if length payload \<le> LinkPacketSoftMax then rnv_sendRaw E payload c
      else case re_resource E of Some e \<Rightarrow> (c, Some e) | None \<Rightarrow> (out (RResource payload) c, None))"

subsection \<open>Texts of errors\<close>

fun proto_text :: "proto_error \<Rightarrow> gostring" where
  "proto_text PEnvelopeEmpty = ''rnv proto: empty envelope''"
| "proto_text PEnvelopeTooLarge = ''rnv proto: envelope too large''"
| "proto_text (PWrongVersion n) = ''rnv proto: wrong version '' @ decimal (unat n)"
| "proto_text (PCodec t) = t"
| "proto_text PFrameTooLarge = ''rnv proto: frame payload too large''"
| "proto_text PFrameTooShort = ''rnv proto: frame too short''"
| "proto_text (PBadMagic b) = ''rnv proto: bad frame magic 0x'' @ hex_encode [b]"
| "proto_text PAnnounceTooLarge = ''rnv proto: announce app-data too large''"
| "proto_text (PBuiltin b) = ''rnv proto: cannot replace builtin codec 0x'' @ hex_encode [b]"
| "proto_text (PNoEncoder b) = ''rnv proto: no encoder for 0x'' @ hex_encode [b]"
| "proto_text (PNoDecoder b) = ''rnv proto: no decoder for 0x'' @ hex_encode [b]"

fun err_text :: "rnv_error \<Rightarrow> gostring" where
  "err_text ErrNilArgument = ''rnv: nil argument''"
| "err_text ErrBadFieldLength = ''rnv: bad field length''"
| "err_text ErrStillTooLarge = ''rnv: still exceeds size limit''"
| "err_text ErrClipTooLarge = ''rnv: clip exceeds size limit''"
| "err_text ErrFrameTooLarge = ''rnv: frame exceeds size limit''"
| "err_text ErrBadDimensions = ''rnv: dimensions exceed limits''"
| "err_text ErrCapacity = ''rnv: peer or profile cannot sustain offer''"
| "err_text ErrRejected = ''rnv: peer rejected''"
| "err_text ErrLinkInactive = ''rnv: link inactive''"
| "err_text ErrDialTimeout = ''rnv: dial timeout''"
| "err_text ErrHelloTimeout = ''rnv: hello timeout''"
| "err_text ErrNotHandshaken = ''rnv: handshake incomplete''"
| "err_text ErrStreamNotOpen = ''rnv: stream not open''"
| "err_text ErrStreamAlreadyOpen = ''rnv: stream already open''"
| "err_text ErrProgressRequired = ''rnv: progress callback required for large clip''"
| "err_text ErrParallelLXST = ''rnv: parallel LXST call blocked (set AllowParallelLXST)''"
| "err_text ErrVideoTrackDenied = ''rnv: video track not allowed at this profile''"
| "err_text ErrAudioTrackDenied = ''rnv: audio track not allowed at this profile''"
| "err_text ErrInvalidOffer = ''rnv: invalid offer''"
| "err_text ErrResourceTimeout = ''rnv: resource transfer timeout''"
| "err_text ErrRateLimited = ''rnv: rate limited''"
| "err_text (ErrProto e) = proto_text e"
| "err_text (ErrBelow t) = t"

subsection \<open>Stills\<close>

text \<open>The dimensions a JPEG without stated ones gets from its header.\<close>

definition fill_dimensions :: "rnv_env \<Rightarrow> bytes \<Rightarrow> StillMeta \<Rightarrow> StillMeta" where
  "fill_dimensions E data meta =
     (if (sm_Width meta = 0 \<or> sm_Height meta = 0) \<and> sm_Codec meta = CodecJPEG then
        (case re_jpeg E data of Some (w, h) \<Rightarrow> meta\<lparr>sm_Width := w, sm_Height := h\<rparr> | None \<Rightarrow> meta)
      else meta)"

definition still_transfer :: "rnv_env \<Rightarrow> bytes \<Rightarrow> StillMeta \<Rightarrow> Conn \<Rightarrow> Conn \<times> rnv_error option" where
  "still_transfer E data meta c =
     (case rnv_Pack (re_cbor E) (NewTyped TypeStill (Some (StillMeta_ToBody (meta\<lparr>sm_Transfer := TransferPacket, sm_Data := data\<rparr>)))) of
        Inl e \<Rightarrow> (c, Some (ErrProto e))
      | Inr packed \<Rightarrow>
          if length packed \<le> LinkPacketSoftMax then rnv_sendRaw E packed c
          else case rnv_sendEnvelope E (NewTyped TypeStill (Some (StillMeta_ToBody (meta\<lparr>sm_Transfer := TransferResource, sm_Data := []\<rparr>)))) c of
                 (c1, Some e) \<Rightarrow> (c1, Some e)
               | (c1, None) \<Rightarrow> sendPayload E data c1)"

definition SendStill :: "rnv_env \<Rightarrow> bytes \<Rightarrow> StillMeta \<Rightarrow> Conn \<Rightarrow> Conn \<times> rnv_error option" where
  "SendStill E data meta0 c0 =
     (case requireHandshake c0 of
        Some e \<Rightarrow> (c0, Some e)
      | None \<Rightarrow>
          (case rateStillOK E c0 of
             (c, False) \<Rightarrow> (c, Some ErrRateLimited)
           | (c, True) \<Rightarrow>
               (let meta1 = meta0\<lparr>sm_Codec := (if sm_Codec meta0 = 0 then CodecJPEG else sm_Codec meta0), sm_Size := of_nat (length data)\<rparr>;
                    mx = effectiveStillMax c
                in case ValidateStillMeta meta1 mx of
                     Some e \<Rightarrow> (c, Some e)
                   | None \<Rightarrow>
                       if of_nat (length data) > mx then (c, Some ErrStillTooLarge)
                       else let meta2 = fill_dimensions E data meta1
                            in case ValidateStillMeta meta2 mx of
                                 Some e \<Rightarrow> (c, Some e)
                               | None \<Rightarrow>
                                   still_transfer E data
                                     (meta2\<lparr>sm_ID := (if sm_ID meta2 = [] then contentHash E data else sm_ID meta2)\<rparr>) c)))"

definition handleStillMeta :: "rnv_env \<Rightarrow> StillMeta \<Rightarrow> Conn \<Rightarrow> Conn" where
  "handleStillMeta E meta0 c =
     (let data = sm_Data meta0; meta = meta0\<lparr>sm_Data := []\<rparr>
      in case ValidateStillMeta meta (effectiveStillMax c) of
           Some e \<Rightarrow> fst (sendReject E RejectSize (err_text e) c)
         | None \<Rightarrow>
             if sm_Transfer meta = TransferPacket \<and> data \<noteq> [] then out (OnStill meta data) c
             else if sm_Transfer meta = TransferResource then c\<lparr>cn_pendingStillID := sm_ID meta\<rparr>
             else c)"

subsection \<open>Clips\<close>

definition new_chan :: "Conn \<Rightarrow> Conn" where
  "new_chan c = c\<lparr>cn_pendingClipCh := Some (length (cn_chans c)), cn_chans := cn_chans c @ [None]\<rparr>"

definition clip_done :: "Conn \<Rightarrow> Conn" where
  "clip_done c = c\<lparr>cn_pendingClipCh := None, cn_pendingClipID := []\<rparr>"

text \<open>A non-blocking send on the pending channel.\<close>

definition clip_signal :: "clipResult \<Rightarrow> Conn \<Rightarrow> Conn" where
  "clip_signal r c =
     (case cn_pendingClipCh c of
        None \<Rightarrow> c
      | Some i \<Rightarrow> if cn_chans c ! i = None then c\<lparr>cn_chans := (cn_chans c)[i := Some r]\<rparr> else c)"

text \<open>\<^verbatim>\<open>SendClip\<close> up to the wait for the acceptance.\<close>

definition SendClip_offer :: "rnv_env \<Rightarrow> bytes \<Rightarrow> ClipMeta \<Rightarrow> bool \<Rightarrow> Conn \<Rightarrow> Conn \<times> (rnv_error + ClipMeta)" where
  "SendClip_offer E data meta0 progress c0 =
     (case requireHandshake c0 of
        Some e \<Rightarrow> (c0, Inl e)
      | None \<Rightarrow>
          (case rateClipOK E c0 of
             (c, False) \<Rightarrow> (c, Inl ErrRateLimited)
           | (c, True) \<Rightarrow>
               (let meta1 = meta0\<lparr>cm_Codec := (if cm_Codec meta0 = 0 then CodecOpaque else cm_Codec meta0), cm_Size := of_nat (length data)\<rparr>;
                    mx = effectiveClipMax c
                in if mx = 0 then (c, Inl ErrCapacity)
                   else case ValidateClipMeta meta1 mx of
                     Some e \<Rightarrow> (c, Inl e)
                   | None \<Rightarrow>
                       if of_nat (length data) > mx then (c, Inl ErrClipTooLarge)
                       else if length data > 1048576 \<and> \<not> progress then (c, Inl ErrProgressRequired)
                       else let meta2 = meta1\<lparr>cm_ID := (if cm_ID meta1 = [] then contentHash E data else cm_ID meta1),
                                              cm_SHA256 := (if cm_SHA256 meta1 = [] then contentHash E data else cm_SHA256 meta1)\<rparr>;
                                c1 = new_chan (c\<lparr>cn_pendingClipID := cm_ID meta2\<rparr>)
                            in case rnv_sendEnvelope E (NewTyped TypeClipOffer (Some (ClipMeta_ToBody meta2))) c1 of
                                 (c2, Some e) \<Rightarrow> (clip_done c2, Inl e)
                               | (c2, None) \<Rightarrow> (c2, Inr meta2))))"

text \<open>
  \<^verbatim>\<open>SendClip\<close> after the wait: \<open>stop\<close> is the timer or the context; otherwise the channel \<open>i\<close> has a value.  \<^const>\<open>None\<close> is a call that
  still waits.
\<close>

definition SendClip_finish :: "rnv_env \<Rightarrow> nat \<Rightarrow> bytes \<Rightarrow> ClipMeta \<Rightarrow> bool \<Rightarrow> rnv_error option \<Rightarrow> Conn \<Rightarrow> Conn \<times> rnv_error option option" where
  "SendClip_finish E i data meta progress stop c =
     (case stop of
        Some e \<Rightarrow> (clip_done c, Some (Some e))
      | None \<Rightarrow>
          (case cn_chans c ! i of
             None \<Rightarrow> (c, None)
           | Some r \<Rightarrow>
               (let c1 = c\<lparr>cn_chans := (cn_chans c)[i := None]\<rparr>;
                    c2 = (if progress then out (RProgress 0 (cm_Size meta)) c1 else c1)
                in case re_resource E of
                     Some e \<Rightarrow> (clip_done c2, Some (Some e))
                   | None \<Rightarrow>
                       (let c3 = out (RResource data) c2;
                            c4 = (if progress then out (RProgress (cm_Size meta) (cm_Size meta)) c3 else c3)
                        in case rnv_sendEnvelope E (NewTyped TypeClipDone (Some (ClipMeta_ToBody meta))) c4 of
                             (c5, e) \<Rightarrow> (clip_done c5, Some e)))))"

definition handleClipOffer :: "rnv_env \<Rightarrow> ClipMeta \<Rightarrow> Conn \<Rightarrow> Conn" where
  "handleClipOffer E meta c =
     (let mx = effectiveClipMax c
      in case ValidateClipMeta meta mx of
           Some e \<Rightarrow> fst (sendReject E RejectSize (err_text e) c)
         | None \<Rightarrow>
             if mx = 0 then fst (sendReject E RejectCapacity ''clips disabled'' c)
             else let c1 = new_chan (c\<lparr>cn_pendingClipID := cm_ID meta\<rparr>);
                      c2 = fst (rnv_sendEnvelope E (NewTyped TypeClipAccept (Some (ClipMeta_ToBody meta))) c1)
                  in c2\<lparr>cn_waits := cn_waits c2 @ [(length (cn_chans c), meta)]\<rparr>)"

text \<open>The goroutine of \<^verbatim>\<open>handleClipOffer\<close>: it takes the value of its channel, or its timer ends it.\<close>

definition clip_waiter :: "nat \<Rightarrow> ClipMeta \<Rightarrow> bool \<Rightarrow> Conn \<Rightarrow> Conn" where
  "clip_waiter i meta timeout c =
     (if (i, meta) \<notin> set (cn_waits c) then c
      else if timeout then c\<lparr>cn_waits := remove1 (i, meta) (cn_waits c)\<rparr>
      else case cn_chans c ! i of
             None \<Rightarrow> c
           | Some r \<Rightarrow>
               (let c1 = c\<lparr>cn_chans := (cn_chans c)[i := None], cn_waits := remove1 (i, meta) (cn_waits c)\<rparr>
                in if cl_data r = [] then c1 else out (OnClip meta (cl_data r)) c1))"

definition signalClipAccept :: "ClipMeta \<Rightarrow> Conn \<Rightarrow> Conn" where
  "signalClipAccept meta c = clip_signal \<lparr>cl_meta = Some meta, cl_data = []\<rparr> c"

subsection \<open>Resources\<close>

definition onResourceAdv :: "int \<Rightarrow> Conn \<Rightarrow> Conn \<times> bool" where
  "onResourceAdv sz c =
     (let mx = sint (effectiveClipMax c)
      in if mx > 0 \<and> sz > mx then (c, False)
         else if sz > uint MaxClipBytes \<and> \<not> rc_DangerousRaiseLimits (cn_cfg c) then (c, False)
         else (c\<lparr>cn_resourceExpect := word_of_int sz\<rparr>, True))"

definition onResourceDone :: "bytes \<Rightarrow> Conn \<Rightarrow> Conn" where
  "onResourceDone data c =
     (if data = [] then c
      else let stillID = cn_pendingStillID c; c1 = c\<lparr>cn_pendingStillID := []\<rparr>
           in if stillID \<noteq> [] then
                out (OnStill \<lparr>sm_Width = 0, sm_Height = 0, sm_Codec = 0, sm_Size = of_nat (length data), sm_Transfer = TransferResource,
                       sm_ID = stillID, sm_Data = []\<rparr> data) c1
              else clip_signal \<lparr>cl_meta = None, cl_data = data\<rparr> c1)"

subsection \<open>Streams\<close>

definition new_stream :: "StreamOffer \<Rightarrow> bool \<Rightarrow> Stream" where
  "new_stream o1 waits = \<lparr>st_offer = o1, st_closed = False, st_videoSeq = 0, st_audioSeq = 0, st_waits = waits, st_accept = None,
     st_reject = None\<rparr>"

definition add_stream :: "StreamOffer \<Rightarrow> bool \<Rightarrow> Conn \<Rightarrow> Conn" where
  "add_stream o1 waits c = c\<lparr>cn_stream := Some (length (cn_streams c)), cn_streams := cn_streams c @ [new_stream o1 waits]\<rparr>"

definition clearStream :: "nat \<Rightarrow> Conn \<Rightarrow> Conn" where
  "clearStream i c = (if cn_stream c = Some i then c\<lparr>cn_stream := None\<rparr> else c)"

definition open_offer :: "StreamOffer \<Rightarrow> StreamOffer" where
  "open_offer o1 = o1\<lparr>so_Profile := (if so_Profile o1 = 0 then ProfileMedium else so_Profile o1),
     so_Tracks := (if so_Tracks o1 = 0 then TrackVideo else so_Tracks o1)\<rparr>"

text \<open>\<^verbatim>\<open>OpenStream\<close> up to the wait for an answer; the index of the stream, or the error.\<close>

definition OpenStream_offer :: "rnv_env \<Rightarrow> StreamOffer \<Rightarrow> Conn \<Rightarrow> Conn \<times> (rnv_error + nat)" where
  "OpenStream_offer E offer0 c =
     (case requireHandshake c of
        Some e \<Rightarrow> (c, Inl e)
      | None \<Rightarrow>
          (let o1 = open_offer offer0
           in if has_track (so_Tracks o1) TrackVideo \<and> so_Profile o1 < ProfileMedium then (c, Inl ErrVideoTrackDenied)
              else case ensureActiveLXSTGuard E (so_Tracks o1) c of
                Some e \<Rightarrow> (c, Inl e)
              | None \<Rightarrow>
                  (case GuardStreamOffer (cn_localCaps c) (cn_peerCaps c) o1 of
                     Some e \<Rightarrow> (c, Inl e)
                   | None \<Rightarrow>
                       if (case cn_stream c of None \<Rightarrow> False | Some i \<Rightarrow> \<not> st_closed (cn_streams c ! i)) then (c, Inl ErrStreamAlreadyOpen)
                       else case rnv_sendEnvelope E (NewTyped TypeStreamOffer (Some (StreamOffer_ToBody o1))) (add_stream o1 True c) of
                              (c1, Some e) \<Rightarrow> (c1\<lparr>cn_stream := None\<rparr>, Inl e)
                            | (c1, None) \<Rightarrow> (c1, Inr (length (cn_streams c))))))"

datatype select_case = SelStop rnv_error | SelReject | SelAccept

text \<open>\<^verbatim>\<open>OpenStream\<close> after the wait; a case whose channel is empty is not ready, and the call waits on.\<close>

definition OpenStream_wait :: "nat \<Rightarrow> select_case \<Rightarrow> Conn \<Rightarrow> Conn \<times> (rnv_error + nat) option" where
  "OpenStream_wait i sel c =
     (case sel of
        SelStop e \<Rightarrow> (clearStream i c, Some (Inl e))
      | SelReject \<Rightarrow>
          (case st_reject (cn_streams c ! i) of
             None \<Rightarrow> (c, None)
           | Some r \<Rightarrow> (clearStream i c, Some (Inl (if rj_Code r = RejectCapacity then ErrCapacity else ErrRejected))))
      | SelAccept \<Rightarrow>
          (case st_accept (cn_streams c ! i) of
             None \<Rightarrow> (c, None)
           | Some a \<Rightarrow> (upd_stream i (\<lambda>s. s\<lparr>st_offer := a, st_accept := None\<rparr>) c, Some (Inr i))))"

definition handleStreamOffer :: "rnv_env \<Rightarrow> StreamOffer \<Rightarrow> Conn \<Rightarrow> Conn" where
  "handleStreamOffer E o1 c =
     (case GuardStreamOffer (cn_localCaps c) (cn_peerCaps c) o1 of
        Some e \<Rightarrow> fst (sendReject E RejectCapacity (err_text e) c)
      | None \<Rightarrow>
          (case ensureActiveLXSTGuard E (so_Tracks o1) c of
             Some e \<Rightarrow> fst (sendReject E RejectPolicy (err_text e) c)
           | None \<Rightarrow>
               out (OnStream o1)
                 (fst (rnv_sendEnvelope E (NewTyped TypeStreamAccept (Some (StreamOffer_ToBody o1))) (add_stream o1 False c)))))"

definition handleStreamAccept :: "StreamOffer \<Rightarrow> Conn \<Rightarrow> Conn" where
  "handleStreamAccept o1 c =
     (case cn_stream c of
        None \<Rightarrow> c
      | Some i \<Rightarrow> upd_stream i (\<lambda>s. if st_waits s \<and> st_accept s = None then s\<lparr>st_accept := Some o1\<rparr> else s) c)"

definition noteReject :: "RejectBody \<Rightarrow> Conn \<Rightarrow> Conn" where
  "noteReject r c =
     (case cn_stream c of
        None \<Rightarrow> c
      | Some i \<Rightarrow> upd_stream i (\<lambda>s. if st_waits s \<and> st_reject s = None then s\<lparr>st_reject := Some r\<rparr> else s) c)"

definition send_frame :: "rnv_env \<Rightarrow> proto_error + bytes \<Rightarrow> Conn \<Rightarrow> Conn \<times> rnv_error option" where
  "send_frame E packed c = (case packed of Inl _ \<Rightarrow> (c, Some ErrFrameTooLarge) | Inr raw \<Rightarrow> rnv_sendRaw E raw c)"

definition SendVideo :: "rnv_env \<Rightarrow> nat \<Rightarrow> bytes \<Rightarrow> Conn \<Rightarrow> Conn \<times> rnv_error option" where
  "SendVideo E i payload c =
     (let s = cn_streams c ! i
      in if st_closed s then (c, Some ErrStreamNotOpen)
         else if \<not> has_track (so_Tracks (st_offer s)) TrackVideo then (c, Some ErrVideoTrackDenied)
         else let seq = st_videoSeq s + 1; codec = (if so_Video (st_offer s) = 0 then CodecJPEG else so_Video (st_offer s))
              in send_frame E (PackVideo codec FlagKeyframe (ucast seq) payload) (upd_stream i (\<lambda>s. s\<lparr>st_videoSeq := seq\<rparr>) c))"

definition SendAudio :: "rnv_env \<Rightarrow> nat \<Rightarrow> bytes \<Rightarrow> Conn \<Rightarrow> Conn \<times> rnv_error option" where
  "SendAudio E i payload c =
     (let s = cn_streams c ! i
      in if st_closed s then (c, Some ErrStreamNotOpen)
         else if \<not> has_track (so_Tracks (st_offer s)) TrackAudio then (c, Some ErrAudioTrackDenied)
         else let seq = st_audioSeq s + 1; codec = (if so_Audio (st_offer s) = 0 then rnv_CodecOpus else so_Audio (st_offer s))
              in send_frame E (PackAudio codec 0 (ucast seq) payload) (upd_stream i (\<lambda>s. s\<lparr>st_audioSeq := seq\<rparr>) c))"

definition SendCtrl :: "rnv_env \<Rightarrow> CtrlBody \<Rightarrow> Conn \<Rightarrow> Conn \<times> rnv_error option" where
  "SendCtrl E ctrl c = rnv_sendEnvelope E (NewTyped TypeStreamCtrl (Some (CtrlBody_ToBody ctrl))) c"

definition stream_Close :: "nat \<Rightarrow> Conn \<Rightarrow> Conn" where
  "stream_Close i c = clearStream i (stream_markClosed i c)"

subsection \<open>Packets\<close>

definition fire_exts :: "(uint64 \<times> bytes) list \<Rightarrow> Conn \<Rightarrow> Conn" where
  "fire_exts exts c = fold (\<lambda>(k, p). out (OnExtension k p)) exts c"

definition strict :: "Conn \<Rightarrow> bool" where
  "strict c \<longleftrightarrow> caps_StrictExt (cn_localCaps c) \<or> rc_StrictExtensions (cn_cfg c)"

definition handlePrivate :: "rnv_env \<Rightarrow> rnv_Envelope \<Rightarrow> Conn \<Rightarrow> Conn" where
  "handlePrivate E env c =
     (if strict c then fst (sendReject E RejectUnknown ''unknown private type'' c) else fire_exts (ev_Extensions env) c)"

definition rnv_handleFrame :: "rnv_env \<Rightarrow> rnv_Frame \<Rightarrow> Conn \<Rightarrow> Conn" where
  "rnv_handleFrame E fr c =
     (if rf_Magic fr = MagicVideo then
        out (OnVideo fr) (c\<lparr>cn_videoJB := PushOwned (re_now E) (rf_Seq fr) (rf_Payload fr) (cn_videoJB c),
                            cn_avClock := NoteVideo (re_now E) (cn_avClock c)\<rparr>)
      else if rf_Magic fr = MagicAudio then
        out (OnAudio fr) (c\<lparr>cn_audioJB := PushOwned (re_now E) (rf_Seq fr) (rf_Payload fr) (cn_audioJB c),
                            cn_avClock := NoteAudio (re_now E) (cn_avClock c)\<rparr>)
      else c)"

definition rnv_dispatch :: "rnv_env \<Rightarrow> rnv_Envelope \<Rightarrow> Conn \<Rightarrow> Conn" where
  "rnv_dispatch E env c =
     (let t = ev_Type env; b = ev_Body env
      in if t \<ge> TypePrivateMin then handlePrivate E env c
         else if t = rnv_TypeHello then
           (let caps = CapsFromBody b
            in fire_exts (caps_Extensions caps) (fire_exts (ev_Extensions env) (c\<lparr>cn_peerCaps := caps, cn_handshaken := True\<rparr>)))
         else if t = TypeReject then out (OnReject (RejectFromBody b)) (noteReject (RejectFromBody b) c)
         else if t = TypeStill then handleStillMeta E (StillMetaFromBody b) c
         else if t = TypeClipOffer then handleClipOffer E (ClipMetaFromBody b) c
         else if t = TypeClipAccept then signalClipAccept (ClipMetaFromBody b) c
         else if t = TypeClipDone then c
         else if t = TypeStreamOffer then handleStreamOffer E (StreamOfferFromBody b) c
         else if t = TypeStreamAccept then handleStreamAccept (StreamOfferFromBody b) c
         else if t = TypeStreamCtrl then out (OnCtrl (CtrlFromBody b)) c
         else if t = TypeBye then conn_Close E (out OnBye c)
         else if strict c then fst (sendReject E RejectUnknown ''unknown type'' c)
         else c)"

definition rnv_onPacket :: "rnv_env \<Rightarrow> bytes \<Rightarrow> Conn \<Rightarrow> Conn" where
  "rnv_onPacket E data c =
     (if IsMediaFrame data then
        (case rnv_SplitFrame data of
           Inl _ \<Rightarrow> c\<lparr>cn_droppedBadMagic := cn_droppedBadMagic c + 1\<rparr>
         | Inr fr \<Rightarrow> rnv_handleFrame E fr c)
      else case UnpackEnvelope (re_cbor E) data of Inl _ \<Rightarrow> c | Inr env \<Rightarrow> rnv_dispatch E env c)"

subsection \<open>The beginning of a connection\<close>

text \<open>
  \<^verbatim>\<open>acceptConn\<close>, with the hash of the remote identity when the link has one; the caller tears the link down on an error.
\<close>

definition acceptConn :: "rnv_env \<Rightarrow> rnv_Config \<Rightarrow> bytes \<Rightarrow> Conn \<times> rnv_error option" where
  "acceptConn E cfg peer = rnv_sendHello E (newConn cfg peer False)"

text \<open>
  \<^verbatim>\<open>Dial\<close> from the point where the link is up and identified, up to the wait for the HELLO of the peer, and after it.
\<close>

definition dial_hello :: "rnv_env \<Rightarrow> rnv_Config \<Rightarrow> bytes \<Rightarrow> Conn \<times> rnv_error option" where
  "dial_hello E cfg peerHash =
     (case rnv_sendHello E (newConn cfg peerHash True) of
        (c, Some e) \<Rightarrow> (conn_Close E c, Some e)
      | (c, None) \<Rightarrow> (c, None))"

definition dial_wait :: "rnv_env \<Rightarrow> bool \<Rightarrow> Conn \<Rightarrow> Conn \<times> rnv_error option option" where
  "dial_wait E timeout c =
     (if timeout then (conn_Close E c, Some (Some ErrHelloTimeout)) else if cn_handshaken c then (c, Some None) else (c, None))"

end
