(* ===== verification/RNV_Props.thy ===== *)
theory RNV_Props
  imports RNV_Session
begin

text \<open>
  What two ends of an RNV connection can rely on: which stream offers are accepted and that both ends agree on them, and which
  stills can be sent.
\<close>

subsection \<open>Sending and receiving\<close>

definition link_up :: "rnv_env \<Rightarrow> Conn \<Rightarrow> bool" where
  "link_up E c \<longleftrightarrow> re_active E \<and> re_send E = None \<and> \<not> cn_closed c"

lemma sendEnvelope_up:
  "link_up E c \<Longrightarrow> rnv_Pack (re_cbor E) env = Inr raw \<Longrightarrow> rnv_sendEnvelope E env c = (out (RSent raw) c, None)"
  by (simp add: rnv_sendEnvelope_def rnv_sendRaw_def link_up_def)

text \<open>A map never looks like a media frame: CBOR starts it with a byte between A0 and BF.\<close>

definition no_frames :: "cbor \<Rightarrow> bool" where
  "no_frames C \<longleftrightarrow> (\<forall>m d. c_enc C m = Inr d \<longrightarrow> \<not> IsMediaFrame d)"

lemma rnv_Pack_Inr:
  assumes "codec_ok C" "rnv_Pack C e = Inr raw"
  shows "c_enc C (rnv_envelope_map e) = Inr raw" "cbor_carries C rnv_MaxEnvelopeBytes (rnv_envelope_map e)"
proof -
  have p: "c_enc C (rnv_envelope_map e) = Inr raw" "length raw \<le> rnv_MaxEnvelopeBytes"
    using assms(2) by (auto simp: rnv_Pack_def split: if_splits sum.splits)
  show "c_enc C (rnv_envelope_map e) = Inr raw" by (rule p(1))
  have "cbor_carries C (length raw) (rnv_envelope_map e)" using assms(1) p(1) by (simp add: codec_ok_def)
  then show "cbor_carries C rnv_MaxEnvelopeBytes (rnv_envelope_map e)" using p by (auto simp: cbor_carries_def split: sum.splits)
qed

text \<open>What a typed packet does at the other end, for every kind of body.\<close>

context wire_body
begin

lemma received:
  assumes "codec_ok (re_cbor E)" "no_frames (re_cbor E)" "sendable x"
    "rnv_Pack (re_cbor E) (NewTyped t (Some (to_body x))) = Inr raw"
  obtains e where "rnv_onPacket E raw c = rnv_dispatch E e c" "ev_Type e = t" "from_body (ev_Body e) = seen x" "ev_Extensions e = []"
proof -
  note p = rnv_Pack_Inr [OF assms(1,4)]
  obtain raw2 e where r: "rnv_Pack (re_cbor E) (NewTyped t (Some (to_body x))) = Inr raw2" "UnpackEnvelope (re_cbor E) raw2 = Inr e"
    "ev_Type e = t" "from_body (ev_Body e) = seen x" "ev_Extensions e = []"
    by (rule arrives_as_seen [OF assms(3) p(2)])
  have "raw2 = raw" using r(1) assms(4) by simp
  moreover have "\<not> IsMediaFrame raw" using assms(2) p(1) by (simp add: no_frames_def)
  ultimately show thesis using r that [of e] by (simp add: rnv_onPacket_def)
qed

end

lemma fire_exts_simps [simp]:
  "fire_exts [] c = c" "fire_exts ((k, p) # exts) c = fire_exts exts (out (OnExtension k p) c)"
  by (simp_all add: fire_exts_def)

lemma fire_exts_sel:
  "cn_peerCaps (fire_exts exts c) = cn_peerCaps c" "cn_handshaken (fire_exts exts c) = cn_handshaken c"
proof -
  have "cn_peerCaps (fire_exts exts c) = cn_peerCaps c \<and> cn_handshaken (fire_exts exts c) = cn_handshaken c"
  proof (induction exts arbitrary: c)
    case (Cons e exts)
    then show ?case by (cases e) (simp add: out_def)
  qed simp
  then show "cn_peerCaps (fire_exts exts c) = cn_peerCaps c" "cn_handshaken (fire_exts exts c) = cn_handshaken c" by blast+
qed

lemma dispatch_types:
  "ev_Type e = rnv_TypeHello \<Longrightarrow> rnv_dispatch E e c = (let caps = CapsFromBody (ev_Body e)
     in fire_exts (caps_Extensions caps) (fire_exts (ev_Extensions e) (c\<lparr>cn_peerCaps := caps, cn_handshaken := True\<rparr>)))"
  "ev_Type e = TypeReject \<Longrightarrow> rnv_dispatch E e c = out (OnReject (RejectFromBody (ev_Body e))) (noteReject (RejectFromBody (ev_Body e)) c)"
  "ev_Type e = TypeStill \<Longrightarrow> rnv_dispatch E e c = handleStillMeta E (StillMetaFromBody (ev_Body e)) c"
  "ev_Type e = TypeStreamOffer \<Longrightarrow> rnv_dispatch E e c = handleStreamOffer E (StreamOfferFromBody (ev_Body e)) c"
  "ev_Type e = TypeStreamAccept \<Longrightarrow> rnv_dispatch E e c = handleStreamAccept (StreamOfferFromBody (ev_Body e)) c"
  by (simp_all add: rnv_dispatch_def word_le_nat_alt Let_def)

lemma hello_received:
  assumes "codec_ok (re_cbor E)" "no_frames (re_cbor E)" "Caps_sendable caps"
    "rnv_Pack (re_cbor E) (NewTyped rnv_TypeHello (Some (Caps_ToBody caps))) = Inr raw"
  shows "cn_peerCaps (rnv_onPacket E raw c) = caps" "cn_handshaken (rnv_onPacket E raw c)"
proof -
  obtain e where e: "rnv_onPacket E raw c = rnv_dispatch E e c" "ev_Type e = rnv_TypeHello" "CapsFromBody (ev_Body e) = caps"
    by (rule caps.received [OF assms])
  then show "cn_peerCaps (rnv_onPacket E raw c) = caps" "cn_handshaken (rnv_onPacket E raw c)"
    by (simp_all add: dispatch_types(1) Let_def fire_exts_sel)
qed

subsection \<open>Opening a stream\<close>

lemma offer_profile_seen: "offer_profile l r (offer_seen o1) = offer_profile l r o1"
  by (simp add: offer_seen_def offer_profile_def)

lemma stream_allowed_low:
  assumes "stream_allowed l r o1" "has_track (so_Tracks o1) TrackAudio" "so_Audio o1 = 0" "offer_profile l r o1 = ProfileLow"
  shows "GuardStreamOffer r l (offer_seen o1) = Some ErrInvalidOffer"
proof -
  have p: "offer_profile r l (offer_seen o1) = ProfileLow"
    unfolding offer_profile_seen offer_profile_sym [of r l] by (rule assms(4))
  have "\<not> stream_allowed r l (offer_seen o1)"
    using stream_allowed_seen [OF assms(1)] assms(2-4) stream_allowed_sym [of r l] by simp
  then have g: "GuardStreamOffer r l (offer_seen o1) \<noteq> None" by (simp add: guard_allowed)
  have nv: "\<not> has_track (so_Tracks o1) TrackVideo"
  proof
    assume "has_track (so_Tracks o1) TrackVideo"
    then have "so_Profile o1 \<in> {ProfileMedium, ProfileHigh}" using assms(1) unfolding stream_allowed_def Let_def by blast
    then show False using assms(4) by (auto simp: offer_profile_def normalizeProfile_def)
  qed
  have t: "so_Tracks o1 \<noteq> 0" using assms(1) by (simp add: stream_allowed_def Let_def)
  have "LimitsFor (if so_Profile o1 = 0 then EffectiveProfile r l 0 else so_Profile o1) = LimitsFor (offer_profile r l (offer_seen o1))"
    by (simp add: offer_profile_def EffectiveProfile_def LimitsFor_normalize offer_seen_def)
  then have "lim_AllowAudio (LimitsFor (if so_Profile o1 = 0 then EffectiveProfile r l 0 else so_Profile o1))"
    unfolding p by (simp add: LimitsFor_def low_limits_def)
  with g nv t show ?thesis
    by (auto simp: GuardStreamOffer_def offer_seen_def Let_def ValidateOffer_def split: option.splits if_splits)
qed

lemma offer_seen_idem [simp]: "offer_seen (offer_seen o1) = offer_seen o1"
  by (simp add: offer_seen_def)

lemma offer_seen_sendable: "StreamOffer_sendable o1 \<Longrightarrow> StreamOffer_sendable (offer_seen o1)"
  by (auto simp: StreamOffer_sendable_def offer_seen_def int64_def)

lemma open_offer_guard: "stream_allowed l r o1 \<Longrightarrow> \<not> (has_track (so_Tracks o1) TrackVideo \<and> so_Profile o1 < ProfileMedium)"
  by (auto simp: stream_allowed_def Let_def)


text \<open>
  C13: Two connected peers agree on streams.  Take peers that know each other's capabilities, over a link and with a codec that work, and
  an offer one of them may make.  The offer reaches the other end, which accepts it and tells its application; the acceptance
  reaches the first end, whose call returns; and both ends hold the same offer, with the default codecs filled in.  There is one
  exception: an offer of audio at the low profile that leaves the codec open.  The offering end takes it for Codec2, the other
  end reads it as Opus, which the low profile excludes, and refuses it, so that the call fails.
\<close>

theorem stream_opens:
  assumes codec: "codec_ok (re_cbor EA)" "no_frames (re_cbor EA)" "re_cbor EB = re_cbor EA"
    and up: "link_up EA A" "link_up EB B" "cn_handshaken A" "cn_stream A = None"
    and caps: "cn_peerCaps A = cn_localCaps B" "cn_peerCaps B = cn_localCaps A"
    and lxst: "ensureActiveLXSTGuard EA (so_Tracks o1) A = None" "ensureActiveLXSTGuard EB (so_Tracks o1) B = None"
    and offer: "o1 = open_offer o0" "StreamOffer_sendable o1" "stream_allowed (cn_localCaps A) (cn_localCaps B) o1"
    and packs: "rnv_Pack (re_cbor EA) (NewTyped TypeStreamOffer (Some (StreamOffer_ToBody o1))) = Inr raw"
      "rnv_Pack (re_cbor EA) (NewTyped TypeStreamAccept (Some (StreamOffer_ToBody (offer_seen o1)))) = Inr yes"
      "rnv_Pack (re_cbor EA) (NewTyped TypeReject (Some (RejectBody_ToBody \<lparr>rj_Code = RejectCapacity, rj_Reason = err_text ErrInvalidOffer\<rparr>))) = Inr no"
    and i: "i = length (cn_streams A)" "j = length (cn_streams B)"
  shows "\<exists>A1. OpenStream_offer EA o0 A = (A1, Inr i) \<and> cn_out A1 = cn_out A @ [RSent raw]
    \<and> (if has_track (so_Tracks o1) TrackAudio \<and> so_Audio o1 = 0 \<and> offer_profile (cn_localCaps A) (cn_localCaps B) o1 = ProfileLow
       then cn_out (rnv_onPacket EB raw B) = cn_out B @ [RSent no]
         \<and> snd (OpenStream_wait i SelReject (rnv_onPacket EA no A1)) = Some (Inl ErrCapacity)
       else cn_out (rnv_onPacket EB raw B) = cn_out B @ [RSent yes, OnStream (offer_seen o1)]
         \<and> cn_stream (rnv_onPacket EB raw B) = Some j \<and> st_offer (cn_streams (rnv_onPacket EB raw B) ! j) = offer_seen o1
         \<and> (\<exists>A2. OpenStream_wait i SelAccept (rnv_onPacket EA yes A1) = (A2, Some (Inr i)) \<and> st_offer (cn_streams A2 ! i) = offer_seen o1))"
proof -
  define A1 where "A1 = out (RSent raw) (add_stream o1 True A)"
  let ?low = "has_track (so_Tracks o1) TrackAudio \<and> so_Audio o1 = 0 \<and> offer_profile (cn_localCaps A) (cn_localCaps B) o1 = ProfileLow"
  have codecB: "codec_ok (re_cbor EB)" "no_frames (re_cbor EB)" using codec by simp_all
  have "link_up EA (add_stream o1 True A)" using up(1) by (simp add: link_up_def add_stream_def)
  from sendEnvelope_up [OF this packs(1)] have A1: "OpenStream_offer EA o0 A = (A1, Inr i)"
    using up(3,4) lxst(1) offer(3) open_offer_guard [OF offer(3)] guard_allowed [of "cn_localCaps A" "cn_localCaps B" o1] caps(1)
    by (simp add: OpenStream_offer_def requireHandshake_def offer(1) [symmetric] Let_def A1_def i(1))
  have outA: "cn_out A1 = cn_out A @ [RSent raw]" by (simp add: A1_def out_def add_stream_def)
  have strA: "cn_stream A1 = Some i" "cn_streams A1 = cn_streams A @ [new_stream o1 True]" by (simp_all add: A1_def out_def add_stream_def i(1))
  obtain e where e: "rnv_onPacket EB raw B = rnv_dispatch EB e B" "ev_Type e = TypeStreamOffer" "StreamOfferFromBody (ev_Body e) = offer_seen o1"
    by (rule offer.received [OF codecB offer(2) packs(1) [folded codec(3)]])
  then have B1: "rnv_onPacket EB raw B = handleStreamOffer EB (offer_seen o1) B" by (simp add: dispatch_types(4))
  show ?thesis
  proof (cases ?low)
    case True
    have g: "GuardStreamOffer (cn_localCaps B) (cn_localCaps A) (offer_seen o1) = Some ErrInvalidOffer"
      using stream_allowed_low [OF offer(3)] True by blast
    have "rnv_onPacket EB raw B = out (RSent no) B"
      using sendEnvelope_up [OF up(2), of _ no] packs(3) codec(3) unfolding B1 handleStreamOffer_def caps(2) g sendReject_def by simp
    then have o: "cn_out (rnv_onPacket EB raw B) = cn_out B @ [RSent no]" by (simp add: out_def)
    obtain e' where e': "rnv_onPacket EA no A1 = rnv_dispatch EA e' A1" "ev_Type e' = TypeReject"
      "RejectFromBody (ev_Body e') = \<lparr>rj_Code = RejectCapacity, rj_Reason = err_text ErrInvalidOffer\<rparr>"
      by (rule reject.received [OF codec(1,2) _ packs(3)]) (simp_all add: int64_def)
    have "snd (OpenStream_wait i SelReject (rnv_onPacket EA no A1)) = Some (Inl ErrCapacity)"
      unfolding e'(1) dispatch_types(2) [OF e'(2)] e'(3) noteReject_def
      using strA by (simp add: OpenStream_wait_def out_def upd_stream_def i(1) new_stream_def)
    with A1 outA o True show ?thesis by auto
  next
    case False
    then have "stream_allowed (cn_localCaps B) (cn_localCaps A) (offer_seen o1)"
      using stream_allowed_seen [OF offer(3)] stream_allowed_sym by blast
    then have g: "GuardStreamOffer (cn_localCaps B) (cn_localCaps A) (offer_seen o1) = None" by (simp add: guard_allowed)
    have t: "so_Tracks (offer_seen o1) = so_Tracks o1" by (simp add: offer_seen_def)
    have "link_up EB (add_stream (offer_seen o1) False B)" using up(2) by (simp add: link_up_def add_stream_def)
    from sendEnvelope_up [OF this packs(2) [folded codec(3)]]
    have b: "rnv_onPacket EB raw B = out (OnStream (offer_seen o1)) (out (RSent yes) (add_stream (offer_seen o1) False B))"
      unfolding B1 handleStreamOffer_def caps(2) g t using lxst(2) by simp
    have bo: "cn_out (rnv_onPacket EB raw B) = cn_out B @ [RSent yes, OnStream (offer_seen o1)]"
      "cn_stream (rnv_onPacket EB raw B) = Some j" "st_offer (cn_streams (rnv_onPacket EB raw B) ! j) = offer_seen o1"
      unfolding b by (simp_all add: out_def add_stream_def i(2) new_stream_def)
    obtain e' where e': "rnv_onPacket EA yes A1 = rnv_dispatch EA e' A1" "ev_Type e' = TypeStreamAccept"
      "StreamOfferFromBody (ev_Body e') = offer_seen (offer_seen o1)"
      by (rule offer.received [OF codec(1,2) offer_seen_sendable [OF offer(2)] packs(2)])
    have "\<exists>A2. OpenStream_wait i SelAccept (rnv_onPacket EA yes A1) = (A2, Some (Inr i)) \<and> st_offer (cn_streams A2 ! i) = offer_seen o1"
      unfolding e'(1) dispatch_types(5) [OF e'(2)] e'(3) handleStreamAccept_def
      using strA by (simp add: OpenStream_wait_def out_def upd_stream_def i(1) new_stream_def)
    with A1 outA bo False show ?thesis by auto
  qed
qed

text \<open>Two peers with the default capabilities and a codec for the packets they exchange.\<close>

definition ex_offer :: StreamOffer where
  "ex_offer = \<lparr>so_Profile = 0, so_Tracks = 0, so_Video = 0, so_Audio = 0, so_MaxFPS = 2\<rparr>"

definition ex_maps :: "body list" where
  "ex_maps = [rnv_envelope_map (NewTyped TypeStreamOffer (Some (StreamOffer_ToBody (open_offer ex_offer)))),
     rnv_envelope_map (NewTyped TypeStreamAccept (Some (StreamOffer_ToBody (offer_seen (open_offer ex_offer))))),
     rnv_envelope_map (NewTyped TypeReject (Some (RejectBody_ToBody \<lparr>rj_Code = RejectCapacity, rj_Reason = err_text ErrInvalidOffer\<rparr>)))]"

definition ex_rnv_env :: rnv_env where
  "ex_rnv_env = \<lparr>re_cbor = table_cbor ex_maps, re_now = 0, re_active = True, re_send = None, re_resource = None, re_lxst = (\<lambda>_. False),
     re_jpeg = (\<lambda>_. None), re_sha = (\<lambda>b. replicate 32 0)\<rparr>"

definition ex_peer :: Conn where
  "ex_peer = (newConn SafeConfig [] True)\<lparr>cn_handshaken := True, cn_peerCaps := DefaultCaps\<rparr>"

lemma ex_codec: "codec_ok (re_cbor ex_rnv_env)" "no_frames (re_cbor ex_rnv_env)"
proof -
  show "codec_ok (re_cbor ex_rnv_env)" by (simp add: ex_rnv_env_def ex_maps_def table_codec)
  show "no_frames (re_cbor ex_rnv_env)"
    by (auto simp: no_frames_def ex_rnv_env_def table_cbor_def ex_maps_def IsMediaFrame_def split: if_splits)
qed

theorem stream_opens_witness:
  "\<exists>A1. OpenStream_offer ex_rnv_env ex_offer ex_peer = (A1, Inr 0)
    \<and> cn_out (rnv_onPacket ex_rnv_env [0] ex_peer) = [RSent [1], OnStream (offer_seen (open_offer ex_offer))]
    \<and> (\<exists>A2. OpenStream_wait 0 SelAccept (rnv_onPacket ex_rnv_env [1] A1) = (A2, Some (Inr 0)))"
proof -
  have "link_up ex_rnv_env ex_peer" "cn_handshaken ex_peer" "cn_stream ex_peer = None" "cn_peerCaps ex_peer = cn_localCaps ex_peer"
    "ensureActiveLXSTGuard ex_rnv_env (so_Tracks (open_offer ex_offer)) ex_peer = None" "StreamOffer_sendable (open_offer ex_offer)"
    "stream_allowed (cn_localCaps ex_peer) (cn_localCaps ex_peer) (open_offer ex_offer)"
    "0 = length (cn_streams ex_peer)" "cn_out ex_peer = []" "\<not> has_track (so_Tracks (open_offer ex_offer)) TrackAudio"
    by code_simp+
  moreover have "rnv_Pack (re_cbor ex_rnv_env) (NewTyped TypeStreamOffer (Some (StreamOffer_ToBody (open_offer ex_offer)))) = Inr [0]"
    "rnv_Pack (re_cbor ex_rnv_env) (NewTyped TypeStreamAccept (Some (StreamOffer_ToBody (offer_seen (open_offer ex_offer))))) = Inr [1]"
    "rnv_Pack (re_cbor ex_rnv_env)
      (NewTyped TypeReject (Some (RejectBody_ToBody \<lparr>rj_Code = RejectCapacity, rj_Reason = err_text ErrInvalidOffer\<rparr>))) = Inr [2]"
    by code_simp+
  ultimately show ?thesis using stream_opens [OF ex_codec refl, of ex_peer ex_peer "open_offer ex_offer" ex_offer "[0]" "[1]" "[2]" 0 0] by auto
qed

subsection \<open>Stills\<close>

text \<open>A byte string inside an encoded body takes at least its own length.\<close>

definition bytes_kept :: "cbor \<Rightarrow> bool" where
  "bytes_kept C \<longleftrightarrow>
     (\<forall>m d k b k' x. c_enc C m = Inr d \<and> (k, VMapU b) \<in> set m \<and> (k', VBytes x) \<in> set b \<longrightarrow> length x \<le> length d)"

lemma still_transfer_large:
  assumes "bytes_kept (re_cbor E)" "length data > rnv_MaxEnvelopeBytes"
  shows "\<exists>e. still_transfer E data meta c = (c, Some (ErrProto e))"
proof -
  define env where "env = NewTyped TypeStill (Some (StillMeta_ToBody (meta\<lparr>sm_Transfer := TransferPacket, sm_Data := data\<rparr>)))"
  have "(6, VBytes data) \<in> set (StillMeta_ToBody (meta\<lparr>sm_Transfer := TransferPacket, sm_Data := data\<rparr>))"
    using assms(2) by (auto simp: StillMeta_ToBody_def)
  moreover have "(FieldBody, VMapU (StillMeta_ToBody (meta\<lparr>sm_Transfer := TransferPacket, sm_Data := data\<rparr>))) \<in> set (rnv_envelope_map env)"
    by (simp add: env_def rnv_envelope_map_def NewTyped_def)
  ultimately have "length data \<le> length d" if "c_enc (re_cbor E) (rnv_envelope_map env) = Inr d" for d
    using assms(1) that unfolding bytes_kept_def by blast
  then have "\<exists>e. rnv_Pack (re_cbor E) env = Inl e"
    using assms(2) by (fastforce simp: rnv_Pack_def env_def NewTyped_def split: sum.split)
  then show ?thesis by (auto simp: still_transfer_def env_def [symmetric])
qed

text \<open>
  C39: A still of more than 4096 bytes is never sent.  Such a still is meant to travel as a resource, and the limit on stills is 256
  KiB; but the call first packs the still with its data into an envelope, to see whether it fits into one packet, and the
  limit on envelopes makes that fail.  Every call returns an error and nothing leaves the connection.
\<close>

theorem large_still_never_sent:
  assumes "bytes_kept (re_cbor E)" "length data > rnv_MaxEnvelopeBytes"
  shows "\<exists>e. snd (SendStill E data meta c) = Some e \<and> cn_out (fst (SendStill E data meta c)) = cn_out c"
proof -
  obtain c1 ok where r: "rateStillOK E c = (c1, ok)" by (rule prod.exhaust)
  have o: "cn_out c1 = cn_out c" using r by (auto simp: rateStillOK_def split: prod.splits)
  define fails where "fails r \<longleftrightarrow> (\<exists>e. snd r = Some e) \<and> (fst r = c \<or> fst r = c1)" for r :: "Conn \<times> rnv_error option"
  have f: "fails (c, Some e)" "fails (c1, Some e)" for e by (simp_all add: fails_def)
  have t: "fails (still_transfer E data m c1)" for m using still_transfer_large [OF assms, of m c1] f(2) by auto
  have "fails (SendStill E data meta c)"
    unfolding SendStill_def r Let_def by (cases ok) (simp_all add: f t split: option.split)
  then show ?thesis using o unfolding fails_def by auto
qed

definition ex_flat_cbor :: cbor where
  "ex_flat_cbor = \<lparr>c_enc = (\<lambda>m. Inr (concat (map (\<lambda>(k, v). case v of VMapU b \<Rightarrow>
       concat (map (\<lambda>(k, x). case x of VBytes y \<Rightarrow> y | _ \<Rightarrow> []) b) | _ \<Rightarrow> []) m))), c_dec = (\<lambda>_. Inl []), c_size = (\<lambda>_. None)\<rparr>"

lemma ex_flat_kept: "bytes_kept ex_flat_cbor"
proof -
  have l: "length x \<le> length (concat xs)" if "x \<in> set xs" for x :: bytes and xs
    using that by (induction xs) auto
  show ?thesis
    unfolding bytes_kept_def
  proof (intro allI impI, elim conjE)
    fix m d k b k' x
    assume a: "c_enc ex_flat_cbor m = Inr d" "(k, VMapU b) \<in> set m" "(k', VBytes x) \<in> set b"
    let ?inner = "\<lambda>b. concat (map (\<lambda>(k, x). case x of VBytes y \<Rightarrow> y | _ \<Rightarrow> []) b)"
    have "length x \<le> length (?inner b)" using a(3) by (intro l) force
    also have "\<dots> \<le> length d" unfolding ex_flat_cbor_def using a(1,2) by (auto simp: ex_flat_cbor_def intro!: l) force
    finally show "length x \<le> length d" .
  qed
qed

theorem large_still_never_sent_witness:
  "\<exists>e. snd (SendStill (ex_rnv_env\<lparr>re_cbor := ex_flat_cbor\<rparr>) (replicate 5000 0)
      \<lparr>sm_Width = 64, sm_Height = 64, sm_Codec = 0, sm_Size = 0, sm_Transfer = 0, sm_ID = [], sm_Data = []\<rparr> ex_peer) = Some e"
proof -
  have "bytes_kept (re_cbor (ex_rnv_env\<lparr>re_cbor := ex_flat_cbor\<rparr>))" using ex_flat_kept by simp
  moreover have "length (replicate 5000 (0 :: byte)) > rnv_MaxEnvelopeBytes" unfolding length_replicate by simp
  ultimately show ?thesis using large_still_never_sent by blast
qed

end
