(* ===== verification/RNV_Runs.thy ===== *)
theory RNV_Runs
  imports RNV_Props
begin

text \<open>
  Runs of an RNV connection: any sequence of packets, resources and events of the link, of calls of the application, and of steps of the
  goroutines, each in its own environment.  Shown over all of them: the state stays well-formed, and a closed connection is silent.
\<close>

subsection \<open>Steps\<close>

datatype rnv_ev =
    RePacket bytes | ReLinkClosed | ReClose | ReStill bytes StillMeta
  | ReClip bytes ClipMeta bool | ReClipFinish nat bytes ClipMeta bool "rnv_error option" | ReClipWait nat ClipMeta bool
  | ReAdv int | ReResource bytes
  | ReOpen StreamOffer | ReOpenWait nat select_case | ReVideo nat bytes | ReAudio nat bytes | ReCtrl CtrlBody | ReStreamClose nat

text \<open>A step that names a stream or a channel concerns one that exists.\<close>

definition conn_do :: "rnv_env \<Rightarrow> rnv_ev \<Rightarrow> Conn \<Rightarrow> Conn" where
  "conn_do E ev c =
     (case ev of
        RePacket data \<Rightarrow> rnv_onPacket E data c
      | ReLinkClosed \<Rightarrow> conn_markClosed c
      | ReClose \<Rightarrow> conn_Close E c
      | ReStill data meta \<Rightarrow> fst (SendStill E data meta c)
      | ReClip data meta progress \<Rightarrow> fst (SendClip_offer E data meta progress c)
      | ReClipFinish i data meta progress stop \<Rightarrow>
          if i < length (cn_chans c) then fst (SendClip_finish E i data meta progress stop c) else c
      | ReClipWait i meta timeout \<Rightarrow> clip_waiter i meta timeout c
      | ReAdv sz \<Rightarrow> fst (onResourceAdv sz c)
      | ReResource data \<Rightarrow> onResourceDone data c
      | ReOpen o1 \<Rightarrow> fst (OpenStream_offer E o1 c)
      | ReOpenWait i sel \<Rightarrow> if i < length (cn_streams c) then fst (OpenStream_wait i sel c) else c
      | ReVideo i payload \<Rightarrow> if i < length (cn_streams c) then fst (SendVideo E i payload c) else c
      | ReAudio i payload \<Rightarrow> if i < length (cn_streams c) then fst (SendAudio E i payload c) else c
      | ReCtrl ctrl \<Rightarrow> fst (SendCtrl E ctrl c)
      | ReStreamClose i \<Rightarrow> if i < length (cn_streams c) then stream_Close i c else c)"

definition conn_run :: "(rnv_env \<times> rnv_ev) list \<Rightarrow> Conn \<Rightarrow> Conn" where
  "conn_run es c = fold (\<lambda>(E, ev). conn_do E ev) es c"

lemma conn_run_simps [simp]: "conn_run [] c = c" "conn_run ((E, ev) # es) c = conn_run es (conn_do E ev c)"
  by (simp_all add: conn_run_def)

subsection \<open>A closed connection is silent\<close>

fun is_sent :: "rnv_out \<Rightarrow> bool" where
  "is_sent (RSent _) = True"
| "is_sent _ = False"

definition packets :: "Conn \<Rightarrow> rnv_out list" where
  "packets c = filter is_sent (cn_out c)"

text \<open>The step neither opened the connection again nor sent a packet.\<close>

definition conn_silent :: "Conn \<Rightarrow> Conn \<Rightarrow> bool" where
  "conn_silent c c' \<longleftrightarrow> cn_closed c \<longrightarrow> cn_closed c' \<and> packets c' = packets c"

lemma silent_refl [simp]: "conn_silent c c"
  by (simp add: conn_silent_def)

lemma silent_trans: "conn_silent c c1 \<Longrightarrow> conn_silent c1 c2 \<Longrightarrow> conn_silent c c2"
  by (simp add: conn_silent_def)

lemma silent_same: "cn_closed c' = cn_closed c \<Longrightarrow> cn_out c' = cn_out c \<Longrightarrow> conn_silent c c'"
  by (simp add: conn_silent_def packets_def)

lemma silent_out: "\<not> is_sent o1 \<Longrightarrow> conn_silent c c' \<Longrightarrow> conn_silent c (out o1 c')"
  by (simp add: conn_silent_def packets_def out_def)

lemma silent_sendRaw: "conn_silent c c' \<Longrightarrow> conn_silent c (fst (rnv_sendRaw E raw c'))"
  by (simp add: conn_silent_def packets_def rnv_sendRaw_def out_def split: option.split)

lemma silent_sendEnvelope: "conn_silent c c' \<Longrightarrow> conn_silent c (fst (rnv_sendEnvelope E env c'))"
  by (simp add: rnv_sendEnvelope_def silent_sendRaw split: sum.split)

lemma silent_sendReject: "conn_silent c c' \<Longrightarrow> conn_silent c (fst (sendReject E code reason c'))"
  by (simp add: sendReject_def silent_sendEnvelope)

lemma silent_update:
  "conn_silent c (c'\<lparr>cn_streams := a\<rparr>) = conn_silent c c'" "conn_silent c (c'\<lparr>cn_stream := b\<rparr>) = conn_silent c c'"
  "conn_silent c (c'\<lparr>cn_pendingStillID := d\<rparr>) = conn_silent c c'" "conn_silent c (c'\<lparr>cn_pendingClipID := d\<rparr>) = conn_silent c c'"
  "conn_silent c (c'\<lparr>cn_pendingClipCh := b\<rparr>) = conn_silent c c'" "conn_silent c (c'\<lparr>cn_chans := e\<rparr>) = conn_silent c c'"
  "conn_silent c (c'\<lparr>cn_waits := f\<rparr>) = conn_silent c c'" "conn_silent c (c'\<lparr>cn_resourceExpect := g\<rparr>) = conn_silent c c'"
  "conn_silent c (c'\<lparr>cn_stillTimes := h\<rparr>) = conn_silent c c'" "conn_silent c (c'\<lparr>cn_clipTimes := h\<rparr>) = conn_silent c c'"
  "conn_silent c (c'\<lparr>cn_droppedBadMagic := g\<rparr>) = conn_silent c c'" "conn_silent c (c'\<lparr>cn_peerCaps := i\<rparr>) = conn_silent c c'"
  "conn_silent c (c'\<lparr>cn_handshaken := j\<rparr>) = conn_silent c c'" "conn_silent c (c'\<lparr>cn_videoJB := k\<rparr>) = conn_silent c c'"
  "conn_silent c (c'\<lparr>cn_audioJB := k\<rparr>) = conn_silent c c'" "conn_silent c (c'\<lparr>cn_avClock := l\<rparr>) = conn_silent c c'"
  by (simp_all add: conn_silent_def packets_def)

lemmas silent_intros = silent_out silent_sendRaw silent_sendEnvelope silent_sendReject

lemma silent_small:
  "conn_silent c (clip_done c') = conn_silent c c'" "conn_silent c (new_chan c') = conn_silent c c'" "conn_silent c (add_stream o1 b c') = conn_silent c c'"
  "conn_silent c (upd_stream i f c') = conn_silent c c'" "conn_silent c (stream_markClosed i c') = conn_silent c c'"
  by (simp_all add: clip_done_def new_chan_def add_stream_def upd_stream_def stream_markClosed_def silent_update)

lemma silent_small2:
  "conn_silent c c' \<Longrightarrow> conn_silent c (clip_signal r c')" "conn_silent c c' \<Longrightarrow> conn_silent c (clearStream i c')"
  "conn_silent c c' \<Longrightarrow> conn_silent c (fst (sendPayload E payload c'))"
  by (simp_all add: clip_signal_def clearStream_def sendPayload_def silent_update silent_intros split: option.split)

lemma silent_exts: "conn_silent c c' \<Longrightarrow> conn_silent c (fire_exts exts c')"
proof (induction exts arbitrary: c')
  case (Cons e exts)
  then show ?case by (cases e) (simp add: silent_out)
qed simp

lemma silent_Close: "conn_silent c c' \<Longrightarrow> conn_silent c (conn_Close E c')"
  by (simp add: conn_silent_def packets_def conn_Close_def rnv_sendEnvelope_def rnv_sendRaw_def out_def Let_def split: sum.split option.split)

lemma silent_markClosed: "conn_silent c c' \<Longrightarrow> conn_silent c (conn_markClosed c')"
  by (simp add: conn_silent_def packets_def conn_markClosed_def stream_markClosed_def upd_stream_def Let_def split: option.split)

text \<open>The operations, one by one.\<close>

lemma silent_still_transfer: "conn_silent c c' \<Longrightarrow> conn_silent c (fst (still_transfer E data meta c'))"
proof -
  assume s: "conn_silent c c'"
  define env where "env = NewTyped TypeStill (Some (StillMeta_ToBody (meta\<lparr>sm_Transfer := TransferResource, sm_Data := []\<rparr>)))"
  obtain c1 r where r: "rnv_sendEnvelope E env c' = (c1, r)" by (rule prod.exhaust)
  have c1: "conn_silent c c1" using silent_sendEnvelope [OF s, of E env] r by simp
  show ?thesis
    unfolding still_transfer_def env_def [symmetric] r
    using s c1 by (cases r) (simp_all add: silent_intros silent_small2 split: sum.split)
qed

lemma silent_SendStill: "conn_silent c (fst (SendStill E data meta c))"
proof -
  obtain c1 ok where r: "rateStillOK E c = (c1, ok)" by (rule prod.exhaust)
  have c1: "conn_silent c c1" using r by (auto simp: rateStillOK_def silent_update split: prod.splits)
  show ?thesis
    unfolding SendStill_def r Let_def
    by (cases ok) (simp_all add: c1 silent_still_transfer [OF c1] split: option.split)
qed

lemma silent_SendClip_offer: "conn_silent c (fst (SendClip_offer E data meta progress c))"
proof -
  obtain c1 ok where r: "rateClipOK E c = (c1, ok)" by (rule prod.exhaust)
  have c1: "conn_silent c c1" using r by (auto simp: rateClipOK_def silent_update split: prod.splits)
  define fin where "fin r m = (case r of (c2, Some e) \<Rightarrow> (clip_done c2, Inl e) | (c2, None) \<Rightarrow> (c2, Inr m))"
    for r :: "Conn \<times> rnv_error option" and m :: ClipMeta
  have d: "conn_silent c (fst (fin (rnv_sendEnvelope E env (new_chan (c1\<lparr>cn_pendingClipID := i\<rparr>))) m))" for env i m
  proof -
    obtain c2 e where e: "rnv_sendEnvelope E env (new_chan (c1\<lparr>cn_pendingClipID := i\<rparr>)) = (c2, e)" by (rule prod.exhaust)
    have "conn_silent c (new_chan (c1\<lparr>cn_pendingClipID := i\<rparr>))" using c1 by (simp add: silent_small silent_update)
    from silent_sendEnvelope [OF this, of E env] e have "conn_silent c c2" by simp
    then show ?thesis unfolding e fin_def by (cases e) (simp_all add: silent_small)
  qed
  show ?thesis
    unfolding SendClip_offer_def r Let_def fin_def [symmetric]
    by (cases ok) (simp_all add: c1 d split: option.split)
qed

lemma silent_SendClip_finish: "conn_silent c (fst (SendClip_finish E i data meta progress stop c))"
proof -
  define c2 where "c2 = (if progress then out (RProgress 0 (cm_Size meta)) (c\<lparr>cn_chans := (cn_chans c)[i := None]\<rparr>) else c\<lparr>cn_chans := (cn_chans c)[i := None]\<rparr>)"
  define c4 where "c4 = (if progress then out (RProgress (cm_Size meta) (cm_Size meta)) (out (RResource data) c2) else out (RResource data) c2)"
  define env where "env = NewTyped TypeClipDone (Some (ClipMeta_ToBody meta))"
  have c2: "conn_silent c c2" by (simp add: c2_def silent_out silent_update)
  then have "conn_silent c c4" by (simp add: c4_def silent_out)
  obtain c5 e where e: "rnv_sendEnvelope E env c4 = (c5, e)" by (rule prod.exhaust)
  have c5: "conn_silent c c5" using silent_sendEnvelope [OF \<open>conn_silent c c4\<close>, of E env] e by simp
  show ?thesis
    unfolding SendClip_finish_def Let_def c2_def [symmetric] c4_def [symmetric] env_def [symmetric] e
    using c2 c5 by (simp add: silent_small split: option.split)
qed

lemma silent_OpenStream_offer: "conn_silent c (fst (OpenStream_offer E o0 c))"
proof -
  define sent where "sent r = (case r of (c1, Some e) \<Rightarrow> (c1\<lparr>cn_stream := None\<rparr>, Inl e) | (c1, None) \<Rightarrow> (c1, Inr (length (cn_streams c))))"
    for r :: "Conn \<times> rnv_error option"
  have d: "conn_silent c (fst (sent (rnv_sendEnvelope E env (add_stream o1 True c))))" for env o1
  proof -
    obtain c2 e where e: "rnv_sendEnvelope E env (add_stream o1 True c) = (c2, e)" by (rule prod.exhaust)
    have "conn_silent c (add_stream o1 True c)" by (simp add: silent_small)
    from silent_sendEnvelope [OF this, of E env] e have "conn_silent c c2" by simp
    then show ?thesis unfolding e sent_def by (cases e) (simp_all add: silent_update)
  qed
  show ?thesis
    unfolding OpenStream_offer_def Let_def sent_def [symmetric] by (simp add: d split: option.split)
qed

lemma silent_calls:
  "conn_silent c (fst (OpenStream_wait i sel c))" "conn_silent c (fst (SendVideo E i payload c))" "conn_silent c (fst (SendAudio E i payload c))"
  "conn_silent c (fst (SendCtrl E ctrl c))" "conn_silent c (stream_Close i c)" "conn_silent c (clip_waiter i meta timeout c)"
  "conn_silent c (fst (onResourceAdv sz c))" "conn_silent c (onResourceDone data c)"
  by (simp_all add: OpenStream_wait_def SendVideo_def SendAudio_def SendCtrl_def stream_Close_def clip_waiter_def onResourceAdv_def onResourceDone_def
      send_frame_def silent_small silent_small2 silent_update silent_intros Let_def split: select_case.split option.split sum.split)

lemma silent_handlers:
  "conn_silent c (handleStillMeta E m c)" "conn_silent c (handleClipOffer E k c)" "conn_silent c (signalClipAccept k c)" "conn_silent c (handleStreamOffer E o1 c)"
  "conn_silent c (handleStreamAccept o1 c)" "conn_silent c (noteReject r c)" "conn_silent c (handlePrivate E env c)" "conn_silent c (rnv_handleFrame E fr c)"
  by (simp_all add: handleStillMeta_def handleClipOffer_def signalClipAccept_def handleStreamOffer_def handleStreamAccept_def noteReject_def
      handlePrivate_def rnv_handleFrame_def silent_small silent_small2 silent_update silent_intros silent_exts Let_def split: option.split)

lemma silent_dispatch: "conn_silent c (rnv_dispatch E env c)"
  unfolding rnv_dispatch_def Let_def
  by (simp add: silent_handlers silent_out silent_exts silent_update silent_Close silent_sendReject)

lemma silent_do: "conn_silent c (conn_do E ev c)"
  unfolding conn_do_def rnv_onPacket_def
  by (simp add: silent_dispatch silent_calls silent_handlers silent_update silent_Close silent_markClosed silent_SendStill silent_SendClip_offer
      silent_SendClip_finish silent_OpenStream_offer split: rnv_ev.split sum.split)

lemma silent_run: "conn_silent c (conn_run es c)"
proof (induction es arbitrary: c)
  case (Cons e es)
  obtain E ev where e: "e = (E, ev)" by (rule prod.exhaust)
  show ?case unfolding e conn_run_simps by (rule silent_trans [OF silent_do Cons])
qed simp

subsection \<open>A well-formed connection\<close>

text \<open>
  The stream and the channel a connection points to exist, and so do the channels of the waiting goroutines; the two jitter buffers are
  in order; and the window of counted calls is no longer than the limit.
\<close>

definition window_ok :: "int \<Rightarrow> int list \<Rightarrow> bool" where
  "window_ok limit ts \<longleftrightarrow> int (length ts) \<le> max 0 limit"

fun points_into :: "nat option \<Rightarrow> nat \<Rightarrow> bool" where
  "points_into None n = True"
| "points_into (Some i) n = (i < n)"

definition conn_ok :: "Conn \<Rightarrow> bool" where
  "conn_ok c \<longleftrightarrow>
     points_into (cn_stream c) (length (cn_streams c)) \<and> points_into (cn_pendingClipCh c) (length (cn_chans c))
     \<and> list_all (\<lambda>(i, m). i < length (cn_chans c)) (cn_waits c)
     \<and> rj_ok (cn_videoJB c) \<and> rj_ok (cn_audioJB c)
     \<and> window_ok (rc_MaxStillsPerMinute (cn_cfg c)) (cn_stillTimes c) \<and> window_ok (rc_MaxClipsPerMinute (cn_cfg c)) (cn_clipTimes c)"

lemma rate_window_ok: "window_ok limit ts \<Longrightarrow> window_ok limit (fst (rate_window now limit ts))"
proof -
  define kept where "kept = filter (\<lambda>t. t > now - 60 * second) ts"
  have "length kept \<le> length ts" unfolding kept_def by (rule length_filter_le)
  then show "window_ok limit ts \<Longrightarrow> window_ok limit (fst (rate_window now limit ts))"
    unfolding rate_window_def Let_def kept_def [symmetric] by (auto simp: window_ok_def)
qed

lemma conn_ok_new: "conn_ok (newConn cfg h ob)"
  by (simp add: conn_ok_def newConn_def window_ok_def NewJitterBuffer_rj_ok)

text \<open>Steps that touch none of these fields.\<close>

lemma conn_ok_update [simp]:
  "conn_ok (c\<lparr>cn_pendingStillID := d\<rparr>) = conn_ok c" "conn_ok (c\<lparr>cn_pendingClipID := d\<rparr>) = conn_ok c"
  "conn_ok (c\<lparr>cn_resourceExpect := g\<rparr>) = conn_ok c" "conn_ok (c\<lparr>cn_droppedBadMagic := g\<rparr>) = conn_ok c"
  "conn_ok (c\<lparr>cn_peerCaps := i\<rparr>) = conn_ok c" "conn_ok (c\<lparr>cn_handshaken := j\<rparr>) = conn_ok c" "conn_ok (c\<lparr>cn_avClock := l\<rparr>) = conn_ok c"
  "conn_ok (c\<lparr>cn_closed := j\<rparr>) = conn_ok c" "conn_ok (out o1 c) = conn_ok c"
  by (simp_all add: conn_ok_def out_def)

lemma conn_ok_sent [simp]:
  "conn_ok (fst (rnv_sendRaw E raw c)) = conn_ok c" "conn_ok (fst (rnv_sendEnvelope E env c)) = conn_ok c"
  "conn_ok (fst (sendReject E code reason c)) = conn_ok c" "conn_ok (fst (sendPayload E payload c)) = conn_ok c"
  "conn_ok (conn_Close E c) = conn_ok c"
  by (simp_all add: rnv_sendRaw_def rnv_sendEnvelope_def sendReject_def sendPayload_def conn_Close_def Let_def split: option.split sum.split)

lemma conn_ok_small:
  "conn_ok c \<Longrightarrow> conn_ok (clip_done c)" "conn_ok c \<Longrightarrow> conn_ok (new_chan c)" "conn_ok c \<Longrightarrow> conn_ok (add_stream o1 b c)"
  "conn_ok c \<Longrightarrow> conn_ok (upd_stream i f c)" "conn_ok c \<Longrightarrow> conn_ok (c\<lparr>cn_stream := None\<rparr>)"
  "conn_ok c \<Longrightarrow> conn_ok (c\<lparr>cn_chans := (cn_chans c)[i := r]\<rparr>)" "conn_ok c \<Longrightarrow> conn_ok (c\<lparr>cn_waits := remove1 w (cn_waits c)\<rparr>)"
proof -
  have p: "points_into p n \<Longrightarrow> n \<le> m \<Longrightarrow> points_into p m" for p n m by (cases p) auto
  show "conn_ok c \<Longrightarrow> conn_ok (clip_done c)" "conn_ok c \<Longrightarrow> conn_ok (new_chan c)" "conn_ok c \<Longrightarrow> conn_ok (add_stream o1 b c)"
    "conn_ok c \<Longrightarrow> conn_ok (upd_stream i f c)" "conn_ok c \<Longrightarrow> conn_ok (c\<lparr>cn_stream := None\<rparr>)"
    "conn_ok c \<Longrightarrow> conn_ok (c\<lparr>cn_chans := (cn_chans c)[i := r]\<rparr>)" "conn_ok c \<Longrightarrow> conn_ok (c\<lparr>cn_waits := remove1 w (cn_waits c)\<rparr>)"
    by (simp_all add: conn_ok_def clip_done_def new_chan_def add_stream_def upd_stream_def)
      (fastforce simp: list_all_iff dest: notin_set_remove1 intro: p)+
qed

lemma conn_ok_more:
  "conn_ok c \<Longrightarrow> conn_ok (clip_signal r c)" "conn_ok c \<Longrightarrow> conn_ok (clearStream i c)" "conn_ok c \<Longrightarrow> conn_ok (conn_markClosed c)"
  "conn_ok c \<Longrightarrow> conn_ok (stream_markClosed i c)"
  by (simp_all add: clip_signal_def clearStream_def conn_markClosed_def stream_markClosed_def conn_ok_small Let_def split: option.split)

lemma conn_ok_exts [simp]: "conn_ok (fire_exts exts c) = conn_ok c"
proof (induction exts arbitrary: c)
  case (Cons e exts)
  then show ?case by (cases e) simp
qed simp

lemma conn_ok_rates:
  "conn_ok c \<Longrightarrow> conn_ok (fst (rateStillOK E c))" "conn_ok c \<Longrightarrow> conn_ok (fst (rateClipOK E c))"
  using rate_window_ok [of "rc_MaxStillsPerMinute (cn_cfg c)" "cn_stillTimes c" "re_now E"]
    rate_window_ok [of "rc_MaxClipsPerMinute (cn_cfg c)" "cn_clipTimes c" "re_now E"]
  by (simp_all add: rateStillOK_def rateClipOK_def conn_ok_def case_prod_beta)

lemma conn_ok_frames:
  "conn_ok c \<Longrightarrow> conn_ok (c\<lparr>cn_videoJB := PushOwned now q p (cn_videoJB c)\<rparr>)"
  "conn_ok c \<Longrightarrow> conn_ok (c\<lparr>cn_audioJB := PushOwned now q p (cn_audioJB c)\<rparr>)"
  by (simp_all add: conn_ok_def PushOwned_ok)

lemma conn_ok_fst: "f = (c, r) \<Longrightarrow> conn_ok (fst f) \<Longrightarrow> conn_ok c"
  by simp

lemma conn_ok_SendStill: "conn_ok c \<Longrightarrow> conn_ok (fst (SendStill E data meta c))"
proof -
  assume c: "conn_ok c"
  obtain c1 ok where r: "rateStillOK E c = (c1, ok)" by (rule prod.exhaust)
  have c1: "conn_ok c1" by (rule conn_ok_fst [OF r conn_ok_rates(1) [OF c]])
  have t: "conn_ok (fst (still_transfer E data m c1))" for m
  proof -
    define env where "env = NewTyped TypeStill (Some (StillMeta_ToBody (m\<lparr>sm_Transfer := TransferResource, sm_Data := []\<rparr>)))"
    obtain c2 e where e: "rnv_sendEnvelope E env c1 = (c2, e)" by (rule prod.exhaust)
    have "conn_ok c2" by (rule conn_ok_fst [OF e]) (simp add: c1)
    then show ?thesis unfolding still_transfer_def env_def [symmetric] e by (cases e) (simp_all add: c1 split: sum.split)
  qed
  show ?thesis unfolding SendStill_def r Let_def by (cases ok) (simp_all add: c c1 t split: option.split)
qed

lemma conn_ok_SendClip_offer: "conn_ok c \<Longrightarrow> conn_ok (fst (SendClip_offer E data meta progress c))"
proof -
  assume c: "conn_ok c"
  obtain c1 ok where r: "rateClipOK E c = (c1, ok)" by (rule prod.exhaust)
  have c1: "conn_ok c1" by (rule conn_ok_fst [OF r conn_ok_rates(2) [OF c]])
  define fin where "fin r m = (case r of (c2, Some e) \<Rightarrow> (clip_done c2, Inl e) | (c2, None) \<Rightarrow> (c2, Inr m))"
    for r :: "Conn \<times> rnv_error option" and m :: ClipMeta
  have d: "conn_ok (fst (fin (rnv_sendEnvelope E env (new_chan (c1\<lparr>cn_pendingClipID := i\<rparr>))) m))" for env i m
  proof -
    obtain c2 e where e: "rnv_sendEnvelope E env (new_chan (c1\<lparr>cn_pendingClipID := i\<rparr>)) = (c2, e)" by (rule prod.exhaust)
    have "conn_ok c2" by (rule conn_ok_fst [OF e]) (simp add: c1 conn_ok_small(2))
    then show ?thesis unfolding e fin_def by (cases e) (simp_all add: conn_ok_small(1))
  qed
  show ?thesis unfolding SendClip_offer_def r Let_def fin_def [symmetric] by (cases ok) (simp_all add: c c1 d split: option.split)
qed

lemma conn_ok_SendClip_finish: "conn_ok c \<Longrightarrow> conn_ok (fst (SendClip_finish E i data meta progress stop c))"
proof -
  assume c: "conn_ok c"
  define c2 where "c2 = (if progress then out (RProgress 0 (cm_Size meta)) (c\<lparr>cn_chans := (cn_chans c)[i := None]\<rparr>) else c\<lparr>cn_chans := (cn_chans c)[i := None]\<rparr>)"
  define c4 where "c4 = (if progress then out (RProgress (cm_Size meta) (cm_Size meta)) (out (RResource data) c2) else out (RResource data) c2)"
  define env where "env = NewTyped TypeClipDone (Some (ClipMeta_ToBody meta))"
  have c2: "conn_ok c2" using c by (simp add: c2_def conn_ok_small(6))
  obtain c5 e where e: "rnv_sendEnvelope E env c4 = (c5, e)" by (rule prod.exhaust)
  have c5: "conn_ok c5" by (rule conn_ok_fst [OF e]) (simp add: c4_def c2)
  show ?thesis
    unfolding SendClip_finish_def Let_def c2_def [symmetric] c4_def [symmetric] env_def [symmetric] e
    using c c2 c5 by (simp add: conn_ok_small(1) split: option.split)
qed

lemma conn_ok_OpenStream_offer: "conn_ok c \<Longrightarrow> conn_ok (fst (OpenStream_offer E o0 c))"
proof -
  assume c: "conn_ok c"
  define sent where "sent r = (case r of (c1, Some e) \<Rightarrow> (c1\<lparr>cn_stream := None\<rparr>, Inl e) | (c1, None) \<Rightarrow> (c1, Inr (length (cn_streams c))))"
    for r :: "Conn \<times> rnv_error option"
  have d: "conn_ok (fst (sent (rnv_sendEnvelope E env (add_stream o1 True c))))" for env o1
  proof -
    obtain c2 e where e: "rnv_sendEnvelope E env (add_stream o1 True c) = (c2, e)" by (rule prod.exhaust)
    have "conn_ok c2" by (rule conn_ok_fst [OF e]) (simp add: c conn_ok_small(3))
    then show ?thesis unfolding e sent_def by (cases e) (simp_all add: conn_ok_small(5))
  qed
  show ?thesis unfolding OpenStream_offer_def Let_def sent_def [symmetric] by (simp add: c d split: option.split)
qed

lemma conn_ok_waiter: "conn_ok c \<Longrightarrow> conn_ok (clip_waiter i meta timeout c)"
proof -
  assume c: "conn_ok c"
  have "conn_ok (c\<lparr>cn_chans := (cn_chans c)[i := None], cn_waits := remove1 (i, meta) (cn_waits c)\<rparr>)"
    using conn_ok_small(7) [OF conn_ok_small(6) [OF c, of i None], of "(i, meta)"] by simp
  with c show ?thesis by (simp add: clip_waiter_def conn_ok_small(7) Let_def split: option.split)
qed

lemma conn_ok_calls:
  assumes "conn_ok c"
  shows "conn_ok (fst (OpenStream_wait i sel c))" "conn_ok (fst (SendVideo E i payload c))" "conn_ok (fst (SendAudio E i payload c))"
    "conn_ok (fst (SendCtrl E ctrl c))" "conn_ok (stream_Close i c)" "conn_ok (fst (onResourceAdv sz c))" "conn_ok (onResourceDone data c)"
  using assms by (simp_all add: OpenStream_wait_def SendVideo_def SendAudio_def SendCtrl_def stream_Close_def onResourceAdv_def onResourceDone_def
      send_frame_def conn_ok_small conn_ok_more Let_def split: select_case.split option.split sum.split)

lemma conn_ok_clip_offer: "conn_ok c \<Longrightarrow> conn_ok (handleClipOffer E meta c)"
proof -
  assume c: "conn_ok c"
  define c1 where "c1 = new_chan (c\<lparr>cn_pendingClipID := cm_ID meta\<rparr>)"
  define c2 where "c2 = fst (rnv_sendEnvelope E (NewTyped TypeClipAccept (Some (ClipMeta_ToBody meta))) c1)"
  have c2: "conn_ok c2" using c by (simp add: c2_def c1_def conn_ok_small(2))
  have "cn_chans c2 = cn_chans c1"
    by (simp add: c2_def rnv_sendEnvelope_def rnv_sendRaw_def out_def split: sum.split option.split)
  then have "length (cn_chans c) < length (cn_chans c2)" by (simp add: c1_def new_chan_def)
  with c2 have "conn_ok (c2\<lparr>cn_waits := cn_waits c2 @ [(length (cn_chans c), meta)]\<rparr>)" by (simp add: conn_ok_def)
  with c show ?thesis
    unfolding handleClipOffer_def Let_def c1_def [symmetric] c2_def [symmetric] by (simp split: option.split)
qed

lemma conn_ok_handlers:
  assumes "conn_ok c"
  shows "conn_ok (handleStillMeta E m c)" "conn_ok (signalClipAccept k c)" "conn_ok (handleStreamOffer E o1 c)"
    "conn_ok (handleStreamAccept o1 c)" "conn_ok (noteReject r c)" "conn_ok (handlePrivate E env c)"
  using assms by (simp_all add: handleStillMeta_def signalClipAccept_def handleStreamOffer_def handleStreamAccept_def noteReject_def
      handlePrivate_def conn_ok_small conn_ok_more Let_def split: option.split)

lemma conn_ok_frame: "conn_ok c \<Longrightarrow> conn_ok (rnv_handleFrame E fr c)"
  using conn_ok_frames [of c "re_now E" "rf_Seq fr" "rf_Payload fr"] by (simp add: rnv_handleFrame_def)

lemma conn_ok_dispatch: "conn_ok c \<Longrightarrow> conn_ok (rnv_dispatch E env c)"
  unfolding rnv_dispatch_def Let_def by (simp add: conn_ok_handlers conn_ok_clip_offer)

lemma conn_ok_do: "conn_ok c \<Longrightarrow> conn_ok (conn_do E ev c)"
  unfolding conn_do_def rnv_onPacket_def
  by (simp add: conn_ok_dispatch conn_ok_calls conn_ok_frame conn_ok_waiter conn_ok_more conn_ok_SendStill conn_ok_SendClip_offer
      conn_ok_SendClip_finish conn_ok_OpenStream_offer split: rnv_ev.split sum.split)

lemma conn_ok_run: "conn_ok c \<Longrightarrow> conn_ok (conn_run es c)"
proof (induction es arbitrary: c)
  case (Cons e es)
  obtain E ev where e: "e = (E, ev)" by (rule prod.exhaust)
  show ?case unfolding e conn_run_simps by (rule Cons.IH [OF conn_ok_do [OF Cons.prems]])
qed simp

subsection \<open>Properties\<close>

text \<open>
  C16: Whatever the peer sends and the application does, the state of a connection stays well-formed: the stream and the channel it points to
  exist, as do the channels the goroutines wait on, so that no step reaches for an object that is not there; neither jitter
  buffer holds more than its twelve frames, each frame once; and at most the configured number of stills and clips is counted in the window of a
  minute.
\<close>

theorem rnv_conn_sound:
  assumes "c = conn_run es (newConn cfg h ob)"
  shows "points_into (cn_stream c) (length (cn_streams c)) \<and> points_into (cn_pendingClipCh c) (length (cn_chans c))
    \<and> list_all (\<lambda>(i, m). i < length (cn_chans c)) (cn_waits c) \<and> rj_ok (cn_videoJB c) \<and> rj_ok (cn_audioJB c)
    \<and> window_ok (rc_MaxStillsPerMinute (cn_cfg c)) (cn_stillTimes c) \<and> window_ok (rc_MaxClipsPerMinute (cn_cfg c)) (cn_clipTimes c)"
  using conn_ok_run [OF conn_ok_new, of es cfg h ob] unfolding assms conn_ok_def .

definition ex_conn_run :: "(rnv_env \<times> rnv_ev) list" where
  "ex_conn_run = map (Pair ex_rnv_env) [RePacket [0], RePacket [0xF1, 1, 0, 0, 7, 42], ReAdv 100, ReResource [1, 2], ReClose, RePacket [0]]"

theorem rnv_conn_sound_witness:
  "map fst (rj_frames (cn_videoJB (conn_run ex_conn_run (newConn SafeConfig [] True)))) = [7]
   \<and> rj_ok (cn_videoJB (conn_run ex_conn_run (newConn SafeConfig [] True)))"
proof -
  have "map fst (rj_frames (cn_videoJB (conn_run ex_conn_run (newConn SafeConfig [] True)))) = [7]" by code_simp
  with rnv_conn_sound [OF refl, of ex_conn_run SafeConfig "[]" True] show ?thesis by blast
qed


end
