(* ===== verification/Spec2Isabelle.thy ===== *)
theory Spec2Isabelle
  imports MF RRC_Conversation Gorrcd_Workers LXST_Switchboard RNV_Runs
begin

text \<open>
  A verification development for \<^verbatim>\<open>reticulum-go-protocols\<close>, Go implementations of messaging, chat, telephony and media
  protocols over the Reticulum network stack.

  \<^bold>\<open>The program.\<close>  The protocols share no state.  Each of them is a package that turns link packets into events and calls of the
  application into packets:

  \<^item> \<^verbatim>\<open>pkg/mf\<close>: short messages, one packet each.
  \<^item> \<^verbatim>\<open>pkg/rrc\<close>: chat rooms.  A hub keeps the sessions and the rooms, a client talks to one hub; the daemon
    \<^verbatim>\<open>internal/gorrcd\<close> is a hub with a policy (bans, operators, room modes, slash commands, periodic workers).
  \<^item> \<^verbatim>\<open>pkg/lxst\<close>: telephony.  A phone owns a switchboard, which holds at most one call; a call signals, opens codecs and
    sends and plays frames through a jitter buffer.
  \<^item> \<^verbatim>\<open>pkg/rnv\<close>: stills, clips and live streams between two peers over one connection.
  \<^item> \<^verbatim>\<open>pkg/lxmf\<close>: store-and-forward messages; not modelled (see below).

  \<^bold>\<open>How it is modelled.\<close>  A struct is a record, an enumeration a datatype, a method that changes state a function that returns
  the new state, an error a value.  Fixed-width integers whose wrap-around matters are words; a Go map is an association list in the order
  of its iteration.  A pointer to an object that is shared (a hub session, a call of a phone, a stream) is a number that indexes a store.
  Locks are not represented: a handler between taking and releasing a lock is one step, and goroutines are steps of their own in a
  sequence of events in any order.  Where the code lets go of the lock in the middle of a decision
  (the link callback of \<^verbatim>\<open>Bind\<close> in \<^verbatim>\<open>switchboard.go\<close>, the \<^verbatim>\<open>select\<close> of \<^verbatim>\<open>OpenStream\<close> and \<^verbatim>\<open>SendClip\<close>) the handler is split there.

  Code outside the repository is a parameter.  The CBOR codec is the record \<open>cbor\<close>; where a theorem needs more of it, \<open>codec_ok\<close> says
  that what it encodes it decodes to the same map.  Links, identities, clock, random source, audio devices, codecs and hashes
  are records of answers (\<open>hub_env\<close>, \<open>client_env\<close>, \<open>svc_env\<close>, \<open>rnv_env\<close>, the environment of \<open>LXST_Call\<close>) which may differ at every step.

  \<^bold>\<open>Foundations.\<close>  \<open>Prelude\<close> holds the machine types and the facts on maps and sets as lists; \<open>Go_Text\<close> and \<open>Go_Strings\<close> UTF-8 and
  the functions of \<^verbatim>\<open>strings\<close>, \<^verbatim>\<open>unicode\<close> and \<^verbatim>\<open>encoding/hex\<close> the sources call; \<open>Hash_Text\<close> hashes as text
  (\<^verbatim>\<open>pkg/rrc/hash.go\<close>, \<^verbatim>\<open>pkg/mf/hash.go\<close>); \<open>Wire_Value\<close> Go's \<^verbatim>\<open>any\<close> in protocol bodies with the type switches that read it;
  \<open>Msgpack\<close> the part of the vendored MessagePack library that telephony packets run.

  \<^bold>\<open>MF.\<close>  \<open>MF\<close> is \<^verbatim>\<open>pkg/mf/mf.go\<close>: messages, packing, and the messenger.  A message survives packing exactly when it is not an
  ungrouped message whose text starts with the group flag, and whatever is unpacked packs back to the same bytes.

  \<^bold>\<open>RRC.\<close>
  \<^item> \<open>RRC_Envelope\<close> (\<^verbatim>\<open>constants.go\<close>, \<^verbatim>\<open>room.go\<close>, \<^verbatim>\<open>envelope.go\<close>) and \<open>RRC_Bodies\<close> (\<^verbatim>\<open>bodies.go\<close>): the packets.
  \<^item> \<open>RRC_Hub\<close> (\<^verbatim>\<open>session.go\<close>, \<^verbatim>\<open>hub.go\<close>, \<^verbatim>\<open>hub_ops.go\<close>, \<^verbatim>\<open>policy.go\<close>): every handler.  \<open>RRC_Hub_Inv\<close> and \<open>RRC_Policy\<close> give the
    invariant of the hub; the contract between a hub and its policy is the locale \<open>hub_policy_laws\<close>, interpreted for the hub without a
    policy here and for the daemon in \<open>Gorrcd_Service\<close>.  \<open>RRC_Membership\<close> refines the two indices of the code to one relation
    between identities and rooms (locale \<open>membership\<close>).  \<open>RRC_Hub_Props\<close> has the theorems: the indices agree, JOIN, PART and
    disconnection change the relation by exactly one element or identity, messages are relayed to members only and under the
    authenticated name, the rate limit holds.  \<open>RRC_Hub_Example\<close> is a run for concrete instances.
  \<^item> \<open>RRC_Client\<close> (\<^verbatim>\<open>client.go\<close>) and \<open>RRC_Conversation\<close>: a client and a hub over one link.  HELLO is answered by WELCOME, JOIN by JOINED,
    and a message of one client reaches the handlers of another; the client's own record of its rooms is right; waiting ends.
  \<^item> \<open>Gorrcd_Ident\<close>, \<open>Gorrcd_Rooms\<close>, \<open>Gorrcd_State\<close>, \<open>Gorrcd_Commands\<close>, \<open>Gorrcd_Service\<close> are \<^verbatim>\<open>internal/gorrcd\<close>: \<^verbatim>\<open>hash.go\<close>
    and \<^verbatim>\<open>trust.go\<close>; \<^verbatim>\<open>rooms.go\<close> and \<^verbatim>\<open>rooms_mut.go\<close>; \<^verbatim>\<open>stats.go\<close>, \<^verbatim>\<open>notice.go\<close>, \<^verbatim>\<open>resources.go\<close> and the configuration record;
    \<^verbatim>\<open>commands.go\<close>; \<^verbatim>\<open>service.go\<close>.  \<open>Gorrcd_Rights\<close>, \<open>Gorrcd_Props\<close> and \<open>Gorrcd_Workers\<close> show who may change a room, who is let into
    one, that bans take effect, what the ping and prune workers do, that the saved registry follows the rooms, and that
    every reachable state of the daemon keeps the invariant of its hub.

  \<^bold>\<open>LXST.\<close>
  \<^item> \<open>LXST_Profiles\<close> (\<^verbatim>\<open>constants.go\<close>, \<^verbatim>\<open>profiles.go\<close>, \<^verbatim>\<open>names.go\<close>) and \<open>LXST_Packet\<close> (\<^verbatim>\<open>packet.go\<close>): signals and frames survive the
    wire within the size limits, and whatever bytes arrive, what is accepted is bounded.
  \<^item> \<open>LXST_Media\<close> (\<^verbatim>\<open>media/jitter.go\<close>, \<^verbatim>\<open>media/adaptive.go\<close>): frames leave in order, a lost frame does not stall the buffer, the
    adaptive controller stays within its limits.
  \<^item> \<open>LXST_Call\<close> (\<^verbatim>\<open>call.go\<close>, \<^verbatim>\<open>signaling.go\<close>, \<^verbatim>\<open>pipeline.go\<close>, \<^verbatim>\<open>codec.go\<close>, \<^verbatim>\<open>access.go\<close>, \<^verbatim>\<open>ratelimit.go\<close>, \<^verbatim>\<open>timing.go\<close>), its
    invariants \<open>LXST_Call_Inv\<close> and theorems \<open>LXST_Call_Props\<close>: an incoming call opens no device and carries no audio before an allowed caller has
    identified and the call was answered; a call ends once and for good.
  \<^item> \<open>LXST_Switchboard\<close> (\<^verbatim>\<open>switchboard.go\<close>, \<^verbatim>\<open>phone.go\<close>): at most one call is under way when the two halves of accepting a link are
    not interleaved, and an example of two links that are both accepted when they are.

  \<^bold>\<open>RNV.\<close>
  \<^item> \<open>RNV_Proto\<close> (\<^verbatim>\<open>proto/frame.go\<close>, \<^verbatim>\<open>proto/envelope.go\<close>) and \<open>RNV_Bodies\<close> (\<^verbatim>\<open>proto/envelope.go\<close>, \<^verbatim>\<open>proto/announce.go\<close>): frames,
    envelopes and bodies.  The locale \<open>wire_body\<close> is the contract of a body, interpreted for all six of them: reading undoes
    conversion after a trip over the wire.
  \<^item> \<open>RNV_Profiles\<close> (\<^verbatim>\<open>proto/profiles.go\<close>, \<^verbatim>\<open>proto/registry.go\<close>, \<^verbatim>\<open>recommend.go\<close>, \<^verbatim>\<open>session/guards.go\<close>): what may be streamed, with a
    declarative specification that the nested checks decide.
  \<^item> \<open>RNV_Media\<close> (\<^verbatim>\<open>media/jitter.go\<close>, \<^verbatim>\<open>media/clock.go\<close>): frames come out consecutively; the buffer never skips a lost one.
  \<^item> \<open>RNV_Session\<close> (\<^verbatim>\<open>session/conn.go\<close>, \<^verbatim>\<open>config.go\<close>, \<^verbatim>\<open>stream.go\<close>, \<^verbatim>\<open>still.go\<close>, \<^verbatim>\<open>clip.go\<close>, \<^verbatim>\<open>endpoint.go\<close>), \<open>RNV_Props\<close> and \<open>RNV_Runs\<close>: two
    peers agree on streams; large stills are never sent; over all runs of a connection its state is well-formed, and a closed
    connection sends nothing.

  \<^bold>\<open>Bounds and termination.\<close>  No definition has artificial fuel.  Recursion that is not structural comes with a measure.  The depth of
  \<open>Skip\<close> in \<open>Msgpack\<close> is the depth counter of the library.  \<open>wait_ticks\<close>, which polls a clock, is a partial function; that it
  returns on every clock that passes the deadline is a theorem.  Numbers of type \<^verbatim>\<open>float64\<close> are rationals (\<open>LXST_Media\<close>, \<open>Gorrcd_Rooms\<close>):
  rounding is not represented.

  \<^bold>\<open>Not modelled.\<close>
  \<^item> \<^verbatim>\<open>pkg/lxmf\<close>, \<^verbatim>\<open>internal/golxmd\<close> and their sessions: messages, stamps, tickets and propagation rest on the cryptography, the storage
    and the transport of the Reticulum stack throughout; they are left out of this development.
  \<^item> Text of files: parsing and printing of the configuration and of the room registry in \<^verbatim>\<open>internal/gorrcd\<close>, its logging,
    status line, console and start-up.
  \<^item> Audio and devices: \<^verbatim>\<open>pkg/lxst/audio\<close>, \<^verbatim>\<open>hardware\<close>, \<^verbatim>\<open>sounds\<close>, the sending loop over microphone samples and the tones of
    \<^verbatim>\<open>pipeline.go\<close>.  They are bindings of C libraries, floating-point signal processing and input and output.
  \<^item> \<^verbatim>\<open>pkg/lxst/session\<close>, \<^verbatim>\<open>phonebook\<close>, \<^verbatim>\<open>history\<close>, \<^verbatim>\<open>rnsnode\<close>, \<^verbatim>\<open>sandbox\<close>: a raw packet session, files and system calls.
  \<^item> Registering a destination and establishing a link (\<^verbatim>\<open>Bind\<close>, the first half of \<^verbatim>\<open>Dial\<close> in \<^verbatim>\<open>pkg/rnv/session\<close> and \<^verbatim>\<open>phone.go\<close>): calls of the
    Reticulum stack.
  \<^item> The C interfaces (\<^verbatim>\<open>pkg/liblxmf\<close>, \<^verbatim>\<open>pkg/liblxst\<close>, \<^verbatim>\<open>pkg/libmf\<close>, \<^verbatim>\<open>pkg/librrc\<close> and their \<^verbatim>\<open>capi\<close>), the commands under \<^verbatim>\<open>cmd\<close>, the examples
    and the test helpers.
  \<^item> Data races: a handler is atomic except where it is split as said above.
\<close>

end
